(* ===== verification/Prelude.thy ===== *)
theory Prelude
  imports Main "HOL-Library.List_Lexorder" "HOL-Library.Char_ord" "HOL-Library.Word"
begin

text \<open>
  Shared vocabulary of the development: Go errors as values, early returns as a sum, Go maps as
  association lists enumerated in sorted key order, 64-bit durations, the formatting verbs the
  controllers use, and the collections of facts the component proofs share.
\<close>

named_theorems ready_protocol \<open>facts about the ready protocol of the status conditions\<close>
named_theorems session_defs \<open>definitions of the workspace session\<close>

section \<open>Go errors\<close>

text \<open>
  What a failed call of the Kubernetes API carries, as far as the code asks: its status reason
  (\<^verbatim>\<open>apierrors.IsNotFound\<close>, \<^verbatim>\<open>IsInvalid\<close>) and its status causes
  (\<^verbatim>\<open>apierrors.HasStatusCause\<close>).
\<close>

datatype status_reason = ReasonNotFound | ReasonConflict | ReasonInvalid | ReasonForbidden | ReasonOther

record api_status =
  as_Reason :: status_reason
  as_Causes :: "string list"
  as_Message :: string

text \<open>
  An \<^verbatim>\<open>error\<close> value. \<^verbatim>\<open>Errorf\<close> is a text without a cause, \<^verbatim>\<open>Wrapf\<close> is the
  \<^verbatim>\<open>%w\<close> form, which keeps its cause for \<^verbatim>\<open>errors.As\<close>; \<^verbatim>\<open>StallError\<close> and
  \<^verbatim>\<open>OutOfDate\<close> are the error types of the stack controller; \<^verbatim>\<open>Panic\<close> is the
  run-time panic of a nil dereference, which ends the call as an error does.
\<close>

datatype goerr =
    Errorf string
  | Wrapf string goerr
  | StallError string
  | OutOfDate (ood_LastUpdateName: string) (ood_TimeElapsed: int)
  | ApiErr api_status
  | Panic string

fun errorText :: "goerr \<Rightarrow> string" where
  "errorText (Errorf s) = s"
| "errorText (Wrapf s e) = s @ '': '' @ errorText e"
| "errorText (StallError s) = s"
| "errorText (OutOfDate n d) = ''prerequisite is out of date''"
| "errorText (ApiErr a) = as_Message a"
| "errorText (Panic s) = s"

text \<open>\<^verbatim>\<open>errors.As\<close> for the types the code looks for: it walks the chain of causes.\<close>

fun asStallError :: "goerr \<Rightarrow> string option" where
  "asStallError (StallError s) = Some s"
| "asStallError (Wrapf s e) = asStallError e"
| "asStallError _ = None"

fun asOutOfDate :: "goerr \<Rightarrow> (string \<times> int) option" where
  "asOutOfDate (OutOfDate n d) = Some (n, d)"
| "asOutOfDate (Wrapf s e) = asOutOfDate e"
| "asOutOfDate _ = None"

fun asApiStatus :: "goerr \<Rightarrow> api_status option" where
  "asApiStatus (ApiErr a) = Some a"
| "asApiStatus (Wrapf s e) = asApiStatus e"
| "asApiStatus _ = None"

definition IsNotFound :: "goerr \<Rightarrow> bool" where
  "IsNotFound e = (case asApiStatus e of Some a \<Rightarrow> as_Reason a = ReasonNotFound | None \<Rightarrow> False)"

definition HasStatusCause :: "goerr \<Rightarrow> string \<Rightarrow> bool" where
  "HasStatusCause e c = (case asApiStatus e of Some a \<Rightarrow> c \<in> set (as_Causes a) | None \<Rightarrow> False)"

section \<open>Early returns\<close>

text \<open>
  A step of a handler either leaves the handler (\<^verbatim>\<open>Inl\<close>) or goes on with a value
  (\<^verbatim>\<open>Inr\<close>); \<^verbatim>\<open>bindE\<close> is the semicolon between two steps.
\<close>

definition bindE :: "'x + 'a \<Rightarrow> ('a \<Rightarrow> 'x + 'b) \<Rightarrow> 'x + 'b" where
  "bindE m f = (case m of Inl x \<Rightarrow> Inl x | Inr a \<Rightarrow> f a)"

lemma bindE_simps [simp]:
  "bindE (Inl x) f = Inl x"
  "bindE (Inr a) f = f a"
  by (simp_all add: bindE_def)

lemma bindE_Inr_iff: "bindE m f = Inr b \<longleftrightarrow> (\<exists>a. m = Inr a \<and> f a = Inr b)"
  by (cases m) simp_all

lemma bindE_Inl_iff: "bindE m f = Inl x \<longleftrightarrow> m = Inl x \<or> (\<exists>a. m = Inr a \<and> f a = Inl x)"
  by (cases m) simp_all

lemma bindE_split:
  "P (bindE m f) \<longleftrightarrow> (\<forall>x. m = Inl x \<longrightarrow> P (Inl x)) \<and> (\<forall>a. m = Inr a \<longrightarrow> P (f a))"
  by (cases m) simp_all

lemma bindE_split_asm:
  "P (bindE m f) \<longleftrightarrow> \<not> ((\<exists>x. m = Inl x \<and> \<not> P (Inl x)) \<or> (\<exists>a. m = Inr a \<and> \<not> P (f a)))"
  by (cases m) simp_all

definition mapErr :: "('x \<Rightarrow> 'y) \<Rightarrow> 'x + 'a \<Rightarrow> 'y + 'a" where
  "mapErr g m = (case m of Inl x \<Rightarrow> Inl (g x) | Inr a \<Rightarrow> Inr a)"

lemma mapErr_simps [simp]:
  "mapErr g (Inl x) = Inl (g x)"
  "mapErr g (Inr a) = Inr a"
  by (simp_all add: mapErr_def)

lemma mapErr_Inr_iff [simp]: "mapErr g m = Inr a \<longleftrightarrow> m = Inr a"
  by (cases m) simp_all

text \<open>A \<^verbatim>\<open>for\<close> loop whose body may return an error: it stops at the first one.\<close>

fun foldE :: "('a \<Rightarrow> 's \<Rightarrow> 'x + 's) \<Rightarrow> 'a list \<Rightarrow> 's \<Rightarrow> 'x + 's" where
  "foldE f [] s = Inr s"
| "foldE f (a # as) s = bindE (f a s) (foldE f as)"

lemma foldE_invariant:
  assumes "foldE f as s = Inr t" and "P s"
    and "\<And>a u v. a \<in> set as \<Longrightarrow> P u \<Longrightarrow> f a u = Inr v \<Longrightarrow> P v"
  shows "P t"
  using assms
proof (induction as arbitrary: s)
  case Nil
  then show ?case by simp
next
  case (Cons a as)
  from Cons.prems(1) obtain u where u: "f a s = Inr u" and rest: "foldE f as u = Inr t"
    by (auto simp: bindE_Inr_iff)
  have "P u" using Cons.prems(2) u by (auto intro: Cons.prems(3))
  from rest this show ?case by (rule Cons.IH) (auto intro: Cons.prems(3))
qed

text \<open>A loop that ends has run its body on every element, from a state with the invariant.\<close>

lemma foldE_each:
  assumes "foldE f as s = Inr t" and "P s"
    and "\<And>a u v. a \<in> set as \<Longrightarrow> P u \<Longrightarrow> f a u = Inr v \<Longrightarrow> P v"
    and "a \<in> set as"
  shows "\<exists>u v. P u \<and> f a u = Inr v"
  using assms
proof (induction as arbitrary: s)
  case Nil
  then show ?case by simp
next
  case (Cons b as)
  from Cons.prems(1) obtain u where u: "f b s = Inr u" and rest: "foldE f as u = Inr t"
    by (auto simp: bindE_Inr_iff)
  have inv: "P u" using Cons.prems(2) u by (auto intro: Cons.prems(3))
  show ?case
  proof (cases "a = b")
    case True
    with Cons.prems(2) u show ?thesis by blast
  next
    case False
    with Cons.prems(4) have a: "a \<in> set as" by simp
    show ?thesis by (rule Cons.IH [OF rest inv _ a]) (rule Cons.prems(3), auto)
  qed
qed

lemma foldE_append: "foldE f (as @ bs) s = bindE (foldE f as s) (foldE f bs)"
  by (induction as arbitrary: s) (auto simp: bindE_def split: sum.splits)

lemma foldE_cong:
  "(\<And>a s. a \<in> set as \<Longrightarrow> f a s = g a s) \<Longrightarrow> foldE f as s = foldE g as s"
  by (induction as arbitrary: s) (auto split: bindE_split simp: bindE_def split: sum.splits)

text \<open>Mapping the value of a step that went on.\<close>

definition mapOk :: "('a \<Rightarrow> 'b) \<Rightarrow> 'x + 'a \<Rightarrow> 'x + 'b" where
  "mapOk h m = bindE m (\<lambda>a. Inr (h a))"

lemma mapOk_simps [simp]:
  "mapOk h (Inl e) = Inl e" "mapOk h (Inr a) = Inr (h a)"
  by (simp_all add: mapOk_def)

lemma mapOk_bindE [simp]: "mapOk f (bindE m g) = bindE m (\<lambda>a. mapOk f (g a))"
  by (cases m) simp_all

lemma bindE_mapOk [simp]: "bindE (mapOk f m) g = bindE m (\<lambda>a. g (f a))"
  by (cases m) simp_all

lemma mapErr_mapOk [simp]: "mapErr w (mapOk f m) = mapOk f (mapErr w m)"
  by (cases m) simp_all

lemma foldE_map:
  assumes "\<And>a u. a \<in> set as \<Longrightarrow> P u \<Longrightarrow> f' a (h u) = mapOk h (f a u)"
    and "\<And>a u v. a \<in> set as \<Longrightarrow> P u \<Longrightarrow> f a u = Inr v \<Longrightarrow> P v" and "P s"
  shows "foldE f' as (h s) = mapOk h (foldE f as s)"
  using assms
proof (induction as arbitrary: s)
  case Nil
  then show ?case by simp
next
  case (Cons a as)
  show ?case
  proof (cases "f a s")
    case (Inl e)
    then show ?thesis using Cons.prems by simp
  next
    case (Inr u)
    have "P u" using Cons.prems(2,3) Inr by auto
    have 1: "\<And>b v. b \<in> set as \<Longrightarrow> P v \<Longrightarrow> f' b (h v) = mapOk h (f b v)"
      using Cons.prems(1) by (meson list.set_intros(2))
    have 2: "\<And>b v w. b \<in> set as \<Longrightarrow> P v \<Longrightarrow> f b v = Inr w \<Longrightarrow> P w"
      using Cons.prems(2) by (meson list.set_intros(2))
    have "foldE f' as (h u) = mapOk h (foldE f as u)" by (rule Cons.IH [OF 1 2 \<open>P u\<close>])
    then show ?thesis using Cons.prems Inr by simp
  qed
qed

lemma bindE_mapOk_cong:
  assumes "m' = mapOk h m" and "\<And>a. m = Inr a \<Longrightarrow> g' (h a) = mapOk h (g a)"
  shows "bindE m' g' = mapOk h (bindE m g)"
  using assms by (cases m) simp_all

section \<open>Go maps\<close>

text \<open>
  A Go map is the list of its entries in some iteration order, without repeated keys. The code
  reads it by key (\<^const>\<open>map_of\<close>) or through \<^verbatim>\<open>slices.Sorted(maps.Keys(m))\<close>.
\<close>

type_synonym 'v gomap = "(string \<times> 'v) list"

definition sortedKeys :: "'v gomap \<Rightarrow> string list" where
  "sortedKeys m = sort (remdups (map fst m))"

lemma set_sortedKeys [simp]: "set (sortedKeys m) = dom (map_of m)"
  by (simp add: sortedKeys_def dom_map_of_conv_image_fst)

lemma sorted_sortedKeys [simp]: "sorted (sortedKeys m)"
  by (simp add: sortedKeys_def)

lemma distinct_sortedKeys [simp]: "distinct (sortedKeys m)"
  by (simp add: sortedKeys_def)

text \<open>The enumeration order of the map does not reach the code that goes through its sorted keys.\<close>

lemma sortedKeys_eq: "map_of m = map_of m' \<Longrightarrow> sortedKeys m = sortedKeys m'"
  by (rule sorted_distinct_set_unique) simp_all

section \<open>64-bit durations\<close>

text \<open>
  \<^verbatim>\<open>i64\<close> is the value of a Go \<^verbatim>\<open>int64\<close> expression whose mathematical value is
  \<^verbatim>\<open>x\<close>: it wraps. Durations are nanoseconds; \<^verbatim>\<open>time.Time\<close> is nanoseconds since
  Go's zero time, and \<^verbatim>\<open>Time.Sub\<close> saturates at the ends of the duration range.
\<close>

type_synonym duration = int
type_synonym time = int

definition i64 :: "int \<Rightarrow> int" where
  "i64 x = sint (word_of_int x :: 64 word)"

definition maxDuration :: duration where
  "maxDuration = 9223372036854775807"

definition minDuration :: duration where
  "minDuration = - 9223372036854775808"

definition Second :: duration where
  "Second = 1000000000"

text \<open>The clock counts from Go's zero time; this is the Unix epoch on it.\<close>

definition unixEpoch :: time where "unixEpoch = 62135596800 * Second"

definition time_sub :: "time \<Rightarrow> time \<Rightarrow> duration" where
  "time_sub t u = max minDuration (min maxDuration (t - u))"

lemma i64_range: "minDuration \<le> i64 x \<and> i64 x \<le> maxDuration"
proof -
  have "sint (word_of_int x :: 64 word) < 2 ^ (64 - 1)" and "- (2 ^ (64 - 1)) \<le> sint (word_of_int x :: 64 word)"
    using sint_lt [of "word_of_int x :: 64 word"] sint_ge [of "word_of_int x :: 64 word"] by simp_all
  then show ?thesis by (simp add: i64_def minDuration_def maxDuration_def)
qed

lemma i64_id: "minDuration \<le> x \<Longrightarrow> x \<le> maxDuration \<Longrightarrow> i64 x = x"
  by (simp add: i64_def minDuration_def maxDuration_def sint_sbintrunc' signed_take_bit_int_eq_self)

section \<open>Formatting\<close>

text \<open>Decimal and hexadecimal printing (\<^verbatim>\<open>%d\<close>, \<^verbatim>\<open>%x\<close>) of Go integers.\<close>

definition digitChar :: "nat \<Rightarrow> char" where
  "digitChar d = (if d < 10 then char_of (48 + d) else char_of (87 + d))"

fun showBase :: "nat \<Rightarrow> nat \<Rightarrow> string" where
  "showBase b n = (if b < 2 \<or> n < b then [digitChar n] else showBase b (n div b) @ [digitChar (n mod b)])"

declare showBase.simps [simp del]

definition showInt :: "int \<Rightarrow> string" where
  "showInt i = (if i < 0 then ''-'' @ showBase 10 (nat (- i)) else showBase 10 (nat i))"

definition showHex :: "int \<Rightarrow> string" where
  "showHex i = (if i < 0 then ''-'' @ showBase 16 (nat (- i)) else showBase 16 (nat i))"

text \<open>
  \<^verbatim>\<open>%q\<close>: the string between double quotes, with Go's escapes for the quote, the backslash
  and the ASCII control characters. (Bytes above 127 are kept as they are, which is what Go does
  for the printable UTF-8 text they belong to.)
\<close>

definition quoteChar :: "char \<Rightarrow> string" where
  "quoteChar c = (let n = (of_char c :: nat) in
     if n = 34 then [char_of (92::nat), c]
     else if n = 92 then [c, c]
     else if n = 7 then char_of (92::nat) # ''a''
     else if n = 8 then char_of (92::nat) # ''b''
     else if n = 9 then char_of (92::nat) # ''t''
     else if n = 10 then char_of (92::nat) # ''n''
     else if n = 11 then char_of (92::nat) # ''v''
     else if n = 12 then char_of (92::nat) # ''f''
     else if n = 13 then char_of (92::nat) # ''r''
     else if n < 32 \<or> n = 127 then char_of (92::nat) # ''x'' @ [digitChar (n div 16), digitChar (n mod 16)]
     else [c])"

definition goQuote :: "string \<Rightarrow> string" where
  "goQuote s = [char_of (34::nat)] @ concat (map quoteChar s) @ [char_of (34::nat)]"

text \<open>\<^verbatim>\<open>strings.Join\<close>.\<close>

fun joinWith :: "string \<Rightarrow> string list \<Rightarrow> string" where
  "joinWith sep [] = []"
| "joinWith sep [x] = x"
| "joinWith sep (x # y # ys) = x @ sep @ joinWith sep (y # ys)"

text \<open>\<^verbatim>\<open>strings.HasPrefix\<close>.\<close>

definition hasPrefix :: "string \<Rightarrow> string \<Rightarrow> bool" where
  "hasPrefix s p \<longleftrightarrow> take (length p) s = p"

end
