(* ===== verification/K8s.thy ===== *)
theory K8s
  imports Prelude
begin

text \<open>
  What the operator uses of Kubernetes and its Go packages. Object metadata and status conditions
  are data; the package functions that are not part of this repository (apimachinery's condition
  helpers, controller-runtime's finalizer and owner-reference helpers, the backoff, the DNS-label
  check) are the fields of a record \<^verbatim>\<open>lib\<close>, an argument of every definition that calls them.
  Locales state their documented behaviour; a reference implementation shows that the laws can
  all hold, and is what the witnesses run.
\<close>

section \<open>Object metadata and conditions\<close>

record OwnerReference =
  or_APIVersion :: string
  or_Kind :: string
  or_Name :: string
  or_UID :: string
  or_Controller :: "bool option"
  or_BlockOwnerDeletion :: "bool option"

record ManagedFieldsEntry =
  mf_Manager :: string
  mf_FieldsV1 :: "string option"

record ObjectMeta =
  om_Name :: string
  om_Namespace :: string
  om_UID :: string
  om_ResourceVersion :: string
  om_Generation :: int
  om_DeletionTimestamp :: "time option"
  om_Labels :: "string gomap"
  om_Annotations :: "string gomap"
  om_Finalizers :: "string list"
  om_OwnerReferences :: "OwnerReference list"
  om_ManagedFields :: "ManagedFieldsEntry list"

text \<open>The zero value of \<^verbatim>\<open>metav1.ObjectMeta\<close>.\<close>

definition emptyMeta :: ObjectMeta where
  "emptyMeta = \<lparr>om_Name = [], om_Namespace = [], om_UID = [], om_ResourceVersion = [],
     om_Generation = 0, om_DeletionTimestamp = None, om_Labels = [], om_Annotations = [],
     om_Finalizers = [], om_OwnerReferences = [], om_ManagedFields = []\<rparr>"

datatype ConditionStatus = ConditionTrue | ConditionFalse | ConditionUnknown

record Condition =
  c_Type :: string
  c_Status :: ConditionStatus
  c_ObservedGeneration :: int
  c_LastTransitionTime :: time
  c_Reason :: string
  c_Message :: string

definition mkCondition :: "string \<Rightarrow> ConditionStatus \<Rightarrow> string \<Rightarrow> string \<Rightarrow> Condition" where
  "mkCondition ty st reason msg = \<lparr>c_Type = ty, c_Status = st, c_ObservedGeneration = 0,
     c_LastTransitionTime = 0, c_Reason = reason, c_Message = msg\<rparr>"

lemma mkCondition_simps [simp]:
  "c_Type (mkCondition ty st r m) = ty"
  "c_Status (mkCondition ty st r m) = st"
  "c_Reason (mkCondition ty st r m) = r"
  "c_Message (mkCondition ty st r m) = m"
  by (simp_all add: mkCondition_def)

text \<open>\<^verbatim>\<open>wait.Backoff\<close>, with the fields in the package's order.\<close>

record Backoff =
  bo_Duration :: duration
  bo_Factor :: int
  bo_Jitter :: int
  bo_Steps :: int
  bo_Cap :: duration

section \<open>The package functions\<close>

record lib =
  FindStatusCondition :: "Condition list \<Rightarrow> string \<Rightarrow> Condition option"
  SetStatusCondition :: "Condition list \<Rightarrow> Condition \<Rightarrow> Condition list"
  RemoveStatusCondition :: "Condition list \<Rightarrow> string \<Rightarrow> Condition list"
  IsStatusConditionTrue :: "Condition list \<Rightarrow> string \<Rightarrow> bool"
  AddFinalizer :: "string list \<Rightarrow> string \<Rightarrow> string list \<times> bool"
  RemoveFinalizer :: "string list \<Rightarrow> string \<Rightarrow> string list \<times> bool"
  ContainsFinalizer :: "string list \<Rightarrow> string \<Rightarrow> bool"
  HasControllerReference :: "OwnerReference list \<Rightarrow> bool"
  SetControllerReference :: "ObjectMeta \<Rightarrow> ObjectMeta \<Rightarrow> goerr + ObjectMeta"
  SetOwnerReference :: "ObjectMeta \<Rightarrow> ObjectMeta \<Rightarrow> goerr + ObjectMeta"
  BackoffStep :: "Backoff \<Rightarrow> Backoff \<times> duration"
  IsDNS1123Label :: "string \<Rightarrow> string list"
  Sha256Hex :: "string \<Rightarrow> string"
  DurationString :: "duration \<Rightarrow> string"
  JsonString :: "string \<Rightarrow> string"
  JsonMarshalStrings :: "string list \<Rightarrow> string"
  JsonUnmarshalStrings :: "string \<Rightarrow> goerr + string list"

section \<open>Documented behaviour\<close>

text \<open>
  The condition helpers of \<^verbatim>\<open>k8s.io/apimachinery/pkg/api/meta\<close>: set overwrites or appends
  the condition of that type (only the transition time is the package's business), remove drops
  it, the other types are not touched, and the truth test reads the status.
\<close>

locale condition_api =
  fixes L :: lib
  assumes find_set_same:
      "\<exists>t. FindStatusCondition L (SetStatusCondition L cs c) (c_Type c) = Some (c\<lparr>c_LastTransitionTime := t\<rparr>)"
    and find_set_other:
      "ty \<noteq> c_Type c \<Longrightarrow> FindStatusCondition L (SetStatusCondition L cs c) ty = FindStatusCondition L cs ty"
    and find_remove_same: "FindStatusCondition L (RemoveStatusCondition L cs ty) ty = None"
    and find_remove_other:
      "ty \<noteq> ty' \<Longrightarrow> FindStatusCondition L (RemoveStatusCondition L cs ty') ty = FindStatusCondition L cs ty"
    and true_iff:
      "IsStatusConditionTrue L cs ty
        \<longleftrightarrow> (\<exists>c. FindStatusCondition L cs ty = Some c \<and> c_Status c = ConditionTrue)"
begin

lemma true_set_same [simp]:
  "IsStatusConditionTrue L (SetStatusCondition L cs c) (c_Type c) \<longleftrightarrow> c_Status c = ConditionTrue"
proof -
  obtain t where "FindStatusCondition L (SetStatusCondition L cs c) (c_Type c) = Some (c\<lparr>c_LastTransitionTime := t\<rparr>)"
    using find_set_same by blast
  then show ?thesis by (simp add: true_iff)
qed

lemma true_set_other [simp]:
  "ty \<noteq> c_Type c \<Longrightarrow> IsStatusConditionTrue L (SetStatusCondition L cs c) ty = IsStatusConditionTrue L cs ty"
  by (simp add: true_iff find_set_other)

lemma true_remove_same [simp]: "\<not> IsStatusConditionTrue L (RemoveStatusCondition L cs ty) ty"
  by (simp add: true_iff find_remove_same)

lemma true_remove_other [simp]:
  "ty \<noteq> ty' \<Longrightarrow> IsStatusConditionTrue L (RemoveStatusCondition L cs ty') ty = IsStatusConditionTrue L cs ty"
  by (simp add: true_iff find_remove_other)

text \<open>The same facts with the written condition's type given by an equation.\<close>

lemma true_set:
  "IsStatusConditionTrue L (SetStatusCondition L cs c) ty
    = (if ty = c_Type c then c_Status c = ConditionTrue else IsStatusConditionTrue L cs ty)"
  by simp

lemma true_remove:
  "IsStatusConditionTrue L (RemoveStatusCondition L cs ty') ty
    = (ty \<noteq> ty' \<and> IsStatusConditionTrue L cs ty)"
  by (cases "ty = ty'") simp_all

lemma find_remove:
  "FindStatusCondition L (RemoveStatusCondition L cs ty') ty
    = (if ty = ty' then None else FindStatusCondition L cs ty)"
  by (simp add: find_remove_same find_remove_other)

lemma reason_set_same:
  "map_option c_Reason (FindStatusCondition L (SetStatusCondition L cs c) (c_Type c)) = Some (c_Reason c)"
proof -
  obtain t where "FindStatusCondition L (SetStatusCondition L cs c) (c_Type c) = Some (c\<lparr>c_LastTransitionTime := t\<rparr>)"
    using find_set_same by blast
  then show ?thesis by simp
qed

end

text \<open>The finalizer helpers of controller-runtime's \<^verbatim>\<open>controllerutil\<close>.\<close>

locale finalizer_api =
  fixes L :: lib
  assumes add_set: "set (fst (AddFinalizer L fs f)) = insert f (set fs)"
    and add_changed: "snd (AddFinalizer L fs f) \<longleftrightarrow> f \<notin> set fs"
    and remove_set: "set (fst (RemoveFinalizer L fs f)) = set fs - {f}"
    and remove_changed: "snd (RemoveFinalizer L fs f) \<longleftrightarrow> f \<in> set fs"
    and contains_iff: "ContainsFinalizer L fs f \<longleftrightarrow> f \<in> set fs"
begin

lemma remove_gone [simp]: "f \<notin> set (fst (RemoveFinalizer L fs f))"
  by (simp add: remove_set)

lemma add_present [simp]: "f \<in> set (fst (AddFinalizer L fs f))"
  by (simp add: add_set)

end

text \<open>
  \<^verbatim>\<open>wait.Backoff.Step\<close> without jitter: it returns the current duration; while steps remain
  the next duration is the current one times the factor, but a product above the cap becomes the
  cap and ends the steps. (Products outside the 64-bit range are not described.)
\<close>

locale backoff_api =
  fixes L :: lib
  assumes step_result: "bo_Jitter b = 0 \<Longrightarrow> snd (BackoffStep L b) = bo_Duration b"
    and step_grow:
      "\<lbrakk>bo_Jitter b = 0; 1 \<le> bo_Steps b; 0 \<le> bo_Duration b; 0 < bo_Factor b; bo_Duration b * bo_Factor b \<le> maxDuration;
        bo_Cap b \<le> 0 \<or> bo_Duration b * bo_Factor b \<le> bo_Cap b\<rbrakk>
        \<Longrightarrow> fst (BackoffStep L b)
             = b\<lparr>bo_Duration := bo_Duration b * bo_Factor b, bo_Steps := bo_Steps b - 1\<rparr>"
    and step_cap:
      "\<lbrakk>bo_Jitter b = 0; 1 \<le> bo_Steps b; 0 \<le> bo_Duration b; 0 < bo_Factor b; bo_Duration b * bo_Factor b \<le> maxDuration;
        0 < bo_Cap b; bo_Cap b < bo_Duration b * bo_Factor b\<rbrakk>
        \<Longrightarrow> fst (BackoffStep L b) = b\<lparr>bo_Duration := bo_Cap b, bo_Steps := 0\<rparr>"
    and step_done: "\<lbrakk>bo_Jitter b = 0; bo_Steps b < 1\<rbrakk> \<Longrightarrow> fst (BackoffStep L b) = b\<lparr>bo_Steps := 0\<rparr>"

text \<open>
  The DNS-label check of \<^verbatim>\<open>k8s.io/apimachinery/pkg/util/validation\<close> accepts at most 63
  characters; a SHA-256 sum in hexadecimal has 64.
\<close>

locale label_api =
  fixes L :: lib
  assumes label_length: "IsDNS1123Label L s = [] \<Longrightarrow> length s \<le> 63"
    and sum_length: "length (Sha256Hex L s) = 64"

text \<open>
  \<^verbatim>\<open>encoding/json\<close>: decoding an encoded list of strings gives it back, for the ASCII
  strings the operator stores (invalid UTF-8 would be replaced).
\<close>

definition isAscii :: "string \<Rightarrow> bool" where
  "isAscii s = list_all (\<lambda>c. of_char c < (128::nat)) s"

locale json_api =
  fixes L :: lib
  assumes strings_roundtrip:
      "list_all isAscii xs \<Longrightarrow> JsonUnmarshalStrings L (JsonMarshalStrings L xs) = Inr xs"

end
