(* ===== verification/K8sReference.thy ===== *)
theory K8sReference
  imports K8s
begin

text \<open>
  A reference implementation of the package functions of theory K8s, following their
  documentation, and the interpretation of each of the contracts on it. The witnesses of the
  development run the model with this library, so every hypothesis about the packages is known to
  be satisfiable.
\<close>

section \<open>Conditions and finalizers\<close>

definition refFind :: "Condition list \<Rightarrow> string \<Rightarrow> Condition option" where
  "refFind cs ty = List.find (\<lambda>c. c_Type c = ty) cs"

fun refSet :: "Condition list \<Rightarrow> Condition \<Rightarrow> Condition list" where
  "refSet [] c = [c]"
| "refSet (d # ds) c =
     (if c_Type d = c_Type c
      then c\<lparr>c_LastTransitionTime := (if c_Status d = c_Status c then c_LastTransitionTime d
                                         else c_LastTransitionTime c)\<rparr> # ds
      else d # refSet ds c)"

definition refRemove :: "Condition list \<Rightarrow> string \<Rightarrow> Condition list" where
  "refRemove cs ty = filter (\<lambda>c. c_Type c \<noteq> ty) cs"

definition refIsTrue :: "Condition list \<Rightarrow> string \<Rightarrow> bool" where
  "refIsTrue cs ty = (case refFind cs ty of Some c \<Rightarrow> c_Status c = ConditionTrue | None \<Rightarrow> False)"

definition refAdd :: "string list \<Rightarrow> string \<Rightarrow> string list \<times> bool" where
  "refAdd fs f = (if List.member fs f then (fs, False) else (fs @ [f], True))"

definition refRemoveFinalizer :: "string list \<Rightarrow> string \<Rightarrow> string list \<times> bool" where
  "refRemoveFinalizer fs f = (filter (\<lambda>g. g \<noteq> f) fs, List.member fs f)"

definition refHasController :: "OwnerReference list \<Rightarrow> bool" where
  "refHasController rs = list_ex (\<lambda>r. or_Controller r = Some True) rs"

text \<open>The scheme's group, version and kind of the owner; the owner of the second function is a Stack.\<close>

definition refOwner :: "string \<times> string \<Rightarrow> bool option \<Rightarrow> ObjectMeta \<Rightarrow> ObjectMeta \<Rightarrow> goerr + ObjectMeta" where
  "refOwner gvk ctl owner m = Inr (m\<lparr>om_OwnerReferences := om_OwnerReferences m @
     [\<lparr>or_APIVersion = fst gvk, or_Kind = snd gvk, or_Name = om_Name owner, or_UID = om_UID owner,
       or_Controller = ctl, or_BlockOwnerDeletion = Some True\<rparr>]\<rparr>)"

section \<open>Backoff, labels and JSON\<close>

definition refStep :: "Backoff \<Rightarrow> Backoff \<times> duration" where
  "refStep b =
     (if bo_Steps b < 1 then (b\<lparr>bo_Steps := 0\<rparr>, bo_Duration b)
      else if bo_Factor b = 0 then (b\<lparr>bo_Steps := bo_Steps b - 1\<rparr>, bo_Duration b)
      else let next = i64 (bo_Duration b * bo_Factor b)
           in if 0 < bo_Cap b \<and> bo_Cap b < next
              then (b\<lparr>bo_Duration := bo_Cap b, bo_Steps := 0\<rparr>, bo_Duration b)
              else (b\<lparr>bo_Duration := next, bo_Steps := bo_Steps b - 1\<rparr>, bo_Duration b))"

definition isLabelChar :: "char \<Rightarrow> bool" where
  "isLabelChar c = (let n = (of_char c :: nat) in (97 \<le> n \<and> n \<le> 122) \<or> (48 \<le> n \<and> n \<le> 57))"

definition refIsLabel :: "string \<Rightarrow> string list" where
  "refIsLabel s =
     (if s \<noteq> [] \<and> length s \<le> 63 \<and> isLabelChar (hd s) \<and> isLabelChar (last s)
         \<and> list_all (\<lambda>c. isLabelChar c \<or> c = CHR ''-'') s
      then [] else [''not a DNS-1123 label''])"

definition refSum :: "string \<Rightarrow> string" where
  "refSum s = take 64 (concat (map (\<lambda>c. [digitChar (of_char c div 16), digitChar (of_char c mod 16)]) s)
                       @ replicate 64 CHR ''0'')"

definition jsonQuote :: char where "jsonQuote = char_of (34::nat)"
definition jsonEscape :: char where "jsonEscape = char_of (92::nat)"

definition encChar :: "char \<Rightarrow> string" where
  "encChar c = (if c = jsonQuote \<or> c = jsonEscape then [jsonEscape, c] else [c])"

definition encString :: "string \<Rightarrow> string" where
  "encString s = jsonQuote # concat (map encChar s) @ [jsonQuote]"

definition encStrings :: "string list \<Rightarrow> string" where
  "encStrings xs = ''['' @ joinWith '','' (map encString xs) @ '']''"

fun decTail :: "string \<Rightarrow> (string \<times> string) option" where
  "decTail [] = None"
| "decTail (c # cs) =
     (if c = jsonQuote then Some ([], cs)
      else if c = jsonEscape
      then (case cs of [] \<Rightarrow> None | d # ds \<Rightarrow> map_option (\<lambda>(s, r). (d # s, r)) (decTail ds))
      else map_option (\<lambda>(s, r). (c # s, r)) (decTail cs))"

fun decElems :: "nat \<Rightarrow> string \<Rightarrow> string list option" where
  "decElems 0 s = None"
| "decElems (Suc n) s =
     (case s of [] \<Rightarrow> None
      | c # cs \<Rightarrow>
          (if c \<noteq> jsonQuote then None
           else case decTail cs of None \<Rightarrow> None
                | Some (x, r) \<Rightarrow>
                    (if r = '']'' then Some [x]
                     else case r of [] \<Rightarrow> None
                          | d # ds \<Rightarrow> (if d = CHR '','' then map_option ((#) x) (decElems n ds) else None))))"

definition decStrings :: "string \<Rightarrow> goerr + string list" where
  "decStrings s =
     (case s of [] \<Rightarrow> Inl (Errorf ''unexpected end of JSON input'')
      | c # cs \<Rightarrow>
          (if c \<noteq> CHR ''['' then Inl (Errorf ''invalid character'')
           else if cs = '']'' then Inr []
           else case decElems (length s) cs of Some xs \<Rightarrow> Inr xs | None \<Rightarrow> Inl (Errorf ''invalid character'')))"

lemma decTail_enc: "decTail (concat (map encChar s) @ jsonQuote # r) = Some (s, r)"
proof (induction s)
  case Nil
  then show ?case by simp
next
  case (Cons c s)
  have "jsonQuote \<noteq> jsonEscape" by (simp add: jsonQuote_def jsonEscape_def)
  with Cons show ?case by (simp add: encChar_def)
qed

lemma decElems_enc:
  "xs \<noteq> [] \<Longrightarrow> length xs \<le> n \<Longrightarrow> decElems n (joinWith '','' (map encString xs) @ '']'') = Some xs"
proof (induction xs arbitrary: n)
  case Nil
  then show ?case by simp
next
  case (Cons x xs)
  then obtain m where n: "n = Suc m" by (cases n) auto
  show ?case
  proof (cases xs)
    case Nil
    then show ?thesis by (simp add: n encString_def decTail_enc)
  next
    case (Cons y ys)
    have step: "joinWith '','' (map encString (x # xs)) @ '']''
        = jsonQuote # concat (map encChar x) @ jsonQuote # CHR '','' # (joinWith '','' (map encString xs) @ '']'')"
      by (simp add: Cons encString_def)
    have len: "length xs \<le> m" "xs \<noteq> []" using Cons.prems n Cons by auto
    show ?thesis
      unfolding step n using Cons.IH [OF len(2,1)] by (simp add: decTail_enc)
  qed
qed

lemma joinWith_length: "length xs \<le> Suc (length (joinWith '','' (map encString xs)))"
  by (induction xs rule: joinWith.induct [of _ "''''"]) (auto simp: encString_def)

lemma joinWith_nonempty: "xs \<noteq> [] \<Longrightarrow> joinWith '','' (map encString xs) \<noteq> []"
  by (cases xs; cases "tl xs") (auto simp: encString_def neq_Nil_conv)

lemma decStrings_enc: "decStrings (encStrings xs) = Inr xs"
proof (cases "xs = []")
  case True
  then show ?thesis by (simp add: decStrings_def encStrings_def)
next
  case False
  let ?s = "joinWith '','' (map encString xs) @ '']''"
  have "?s \<noteq> '']''" using joinWith_nonempty [OF False] by simp
  moreover have "decElems (length (encStrings xs)) ?s = Some xs"
    by (rule decElems_enc [OF False]) (use joinWith_length [of xs] in \<open>simp add: encStrings_def\<close>)
  ultimately show ?thesis by (simp add: decStrings_def encStrings_def)
qed

section \<open>The library and its contracts\<close>

definition docLib :: lib where
  "docLib = \<lparr>FindStatusCondition = refFind, SetStatusCondition = refSet,
     RemoveStatusCondition = refRemove, IsStatusConditionTrue = refIsTrue,
     AddFinalizer = refAdd, RemoveFinalizer = refRemoveFinalizer,
     ContainsFinalizer = List.member, HasControllerReference = refHasController,
     SetControllerReference = refOwner ([], []) (Some True),
     SetOwnerReference = refOwner (''pulumi.com/v1'', ''Stack'') None,
     BackoffStep = refStep, IsDNS1123Label = refIsLabel, Sha256Hex = refSum,
     DurationString = (\<lambda>d. showInt (d div Second) @ ''s''),
     JsonString = encString, JsonMarshalStrings = encStrings, JsonUnmarshalStrings = decStrings\<rparr>"

lemma same_transition: "\<exists>t. c = c\<lparr>c_LastTransitionTime := t\<rparr>"
  by (metis Condition.surjective Condition.update_convs(4))

lemma refFind_set_same:
  "\<exists>t. refFind (refSet cs c) (c_Type c) = Some (c\<lparr>c_LastTransitionTime := t\<rparr>)"
proof (induction cs)
  case Nil
  show ?case by (simp add: refFind_def same_transition)
next
  case (Cons d ds)
  then show ?case by (auto simp: refFind_def same_transition)
qed

lemma refFind_set_other: "ty \<noteq> c_Type c \<Longrightarrow> refFind (refSet cs c) ty = refFind cs ty"
  by (induction cs) (auto simp: refFind_def)

lemma refFind_remove: "refFind (refRemove cs ty') ty = (if ty = ty' then None else refFind cs ty)"
  by (induction cs) (auto simp: refFind_def refRemove_def)

lemma refIsTrue_iff: "refIsTrue cs ty \<longleftrightarrow> (\<exists>c. refFind cs ty = Some c \<and> c_Status c = ConditionTrue)"
  by (simp add: refIsTrue_def split: option.splits)

interpretation docConditions: condition_api docLib
  by unfold_locales
     (simp_all add: docLib_def refFind_set_same refFind_set_other refFind_remove refIsTrue_iff)

interpretation docFinalizers: finalizer_api docLib
  by unfold_locales (auto simp: docLib_def refAdd_def refRemoveFinalizer_def)

lemma product_range: "0 \<le> d \<Longrightarrow> 0 < f \<Longrightarrow> d * f \<le> maxDuration \<Longrightarrow> i64 (d * f) = d * f"
  by (rule i64_id) (simp_all add: minDuration_def order_trans [of _ 0])

interpretation docBackoff: backoff_api docLib
  by unfold_locales (auto simp: docLib_def refStep_def Let_def product_range)

interpretation docLabels: label_api docLib
  by unfold_locales (auto simp: docLib_def refIsLabel_def refSum_def split: if_splits)

interpretation docJson: json_api docLib
  by unfold_locales (simp add: docLib_def decStrings_enc)

end
