(* ===== verification/AutoTypes.thy ===== *)
theory AutoTypes
  imports K8sReference
begin

text \<open>
  The API types of \<^verbatim>\<open>auto.pulumi.com/v1alpha1\<close> (operator/api/auto/v1alpha1): Workspace and
  Update, with the parts of the Kubernetes core types their fields are made of. A pointer field is
  an option, a JSON value is its raw text.
\<close>

type_synonym JSON = string

section \<open>Core types used in a workspace\<close>

record SecretKeySelector =
  sk_Name :: string
  sk_Key :: string
  sk_Optional :: "bool option"

datatype EnvVarSource =
    SecretKeyRef SecretKeySelector
  | FieldRef string
  | ResourceFieldRef string string

record EnvVar =
  ev_Name :: string
  ev_Value :: string
  ev_ValueFrom :: "EnvVarSource option"

datatype EnvFromSource = EnvFromConfigMap string | EnvFromSecret string

record VolumeMount =
  vm_Name :: string
  vm_MountPath :: string

datatype VolumeSource = SecretVolume string | ConfigMapVolume string | EmptyDirVolume | OtherVolume JSON

record Volume =
  v_Name :: string
  v_Source :: VolumeSource

record ResourceRequirements =
  rq_Requests :: "string gomap option"
  rq_Limits :: "string gomap option"

definition emptyResources :: ResourceRequirements where
  "emptyResources = \<lparr>rq_Requests = None, rq_Limits = None\<rparr>"

record Capabilities =
  cap_Add :: "string list"
  cap_Drop :: "string list"

text \<open>The fields of a security context the code sets; the others are kept as they are.\<close>

record SecurityContext =
  sx_AllowPrivilegeEscalation :: "bool option"
  sx_Capabilities :: "Capabilities option"
  sx_Rest :: JSON

record Container =
  ctr_Name :: string
  ctr_Image :: string
  ctr_ImagePullPolicy :: string
  ctr_Command :: "string list"
  ctr_Args :: "string list"
  ctr_WorkingDir :: string
  ctr_Ports :: "(string \<times> int) list"
  ctr_EnvFrom :: "EnvFromSource list"
  ctr_Env :: "EnvVar list"
  ctr_Resources :: ResourceRequirements
  ctr_VolumeMounts :: "VolumeMount list"
  ctr_SecurityContext :: "SecurityContext option"

definition emptyContainer :: Container where
  "emptyContainer = \<lparr>ctr_Name = [], ctr_Image = [], ctr_ImagePullPolicy = [], ctr_Command = [],
     ctr_Args = [], ctr_WorkingDir = [], ctr_Ports = [], ctr_EnvFrom = [], ctr_Env = [],
     ctr_Resources = emptyResources, ctr_VolumeMounts = [], ctr_SecurityContext = None\<rparr>"

record PodSpec =
  ps_InitContainers :: "Container list"
  ps_Containers :: "Container list"
  ps_Volumes :: "Volume list"
  ps_Rest :: JSON

section \<open>Workspace\<close>

definition WorkspaceReady :: string where "WorkspaceReady = ''Ready''"
definition WorkspaceStalled :: string where "WorkspaceStalled = ''Stalled''"

datatype SecurityProfile =
    SecurityProfileUnset
  | SecurityProfileBaseline
  | SecurityProfileRestricted
  | SecurityProfileOther string

record GitHubAppAuth =
  gha_AppID :: "SecretKeySelector option"
  gha_InstallationID :: "SecretKeySelector option"
  gha_PrivateKey :: "SecretKeySelector option"

record GitAuth =
  ga_SSHPrivateKey :: "SecretKeySelector option"
  ga_Username :: "SecretKeySelector option"
  ga_Password :: "SecretKeySelector option"
  ga_Token :: "SecretKeySelector option"
  ga_GitHubApp :: "GitHubAppAuth option"

record GitSource =
  gs_URL :: string
  gs_Ref :: string
  gs_Dir :: string
  gs_Auth :: "GitAuth option"
  gs_Shallow :: bool

record FluxSource =
  fs_Url :: string
  fs_Digest :: string
  fs_Dir :: string

record LocalSource =
  ls_Dir :: string

record ProjectInfoSource =
  pis_Name :: string
  pis_Runtime :: string

record ConfigValueFrom =
  cvf_Env :: string
  cvf_Path :: string
  cvf_JSON :: "bool option"

record ConfigItem =
  ci_Key :: string
  ci_Path :: "bool option"
  ci_Value :: "JSON option"
  ci_ValueFrom :: "ConfigValueFrom option"
  ci_Secret :: "bool option"

record WorkspaceStack =
  wst_Name :: string
  wst_Create :: "bool option"
  wst_SecretsProvider :: "string option"
  wst_Config :: "ConfigItem list"
  wst_Environment :: "string list"

record EmbeddedObjectMeta =
  eom_Labels :: "string gomap"
  eom_Annotations :: "string gomap"

record EmbeddedPodTemplateSpec =
  ept_Metadata :: EmbeddedObjectMeta
  ept_Spec :: "PodSpec option"

record EmbeddedServiceTemplateSpec =
  est_Metadata :: EmbeddedObjectMeta

record WorkspaceSpec =
  ws_ServiceAccountName :: string
  ws_SecurityProfile :: SecurityProfile
  ws_Image :: string
  ws_ImagePullPolicy :: string
  ws_Git :: "GitSource option"
  ws_Flux :: "FluxSource option"
  ws_Local :: "LocalSource option"
  ws_ProjectInfo :: "ProjectInfoSource option"
  ws_EnvFrom :: "EnvFromSource list"
  ws_Env :: "EnvVar list"
  ws_Resources :: ResourceRequirements
  ws_PodTemplate :: "EmbeddedPodTemplateSpec option"
  ws_ServiceTemplate :: "EmbeddedServiceTemplateSpec option"
  ws_PulumiLogVerbosity :: int
  ws_Stacks :: "WorkspaceStack list"

definition emptyWorkspaceSpec :: WorkspaceSpec where
  "emptyWorkspaceSpec = \<lparr>ws_ServiceAccountName = [], ws_SecurityProfile = SecurityProfileUnset,
     ws_Image = [], ws_ImagePullPolicy = [], ws_Git = None, ws_Flux = None, ws_Local = None,
     ws_ProjectInfo = None, ws_EnvFrom = [], ws_Env = [], ws_Resources = emptyResources, ws_PodTemplate = None,
     ws_ServiceTemplate = None, ws_PulumiLogVerbosity = 0, ws_Stacks = []\<rparr>"

record WorkspaceStatus =
  wst_ObservedGeneration :: int
  wst_Address :: string
  wst_PulumiVersion :: string
  wst_Conditions :: "Condition list"

definition emptyWorkspaceStatus :: WorkspaceStatus where
  "emptyWorkspaceStatus = \<lparr>wst_ObservedGeneration = 0, wst_Address = [], wst_PulumiVersion = [],
     wst_Conditions = []\<rparr>"

record Workspace =
  w_APIVersion :: string
  w_Kind :: string
  w_Meta :: ObjectMeta
  w_Spec :: WorkspaceSpec
  w_Status :: WorkspaceStatus

section \<open>Update\<close>

datatype UpdateType = PreviewType | UpType | DestroyType | RefreshType | OtherUpdateType string

fun updateTypeString :: "UpdateType \<Rightarrow> string" where
  "updateTypeString PreviewType = ''preview''"
| "updateTypeString UpType = ''up''"
| "updateTypeString DestroyType = ''destroy''"
| "updateTypeString RefreshType = ''refresh''"
| "updateTypeString (OtherUpdateType s) = s"

definition UpdateConditionTypeComplete :: string where "UpdateConditionTypeComplete = ''Complete''"
definition UpdateConditionTypeFailed :: string where "UpdateConditionTypeFailed = ''Failed''"
definition UpdateConditionTypeProgressing :: string where "UpdateConditionTypeProgressing = ''Progressing''"

lemmas update_condition_types =
  UpdateConditionTypeComplete_def UpdateConditionTypeFailed_def UpdateConditionTypeProgressing_def

record UpdateSpec =
  us_WorkspaceName :: string
  us_StackName :: string
  us_Type :: UpdateType
  us_TtlAfterCompleted :: "duration option"
  us_Parallel :: "int option"
  us_Message :: "string option"
  us_ExpectNoChanges :: "bool option"
  us_Replace :: "string list"
  us_Target :: "string list"
  us_TargetDependents :: "bool option"
  us_Refresh :: "bool option"
  us_ContinueOnError :: "bool option"
  us_Remove :: "bool option"
  us_RunProgram :: "bool option"

definition emptyUpdateSpec :: UpdateSpec where
  "emptyUpdateSpec = \<lparr>us_WorkspaceName = [], us_StackName = [], us_Type = OtherUpdateType [],
     us_TtlAfterCompleted = None, us_Parallel = None, us_Message = None, us_ExpectNoChanges = None,
     us_Replace = [], us_Target = [], us_TargetDependents = None, us_Refresh = None,
     us_ContinueOnError = None, us_Remove = None, us_RunProgram = None\<rparr>"

record ProjectInfo =
  pi_Name :: string
  pi_Runtime :: string

record UpdateStatus =
  ust_ObservedGeneration :: int
  ust_StartTime :: time
  ust_EndTime :: time
  ust_Permalink :: string
  ust_Message :: string
  ust_Outputs :: string
  ust_Conditions :: "Condition list"
  ust_ProjectInfo :: "ProjectInfo option"

definition emptyUpdateStatus :: UpdateStatus where
  "emptyUpdateStatus = \<lparr>ust_ObservedGeneration = 0, ust_StartTime = 0, ust_EndTime = 0,
     ust_Permalink = [], ust_Message = [], ust_Outputs = [], ust_Conditions = [],
     ust_ProjectInfo = None\<rparr>"

record Update =
  u_APIVersion :: string
  u_Kind :: string
  u_Meta :: ObjectMeta
  u_Spec :: UpdateSpec
  u_Status :: UpdateStatus

end
