(* ===== verification/StackTypes.thy ===== *)
theory StackTypes
  imports AutoTypes
begin

text \<open>
  The API types of \<^verbatim>\<open>pulumi.com/v1\<close> (operator/api/pulumi/shared/stack_types.go and
  operator/api/pulumi/v1/stack_types.go), and the three operations that arrange the status
  conditions of a Stack (the ready protocol).
\<close>

section \<open>Specification of a Stack\<close>

definition ReconcileRequestAnnotation :: string where
  "ReconcileRequestAnnotation = ''pulumi.com/reconciliation-request''"

datatype ResourceSelectorType =
    ResourceSelectorEnv
  | ResourceSelectorFS
  | ResourceSelectorSecret
  | ResourceSelectorLiteral
  | ResourceSelectorOther string

fun selectorTypeString :: "ResourceSelectorType \<Rightarrow> string" where
  "selectorTypeString ResourceSelectorEnv = ''Env''"
| "selectorTypeString ResourceSelectorFS = ''FS''"
| "selectorTypeString ResourceSelectorSecret = ''Secret''"
| "selectorTypeString ResourceSelectorLiteral = ''Literal''"
| "selectorTypeString (ResourceSelectorOther s) = s"

record SecretSelector =
  ss_Namespace :: string
  ss_Name :: string
  ss_Key :: string

text \<open>
  \<^verbatim>\<open>ResourceRef\<close> embeds the union \<^verbatim>\<open>ResourceSelector\<close>; the selectors with one string
  field (\<^verbatim>\<open>FSSelector\<close>, \<^verbatim>\<open>EnvSelector\<close>, \<^verbatim>\<open>LiteralRef\<close>) are that string.
\<close>

record ResourceRef =
  rr_SelectorType :: ResourceSelectorType
  rr_FileSystem :: "string option"
  rr_Env :: "string option"
  rr_SecretRef :: "SecretSelector option"
  rr_LiteralRef :: "string option"

definition NewEnvResourceRef :: "string \<Rightarrow> ResourceRef" where
  "NewEnvResourceRef envVarName = \<lparr>rr_SelectorType = ResourceSelectorEnv, rr_FileSystem = None,
     rr_Env = Some envVarName, rr_SecretRef = None, rr_LiteralRef = None\<rparr>"

definition NewFileSystemResourceRef :: "string \<Rightarrow> ResourceRef" where
  "NewFileSystemResourceRef p = \<lparr>rr_SelectorType = ResourceSelectorFS, rr_FileSystem = Some p,
     rr_Env = None, rr_SecretRef = None, rr_LiteralRef = None\<rparr>"

definition NewSecretResourceRef :: "string \<Rightarrow> string \<Rightarrow> string \<Rightarrow> ResourceRef" where
  "NewSecretResourceRef namespace nm key = \<lparr>rr_SelectorType = ResourceSelectorSecret,
     rr_FileSystem = None, rr_Env = None,
     rr_SecretRef = Some \<lparr>ss_Namespace = namespace, ss_Name = nm, ss_Key = key\<rparr>,
     rr_LiteralRef = None\<rparr>"

definition NewLiteralResourceRef :: "string \<Rightarrow> ResourceRef" where
  "NewLiteralResourceRef v = \<lparr>rr_SelectorType = ResourceSelectorLiteral, rr_FileSystem = None,
     rr_Env = None, rr_SecretRef = None, rr_LiteralRef = Some v\<rparr>"

record ConfigMapRef =
  cmr_Name :: string
  cmr_Key :: string
  cmr_JSON :: "bool option"

record SSHAuth =
  ssh_SSHPrivateKey :: ResourceRef
  ssh_Password :: "ResourceRef option"

record BasicAuth =
  ba_UserName :: ResourceRef
  ba_Password :: ResourceRef

record StackGitHubAppAuth =
  sgh_AppID :: ResourceRef
  sgh_InstallationID :: ResourceRef
  sgh_PrivateKey :: ResourceRef

record GitAuthConfig =
  gac_PersonalAccessToken :: "ResourceRef option"
  gac_SSHAuth :: "SSHAuth option"
  gac_BasicAuth :: "BasicAuth option"
  gac_GitHubApp :: "StackGitHubAppAuth option"

record StackGitSource =
  sgs_ProjectRepo :: string
  sgs_GitAuthSecret :: string
  sgs_GitAuth :: "GitAuthConfig option"
  sgs_RepoDir :: string
  sgs_Commit :: string
  sgs_Branch :: string
  sgs_Shallow :: bool

record FluxSourceReference =
  fsr_APIVersion :: string
  fsr_Kind :: string
  fsr_Name :: string

record StackFluxSource =
  sfs_SourceRef :: FluxSourceReference
  sfs_Dir :: string

record ProgramReference =
  pr_Name :: string

record RequirementSpec =
  rq_SucceededWithinDuration :: "duration option"

record PrerequisiteRef =
  pq_Name :: string
  pq_Requirement :: "RequirementSpec option"

datatype WorkspaceReclaimPolicy = WorkspaceReclaimRetain | WorkspaceReclaimDelete | WorkspaceReclaimOther string

text \<open>
  The user's workspace template (a generated apply configuration) is opaque JSON but for the four
  source fields of its spec, which \<^verbatim>\<open>withoutSources\<close> removes; the update template is opaque.
\<close>

record WorkspaceSpecApply =
  wsa_Git :: "JSON option"
  wsa_Flux :: "JSON option"
  wsa_Local :: "JSON option"
  wsa_ProjectInfo :: "JSON option"
  wsa_Rest :: JSON

record WorkspaceApplyConfiguration =
  wac_Spec :: "WorkspaceSpecApply option"
  wac_Rest :: JSON

type_synonym UpdateApplyConfiguration = JSON

record StackSpec =
  sp_AccessTokenSecret :: string
  sp_Envs :: "string list"
  sp_EnvRefs :: "ResourceRef gomap"
  sp_SecretEnvs :: "string list"
  sp_Backend :: string
  sp_Stack :: string
  sp_Config :: "JSON gomap"
  sp_Secrets :: "string gomap"
  sp_ConfigRef :: "ConfigMapRef gomap"
  sp_SecretRefs :: "ResourceRef gomap"
  sp_SecretsProvider :: string
  sp_GitSource :: "StackGitSource option"
  sp_FluxSource :: "StackFluxSource option"
  sp_ProgramRef :: "ProgramReference option"
  sp_Targets :: "string list"
  sp_TargetDependents :: bool
  sp_Prerequisites :: "PrerequisiteRef list"
  sp_ContinueResyncOnCommitMatch :: bool
  sp_Refresh :: bool
  sp_ExpectNoRefreshChanges :: bool
  sp_DestroyOnFinalize :: bool
  sp_RunProgram :: bool
  sp_RetryOnUpdateConflict :: bool
  sp_UseLocalStackOnly :: bool
  sp_ResyncFrequencySeconds :: int
  sp_ServiceAccountName :: string
  sp_WorkspaceTemplate :: "WorkspaceApplyConfiguration option"
  sp_WorkspaceReclaimPolicy :: WorkspaceReclaimPolicy
  sp_Environment :: "string list"
  sp_UpdateTemplate :: "UpdateApplyConfiguration option"
  sp_RetryMaxBackoffDurationSeconds :: int
  sp_Preview :: bool

definition emptyStackSpec :: StackSpec where
  "emptyStackSpec = \<lparr>sp_AccessTokenSecret = [], sp_Envs = [], sp_EnvRefs = [], sp_SecretEnvs = [],
     sp_Backend = [], sp_Stack = [], sp_Config = [], sp_Secrets = [], sp_ConfigRef = [],
     sp_SecretRefs = [], sp_SecretsProvider = [], sp_GitSource = None, sp_FluxSource = None,
     sp_ProgramRef = None, sp_Targets = [], sp_TargetDependents = False, sp_Prerequisites = [],
     sp_ContinueResyncOnCommitMatch = False, sp_Refresh = False, sp_ExpectNoRefreshChanges = False,
     sp_DestroyOnFinalize = False, sp_RunProgram = False, sp_RetryOnUpdateConflict = False,
     sp_UseLocalStackOnly = False, sp_ResyncFrequencySeconds = 0, sp_ServiceAccountName = [],
     sp_WorkspaceTemplate = None, sp_WorkspaceReclaimPolicy = WorkspaceReclaimOther [],
     sp_Environment = [], sp_UpdateTemplate = None, sp_RetryMaxBackoffDurationSeconds = 0,
     sp_Preview = False\<rparr>"

section \<open>Status of a Stack\<close>

datatype StackUpdateStateMessage =
    SucceededStackStateMessage
  | FailedStackStateMessage
  | OtherStackStateMessage string

type_synonym StackOutputs = "JSON gomap"

record StackUpdateState =
  lu_Generation :: int
  lu_ReconcileRequest :: string
  lu_Name :: string
  lu_Type :: UpdateType
  lu_State :: StackUpdateStateMessage
  lu_Message :: string
  lu_LastAttemptedCommit :: string
  lu_LastSuccessfulCommit :: string
  lu_Permalink :: string
  lu_LastResyncTime :: time
  lu_Failures :: int

record CurrentStackUpdate =
  cu_Generation :: int
  cu_ReconcileRequest :: string
  cu_Name :: string
  cu_Commit :: string

record StackStatus =
  st_Outputs :: "StackOutputs option"
  st_LastUpdate :: "StackUpdateState option"
  st_ObservedGeneration :: int
  st_ObservedReconcileRequest :: string
  st_Conditions :: "Condition list"
  st_CurrentUpdate :: "CurrentStackUpdate option"
  st_ProjectInfo :: "ProjectInfo option"

definition emptyStackStatus :: StackStatus where
  "emptyStackStatus = \<lparr>st_Outputs = None, st_LastUpdate = None, st_ObservedGeneration = 0,
     st_ObservedReconcileRequest = [], st_Conditions = [], st_CurrentUpdate = None,
     st_ProjectInfo = None\<rparr>"

record Stack =
  s_Meta :: ObjectMeta
  s_Spec :: StackSpec
  s_Status :: StackStatus

section \<open>Condition types and reasons\<close>

definition ReadyCondition :: string where "ReadyCondition = ''Ready''"
definition StalledCondition :: string where "StalledCondition = ''Stalled''"
definition ReconcilingCondition :: string where "ReconcilingCondition = ''Reconciling''"

definition NotReadyInProgressReason :: string where "NotReadyInProgressReason = ''NotReadyInProgress''"
definition NotReadyStalledReason :: string where "NotReadyStalledReason = ''NotReadyStalled''"
definition ReconcilingProcessingReason :: string where "ReconcilingProcessingReason = ''StackProcessing''"
definition ReconcilingProcessingWorkspaceMessage :: string where
  "ReconcilingProcessingWorkspaceMessage = ''waiting for workspace readiness''"
definition ReconcilingProcessingUpdateMessage :: string where
  "ReconcilingProcessingUpdateMessage = ''stack is being processed''"
definition ReconcilingRetryReason :: string where "ReconcilingRetryReason = ''RetryingAfterFailure''"
definition ReconcilingPreviewFailedReason :: string where "ReconcilingPreviewFailedReason = ''PreviewFailed''"
definition ReconcilingPrerequisiteNotSatisfiedReason :: string where
  "ReconcilingPrerequisiteNotSatisfiedReason = ''PrerequisiteNotSatisfied''"
definition StalledSpecInvalidReason :: string where "StalledSpecInvalidReason = ''SpecInvalid''"
definition StalledSourceUnavailableReason :: string where "StalledSourceUnavailableReason = ''SourceUnavailable''"
definition StalledPulumiVersionTooLowReason :: string where
  "StalledPulumiVersionTooLowReason = ''PulumiVersionTooLow''"
definition StalledWorkspaceFailedReason :: string where "StalledWorkspaceFailedReason = ''WorkspaceFailed''"
definition StalledUpdateFailedReason :: string where "StalledUpdateFailedReason = ''UpdateFailed''"
definition StalledNamespaceTerminatingReason :: string where
  "StalledNamespaceTerminatingReason = ''NamespaceTerminating''"
definition ReadyCompletedReason :: string where "ReadyCompletedReason = ''ProcessingCompleted''"

lemmas stack_condition_types = ReadyCondition_def StalledCondition_def ReconcilingCondition_def

lemma stack_condition_types_distinct [simp]:
  "ReadyCondition \<noteq> StalledCondition" "StalledCondition \<noteq> ReadyCondition"
  "ReadyCondition \<noteq> ReconcilingCondition" "ReconcilingCondition \<noteq> ReadyCondition"
  "StalledCondition \<noteq> ReconcilingCondition" "ReconcilingCondition \<noteq> StalledCondition"
  by (simp_all add: stack_condition_types)

section \<open>The ready protocol\<close>

definition MarkReconcilingCondition :: "lib \<Rightarrow> string \<Rightarrow> string \<Rightarrow> StackStatus \<Rightarrow> StackStatus" where
  "MarkReconcilingCondition L reason msg s = (
     let cs = RemoveStatusCondition L (st_Conditions s) StalledCondition;
         cs = SetStatusCondition L cs (mkCondition ReadyCondition ConditionFalse
                NotReadyInProgressReason ''reconciliation is in progress'');
         cs = SetStatusCondition L cs (mkCondition ReconcilingCondition ConditionTrue reason msg)
     in s\<lparr>st_Conditions := cs\<rparr>)"

definition MarkStalledCondition :: "lib \<Rightarrow> string \<Rightarrow> string \<Rightarrow> StackStatus \<Rightarrow> StackStatus" where
  "MarkStalledCondition L reason msg s = (
     let cs = RemoveStatusCondition L (st_Conditions s) ReconcilingCondition;
         cs = SetStatusCondition L cs (mkCondition ReadyCondition ConditionFalse
                NotReadyStalledReason ''reconciliation is stalled'');
         cs = SetStatusCondition L cs (mkCondition StalledCondition ConditionTrue reason msg)
     in s\<lparr>st_Conditions := cs\<rparr>)"

definition MarkReadyCondition :: "lib \<Rightarrow> StackStatus \<Rightarrow> StackStatus" where
  "MarkReadyCondition L s = (
     let cs = RemoveStatusCondition L (st_Conditions s) ReconcilingCondition;
         cs = RemoveStatusCondition L cs StalledCondition;
         cs = SetStatusCondition L cs (mkCondition ReadyCondition ConditionTrue
                ReadyCompletedReason ''the stack has been processed and is up to date'')
     in s\<lparr>st_Conditions := cs\<rparr>)"

text \<open>
  Each operation writes the conditions and nothing else. \<^verbatim>\<open>readyState\<close> reads off the three
  conditions what a client of the protocol sees; \<^verbatim>\<open>protocolOk\<close> is the protocol's promise:
  exactly one of Ready, Stalled and Reconciling is true, and Ready is present.
\<close>

definition readyState :: "lib \<Rightarrow> StackStatus \<Rightarrow> bool \<times> bool \<times> bool" where
  "readyState L s = (IsStatusConditionTrue L (st_Conditions s) ReadyCondition,
     IsStatusConditionTrue L (st_Conditions s) StalledCondition,
     IsStatusConditionTrue L (st_Conditions s) ReconcilingCondition)"

definition protocolOk :: "lib \<Rightarrow> StackStatus \<Rightarrow> bool" where
  "protocolOk L s \<longleftrightarrow>
     readyState L s \<in> {(True, False, False), (False, True, False), (False, False, True)}
     \<and> FindStatusCondition L (st_Conditions s) ReadyCondition \<noteq> None"

lemma mark_frame [simp]:
  "MarkReconcilingCondition L r m s\<lparr>st_Conditions := cs\<rparr> = s\<lparr>st_Conditions := cs\<rparr>"
  "MarkStalledCondition L r m s\<lparr>st_Conditions := cs\<rparr> = s\<lparr>st_Conditions := cs\<rparr>"
  "MarkReadyCondition L s\<lparr>st_Conditions := cs\<rparr> = s\<lparr>st_Conditions := cs\<rparr>"
  by (simp_all add: MarkReconcilingCondition_def MarkStalledCondition_def MarkReadyCondition_def Let_def)

lemma mark_fields [simp]:
  "st_LastUpdate (MarkReconcilingCondition L r m s) = st_LastUpdate s"
  "st_LastUpdate (MarkStalledCondition L r m s) = st_LastUpdate s"
  "st_LastUpdate (MarkReadyCondition L s) = st_LastUpdate s"
  "st_CurrentUpdate (MarkReconcilingCondition L r m s) = st_CurrentUpdate s"
  "st_CurrentUpdate (MarkStalledCondition L r m s) = st_CurrentUpdate s"
  "st_CurrentUpdate (MarkReadyCondition L s) = st_CurrentUpdate s"
  "st_Outputs (MarkReconcilingCondition L r m s) = st_Outputs s"
  "st_Outputs (MarkStalledCondition L r m s) = st_Outputs s"
  "st_Outputs (MarkReadyCondition L s) = st_Outputs s"
  "st_ProjectInfo (MarkReconcilingCondition L r m s) = st_ProjectInfo s"
  "st_ProjectInfo (MarkStalledCondition L r m s) = st_ProjectInfo s"
  "st_ProjectInfo (MarkReadyCondition L s) = st_ProjectInfo s"
  "st_ObservedGeneration (MarkReconcilingCondition L r m s) = st_ObservedGeneration s"
  "st_ObservedGeneration (MarkStalledCondition L r m s) = st_ObservedGeneration s"
  "st_ObservedGeneration (MarkReadyCondition L s) = st_ObservedGeneration s"
  "st_ObservedReconcileRequest (MarkReconcilingCondition L r m s) = st_ObservedReconcileRequest s"
  "st_ObservedReconcileRequest (MarkStalledCondition L r m s) = st_ObservedReconcileRequest s"
  "st_ObservedReconcileRequest (MarkReadyCondition L s) = st_ObservedReconcileRequest s"
  by (simp_all add: MarkReconcilingCondition_def MarkStalledCondition_def MarkReadyCondition_def Let_def)

context condition_api
begin

lemma reconciling_state [ready_protocol]: "readyState L (MarkReconcilingCondition L r m s) = (False, False, True)"
  by (simp add: readyState_def MarkReconcilingCondition_def Let_def true_set true_remove)

lemma stalled_state [ready_protocol]: "readyState L (MarkStalledCondition L r m s) = (False, True, False)"
  by (simp add: readyState_def MarkStalledCondition_def Let_def true_set true_remove)

lemma ready_state [ready_protocol]: "readyState L (MarkReadyCondition L s) = (True, False, False)"
  by (simp add: readyState_def MarkReadyCondition_def Let_def true_set true_remove)

lemma find_set_some: "FindStatusCondition L (SetStatusCondition L cs c) (c_Type c) \<noteq> None"
  using find_set_same [of cs c] by auto

lemma ready_present [ready_protocol]:
  "FindStatusCondition L (st_Conditions (MarkReconcilingCondition L r m s)) ReadyCondition \<noteq> None"
  "FindStatusCondition L (st_Conditions (MarkStalledCondition L r m s)) ReadyCondition \<noteq> None"
  "FindStatusCondition L (st_Conditions (MarkReadyCondition L s)) ReadyCondition \<noteq> None"
  using find_set_some [of _ "mkCondition ReadyCondition st r m" for st r m]
  by (simp_all add: MarkReconcilingCondition_def MarkStalledCondition_def MarkReadyCondition_def
        Let_def find_set_other)

lemma protocol_reconciling [ready_protocol]: "protocolOk L (MarkReconcilingCondition L r m s)"
  and protocol_stalled [ready_protocol]: "protocolOk L (MarkStalledCondition L r m s)"
  and protocol_ready [ready_protocol]: "protocolOk L (MarkReadyCondition L s)"
  using ready_present by (simp_all add: protocolOk_def reconciling_state stalled_state ready_state)

lemma reconciling_reason:
  "map_option c_Reason (FindStatusCondition L (st_Conditions (MarkReconcilingCondition L r m s))
     ReconcilingCondition) = Some r"
  using reason_set_same [of _ "mkCondition ReconcilingCondition ConditionTrue r m"]
  by (simp add: MarkReconcilingCondition_def Let_def)

lemma stalled_reason:
  "map_option c_Reason (FindStatusCondition L (st_Conditions (MarkStalledCondition L r m s))
     StalledCondition) = Some r"
  using reason_set_same [of _ "mkCondition StalledCondition ConditionTrue r m"]
  by (simp add: MarkStalledCondition_def Let_def)

end

end
