(* ===== verification/StackPredicates.thy ===== *)
theory StackPredicates
  imports StackTypes
begin

text \<open>
  The event side of the stack controller (operator/internal/controller/pulumi/stack_controller.go):
  the readiness tests on stacks, workspaces and updates, the watch predicates built on them, the
  filter on the primary watch, and the check of a prerequisite. A pointer to an object is an
  option; an update event carries the old and the new object.
\<close>

section \<open>Readiness tests\<close>

definition IsZeroTime :: "time option \<Rightarrow> bool" where
  "IsZeroTime t = (case t of None \<Rightarrow> True | Some x \<Rightarrow> x = 0)"

definition getReconcileRequestAnnotation :: "ObjectMeta \<Rightarrow> string \<times> bool" where
  "getReconcileRequestAnnotation m =
     (case map_of (om_Annotations m) ReconcileRequestAnnotation of
        Some r \<Rightarrow> (r, True) | None \<Rightarrow> ([], False))"

abbreviation syncRequestOf :: "ObjectMeta \<Rightarrow> string" where
  "syncRequestOf m \<equiv> fst (getReconcileRequestAnnotation m)"

definition isStackReady :: "lib \<Rightarrow> Stack option \<Rightarrow> bool" where
  "isStackReady L so = (case so of None \<Rightarrow> False | Some s \<Rightarrow>
     if om_Generation (s_Meta s) \<noteq> st_ObservedGeneration (s_Status s) then False
     else if syncRequestOf (s_Meta s) \<noteq> st_ObservedReconcileRequest (s_Status s) then False
     else IsStatusConditionTrue L (st_Conditions (s_Status s)) ReadyCondition)"

definition isWorkspaceReady :: "lib \<Rightarrow> Workspace option \<Rightarrow> bool" where
  "isWorkspaceReady L wo = (case wo of None \<Rightarrow> False | Some w \<Rightarrow>
     if \<not> IsZeroTime (om_DeletionTimestamp (w_Meta w))
        \<or> om_Generation (w_Meta w) \<noteq> wst_ObservedGeneration (w_Status w) then False
     else IsStatusConditionTrue L (wst_Conditions (w_Status w)) WorkspaceReady)"

definition isWorkspaceStalled :: "lib \<Rightarrow> Workspace option \<Rightarrow> bool" where
  "isWorkspaceStalled L wo = (case wo of None \<Rightarrow> False | Some w \<Rightarrow>
     IsStatusConditionTrue L (wst_Conditions (w_Status w)) WorkspaceStalled)"

definition isUpdateComplete :: "lib \<Rightarrow> Update option \<Rightarrow> bool" where
  "isUpdateComplete L uo = (case uo of None \<Rightarrow> False | Some u \<Rightarrow>
     if om_Generation (u_Meta u) \<noteq> ust_ObservedGeneration (u_Status u) then False
     else IsStatusConditionTrue L (ust_Conditions (u_Status u)) UpdateConditionTypeComplete)"

section \<open>Watch predicates\<close>

definition stackReadyPredicate_Create :: "lib \<Rightarrow> Stack \<Rightarrow> bool" where
  "stackReadyPredicate_Create L s = isStackReady L (Some s)"

definition stackReadyPredicate_Update :: "lib \<Rightarrow> Stack option \<Rightarrow> Stack option \<Rightarrow> bool" where
  "stackReadyPredicate_Update L old new =
     (if old = None \<or> new = None then False else \<not> isStackReady L old \<and> isStackReady L new)"

definition workspaceReadyPredicate_Create :: "lib \<Rightarrow> Workspace \<Rightarrow> bool" where
  "workspaceReadyPredicate_Create L w = isWorkspaceReady L (Some w)"

definition workspaceReadyPredicate_Update :: "lib \<Rightarrow> Workspace option \<Rightarrow> Workspace option \<Rightarrow> bool" where
  "workspaceReadyPredicate_Update L old new =
     (if old = None \<or> new = None then False
      else if \<not> isWorkspaceReady L old \<and> isWorkspaceReady L new then True
      else if \<not> isWorkspaceStalled L old \<and> isWorkspaceStalled L new then True
      else False)"

definition updateCompletePredicate_Create :: "lib \<Rightarrow> Update \<Rightarrow> bool" where
  "updateCompletePredicate_Create L u = isUpdateComplete L (Some u)"

definition updateCompletePredicate_Update :: "lib \<Rightarrow> Update option \<Rightarrow> Update option \<Rightarrow> bool" where
  "updateCompletePredicate_Update L old new =
     (if old = None \<or> new = None then False else \<not> isUpdateComplete L old \<and> isUpdateComplete L new)"

text \<open>
  The \<^verbatim>\<open>Delete\<close> and \<^verbatim>\<open>Generic\<close> methods of the three predicates are constant: a deletion
  is always let through, a generic event never.
\<close>

definition readyPredicate_Delete :: bool where "readyPredicate_Delete = True"
definition readyPredicate_Generic :: bool where "readyPredicate_Generic = False"

section \<open>The filter on the primary watch\<close>

definition PulumiFinalizer :: string where "PulumiFinalizer = ''finalizer.stack.pulumi.com''"

definition ReconcileRequestedPredicate_Update :: "ObjectMeta option \<Rightarrow> ObjectMeta option \<Rightarrow> bool" where
  "ReconcileRequestedPredicate_Update old new =
     (case (old, new) of (Some o1, Some o2) \<Rightarrow> syncRequestOf o2 \<noteq> syncRequestOf o1 | _ \<Rightarrow> False)"

definition finalizerAddedPredicate_Update :: "lib \<Rightarrow> ObjectMeta option \<Rightarrow> ObjectMeta option \<Rightarrow> bool" where
  "finalizerAddedPredicate_Update L old new =
     (case (old, new) of
        (Some o1, Some o2) \<Rightarrow> \<not> ContainsFinalizer L (om_Finalizers o1) PulumiFinalizer
                              \<and> ContainsFinalizer L (om_Finalizers o2) PulumiFinalizer
      | _ \<Rightarrow> False)"

text \<open>
  The composition given to the builder,
  \<^verbatim>\<open>Or(And(GenerationChanged, Not(finalizerAdded)), ReconcileRequested)\<close>; the generation
  predicate is controller-runtime's and an argument.
\<close>

definition stackUpdateFilter ::
  "lib \<Rightarrow> (ObjectMeta option \<Rightarrow> ObjectMeta option \<Rightarrow> bool) \<Rightarrow> ObjectMeta option \<Rightarrow> ObjectMeta option \<Rightarrow> bool" where
  "stackUpdateFilter L generationChanged old new =
     ((generationChanged old new \<and> \<not> finalizerAddedPredicate_Update L old new)
      \<or> ReconcileRequestedPredicate_Update old new)"

section \<open>Indexes and requeue of dependents\<close>

text \<open>
  The index functions registered with the manager, and the requests made for an event of an
  object: the stacks of its namespace whose index holds its name. The list call is the API
  server's, here the list of stacks it returns.
\<close>

definition prerequisiteIndex :: "Stack \<Rightarrow> string list" where
  "prerequisiteIndex s = map pq_Name (sp_Prerequisites (s_Spec s))"

definition programRefIndex :: "Stack \<Rightarrow> string list" where
  "programRefIndex s = (case sp_ProgramRef (s_Spec s) of Some p \<Rightarrow> [pr_Name p] | None \<Rightarrow> [])"

text \<open>
  \<^verbatim>\<open>enqueueDependents\<close> and \<^verbatim>\<open>enqueueStacksForSourceFunc\<close>: list by namespace and index
  value; an error is only logged.
\<close>

definition enqueueByIndex ::
  "(string \<Rightarrow> string \<Rightarrow> goerr + Stack list) \<Rightarrow> (ObjectMeta \<Rightarrow> string) \<Rightarrow> ObjectMeta
    \<Rightarrow> (string \<times> string) list" where
  "enqueueByIndex listStacks getFieldKey src =
     (case listStacks (om_Namespace src) (getFieldKey src) of
        Inl e \<Rightarrow> []
      | Inr items \<Rightarrow> map (\<lambda>s. (om_Namespace (s_Meta s), om_Name (s_Meta s))) items)"

section \<open>Prerequisites\<close>

definition errRequirementNotRun :: goerr where
  "errRequirementNotRun = Errorf ''prerequisite has not run to completion''"

definition errRequirementFailed :: goerr where
  "errRequirementFailed = Errorf ''prerequisite failed''"

definition isRequirementSatisfied :: "time \<Rightarrow> RequirementSpec option \<Rightarrow> Stack \<Rightarrow> goerr option" where
  "isRequirementSatisfied now req stack =
     (case st_LastUpdate (s_Status stack) of
        None \<Rightarrow> Some errRequirementNotRun
      | Some lu \<Rightarrow>
          (if lu_Generation lu \<noteq> om_Generation (s_Meta stack)
              \<or> lu_ReconcileRequest lu \<noteq> syncRequestOf (s_Meta stack)
           then Some errRequirementNotRun
           else if lu_State lu \<noteq> SucceededStackStateMessage then Some errRequirementFailed
           else case Option.bind req rq_SucceededWithinDuration of
                  None \<Rightarrow> None
                | Some within \<Rightarrow>
                    (let elapsed = time_sub now (lu_LastResyncTime lu)
                     in if elapsed > within then Some (OutOfDate (lu_Name lu) elapsed) else None)))"

section \<open>No missed wake-up\<close>

text \<open>
  What the stack controller relies on in a watch predicate: an object that is ready when first
  seen, or that becomes ready, lets an event through. From that alone, whatever versions of the
  object the watch delivers, a version that is ready at the end was announced by an event at or
  after the moment it became ready.
\<close>

fun watchEvents :: "('o \<Rightarrow> bool) \<Rightarrow> ('o option \<Rightarrow> 'o option \<Rightarrow> bool) \<Rightarrow> 'o list \<Rightarrow> bool list" where
  "watchEvents onCreate onUpdate [] = []"
| "watchEvents onCreate onUpdate (v # vs) =
     onCreate v # map (\<lambda>(a, b). onUpdate (Some a) (Some b)) (zip (v # vs) vs)"

lemma length_watchEvents [simp]: "length (watchEvents onCreate onUpdate vs) = length vs"
  by (cases vs) simp_all

lemma watchEvents_0: "vs \<noteq> [] \<Longrightarrow> watchEvents onCreate onUpdate vs ! 0 = onCreate (vs ! 0)"
  by (cases vs) simp_all

lemma watchEvents_Suc:
  "Suc i < length vs \<Longrightarrow> watchEvents onCreate onUpdate vs ! Suc i = onUpdate (Some (vs ! i)) (Some (vs ! Suc i))"
  by (cases vs) simp_all

locale level_watch =
  fixes ready :: "'o \<Rightarrow> bool"
    and onCreate :: "'o \<Rightarrow> bool"
    and onUpdate :: "'o option \<Rightarrow> 'o option \<Rightarrow> bool"
  assumes create_ready: "ready v \<Longrightarrow> onCreate v"
    and update_rising: "\<lbrakk>\<not> ready v; ready w\<rbrakk> \<Longrightarrow> onUpdate (Some v) (Some w)"
begin

lemma rising_event:
  assumes "n < length vs" and "ready (vs ! n)"
  shows "\<exists>i\<le>n. watchEvents onCreate onUpdate vs ! i \<and> (\<forall>j. i \<le> j \<and> j \<le> n \<longrightarrow> ready (vs ! j))"
  using assms
proof (induction n)
  case 0
  then have "vs \<noteq> []" by auto
  with 0 show ?case using watchEvents_0 [of vs onCreate onUpdate] by (auto intro: create_ready)
next
  case (Suc n)
  show ?case
  proof (cases "ready (vs ! n)")
    case True
    then obtain i where "i \<le> n" "watchEvents onCreate onUpdate vs ! i" "\<forall>j. i \<le> j \<and> j \<le> n \<longrightarrow> ready (vs ! j)"
      using Suc by auto
    then show ?thesis using Suc.prems(2) by (intro exI [of _ i]) (auto simp: le_Suc_eq)
  next
    case False
    then have "watchEvents onCreate onUpdate vs ! Suc n"
      using Suc.prems by (simp add: watchEvents_Suc update_rising)
    then show ?thesis using Suc.prems(2) by (intro exI [of _ "Suc n"]) (auto simp: le_antisym)
  qed
qed

lemma no_missed_wakeup:
  assumes "vs \<noteq> []" and "ready (last vs)"
  shows "\<exists>i<length vs. watchEvents onCreate onUpdate vs ! i \<and> (\<forall>j. i \<le> j \<and> j < length vs \<longrightarrow> ready (vs ! j))"
proof -
  from assms obtain i where i: "i \<le> length vs - 1" "watchEvents onCreate onUpdate vs ! i"
    "\<forall>j. i \<le> j \<and> j \<le> length vs - 1 \<longrightarrow> ready (vs ! j)"
    using rising_event [of "length vs - 1" vs] by (auto simp: last_conv_nth)
  have "i < length vs" using i(1) assms(1) by (cases vs) auto
  moreover have "\<forall>j. i \<le> j \<and> j < length vs \<longrightarrow> ready (vs ! j)"
    using i(3) assms(1) by (cases vs) (auto simp: less_Suc_eq_le)
  ultimately show ?thesis using i(2) by auto
qed

end

text \<open>A predicate that fires on the rising edge only also fires at most once per ready stretch.\<close>

locale edge_trigger = level_watch +
  assumes update_only_rising: "onUpdate (Some v) (Some w) \<Longrightarrow> \<not> ready v \<and> ready w"
    and update_nil: "\<not> onUpdate None x" "\<not> onUpdate x None"
begin

lemma no_event_while_ready:
  assumes "Suc i < length vs" and "ready (vs ! i)"
  shows "\<not> watchEvents onCreate onUpdate vs ! Suc i"
  using assms update_only_rising by (auto simp: watchEvents_Suc)

end

interpretation stackWatch: edge_trigger
  "\<lambda>s. isStackReady L (Some s)" "stackReadyPredicate_Create L" "stackReadyPredicate_Update L"
  for L
  by unfold_locales (auto simp: stackReadyPredicate_Create_def stackReadyPredicate_Update_def)

interpretation updateWatch: edge_trigger
  "\<lambda>u. isUpdateComplete L (Some u)" "updateCompletePredicate_Create L" "updateCompletePredicate_Update L"
  for L
  by unfold_locales (auto simp: updateCompletePredicate_Create_def updateCompletePredicate_Update_def)

interpretation workspaceWatch: level_watch
  "\<lambda>w. isWorkspaceReady L (Some w)" "workspaceReadyPredicate_Create L" "workspaceReadyPredicate_Update L"
  for L
  by unfold_locales (auto simp: workspaceReadyPredicate_Create_def workspaceReadyPredicate_Update_def)

end
