(* ===== verification/StackSync.thy ===== *)
theory StackSync
  imports StackPredicates
begin

text \<open>
  The decisions of the stack controller that need no API call
  (operator/internal/controller/pulumi/stack_controller.go): whether a stack is in sync, how long
  to wait before a retry or a resync, and how the outcome of an update is written to the status.
  Clock readings are arguments.
\<close>

section \<open>Events\<close>

datatype StackEventType = EventTypeNormal | EventTypeWarning

datatype StackEventReason =
    StackConfigInvalid
  | StackInitializationFailure
  | StackGitAuthFailure
  | StackUpdateFailure
  | StackUpdateConflictDetected
  | StackOutputRetrievalFailure
  | StackUpdateDetected
  | StackNotFound
  | StackUpdateSuccessful
  | StackDestroySuccessful
  | WorkspaceDeleted

record StackEvent =
  se_eventType :: StackEventType
  se_reason :: StackEventReason

definition StackConfigInvalidEvent :: StackEvent where
  "StackConfigInvalidEvent = \<lparr>se_eventType = EventTypeWarning, se_reason = StackConfigInvalid\<rparr>"

definition StackUpdateFailureEvent :: StackEvent where
  "StackUpdateFailureEvent = \<lparr>se_eventType = EventTypeWarning, se_reason = StackUpdateFailure\<rparr>"

definition StackUpdateDetectedEvent :: StackEvent where
  "StackUpdateDetectedEvent = \<lparr>se_eventType = EventTypeNormal, se_reason = StackUpdateDetected\<rparr>"

definition StackUpdateSuccessfulEvent :: StackEvent where
  "StackUpdateSuccessfulEvent = \<lparr>se_eventType = EventTypeNormal, se_reason = StackUpdateSuccessful\<rparr>"

definition WorkspaceDeletedEvent :: StackEvent where
  "WorkspaceDeletedEvent = \<lparr>se_eventType = EventTypeNormal, se_reason = WorkspaceDeleted\<rparr>"

text \<open>An emitted event: what it is, its message format, and the arguments of the format.\<close>

type_synonym emitted = "StackEvent \<times> string \<times> string list"

section \<open>Waiting times\<close>

definition maxUpdateFailures :: int where "maxUpdateFailures = 3"

text \<open>
  The loop \<^verbatim>\<open>for f := Failures; f > 0 && backoff.Steps > 0; f--\<close>, whose body steps the backoff.
\<close>

function cooldown_loop :: "lib \<Rightarrow> int \<Rightarrow> Backoff \<Rightarrow> Backoff" where
  "cooldown_loop L f b =
     (if f > 0 \<and> bo_Steps b > 0 then cooldown_loop L (f - 1) (fst (BackoffStep L b)) else b)"
  by pat_completeness auto
termination
  by (relation "measure (\<lambda>(L, f, b). nat f)") auto

declare cooldown_loop.simps [simp del]

definition retryBackoff :: "StackSpec \<Rightarrow> Backoff" where
  "retryBackoff spec =
     (let b = \<lparr>bo_Duration = 10 * Second, bo_Factor = 3, bo_Jitter = 0, bo_Steps = maxDuration,
               bo_Cap = 24 * 3600 * Second\<rparr>
      in if sp_RetryMaxBackoffDurationSeconds spec > 0
         then b\<lparr>bo_Cap := i64 (sp_RetryMaxBackoffDurationSeconds spec * Second)\<rparr> else b)"

definition cooldown :: "lib \<Rightarrow> Stack \<Rightarrow> duration" where
  "cooldown L stack =
     (case st_LastUpdate (s_Status stack) of
        None \<Rightarrow> 0
      | Some lu \<Rightarrow>
          (if lu_State lu = FailedStackStateMessage
           then snd (BackoffStep L (cooldown_loop L (lu_Failures lu) (retryBackoff (s_Spec stack))))
           else 0))"

text \<open>
  \<^verbatim>\<open>resyncFreq.Seconds() < 60\<close> compares whole nanoseconds: the division by
  \<^verbatim>\<open>time.Second\<close> is exact enough to keep the comparison with an integer number of seconds.
\<close>

definition resyncFreq :: "Stack \<Rightarrow> duration" where
  "resyncFreq stack =
     (let f = i64 (sp_ResyncFrequencySeconds (s_Spec stack) * Second)
      in if f < 60 * Second then 60 * Second else f)"

section \<open>Is the stack in sync?\<close>

text \<open>
  The result is the pair of the code; every unsynced branch first emits its message as an event.
\<close>

definition notSynced :: "string \<Rightarrow> (bool \<times> string) \<times> emitted list" where
  "notSynced msg = ((False, msg), [(StackUpdateDetectedEvent, msg, [])])"

definition isSynced :: "lib \<Rightarrow> time \<Rightarrow> Stack \<Rightarrow> string \<Rightarrow> (bool \<times> string) \<times> emitted list" where
  "isSynced L now stack currentCommit =
     (case st_LastUpdate (s_Status stack) of
        None \<Rightarrow> notSynced ''Initial stack update''
      | Some lu \<Rightarrow>
          (if lu_Generation lu \<noteq> om_Generation (s_Meta stack)
           then notSynced (if om_DeletionTimestamp (s_Meta stack) \<noteq> None then ''Stack marked for deletion''
                           else ''New stack generation: '' @ showInt (om_Generation (s_Meta stack)))
           else if lu_ReconcileRequest lu \<noteq> syncRequestOf (s_Meta stack)
           then notSynced (''Sync request: '' @ goQuote (syncRequestOf (s_Meta stack)))
           else if lu_State lu = SucceededStackStateMessage
           then (if om_DeletionTimestamp (s_Meta stack) \<noteq> None
                 then (if lu_Type lu = DestroyType then ((True, []), [])
                       else notSynced ''Stack marked for deletion'')
                 else if lu_LastSuccessfulCommit lu \<noteq> currentCommit
                 then notSynced (''New commit detected: '' @ goQuote currentCommit)
                 else if \<not> sp_ContinueResyncOnCommitMatch (s_Spec stack) then ((True, []), [])
                 else if time_sub now (lu_LastResyncTime lu) \<ge> resyncFreq stack
                 then notSynced (''Resync time elapsed: '' @ DurationString L (resyncFreq stack))
                 else ((True, []), []))
           else if lu_State lu = FailedStackStateMessage
           then (if lu_LastAttemptedCommit lu \<noteq> currentCommit
                 then notSynced (''New commit detected: '' @ goQuote currentCommit)
                 else if lu_Failures lu \<ge> maxUpdateFailures then ((True, []), [])
                 else if time_sub now (lu_LastResyncTime lu) \<ge> cooldown L stack
                 then notSynced (''Backoff time elapsed: '' @ DurationString L (cooldown L stack))
                 else ((True, []), []))
           else ((True, []), [])))"

abbreviation synced :: "lib \<Rightarrow> time \<Rightarrow> Stack \<Rightarrow> string \<Rightarrow> bool" where
  "synced L now stack currentCommit \<equiv> fst (fst (isSynced L now stack currentCommit))"

section \<open>The outcome of an update\<close>

text \<open>
  \<^verbatim>\<open>markStackResult\<close> dereferences \<^verbatim>\<open>LastUpdate\<close>; it is only called when the stack is
  synced, which needs one. The missing value is a panic.
\<close>

definition markStackResult :: "lib \<Rightarrow> StackStatus \<Rightarrow> goerr + StackStatus" where
  "markStackResult L status =
     (case st_LastUpdate status of
        None \<Rightarrow> Inl (Panic ''nil dereference: status.LastUpdate'')
      | Some lu \<Rightarrow>
          (if lu_State lu = SucceededStackStateMessage then Inr (MarkReadyCondition L status)
           else if lu_Failures lu \<ge> maxUpdateFailures
           then Inr (MarkStalledCondition L StalledUpdateFailedReason
                  (updateTypeString (lu_Type lu) @ '' failed '' @ showInt (lu_Failures lu)
                   @ '' times; not retrying until the spec or source changes'') status)
           else if lu_Type lu = PreviewType
           then Inr (MarkReconcilingCondition L ReconcilingPreviewFailedReason
                  (''preview failed ('' @ showInt (lu_Failures lu) @ '' attempt(s))'') status)
           else Inr (MarkReconcilingCondition L ReconcilingRetryReason
                  (showInt (lu_Failures lu) @ '' update failure(s)'') status)))"

definition markStackFailed ::
  "time \<Rightarrow> Stack \<Rightarrow> CurrentStackUpdate \<Rightarrow> Update \<Rightarrow> Stack \<times> emitted list" where
  "markStackFailed now inst current update = (
     let prev = st_LastUpdate (s_Status inst);
         new = \<lparr>lu_Generation = cu_Generation current,
                lu_ReconcileRequest = cu_ReconcileRequest current,
                lu_Name = om_Name (u_Meta update),
                lu_Type = us_Type (u_Spec update),
                lu_State = FailedStackStateMessage,
                lu_Message = ust_Message (u_Status update),
                lu_LastAttemptedCommit = cu_Commit current,
                lu_LastSuccessfulCommit = [],
                lu_Permalink = ust_Permalink (u_Status update),
                lu_LastResyncTime = now,
                lu_Failures = 0\<rparr>;
         new = (case prev of None \<Rightarrow> new
                | Some l \<Rightarrow> new\<lparr>lu_LastSuccessfulCommit := lu_LastSuccessfulCommit l\<rparr>);
         new = (case prev of None \<Rightarrow> new
                | Some l \<Rightarrow>
                    (if lu_Generation l = cu_Generation current
                        \<and> lu_ReconcileRequest l = cu_ReconcileRequest current
                     then new\<lparr>lu_Failures := i64 (lu_Failures l + 1)\<rparr> else new))
     in (inst\<lparr>s_Status := (s_Status inst)\<lparr>st_LastUpdate := Some new\<rparr>\<rparr>,
         [(StackUpdateFailureEvent, ''Failed to update stack: %s'', [ust_Message (u_Status update)])]))"

definition SecretOutputsAnnotation :: string where "SecretOutputsAnnotation = ''pulumi.com/secrets''"

definition secretMask :: JSON where
  "secretMask = [char_of (34::nat)] @ ''[secret]'' @ [char_of (34::nat)]"

text \<open>An output secret: its annotations and its data.\<close>

record OutputSecret =
  os_Annotations :: "string gomap"
  os_Data :: "JSON gomap"

definition emptySecret :: OutputSecret where
  "emptySecret = \<lparr>os_Annotations = [], os_Data = []\<rparr>"

text \<open>
  The part of \<^verbatim>\<open>markStackSucceeded\<close> that turns the output secret into
  \<^verbatim>\<open>.status.outputs\<close>: keys in order, those named by the annotation masked. A secret that
  is not found is the zero value (the code ignores that error); other errors end the reconcile.
\<close>

definition stackOutputs :: "lib \<Rightarrow> OutputSecret \<Rightarrow> goerr + StackOutputs" where
  "stackOutputs L secret =
     bindE (case map_of (os_Annotations secret) SecretOutputsAnnotation of
              None \<Rightarrow> Inr []
            | Some annotation \<Rightarrow>
                mapErr (Wrapf ''unmarshaling output mask'') (JsonUnmarshalStrings L annotation))
       (\<lambda>secrets. Inr (map (\<lambda>key. (key, if List.member secrets key then secretMask
                                         else the (map_of (os_Data secret) key)))
                           (sortedKeys (os_Data secret))))"

definition applyProjectInfoToStack :: "Stack \<Rightarrow> Update \<Rightarrow> Stack" where
  "applyProjectInfoToStack stack update =
     (case ust_ProjectInfo (u_Status update) of
        None \<Rightarrow> stack
      | Some info \<Rightarrow> stack\<lparr>s_Status := (s_Status stack)
          \<lparr>st_ProjectInfo := Some \<lparr>pi_Name = pi_Name info, pi_Runtime = pi_Runtime info\<rparr>\<rparr>\<rparr>)"

definition markStackSucceeded ::
  "lib \<Rightarrow> (string \<Rightarrow> string \<Rightarrow> goerr + OutputSecret) \<Rightarrow> time \<Rightarrow> Stack \<Rightarrow> CurrentStackUpdate \<Rightarrow> Update
    \<Rightarrow> goerr + (Stack \<times> emitted list)" where
  "markStackSucceeded L getSecret now inst current update =
     bindE (if ust_Outputs (u_Status update) = [] then Inr inst
            else bindE (case getSecret (om_Namespace (u_Meta update)) (ust_Outputs (u_Status update)) of
                          Inr secret \<Rightarrow> Inr secret
                        | Inl e \<Rightarrow> if IsNotFound e then Inr emptySecret
                                   else Inl (Wrapf ''getting output secret'' e))
                   (\<lambda>secret. bindE (stackOutputs L secret)
                     (\<lambda>outputs. Inr (inst\<lparr>s_Status := (s_Status inst)\<lparr>st_Outputs := Some outputs\<rparr>\<rparr>))))
       (\<lambda>inst.
          let new = \<lparr>lu_Generation = cu_Generation current,
                     lu_ReconcileRequest = cu_ReconcileRequest current,
                     lu_Name = om_Name (u_Meta update),
                     lu_Type = us_Type (u_Spec update),
                     lu_State = SucceededStackStateMessage,
                     lu_Message = [],
                     lu_LastAttemptedCommit = cu_Commit current,
                     lu_LastSuccessfulCommit = cu_Commit current,
                     lu_Permalink = ust_Permalink (u_Status update),
                     lu_LastResyncTime = now,
                     lu_Failures = 0\<rparr>;
              inst = inst\<lparr>s_Status := (s_Status inst)\<lparr>st_LastUpdate := Some new\<rparr>\<rparr>
          in Inr (applyProjectInfoToStack inst update,
                  [(StackUpdateSuccessfulEvent, ''Successfully updated stack'', [])]))"

section \<open>Destroy without sources\<close>

definition shouldUseProjectInfoWorkspaceForDestroy :: "Stack \<Rightarrow> bool" where
  "shouldUseProjectInfoWorkspaceForDestroy stack \<longleftrightarrow>
     om_DeletionTimestamp (s_Meta stack) \<noteq> None
     \<and> sp_DestroyOnFinalize (s_Spec stack)
     \<and> \<not> sp_Preview (s_Spec stack)
     \<and> \<not> sp_RunProgram (s_Spec stack)
     \<and> st_ProjectInfo (s_Status stack) \<noteq> None"

definition withoutSources :: "WorkspaceApplyConfiguration \<Rightarrow> WorkspaceApplyConfiguration" where
  "withoutSources template =
     (case wac_Spec template of
        None \<Rightarrow> template
      | Some spec \<Rightarrow> template\<lparr>wac_Spec := Some (spec\<lparr>wsa_Git := None, wsa_Flux := None,
                                  wsa_Local := None, wsa_ProjectInfo := None\<rparr>)\<rparr>)"

definition setProjectInfoSource :: "WorkspaceSpec \<Rightarrow> ProjectInfo \<Rightarrow> WorkspaceSpec" where
  "setProjectInfoSource ws info =
     ws\<lparr>ws_ProjectInfo := Some \<lparr>pis_Name = pi_Name info, pis_Runtime = pi_Runtime info\<rparr>,
        ws_Git := None, ws_Flux := None, ws_Local := None\<rparr>"

section \<open>Lemmas on the waiting times\<close>

lemma retryBackoff_simps [simp]:
  "bo_Duration (retryBackoff spec) = 10 * Second"
  "bo_Factor (retryBackoff spec) = 3"
  "bo_Jitter (retryBackoff spec) = 0"
  "bo_Steps (retryBackoff spec) = maxDuration"
  by (simp_all add: retryBackoff_def Let_def)

lemma scale_up: "0 \<le> c \<Longrightarrow> c \<le> c * 3 ^ n" for c :: int
  using mult_left_mono [of 1 "3 ^ n" c] by simp

context backoff_api
begin

lemma loop_duration:
  assumes "nat f = n" "bo_Jitter b = 0" "bo_Factor b = 3" "0 < bo_Duration b" "bo_Duration b \<le> bo_Cap b"
    and "3 * bo_Cap b \<le> maxDuration"
    and "f \<le> bo_Steps b \<or> bo_Steps b = 0 \<and> bo_Duration b = bo_Cap b"
  shows "bo_Duration (cooldown_loop L f b) = min (bo_Cap b) (bo_Duration b * 3 ^ n)
    \<and> bo_Jitter (cooldown_loop L f b) = 0"
  using assms
proof (induction n arbitrary: f b)
  case 0
  then show ?case by (simp add: cooldown_loop.simps)
next
  case (Suc n)
  have f: "f > 0" "nat (f - 1) = n" using Suc.prems(1) by auto
  show ?case
  proof (cases "bo_Steps b > 0")
    case False
    then have "bo_Duration b = bo_Cap b" using Suc.prems(7) f by auto
    moreover have "bo_Cap b \<le> bo_Cap b * 3 ^ Suc n"
      using Suc.prems(4,5) by (intro scale_up) simp
    ultimately show ?thesis using Suc.prems False by (simp add: cooldown_loop.simps)
  next
    case steps: True
    have unroll: "cooldown_loop L f b = cooldown_loop L (f - 1) (fst (BackoffStep L b))"
      using f steps by (simp add: cooldown_loop.simps)
    show ?thesis
    proof (cases "bo_Duration b * 3 \<le> bo_Cap b")
      case True
      then have "fst (BackoffStep L b) = b\<lparr>bo_Duration := bo_Duration b * 3, bo_Steps := bo_Steps b - 1\<rparr>"
        using step_grow [of b] Suc.prems steps by simp
      then show ?thesis
        using Suc.IH [OF f(2), of "fst (BackoffStep L b)"] Suc.prems True steps
        by (auto simp: unroll ac_simps)
    next
      case False
      then have "fst (BackoffStep L b) = b\<lparr>bo_Duration := bo_Cap b, bo_Steps := 0\<rparr>"
        using step_cap [of b] Suc.prems steps by simp
      moreover have "bo_Cap b \<le> bo_Duration b * 3 * 3 ^ n" "bo_Cap b \<le> bo_Cap b * 3 ^ n"
        using False Suc.prems(4,5) scale_up [of "bo_Duration b * 3" n] scale_up [of "bo_Cap b" n] by linarith+
      ultimately show ?thesis
        using Suc.IH [OF f(2), of "fst (BackoffStep L b)"] Suc.prems
        by (auto simp: unroll ac_simps)
    qed
  qed
qed

lemma cooldown_failed:
  assumes "st_LastUpdate (s_Status stack) = Some lu" and "lu_State lu = FailedStackStateMessage"
    and "lu_Failures lu \<le> maxDuration"
    and "10 * Second \<le> bo_Cap (retryBackoff (s_Spec stack))"
    and "3 * bo_Cap (retryBackoff (s_Spec stack)) \<le> maxDuration"
  shows "cooldown L stack
    = min (bo_Cap (retryBackoff (s_Spec stack))) (10 * Second * 3 ^ nat (lu_Failures lu))"
  using assms loop_duration [OF refl, of "retryBackoff (s_Spec stack)" "lu_Failures lu"]
  by (simp add: cooldown_def step_result Second_def)

end


section \<open>Lemmas on synchronisation and retries\<close>

lemma notSynced_fst [simp]: "fst (fst (notSynced msg)) = False"
  by (simp add: notSynced_def)

text \<open>Same inputs: the last update was made for this generation and this request.\<close>

definition sameInputs :: "Stack \<Rightarrow> StackUpdateState \<Rightarrow> bool" where
  "sameInputs stack lu \<longleftrightarrow> lu_Generation lu = om_Generation (s_Meta stack)
     \<and> lu_ReconcileRequest lu = syncRequestOf (s_Meta stack)"

lemma synced_iff:
  "synced L now stack commit \<longleftrightarrow>
     (case st_LastUpdate (s_Status stack) of None \<Rightarrow> False | Some lu \<Rightarrow>
        sameInputs stack lu \<and>
        (case lu_State lu of
           SucceededStackStateMessage \<Rightarrow>
             (if om_DeletionTimestamp (s_Meta stack) \<noteq> None then lu_Type lu = DestroyType
              else lu_LastSuccessfulCommit lu = commit
                   \<and> (sp_ContinueResyncOnCommitMatch (s_Spec stack)
                       \<longrightarrow> time_sub now (lu_LastResyncTime lu) < resyncFreq stack))
         | FailedStackStateMessage \<Rightarrow>
             lu_LastAttemptedCommit lu = commit
             \<and> (maxUpdateFailures \<le> lu_Failures lu
                 \<or> time_sub now (lu_LastResyncTime lu) < cooldown L stack)
         | OtherStackStateMessage s \<Rightarrow> True))"
  by (auto simp: isSynced_def sameInputs_def split: option.split StackUpdateStateMessage.split if_splits)

lemma unsynced_event: "\<not> synced L now stack commit \<longleftrightarrow> snd (isSynced L now stack commit) \<noteq> []"
  by (auto simp: isSynced_def notSynced_def split: option.split)

definition currentFor :: "string \<Rightarrow> string \<Rightarrow> Stack \<Rightarrow> CurrentStackUpdate" where
  "currentFor nm commit stack = \<lparr>cu_Generation = om_Generation (s_Meta stack),
     cu_ReconcileRequest = syncRequestOf (s_Meta stack), cu_Name = nm, cu_Commit = commit\<rparr>"

inductive retry :: "lib \<Rightarrow> string \<Rightarrow> Stack \<Rightarrow> Stack \<Rightarrow> bool" for L commit where
  attempt: "\<lbrakk>\<not> synced L now stack commit;
             stack' = fst (markStackFailed later stack (currentFor nm commit stack) update)\<rbrakk>
            \<Longrightarrow> retry L commit stack stack'"

lemma markStackFailed_frame [simp]:
  "s_Meta (fst (markStackFailed t stack cur u)) = s_Meta stack"
  "s_Spec (fst (markStackFailed t stack cur u)) = s_Spec stack"
  by (simp_all add: markStackFailed_def Let_def)

lemma markStackFailed_last:
  "\<exists>lu. st_LastUpdate (s_Status (fst (markStackFailed t stack (currentFor nm commit stack) u))) = Some lu
     \<and> lu_State lu = FailedStackStateMessage \<and> lu_LastAttemptedCommit lu = commit \<and> sameInputs stack lu
     \<and> lu_LastResyncTime lu = t
     \<and> lu_Failures lu = (case st_LastUpdate (s_Status stack) of None \<Rightarrow> 0 | Some old \<Rightarrow>
          if sameInputs stack old then i64 (lu_Failures old + 1) else 0)"
  by (simp add: markStackFailed_def Let_def currentFor_def sameInputs_def split: option.split)

lemma sameInputs_meta: "s_Meta a = s_Meta b \<Longrightarrow> sameInputs a lu = sameInputs b lu"
  by (simp add: sameInputs_def)

text \<open>The stack after n + 1 failed attempts.\<close>

definition failedTimes :: "string \<Rightarrow> nat \<Rightarrow> Stack \<Rightarrow> bool" where
  "failedTimes commit n stack \<longleftrightarrow> (\<exists>lu. st_LastUpdate (s_Status stack) = Some lu
     \<and> lu_State lu = FailedStackStateMessage \<and> lu_LastAttemptedCommit lu = commit
     \<and> sameInputs stack lu \<and> lu_Failures lu = int n)"

lemma failedTimes_synced:
  "failedTimes commit n stack \<Longrightarrow>
     synced L now stack commit \<longleftrightarrow> 3 \<le> n \<or> time_sub now (lu_LastResyncTime (the (st_LastUpdate (s_Status stack)))) < cooldown L stack"
  by (auto simp: failedTimes_def synced_iff maxUpdateFailures_def)

lemma retry_next:
  assumes "failedTimes commit n stack" and "retry L commit stack stack'"
  shows "n < 3 \<and> failedTimes commit (Suc n) stack'"
proof -
  from assms(2) obtain now later nm u where ns: "\<not> synced L now stack commit"
    and s': "stack' = fst (markStackFailed later stack (currentFor nm commit stack) u)"
    by (auto elim: retry.cases)
  have "n < 3" using ns failedTimes_synced [OF assms(1), of L now] by auto
  moreover have "failedTimes commit (Suc n) stack'"
    using assms(1) \<open>n < 3\<close> markStackFailed_last [of later stack nm commit u]
    by (auto simp: failedTimes_def s' sameInputs_def i64_id minDuration_def maxDuration_def)
  ultimately show ?thesis ..
qed

lemma retry_first:
  assumes "retry L commit stack stack'"
    and "\<forall>lu. st_LastUpdate (s_Status stack) = Some lu \<longrightarrow> \<not> sameInputs stack lu"
  shows "failedTimes commit 0 stack'"
  using assms markStackFailed_last
  by (elim retry.cases) (force simp: failedTimes_def sameInputs_def split: option.splits)

lemma retry_budget:
  assumes "\<forall>lu. st_LastUpdate (s_Status stack) = Some lu \<longrightarrow> \<not> sameInputs stack lu"
    and "(retry L commit ^^ n) stack stack'"
  shows "n \<le> 4 \<and> (0 < n \<longrightarrow> failedTimes commit (n - 1) stack')"
  using assms(2)
proof (induction n arbitrary: stack')
  case 0
  then show ?case by simp
next
  case (Suc n)
  then obtain mid where mid: "(retry L commit ^^ n) stack mid" "retry L commit mid stack'" by auto
  show ?case
  proof (cases n)
    case 0
    then show ?thesis using mid retry_first [OF mid(2)] assms(1) by simp
  next
    case (Suc m)
    then show ?thesis using Suc.IH [OF mid(1)] retry_next [OF _ mid(2), of m] by auto
  qed
qed

section \<open>Outputs\<close>

lemma stackOutputs_lookup:
  assumes "stackOutputs L secret = Inr outs"
  shows "map fst outs = sortedKeys (os_Data secret)"
    and "map_of outs k = (case map_of (os_Data secret) k of None \<Rightarrow> None | Some v \<Rightarrow>
       Some (if \<exists>a xs. map_of (os_Annotations secret) SecretOutputsAnnotation = Some a
                \<and> JsonUnmarshalStrings L a = Inr xs \<and> k \<in> set xs then secretMask else v))"
proof -
  let ?ann = "map_of (os_Annotations secret) SecretOutputsAnnotation"
  define xs where "xs = (case ?ann of None \<Rightarrow> [] | Some a \<Rightarrow> projr (JsonUnmarshalStrings L a))"
  have outs: "outs = map (\<lambda>key. (key, if List.member xs key then secretMask
        else the (map_of (os_Data secret) key))) (sortedKeys (os_Data secret))"
    using assms by (cases ?ann) (auto simp: stackOutputs_def bindE_Inr_iff xs_def)
  have mem: "k \<in> set xs \<longleftrightarrow> (\<exists>a ys. ?ann = Some a \<and> JsonUnmarshalStrings L a = Inr ys \<and> k \<in> set ys)"
    using assms by (cases ?ann) (auto simp: stackOutputs_def bindE_Inr_iff xs_def)
  show "map fst outs = sortedKeys (os_Data secret)" by (simp add: outs o_def)
  show "map_of outs k = (case map_of (os_Data secret) k of None \<Rightarrow> None | Some v \<Rightarrow>
       Some (if \<exists>a xs. map_of (os_Annotations secret) SecretOutputsAnnotation = Some a
                \<and> JsonUnmarshalStrings L a = Inr xs \<and> k \<in> set xs then secretMask else v))"
    unfolding mem [symmetric]
    by (auto simp: outs map_of_map_restrict [unfolded comp_def] restrict_map_def split: option.split)
qed

definition exampleMeta :: ObjectMeta where
  "exampleMeta = emptyMeta\<lparr>om_Name := ''app'', om_Namespace := ''default'', om_UID := ''u1'', om_Generation := 2\<rparr>"

definition exampleStack :: Stack where
  "exampleStack = \<lparr>s_Meta = exampleMeta, s_Spec = emptyStackSpec\<lparr>sp_Stack := ''dev''\<rparr>, s_Status = emptyStackStatus\<rparr>"

definition exampleUpdate :: Update where
  "exampleUpdate = \<lparr>u_APIVersion = ''auto.pulumi.com/v1alpha1'', u_Kind = ''Update'',
     u_Meta = emptyMeta\<lparr>om_Name := ''app-1'', om_Namespace := ''default''\<rparr>,
     u_Spec = emptyUpdateSpec\<lparr>us_Type := UpType\<rparr>, u_Status = emptyUpdateStatus\<rparr>"

definition withLast :: "Stack \<Rightarrow> UpdateType \<Rightarrow> StackUpdateStateMessage \<Rightarrow> int \<Rightarrow> Stack" where
  "withLast stack typ state failures = stack\<lparr>s_Status := (s_Status stack)\<lparr>st_LastUpdate := Some
     \<lparr>lu_Generation = om_Generation (s_Meta stack), lu_ReconcileRequest = syncRequestOf (s_Meta stack),
      lu_Name = ''app-1'', lu_Type = typ, lu_State = state, lu_Message = [],
      lu_LastAttemptedCommit = ''c1'', lu_LastSuccessfulCommit = ''c1'', lu_Permalink = [],
      lu_LastResyncTime = 1000, lu_Failures = failures\<rparr>\<rparr>\<rparr>"

lemma withLast_simps [simp]:
  "s_Meta (withLast s t m f) = s_Meta s" "s_Spec (withLast s t m f) = s_Spec s"
  by (simp_all add: withLast_def)

lemma markStackSucceeded_Inr:
  assumes "markStackSucceeded L getSecret t inst cur u = Inr (inst', ev)"
  shows "s_Meta inst' = s_Meta inst \<and> s_Spec inst' = s_Spec inst \<and>
    (\<exists>lu. st_LastUpdate (s_Status inst') = Some lu \<and> lu_Generation lu = cu_Generation cur
     \<and> lu_ReconcileRequest lu = cu_ReconcileRequest cur \<and> lu_Type lu = us_Type (u_Spec u)
     \<and> lu_State lu = SucceededStackStateMessage \<and> lu_LastSuccessfulCommit lu = cu_Commit cur
     \<and> lu_Failures lu = 0 \<and> lu_LastResyncTime lu = t)"
  using assms
  by (auto simp: markStackSucceeded_def applyProjectInfoToStack_def bindE_Inr_iff Let_def
      split: if_splits option.splits)


section \<open>Examples\<close>

definition failAt :: "time \<Rightarrow> Stack \<Rightarrow> Stack" where
  "failAt t stack = fst (markStackFailed t stack (currentFor ''app-1'' ''c1'' stack) exampleUpdate)"

lemma failAt_last:
  "st_LastUpdate (s_Status stack) = None \<or> failedTimes ''c1'' n stack \<and> n < 3 \<Longrightarrow>
   failedTimes ''c1'' (if st_LastUpdate (s_Status stack) = None then 0 else Suc n) (failAt t stack)
   \<and> lu_LastResyncTime (the (st_LastUpdate (s_Status (failAt t stack)))) = t
   \<and> s_Spec (failAt t stack) = s_Spec stack"
  using markStackFailed_last [of t stack "''app-1''" "''c1''" exampleUpdate]
  by (auto simp: failAt_def failedTimes_def sameInputs_def i64_id minDuration_def maxDuration_def)

lemma failAt_retry:
  assumes "failedTimes ''c1'' n stack" and "n < 3" and "s_Spec stack = emptyStackSpec"
    and "lu_LastResyncTime (the (st_LastUpdate (s_Status stack))) = 0"
  shows "retry docLib ''c1'' stack (failAt 0 stack)"
proof -
  obtain lu where "st_LastUpdate (s_Status stack) = Some lu" "lu_State lu = FailedStackStateMessage" "lu_Failures lu = int n"
    using assms(1) by (auto simp: failedTimes_def)
  then have "cooldown docLib stack \<le> maxDuration"
    using assms(2,3) docBackoff.cooldown_failed [of stack lu]
    by (simp add: retryBackoff_def emptyStackSpec_def Second_def maxDuration_def)
  then have "\<not> synced docLib maxDuration stack ''c1''"
    using failedTimes_synced [OF assms(1), of docLib maxDuration] assms(2,4)
    by (simp add: time_sub_def maxDuration_def minDuration_def)
  then show ?thesis by (rule retry.attempt) (simp add: failAt_def)
qed

lemma retry_example:
  "(retry docLib ''c1'' ^^ 4) (exampleStack\<lparr>s_Spec := emptyStackSpec\<rparr>) (failAt 0 (failAt 0 (failAt 0 (failAt 0 (exampleStack\<lparr>s_Spec := emptyStackSpec\<rparr>)))))"
proof -
  let ?s0 = "exampleStack\<lparr>s_Spec := emptyStackSpec\<rparr>"
  let ?s1 = "failAt 0 ?s0" let ?s2 = "failAt 0 ?s1" let ?s3 = "failAt 0 ?s2"
  have s1: "failedTimes ''c1'' 0 ?s1 \<and> lu_LastResyncTime (the (st_LastUpdate (s_Status ?s1))) = 0 \<and> s_Spec ?s1 = emptyStackSpec"
    using failAt_last [of ?s0 0 0] by (simp add: exampleStack_def emptyStackStatus_def)
  then have s2: "failedTimes ''c1'' 1 ?s2 \<and> lu_LastResyncTime (the (st_LastUpdate (s_Status ?s2))) = 0 \<and> s_Spec ?s2 = emptyStackSpec"
    using failAt_last [of ?s1 0 0] by (auto simp: failedTimes_def)
  then have s3: "failedTimes ''c1'' 2 ?s3 \<and> lu_LastResyncTime (the (st_LastUpdate (s_Status ?s3))) = 0 \<and> s_Spec ?s3 = emptyStackSpec"
    using failAt_last [of ?s2 1 0] by (auto simp: failedTimes_def numeral_2_eq_2)
  have "\<not> synced docLib 0 ?s0 ''c1''"
    by (simp add: synced_iff exampleStack_def emptyStackStatus_def)
  then have "retry docLib ''c1'' ?s0 ?s1" by (rule retry.attempt) (simp add: failAt_def)
  moreover have "retry docLib ''c1'' ?s1 ?s2" "retry docLib ''c1'' ?s2 ?s3" "retry docLib ''c1'' ?s3 (failAt 0 ?s3)"
    using s1 s2 s3 failAt_retry [of 0 ?s1] failAt_retry [of 1 ?s2] failAt_retry [of 2 ?s3] by simp_all
  ultimately show ?thesis by (auto simp: numeral_eq_Suc)
qed


section \<open>Properties\<close>

text \<open>The wait before a retry is the documented one: ten seconds tripled for each failure,
  cut at the configured maximum (24 hours by default), for a maximum that is not below the ten
  seconds and fits a duration.\<close>

lemma cooldown_exact: 
  assumes "backoff_api L"
    and "st_LastUpdate (s_Status stack) = Some lu" and "lu_State lu = FailedStackStateMessage"
    and "0 \<le> lu_Failures lu" and "lu_Failures lu \<le> maxDuration"
    and "10 \<le> sp_RetryMaxBackoffDurationSeconds (s_Spec stack) \<or> sp_RetryMaxBackoffDurationSeconds (s_Spec stack) \<le> 0"
    and "sp_RetryMaxBackoffDurationSeconds (s_Spec stack) \<le> 3074457345"
  shows "cooldown L stack =
      min (if 0 < sp_RetryMaxBackoffDurationSeconds (s_Spec stack)
           then sp_RetryMaxBackoffDurationSeconds (s_Spec stack) * Second else 24 * 3600 * Second)
        (10 * Second * 3 ^ nat (lu_Failures lu))"
proof -
  have cap: "bo_Cap (retryBackoff (s_Spec stack)) = (if 0 < sp_RetryMaxBackoffDurationSeconds (s_Spec stack)
           then sp_RetryMaxBackoffDurationSeconds (s_Spec stack) * Second else 24 * 3600 * Second)"
    using assms(7) by (simp add: retryBackoff_def Let_def i64_id minDuration_def maxDuration_def Second_def)
  show ?thesis
    unfolding cap [symmetric] by (rule backoff_api.cooldown_failed [OF assms(1)]) (use assms cap in \<open>auto simp: Second_def maxDuration_def\<close>)
qed

lemma cooldown_exact_witness:
  "cooldown docLib (withLast exampleStack UpType FailedStackStateMessage 2) = 90 * Second"
  using cooldown_exact [OF docBackoff.backoff_api_axioms,
      of "withLast exampleStack UpType FailedStackStateMessage 2"
         "the (st_LastUpdate (s_Status (withLast exampleStack UpType FailedStackStateMessage 2)))"]
  by (simp add: withLast_def exampleStack_def emptyStackSpec_def Second_def maxDuration_def)

text \<open>C9: With unchanged inputs (generation, reconciliation request and commit) the
  controller makes at most four failing attempts: after fewer the stack is in sync exactly during
  the cooldown of the last one, after the fourth it stays in sync, so nothing is retried until an
  input changes.\<close>

lemma bounded_retries:
  assumes "\<forall>lu. st_LastUpdate (s_Status stack) = Some lu \<longrightarrow> \<not> sameInputs stack lu"
    and "(retry L commit ^^ n) stack stack'"
  shows "n \<le> 4 \<and> (n = 4 \<longrightarrow> (\<forall>now. synced L now stack' commit))
    \<and> (0 < n \<and> n < 4 \<longrightarrow> (\<forall>now. synced L now stack' commit \<longleftrightarrow>
          time_sub now (lu_LastResyncTime (the (st_LastUpdate (s_Status stack')))) < cooldown L stack'))"
proof (cases "n = 0")
  case True
  then show ?thesis by simp
next
  case False
  then have n: "n \<le> 4" "failedTimes commit (n - 1) stack'" using retry_budget [OF assms] by auto
  show ?thesis
    unfolding failedTimes_synced [OF n(2)] using n(1) False by (intro conjI impI allI) auto
qed

lemma bounded_retries_witness:
  "\<forall>now. synced docLib now (failAt 0 (failAt 0 (failAt 0 (failAt 0 (exampleStack\<lparr>s_Spec := emptyStackSpec\<rparr>))))) ''c1''"
  using bounded_retries [OF _ retry_example] by (simp add: exampleStack_def emptyStackStatus_def)

text \<open>Recording a successful update for the stack's current inputs puts it in sync at
  that commit: for good when the stack is not resynced continuously (or was destroyed), and until
  the resync period has passed otherwise.\<close>

lemma success_settles:
  assumes "markStackSucceeded L getSecret later stack (currentFor nm commit stack) u = Inr (stack', ev)"
    and "if om_DeletionTimestamp (s_Meta stack) \<noteq> None then us_Type (u_Spec u) = DestroyType
         else \<not> sp_ContinueResyncOnCommitMatch (s_Spec stack)
           \<or> time_sub now later < resyncFreq stack"
  shows "synced L now stack' commit"
  using markStackSucceeded_Inr [OF assms(1)] assms(2)
  by (auto simp: synced_iff sameInputs_def currentFor_def resyncFreq_def split: if_splits)

lemma success_settles_witness:
  "\<forall>now. synced docLib now (fst (projr (markStackSucceeded docLib (\<lambda>_ _. Inr emptySecret) 5 exampleStack
      (currentFor ''app-1'' ''c1'' exampleStack) exampleUpdate))) ''c1''"
  using success_settles [of docLib "\<lambda>_ _. Inr emptySecret" 5 exampleStack "''app-1''" "''c1''" exampleUpdate]
  by (simp add: markStackSucceeded_def exampleUpdate_def emptyUpdateStatus_def exampleStack_def
        exampleMeta_def emptyMeta_def emptyStackSpec_def Let_def)

text \<open>C10: A live stack that is in sync and marked Ready has a last update that succeeded
  for exactly its present generation, reconciliation request and commit.\<close>

lemma ready_reflects_inputs:
  assumes "condition_api L" and "om_DeletionTimestamp (s_Meta stack) = None"
    and "synced L now stack commit" and "markStackResult L (s_Status stack) = Inr status"
    and "IsStatusConditionTrue L (st_Conditions status) ReadyCondition"
  shows "\<exists>lu. st_LastUpdate status = Some lu \<and> lu_State lu = SucceededStackStateMessage
    \<and> lu_Generation lu = om_Generation (s_Meta stack)
    \<and> lu_ReconcileRequest lu = syncRequestOf (s_Meta stack)
    \<and> lu_LastSuccessfulCommit lu = commit"
proof -
  obtain lu where lu: "st_LastUpdate (s_Status stack) = Some lu"
    using assms(3) by (auto simp: synced_iff split: option.splits)
  have "lu_State lu = SucceededStackStateMessage"
    using assms(4,5) lu condition_api.reconciling_state [OF assms(1)] condition_api.stalled_state [OF assms(1)]
    by (auto simp: markStackResult_def readyState_def split: if_splits)
  then show ?thesis
    using assms(2,3,4) lu by (auto simp: synced_iff sameInputs_def markStackResult_def)
qed

lemma ready_reflects_inputs_witness:
  "\<exists>lu. st_LastUpdate (projr (markStackResult docLib (s_Status (withLast exampleStack UpType SucceededStackStateMessage 0)))) = Some lu
    \<and> lu_LastSuccessfulCommit lu = ''c1'' \<and> lu_Generation lu = 2"
  using ready_reflects_inputs [OF docConditions.condition_api_axioms,
      of "withLast exampleStack UpType SucceededStackStateMessage 0" 7 "''c1''" 
         "projr (markStackResult docLib (s_Status (withLast exampleStack UpType SucceededStackStateMessage 0)))"]
    docConditions.ready_state
  by (simp add: readyState_def exampleStack_def exampleMeta_def emptyMeta_def synced_iff sameInputs_def withLast_def markStackResult_def
      emptyStackStatus_def emptyStackSpec_def)

text \<open>The resync period is never below a minute, whatever the field holds (wrap-around
  included), and is the configured number of seconds (at least 60) when that fits a duration.\<close>

lemma resync_floor:
  "60 * Second \<le> resyncFreq stack
   \<and> (\<bar>sp_ResyncFrequencySeconds (s_Spec stack)\<bar> \<le> 9223372036
       \<longrightarrow> resyncFreq stack = max 60 (sp_ResyncFrequencySeconds (s_Spec stack)) * Second)"
  by (auto simp: resyncFreq_def Let_def i64_id Second_def minDuration_def maxDuration_def)

lemma resync_floor_witness:
  "resyncFreq (exampleStack\<lparr>s_Spec := emptyStackSpec\<lparr>sp_ResyncFrequencySeconds := 90\<rparr>\<rparr>) = 90 * Second"
  using resync_floor [of "exampleStack\<lparr>s_Spec := emptyStackSpec\<lparr>sp_ResyncFrequencySeconds := 90\<rparr>\<rparr>"]
  by simp

definition deletedStack :: Stack where
  "deletedStack = withLast (exampleStack\<lparr>s_Meta := exampleMeta\<lparr>om_DeletionTimestamp := Some 900\<rparr>\<rparr>)
     DestroyType FailedStackStateMessage 3"

definition exampleSecret :: OutputSecret where
  "exampleSecret = \<lparr>os_Annotations = [(SecretOutputsAnnotation, encStrings [''password''])],
     os_Data = [(''url'', ''1''), (''password'', ''2'')]\<rparr>"

text \<open>The published outputs have the keys of the output secret in order; a key named by
  the secrets annotation shows only the mask, and every other key its own value.\<close>

lemma stack_outputs_masked:
  assumes "stackOutputs L secret = Inr outs"
    and "map_of (os_Annotations secret) SecretOutputsAnnotation = Some annotation"
    and "JsonUnmarshalStrings L annotation = Inr secrets"
  shows "map fst outs = sortedKeys (os_Data secret)
    \<and> (\<forall>k v. (k, v) \<in> set outs \<longrightarrow>
         (if k \<in> set secrets then v = secretMask else map_of (os_Data secret) k = Some v))"
proof -
  have "distinct (map fst outs)" by (simp add: stackOutputs_lookup(1) [OF assms(1)])
  then have "(k, v) \<in> set outs \<longleftrightarrow> map_of outs k = Some v" for k v by simp
  then show ?thesis
    using assms stackOutputs_lookup [OF assms(1)] by (auto split: option.splits)
qed

lemma stack_outputs_masked_witness:
  "map fst (projr (stackOutputs docLib exampleSecret)) = sortedKeys (os_Data exampleSecret)"
proof -
  have out: "stackOutputs docLib exampleSecret = Inr [(''password'', secretMask), (''url'', ''1'')]" by code_simp
  have "JsonUnmarshalStrings docLib (encStrings [''password'']) = Inr [''password'']" by code_simp
  then show ?thesis
    using stack_outputs_masked [OF out, of "encStrings [''password'']" "[''password'']"] out
    by (simp add: exampleSecret_def)
qed

text \<open>A workspace set up from the saved project information has that source and no
  other, and keeps its stacks and environment.\<close>

lemma project_info_only_source:
  "(let ws = setProjectInfoSource ws0 info
    in ws_ProjectInfo ws = Some \<lparr>pis_Name = pi_Name info, pis_Runtime = pi_Runtime info\<rparr>
       \<and> ws_Git ws = None \<and> ws_Flux ws = None \<and> ws_Local ws = None
       \<and> ws_Stacks ws = ws_Stacks ws0 \<and> ws_Env ws = ws_Env ws0)"
  by (simp add: setProjectInfoSource_def)


end
