(* ===== verification/StackSession.thy ===== *)
theory StackSession
  imports StackSync
begin

text \<open>
  The session of a reconcile (operator/internal/controller/pulumi/stack_controller.go,
  \<^verbatim>\<open>stackReconcilerSession\<close>): the plan of the workspace, its environment and configuration,
  and the update objects. The session's pointers are values: \<^verbatim>\<open>ws\<close> is the workspace (the zero
  value stands for the nil pointer before \<^verbatim>\<open>NewWorkspace\<close>, which is the first call made), and the
  container pointer \<^verbatim>\<open>wspc\<close> says whether it points into the workspace's pod template or to a copy.
\<close>

section \<open>Paths\<close>

text \<open>Go's \<^verbatim>\<open>path.Clean\<close> and \<^verbatim>\<open>path.Join\<close>, with \<^verbatim>\<open>strings.Split\<close> at the slashes.\<close>

fun splitOn :: "char \<Rightarrow> string \<Rightarrow> string list" where
  "splitOn sep [] = [[]]"
| "splitOn sep (c # cs) =
     (if c = sep then [] # splitOn sep cs
      else (case splitOn sep cs of [] \<Rightarrow> [[c]] | p # ps \<Rightarrow> (c # p) # ps))"

fun cleanParts :: "bool \<Rightarrow> string list \<Rightarrow> string list \<Rightarrow> string list" where
  "cleanParts rooted out [] = rev out"
| "cleanParts rooted out (p # ps) =
     (if p = [] \<or> p = ''.'' then cleanParts rooted out ps
      else if p = ''..''
      then (case out of
              [] \<Rightarrow> cleanParts rooted (if rooted then [] else [p]) ps
            | q # qs \<Rightarrow> cleanParts rooted (if q = ''..'' then p # out else qs) ps)
      else cleanParts rooted (p # out) ps)"

definition pathClean :: "string \<Rightarrow> string" where
  "pathClean s =
     (let rooted = (s \<noteq> [] \<and> hd s = CHR ''/'');
          body = joinWith ''/'' (cleanParts rooted [] (splitOn (CHR ''/'') s))
      in if rooted then CHR ''/'' # body else if body = [] then ''.'' else body)"

definition pathJoin :: "string \<Rightarrow> string \<Rightarrow> string" where
  "pathJoin a b =
     (if a = [] then (if b = [] then [] else pathClean b)
      else if b = [] then pathClean a else pathClean (a @ ''/'' @ b))"

section \<open>The session\<close>

datatype ContainerPtr = NilContainer | InWorkspace nat | Detached Container

record Session =
  sess_stack :: StackSpec
  sess_namespace :: string
  sess_ws :: Workspace
  sess_wss :: "WorkspaceStack option"
  sess_wspc :: ContainerPtr
  sess_update :: "Update option"

definition emptyWorkspace :: Workspace where
  "emptyWorkspace = \<lparr>w_APIVersion = [], w_Kind = [], w_Meta = emptyMeta, w_Spec = emptyWorkspaceSpec,
     w_Status = emptyWorkspaceStatus\<rparr>"

definition newStackReconcilerSession :: "StackSpec \<Rightarrow> string \<Rightarrow> Session" where
  "newStackReconcilerSession stack namespace = \<lparr>sess_stack = stack, sess_namespace = namespace,
     sess_ws = emptyWorkspace, sess_wss = None, sess_wspc = NilContainer, sess_update = None\<rparr>"

definition errNamespaceIsolation :: goerr where
  "errNamespaceIsolation = StallError ''cross-namespace refs are not allowed''"

definition errDeprecatedResourceRefEnv :: goerr where
  "errDeprecatedResourceRefEnv = StallError (''ref type '' @ goQuote ''Env'' @ '' is deprecated'')"

definition errDeprecatedResourceRefFS :: goerr where
  "errDeprecatedResourceRefFS = StallError (''ref type '' @ goQuote ''FS'' @ '' is deprecated'')"

definition stringToJSON :: "lib \<Rightarrow> string \<Rightarrow> JSON" where
  "stringToJSON L s = JsonString L s"

text \<open>Writes through the session's pointers; \<^verbatim>\<open>ws.Spec.PodTemplate.Spec\<close> may be nil.\<close>

definition mapWsSpec :: "(WorkspaceSpec \<Rightarrow> WorkspaceSpec) \<Rightarrow> Session \<Rightarrow> Session" where
  "mapWsSpec f sess = sess\<lparr>sess_ws := (sess_ws sess)\<lparr>w_Spec := f (w_Spec (sess_ws sess))\<rparr>\<rparr>"

definition podSpec :: "Workspace \<Rightarrow> PodSpec option" where
  "podSpec w = Option.bind (ws_PodTemplate (w_Spec w)) ept_Spec"

definition setPodSpec :: "PodSpec \<Rightarrow> Session \<Rightarrow> Session" where
  "setPodSpec ps = mapWsSpec (\<lambda>s. s\<lparr>ws_PodTemplate :=
     map_option (\<lambda>t. t\<lparr>ept_Spec := Some ps\<rparr>) (ws_PodTemplate s)\<rparr>)"

definition nilPodSpec :: goerr where
  "nilPodSpec = Panic ''nil dereference: ws.Spec.PodTemplate.Spec''"

definition readContainer :: "Session \<Rightarrow> goerr + Container" where
  "readContainer sess =
     (case sess_wspc sess of
        NilContainer \<Rightarrow> Inl (Panic ''nil dereference: sess.wspc'')
      | Detached c \<Rightarrow> Inr c
      | InWorkspace i \<Rightarrow>
          (case podSpec (sess_ws sess) of
             None \<Rightarrow> Inl nilPodSpec
           | Some ps \<Rightarrow> if i < length (ps_Containers ps) then Inr (ps_Containers ps ! i) else Inl nilPodSpec))"

definition writeContainer :: "Container \<Rightarrow> Session \<Rightarrow> Session" where
  "writeContainer c sess =
     (case sess_wspc sess of
        NilContainer \<Rightarrow> sess
      | Detached d \<Rightarrow> sess\<lparr>sess_wspc := Detached c\<rparr>
      | InWorkspace i \<Rightarrow>
          (case podSpec (sess_ws sess) of
             None \<Rightarrow> sess
           | Some ps \<Rightarrow> setPodSpec (ps\<lparr>ps_Containers := (ps_Containers ps)[i := c]\<rparr>) sess))"

section \<open>Environment\<close>

definition SetEnvs :: "string list \<Rightarrow> Session \<Rightarrow> Session" where
  "SetEnvs configMapNames =
     mapWsSpec (\<lambda>s. s\<lparr>ws_EnvFrom := ws_EnvFrom s @ map EnvFromConfigMap configMapNames\<rparr>)"

definition SetSecretEnvs :: "string list \<Rightarrow> Session \<Rightarrow> Session" where
  "SetSecretEnvs secretNames =
     mapWsSpec (\<lambda>s. s\<lparr>ws_EnvFrom := ws_EnvFrom s @ map EnvFromSecret secretNames\<rparr>)"

text \<open>The check every use of a secret reference makes before it.\<close>

definition crossNamespace :: "Session \<Rightarrow> SecretSelector \<Rightarrow> bool" where
  "crossNamespace sess r \<longleftrightarrow> ss_Namespace r \<noteq> [] \<and> ss_Namespace r \<noteq> sess_namespace sess"

definition resolveResourceRefAsEnvVar ::
  "Session \<Rightarrow> ResourceRef \<Rightarrow> goerr + (string \<times> EnvVarSource option)" where
  "resolveResourceRefAsEnvVar sess ref =
     (case rr_SelectorType ref of
        ResourceSelectorLiteral \<Rightarrow>
          (case rr_LiteralRef ref of
             Some v \<Rightarrow> Inr (v, None)
           | None \<Rightarrow> Inl (Errorf ''missing literal reference in ResourceRef''))
      | ResourceSelectorSecret \<Rightarrow>
          (case rr_SecretRef ref of
             Some r \<Rightarrow>
               (if crossNamespace sess r then Inl errNamespaceIsolation
                else Inr ([], Some (SecretKeyRef \<lparr>sk_Name = ss_Name r, sk_Key = ss_Key r, sk_Optional = None\<rparr>)))
           | None \<Rightarrow> Inl (Errorf ''missing secret reference in ResourceRef''))
      | ResourceSelectorEnv \<Rightarrow> Inl errDeprecatedResourceRefEnv
      | ResourceSelectorFS \<Rightarrow> Inl errDeprecatedResourceRefFS
      | ResourceSelectorOther s \<Rightarrow> Inl (Errorf (''unsupported selector type: '' @ s)))"

definition SetEnvRefsForWorkspace :: "Session \<Rightarrow> goerr + Session" where
  "SetEnvRefsForWorkspace sess =
     foldE (\<lambda>key sess.
              bindE (mapErr (Wrapf (''resolving env variable reference for '' @ goQuote key))
                       (resolveResourceRefAsEnvVar sess (the (map_of (sp_EnvRefs (sess_stack sess)) key))))
                (\<lambda>(v, valueFrom). Inr (mapWsSpec (\<lambda>s. s\<lparr>ws_Env := ws_Env s @
                   [\<lparr>ev_Name = key, ev_Value = v, ev_ValueFrom = valueFrom\<rparr>]\<rparr>) sess)))
           (sortedKeys (sp_EnvRefs (sess_stack sess))) sess"

section \<open>Configuration\<close>

definition DNS1123LabelMaxLength :: nat where "DNS1123LabelMaxLength = 63"

definition makeRefVolumeName :: "lib \<Rightarrow> string \<Rightarrow> string \<Rightarrow> string" where
  "makeRefVolumeName L prefix nm = (
     let volumeName = prefix @ nm
     in if IsDNS1123Label L volumeName = [] then volumeName
        else let volumeName = map (\<lambda>c. if c = CHR ''.'' then CHR ''-'' else c) volumeName;
                 suffix = ''-'' @ take 10 (Sha256Hex L nm);
                 maxLen = DNS1123LabelMaxLength - length suffix;
                 volumeName = (if length volumeName > maxLen then take maxLen volumeName else volumeName)
             in volumeName @ suffix)"

definition makeSecretRefMountPath :: "SecretSelector \<Rightarrow> string" where
  "makeSecretRefMountPath r = ''/var/run/secrets/stacks.pulumi.com/secrets/'' @ ss_Name r"

definition makeConfigMapRefMountPath :: "ConfigMapRef \<Rightarrow> string" where
  "makeConfigMapRefMountPath r = ''/var/run/configmaps/stacks.pulumi.com/configmaps/'' @ cmr_Name r"

text \<open>
  The mounting both kinds of reference share: unless the container has a mount of that name, add
  the mount to the container and the volume to the pod.
\<close>

definition mountVolume :: "string \<Rightarrow> string \<Rightarrow> VolumeSource \<Rightarrow> Session \<Rightarrow> goerr + Session" where
  "mountVolume volumeName mountPath src sess =
     bindE (readContainer sess)
       (\<lambda>c. if list_ex (\<lambda>m. vm_Name m = volumeName) (ctr_VolumeMounts c) then Inr sess
             else let sess = writeContainer (c\<lparr>ctr_VolumeMounts := ctr_VolumeMounts c @
                               [\<lparr>vm_Name = volumeName, vm_MountPath = mountPath\<rparr>]\<rparr>) sess
                  in case podSpec (sess_ws sess) of
                       None \<Rightarrow> Inl nilPodSpec
                     | Some ps \<Rightarrow> Inr (setPodSpec (ps\<lparr>ps_Volumes := ps_Volumes ps @
                                       [\<lparr>v_Name = volumeName, v_Source = src\<rparr>]\<rparr>) sess))"

definition resolveResourceRefAsConfigItem ::
  "lib \<Rightarrow> ResourceRef \<Rightarrow> Session \<Rightarrow> goerr + (JSON option \<times> ConfigValueFrom option \<times> Session)" where
  "resolveResourceRefAsConfigItem L ref sess =
     (case rr_SelectorType ref of
        ResourceSelectorLiteral \<Rightarrow>
          (case rr_LiteralRef ref of
             Some v \<Rightarrow> Inr (Some (stringToJSON L v), None, sess)
           | None \<Rightarrow> Inl (Errorf ''missing literal reference in ResourceRef''))
      | ResourceSelectorSecret \<Rightarrow>
          (case rr_SecretRef ref of
             Some r \<Rightarrow>
               (if crossNamespace sess r then Inl errNamespaceIsolation
                else let volumeName = makeRefVolumeName L ''secret-'' (ss_Name r);
                         mountPath = makeSecretRefMountPath r
                     in bindE (mountVolume volumeName mountPath (SecretVolume (ss_Name r)) sess)
                          (\<lambda>sess. Inr (None, Some \<lparr>cvf_Env = [], cvf_Path = pathJoin mountPath (ss_Key r),
                                                    cvf_JSON = None\<rparr>, sess)))
           | None \<Rightarrow> Inl (Errorf ''missing secret reference in ResourceRef''))
      | ResourceSelectorEnv \<Rightarrow> Inl errDeprecatedResourceRefEnv
      | ResourceSelectorFS \<Rightarrow> Inl errDeprecatedResourceRefFS
      | ResourceSelectorOther s \<Rightarrow> Inl (Errorf (''unsupported selector type: '' @ s)))"

definition resolveConfigMapRefAsConfigItem ::
  "lib \<Rightarrow> ConfigMapRef option \<Rightarrow> Session \<Rightarrow> goerr + (JSON option \<times> ConfigValueFrom option \<times> Session)" where
  "resolveConfigMapRefAsConfigItem L refo sess =
     (case refo of
        None \<Rightarrow> Inl (Errorf ''missing ConfigMap reference'')
      | Some r \<Rightarrow>
          (let volumeName = makeRefVolumeName L ''configmap-'' (cmr_Name r);
               mountPath = makeConfigMapRefMountPath r
           in bindE (mountVolume volumeName mountPath (ConfigMapVolume (cmr_Name r)) sess)
                (\<lambda>sess. Inr (None, Some \<lparr>cvf_Env = [], cvf_Path = pathJoin mountPath (cmr_Key r),
                                          cvf_JSON = cmr_JSON r\<rparr>, sess))))"

text \<open>Appending to the configuration of \<^verbatim>\<open>sess.wss\<close>.\<close>

definition addConfig :: "ConfigItem \<Rightarrow> Session \<Rightarrow> goerr + Session" where
  "addConfig item sess =
     (case sess_wss sess of
        None \<Rightarrow> Inl (Panic ''nil dereference: sess.wss'')
      | Some wss \<Rightarrow> Inr (sess\<lparr>sess_wss := Some (wss\<lparr>wst_Config := wst_Config wss @ [item]\<rparr>)\<rparr>))"

text \<open>The bodies of the four loops of \<^verbatim>\<open>UpdateConfig\<close>, each for one key.\<close>

definition inlineItem :: "string \<Rightarrow> JSON \<Rightarrow> bool \<Rightarrow> ConfigItem" where
  "inlineItem k v secret = \<lparr>ci_Key = k, ci_Path = None, ci_Value = Some v, ci_ValueFrom = None,
     ci_Secret = Some secret\<rparr>"

definition addResolved ::
  "string \<Rightarrow> bool \<Rightarrow> goerr + (JSON option \<times> ConfigValueFrom option \<times> Session) \<Rightarrow> goerr + Session" where
  "addResolved k secret r =
     bindE r (\<lambda>(v, valueFrom, sess). addConfig \<lparr>ci_Key = k, ci_Path = None, ci_Value = v,
                ci_ValueFrom = valueFrom, ci_Secret = Some secret\<rparr> sess)"

definition configBody :: "string \<Rightarrow> Session \<Rightarrow> goerr + Session" where
  "configBody k sess = addConfig (inlineItem k (the (map_of (sp_Config (sess_stack sess)) k)) False) sess"

definition configRefBody :: "lib \<Rightarrow> string \<Rightarrow> Session \<Rightarrow> goerr + Session" where
  "configRefBody L k sess = addResolved k False
     (mapErr (Wrapf (''updating configRef for '' @ goQuote k))
        (resolveConfigMapRefAsConfigItem L (map_of (sp_ConfigRef (sess_stack sess)) k) sess))"

definition secretBody :: "lib \<Rightarrow> string \<Rightarrow> Session \<Rightarrow> goerr + Session" where
  "secretBody L k sess =
     addConfig (inlineItem k (stringToJSON L (the (map_of (sp_Secrets (sess_stack sess)) k))) True) sess"

definition secretRefBody :: "lib \<Rightarrow> string \<Rightarrow> Session \<Rightarrow> goerr + Session" where
  "secretRefBody L k sess = addResolved k True
     (mapErr (Wrapf (''updating secretRef for '' @ goQuote k))
        (resolveResourceRefAsConfigItem L (the (map_of (sp_SecretRefs (sess_stack sess)) k)) sess))"

definition UpdateConfig :: "lib \<Rightarrow> Session \<Rightarrow> goerr + Session" where
  "UpdateConfig L sess =
     bindE (foldE configBody (sortedKeys (sp_Config (sess_stack sess))) sess)
   (\<lambda>sess.
     bindE (foldE (configRefBody L) (sortedKeys (sp_ConfigRef (sess_stack sess))) sess)
   (\<lambda>sess.
     bindE (foldE (secretBody L) (sortedKeys (sp_Secrets (sess_stack sess))) sess)
   (\<lambda>sess.
     foldE (secretRefBody L) (sortedKeys (sp_SecretRefs (sess_stack sess))) sess)))"

section \<open>The workspace object\<close>

definition ComponentLabel :: string where "ComponentLabel = ''pulumi.com/component''"
definition StackComponent :: string where "StackComponent = ''stack''"
definition StackNameLabel :: string where "StackNameLabel = ''pulumi.com/stack-name''"

definition nameForWorkspace :: "ObjectMeta \<Rightarrow> string" where
  "nameForWorkspace stack = om_Name stack"

definition labelsForWorkspace :: "ObjectMeta \<Rightarrow> string gomap" where
  "labelsForWorkspace stack = [(ComponentLabel, StackComponent), (StackNameLabel, om_Name stack)]"

definition AutoGroupVersion :: string where "AutoGroupVersion = ''auto.pulumi.com/v1alpha1''"

definition NewWorkspace :: "lib \<Rightarrow> Stack \<Rightarrow> Session \<Rightarrow> goerr + Session" where
  "NewWorkspace L stack sess = (
     let ws = \<lparr>w_APIVersion = AutoGroupVersion, w_Kind = ''Workspace'',
               w_Meta = emptyMeta\<lparr>om_Name := nameForWorkspace (s_Meta stack),
                          om_Namespace := sess_namespace sess,
                          om_Labels := labelsForWorkspace (s_Meta stack)\<rparr>,
               w_Spec = emptyWorkspaceSpec\<lparr>ws_PodTemplate := Some
                 \<lparr>ept_Metadata = \<lparr>eom_Labels = [], eom_Annotations = []\<rparr>,
                  ept_Spec = Some \<lparr>ps_InitContainers = [],
                                   ps_Containers = [emptyContainer\<lparr>ctr_Name := ''pulumi''\<rparr>],
                                   ps_Volumes = [], ps_Rest = []\<rparr>\<rparr>\<rparr>,
               w_Status = emptyWorkspaceStatus\<rparr>
     in bindE (SetControllerReference L (s_Meta stack) (w_Meta ws))
          (\<lambda>m. Inr (sess\<lparr>sess_ws := ws\<lparr>w_Meta := m\<rparr>, sess_wspc := InWorkspace 0\<rparr>)))"

text \<open>
  The template patch: the JSON codecs and the strategic merge of
  \<^verbatim>\<open>k8s.io/apimachinery/pkg/util/strategicpatch\<close> are arguments; the wrapping of their errors is
  the code's.
\<close>

record ('t, 'v) codec =
  cd_MarshalBase :: "'t \<Rightarrow> goerr + string"
  cd_MarshalPatch :: "'v \<Rightarrow> goerr + string"
  cd_Merge :: "string \<Rightarrow> string \<Rightarrow> goerr + string"
  cd_Unmarshal :: "string \<Rightarrow> goerr + 't"

definition patchObject :: "('t, 'v) codec \<Rightarrow> 't \<Rightarrow> 'v \<Rightarrow> goerr + 't" where
  "patchObject C base patch =
     bindE (mapErr (Wrapf ''failed to marshal JSON for base'') (cd_MarshalBase C base))
   (\<lambda>baseBytes.
     bindE (mapErr (Wrapf ''failed to marshal JSON for workspace template'') (cd_MarshalPatch C patch))
   (\<lambda>patchBytes.
     bindE (mapErr (Wrapf ''failed to generate merge patch for workspace template'')
              (cd_Merge C baseBytes patchBytes))
   (\<lambda>bytes.
     mapErr (Wrapf ''failed to unmarshal merged workspace template'') (cd_Unmarshal C bytes))))"

record templates =
  tp_Workspace :: "(Workspace, WorkspaceApplyConfiguration) codec"
  tp_Update :: "(Update, UpdateApplyConfiguration) codec"

text \<open>
  After the patch the container pointer is set to a copy of the container named \<^verbatim>\<open>pulumi\<close> (the
  loop variable's address), and otherwise still points into the old workspace, which nothing else
  refers to any more.
\<close>

definition repointContainer :: "Session \<Rightarrow> Workspace \<Rightarrow> goerr + Session" where
  "repointContainer sess patched =
     (case podSpec patched of
        None \<Rightarrow> Inl nilPodSpec
      | Some ps \<Rightarrow>
          Inr (sess\<lparr>sess_ws := patched,
                    sess_wspc := (case List.find (\<lambda>c. ctr_Name c = ''pulumi'') (ps_Containers ps) of
                                    Some c \<Rightarrow> Detached c
                                  | None \<Rightarrow> (case readContainer sess of
                                               Inr old \<Rightarrow> Detached old | Inl e \<Rightarrow> sess_wspc sess))\<rparr>))"

definition addEnv :: "EnvVar \<Rightarrow> Session \<Rightarrow> Session" where
  "addEnv e = mapWsSpec (\<lambda>s. s\<lparr>ws_Env := ws_Env s @ [e]\<rparr>)"

definition setupWorkspace :: "lib \<Rightarrow> templates \<Rightarrow> bool \<Rightarrow> Session \<Rightarrow> goerr + Session" where
  "setupWorkspace L T usingProjectInfo sess = (
     let sp = sess_stack sess;
         sess = (if sp_ServiceAccountName sp \<noteq> []
                 then mapWsSpec (\<lambda>s. s\<lparr>ws_ServiceAccountName := sp_ServiceAccountName sp\<rparr>) sess else sess);
         sess = (if sp_Backend sp \<noteq> []
                 then addEnv \<lparr>ev_Name = ''PULUMI_BACKEND_URL'', ev_Value = sp_Backend sp, ev_ValueFrom = None\<rparr> sess
                 else sess);
         sess = (if sp_AccessTokenSecret sp \<noteq> []
                 then addEnv \<lparr>ev_Name = ''PULUMI_ACCESS_TOKEN'', ev_Value = [],
                              ev_ValueFrom = Some (SecretKeyRef \<lparr>sk_Name = sp_AccessTokenSecret sp,
                                sk_Key = ''accessToken'', sk_Optional = None\<rparr>)\<rparr> sess
                 else sess)
     in bindE (SetEnvRefsForWorkspace sess)
          (\<lambda>sess.
             let wss = \<lparr>wst_Name = sp_Stack sp, wst_Create = Some (\<not> sp_UseLocalStackOnly sp),
                        wst_SecretsProvider = (if sp_SecretsProvider sp \<noteq> [] then Some (sp_SecretsProvider sp) else None),
                        wst_Config = [], wst_Environment = sp_Environment sp\<rparr>
             in bindE (mapErr (Wrapf ''failed to set stack config'') (UpdateConfig L (sess\<lparr>sess_wss := Some wss\<rparr>)))
                  (\<lambda>sess.
                     case sp_WorkspaceTemplate sp of
                       None \<Rightarrow> Inr sess
                     | Some template \<Rightarrow>
                         bindE (mapErr (Wrapf ''patching workspace spec'')
                                  (patchObject (tp_Workspace T) (sess_ws sess)
                                     (if usingProjectInfo then withoutSources template else template)))
                           (repointContainer sess))))"

section \<open>Update objects\<close>

definition ttlForCompletedUpdate :: duration where "ttlForCompletedUpdate = 3600 * Second * 24"

definition makeUpdateName :: "time \<Rightarrow> Stack \<Rightarrow> string" where
  "makeUpdateName now o' = om_Name (s_Meta o') @ ''-'' @ showHex ((now - unixEpoch) div 1000000)"

definition applyUpdateTemplate :: "templates \<Rightarrow> Stack \<Rightarrow> Update \<Rightarrow> goerr + Update" where
  "applyUpdateTemplate T stack update =
     (case sp_UpdateTemplate (s_Spec stack) of
        Some template \<Rightarrow> mapErr (Wrapf ''patching update spec'') (patchObject (tp_Update T) update template)
      | None \<Rightarrow> Inr update)"

definition setOwnerReferences :: "lib \<Rightarrow> Session \<Rightarrow> Stack \<Rightarrow> Update \<Rightarrow> goerr + Update" where
  "setOwnerReferences L sess o' update =
     bindE (SetControllerReference L (w_Meta (sess_ws sess)) (u_Meta update))
       (\<lambda>m. bindE (SetOwnerReference L (s_Meta o') m) (\<lambda>m. Inr (update\<lparr>u_Meta := m\<rparr>)))"

definition newUpdateMeta :: "time \<Rightarrow> Session \<Rightarrow> Stack \<Rightarrow> ObjectMeta" where
  "newUpdateMeta now sess o' = emptyMeta\<lparr>om_Name := makeUpdateName now o',
     om_Namespace := sess_namespace sess, om_Labels := labelsForWorkspace (s_Meta o')\<rparr>"

definition newUp ::
  "lib \<Rightarrow> templates \<Rightarrow> time \<Rightarrow> Session \<Rightarrow> Stack \<Rightarrow> UpdateType \<Rightarrow> string \<Rightarrow> goerr + Update" where
  "newUp L T now sess o' typ msg =
     bindE (applyUpdateTemplate T o'
              \<lparr>u_APIVersion = AutoGroupVersion, u_Kind = ''Update'', u_Meta = newUpdateMeta now sess o',
               u_Spec = emptyUpdateSpec\<lparr>us_WorkspaceName := om_Name (w_Meta (sess_ws sess)),
                 us_StackName := sp_Stack (sess_stack sess), us_Type := typ,
                 us_TtlAfterCompleted := Some ttlForCompletedUpdate, us_Message := Some msg,
                 us_Target := sp_Targets (s_Spec o'),
                 us_TargetDependents := Some (sp_TargetDependents (s_Spec o')),
                 us_Refresh := Some (sp_Refresh (s_Spec o'))\<rparr>,
               u_Status = emptyUpdateStatus\<rparr>)
       (setOwnerReferences L sess o')"

definition newDestroy ::
  "lib \<Rightarrow> templates \<Rightarrow> time \<Rightarrow> Session \<Rightarrow> Stack \<Rightarrow> string \<Rightarrow> goerr + Update" where
  "newDestroy L T now sess o' msg =
     bindE (applyUpdateTemplate T o'
              \<lparr>u_APIVersion = AutoGroupVersion, u_Kind = ''Update'', u_Meta = newUpdateMeta now sess o',
               u_Spec = emptyUpdateSpec\<lparr>us_WorkspaceName := om_Name (w_Meta (sess_ws sess)),
                 us_StackName := sp_Stack (sess_stack sess), us_Type := DestroyType,
                 us_TtlAfterCompleted := Some ttlForCompletedUpdate, us_Message := Some msg,
                 us_RunProgram := Some (sp_RunProgram (s_Spec o'))\<rparr>,
               u_Status = emptyUpdateStatus\<rparr>)
       (setOwnerReferences L sess o')"

section \<open>Finalizer ownership\<close>

fun containsString :: "string \<Rightarrow> string \<Rightarrow> bool" where
  "containsString sub [] = (sub = [])"
| "containsString sub (c # cs) = (take (length sub) (c # cs) = sub \<or> containsString sub cs)"

definition FieldManager :: string where "FieldManager = ''pulumi-kubernetes-operator''"

definition isFinalizerOwnedByLegacyManager :: "Update \<Rightarrow> bool" where
  "isFinalizerOwnedByLegacyManager update =
     list_ex (\<lambda>mf. mf_Manager mf = FieldManager
                \<and> (case mf_FieldsV1 mf of Some raw \<Rightarrow> containsString ''finalizers'' raw | None \<Rightarrow> False))
       (om_ManagedFields (u_Meta update))"

text \<open>
  \<^verbatim>\<open>conditionToApply\<close>: the apply configuration's fields are those set; the generation is left
  out when zero.
\<close>

record ConditionApply =
  ca_Type :: string
  ca_Status :: ConditionStatus
  ca_LastTransitionTime :: time
  ca_Reason :: string
  ca_Message :: string
  ca_ObservedGeneration :: "int option"

definition conditionToApply :: "Condition \<Rightarrow> ConditionApply" where
  "conditionToApply c = \<lparr>ca_Type = c_Type c, ca_Status = c_Status c,
     ca_LastTransitionTime = c_LastTransitionTime c, ca_Reason = c_Reason c, ca_Message = c_Message c,
     ca_ObservedGeneration = (if c_ObservedGeneration c \<noteq> 0 then Some (c_ObservedGeneration c) else None)\<rparr>"

end
