(* ===== verification/SessionFacts.thy ===== *)
theory SessionFacts
  imports StackSession
begin

text \<open>
  What the workspace session guarantees: which references it accepts, the items and the order of
  the configuration, the agreement of volumes and mounts, and the independence of the planned
  workspace from the enumeration order of the specification's maps.
\<close>

section \<open>What the operations leave alone\<close>

lemma mapWsSpec_frame [simp]:
  "sess_stack (mapWsSpec f s) = sess_stack s" "sess_namespace (mapWsSpec f s) = sess_namespace s"
  "sess_wss (mapWsSpec f s) = sess_wss s" "sess_wspc (mapWsSpec f s) = sess_wspc s"
  "sess_update (mapWsSpec f s) = sess_update s" "w_Spec (sess_ws (mapWsSpec f s)) = f (w_Spec (sess_ws s))"
  "w_Meta (sess_ws (mapWsSpec f s)) = w_Meta (sess_ws s)"
  "w_Status (sess_ws (mapWsSpec f s)) = w_Status (sess_ws s)"
  by (simp_all add: mapWsSpec_def)

lemma setPodSpec_frame [simp]:
  "sess_stack (setPodSpec ps s) = sess_stack s" "sess_namespace (setPodSpec ps s) = sess_namespace s"
  "sess_wss (setPodSpec ps s) = sess_wss s" "sess_wspc (setPodSpec ps s) = sess_wspc s"
  "w_Meta (sess_ws (setPodSpec ps s)) = w_Meta (sess_ws s)"
  by (simp_all add: setPodSpec_def)

lemma podSpec_setPodSpec [simp]:
  "podSpec (sess_ws s) = Some q \<Longrightarrow> podSpec (sess_ws (setPodSpec ps s)) = Some ps"
  by (auto simp: podSpec_def setPodSpec_def split: option.splits Option.bind_splits)

lemma writeContainer_frame [simp]:
  "sess_stack (writeContainer c s) = sess_stack s" "sess_namespace (writeContainer c s) = sess_namespace s"
  "sess_wss (writeContainer c s) = sess_wss s" "w_Meta (sess_ws (writeContainer c s)) = w_Meta (sess_ws s)"
  by (auto simp: writeContainer_def split: ContainerPtr.split option.split)

lemma mountVolume_frame:
  assumes "mountVolume n p src s = Inr t"
  shows "sess_stack t = sess_stack s \<and> sess_namespace t = sess_namespace s \<and> sess_wss t = sess_wss s"
  using assms by (auto simp: mountVolume_def bindE_Inr_iff Let_def split: if_splits option.splits)

lemma addConfig_frame:
  assumes "addConfig item s = Inr t"
  shows "sess_stack t = sess_stack s \<and> sess_namespace t = sess_namespace s \<and> sess_ws t = sess_ws s
    \<and> sess_wspc t = sess_wspc s"
  using assms by (auto simp: addConfig_def split: option.splits)

lemma resolveSecret_frame:
  assumes "resolveResourceRefAsConfigItem L ref s = Inr (v, vf, t)"
  shows "sess_stack t = sess_stack s \<and> sess_namespace t = sess_namespace s \<and> sess_wss t = sess_wss s"
  using assms
  by (auto simp: resolveResourceRefAsConfigItem_def bindE_Inr_iff Let_def dest: mountVolume_frame
      split: ResourceSelectorType.splits option.splits if_splits)

lemma resolveConfigMap_frame:
  assumes "resolveConfigMapRefAsConfigItem L ref s = Inr (v, vf, t)"
  shows "sess_stack t = sess_stack s \<and> sess_namespace t = sess_namespace s \<and> sess_wss t = sess_wss s"
  using assms
  by (auto simp: resolveConfigMapRefAsConfigItem_def bindE_Inr_iff Let_def dest: mountVolume_frame
      split: option.splits)

section \<open>The configuration loops\<close>

definition configKeys :: "Session \<Rightarrow> (string \<times> bool option) list" where
  "configKeys s = (case sess_wss s of None \<Rightarrow> [] | Some w \<Rightarrow> map (\<lambda>i. (ci_Key i, ci_Secret i)) (wst_Config w))"

text \<open>A body that adds one item for its key, and leaves the specification and the namespace alone.\<close>

definition addsItem :: "bool \<Rightarrow> (string \<Rightarrow> Session \<Rightarrow> goerr + Session) \<Rightarrow> bool" where
  "addsItem secret body \<longleftrightarrow> (\<forall>k s t. body k s = Inr t \<longrightarrow>
     sess_stack t = sess_stack s \<and> sess_namespace t = sess_namespace s
     \<and> configKeys t = configKeys s @ [(k, Some secret)])"

lemma addConfig_keys:
  "addConfig item s = Inr t \<Longrightarrow> configKeys t = configKeys s @ [(ci_Key item, ci_Secret item)]"
  by (auto simp: addConfig_def configKeys_def split: option.splits)

lemma configKeys_wss: "sess_wss s = sess_wss t \<Longrightarrow> configKeys s = configKeys t"
  by (simp add: configKeys_def)

lemma addsItem_loop:
  assumes "addsItem secret body" and "foldE body ks s = Inr t"
  shows "sess_stack t = sess_stack s \<and> sess_namespace t = sess_namespace s
    \<and> configKeys t = configKeys s @ map (\<lambda>k. (k, Some secret)) ks"
  using assms(2)
proof (induction ks arbitrary: s)
  case Nil
  then show ?case by simp
next
  case (Cons k ks)
  then obtain u where u: "body k s = Inr u" and rest: "foldE body ks u = Inr t"
    by (auto simp: bindE_Inr_iff)
  show ?case using assms(1) u Cons.IH [OF rest] unfolding addsItem_def by fastforce
qed

lemma addsItem_add:
  assumes "addConfig item s = Inr t" and "sess_stack s = sess_stack s0" and "sess_namespace s = sess_namespace s0"
    and "sess_wss s = sess_wss s0"
  shows "sess_stack t = sess_stack s0 \<and> sess_namespace t = sess_namespace s0
    \<and> configKeys t = configKeys s0 @ [(ci_Key item, ci_Secret item)]"
  using addConfig_frame [OF assms(1)] addConfig_keys [OF assms(1)] configKeys_wss [OF assms(4)] assms(2,3)
  by simp

lemma addsItem_bodies:
  "addsItem False configBody" "addsItem False (configRefBody L)"
  "addsItem True (secretBody L)" "addsItem True (secretRefBody L)"
  by (auto simp: addsItem_def configBody_def configRefBody_def secretBody_def secretRefBody_def
      addResolved_def inlineItem_def bindE_Inr_iff dest: addsItem_add dest!: resolveConfigMap_frame resolveSecret_frame)

lemmas config_loops =
  addsItem_loop [OF addsItem_bodies(1)] addsItem_loop [OF addsItem_bodies(2)]
  addsItem_loop [OF addsItem_bodies(3)] addsItem_loop [OF addsItem_bodies(4)]

lemma UpdateConfig_stages:
  assumes "UpdateConfig L s = Inr t"
  shows "configKeys t = configKeys s
      @ map (\<lambda>k. (k, Some False)) (sortedKeys (sp_Config (sess_stack s)) @ sortedKeys (sp_ConfigRef (sess_stack s)))
      @ map (\<lambda>k. (k, Some True)) (sortedKeys (sp_Secrets (sess_stack s)) @ sortedKeys (sp_SecretRefs (sess_stack s)))
    \<and> sess_stack t = sess_stack s \<and> sess_namespace t = sess_namespace s"
proof -
  from assms obtain s1 s2 s3 where
    1: "sess_stack s1 = sess_stack s \<and> sess_namespace s1 = sess_namespace s
      \<and> configKeys s1 = configKeys s @ map (\<lambda>k. (k, Some False)) (sortedKeys (sp_Config (sess_stack s)))"
    and 2: "sess_stack s2 = sess_stack s1 \<and> sess_namespace s2 = sess_namespace s1
      \<and> configKeys s2 = configKeys s1 @ map (\<lambda>k. (k, Some False)) (sortedKeys (sp_ConfigRef (sess_stack s1)))"
    and 3: "sess_stack s3 = sess_stack s2 \<and> sess_namespace s3 = sess_namespace s2
      \<and> configKeys s3 = configKeys s2 @ map (\<lambda>k. (k, Some True)) (sortedKeys (sp_Secrets (sess_stack s2)))"
    and 4: "sess_stack t = sess_stack s3 \<and> sess_namespace t = sess_namespace s3
      \<and> configKeys t = configKeys s3 @ map (\<lambda>k. (k, Some True)) (sortedKeys (sp_SecretRefs (sess_stack s3)))"
    unfolding UpdateConfig_def bindE_Inr_iff
    by (elim exE conjE) (drule config_loops(1), drule config_loops(2), drule config_loops(3), drule config_loops(4), blast)
  from 1 2 3 4 show ?thesis by simp
qed

section \<open>Volumes and mounts\<close>

text \<open>
  The plan before the template: one container, whose mounts are exactly the pod's volumes, in
  order and without repeated names.
\<close>

definition mountsOk :: "Session \<Rightarrow> bool" where
  "mountsOk s \<longleftrightarrow> sess_wspc s = InWorkspace 0 \<and>
     (case podSpec (sess_ws s) of None \<Rightarrow> False
      | Some ps \<Rightarrow> (case ps_Containers ps of
           [c] \<Rightarrow> map vm_Name (ctr_VolumeMounts c) = map v_Name (ps_Volumes ps)
                  \<and> distinct (map v_Name (ps_Volumes ps))
         | _ \<Rightarrow> False))"

lemma mountsOk_E:
  assumes "mountsOk s"
  obtains ps c where "sess_wspc s = InWorkspace 0" "podSpec (sess_ws s) = Some ps" "ps_Containers ps = [c]"
    "map vm_Name (ctr_VolumeMounts c) = map v_Name (ps_Volumes ps)" "distinct (map v_Name (ps_Volumes ps))"
  using assms unfolding mountsOk_def by (auto split: option.splits list.splits)

lemma mountVolume_ok:
  assumes "mountsOk s"
  shows "\<exists>t. mountVolume n p src s = Inr t \<and> mountsOk t"
proof -
  from assms obtain ps c where s: "sess_wspc s = InWorkspace 0" "podSpec (sess_ws s) = Some ps"
    "ps_Containers ps = [c]" "map vm_Name (ctr_VolumeMounts c) = map v_Name (ps_Volumes ps)"
    "distinct (map v_Name (ps_Volumes ps))" by (rule mountsOk_E)
  have c: "readContainer s = Inr c" using s by (simp add: readContainer_def)
  have mem: "(\<exists>m\<in>set (ctr_VolumeMounts c). vm_Name m = n) \<longleftrightarrow> n \<in> set (map v_Name (ps_Volumes ps))"
    unfolding s(4) [symmetric] by auto
  show ?thesis
  proof (cases "n \<in> set (map v_Name (ps_Volumes ps))")
    case True
    then show ?thesis using assms mem by (simp add: mountVolume_def c list_ex_iff)
  next
    case False
    then have "\<not> list_ex (\<lambda>m. vm_Name m = n) (ctr_VolumeMounts c)"
      using mem by (simp add: list_ex_iff)
    then show ?thesis
      using s False by (auto simp: mountVolume_def c writeContainer_def mountsOk_def Let_def)
  qed
qed

lemma mountVolume_keeps: "mountsOk s \<Longrightarrow> mountVolume n p src s = Inr t \<Longrightarrow> mountsOk t"
  using mountVolume_ok [of s n p src] by auto

lemma mountsOk_cong:
  "sess_wspc t = sess_wspc s \<Longrightarrow> podSpec (sess_ws t) = podSpec (sess_ws s) \<Longrightarrow> mountsOk t = mountsOk s"
  by (simp add: mountsOk_def)

lemma addConfig_mounts: "addConfig item s = Inr t \<Longrightarrow> mountsOk s \<Longrightarrow> mountsOk t"
  using mountsOk_cong [of t s] addConfig_frame [of item s t] by simp

lemma resolve_mounts:
  "mountsOk s \<Longrightarrow> resolveResourceRefAsConfigItem L ref s = Inr (v, vf, t) \<Longrightarrow> mountsOk t"
  "mountsOk s \<Longrightarrow> resolveConfigMapRefAsConfigItem L cref s = Inr (v, vf, t) \<Longrightarrow> mountsOk t"
  by (auto simp: resolveResourceRefAsConfigItem_def resolveConfigMapRefAsConfigItem_def bindE_Inr_iff Let_def
      dest: mountVolume_keeps split: ResourceSelectorType.splits option.splits if_splits)

lemma addResolved_mounts:
  assumes "addResolved k secret r = Inr t" and "\<And>v vf u. r = Inr (v, vf, u) \<Longrightarrow> mountsOk u"
  shows "mountsOk t"
  using assms(1) unfolding addResolved_def bindE_Inr_iff
  by (auto intro: addConfig_mounts assms(2))

lemma bodies_mounts:
  "configBody k s = Inr t \<Longrightarrow> mountsOk s \<Longrightarrow> mountsOk t"
  "configRefBody L k s = Inr t \<Longrightarrow> mountsOk s \<Longrightarrow> mountsOk t"
  "secretBody L k s = Inr t \<Longrightarrow> mountsOk s \<Longrightarrow> mountsOk t"
  "secretRefBody L k s = Inr t \<Longrightarrow> mountsOk s \<Longrightarrow> mountsOk t"
proof -
  show "configBody k s = Inr t \<Longrightarrow> mountsOk s \<Longrightarrow> mountsOk t"
    unfolding configBody_def by (rule addConfig_mounts)
  show "secretBody L k s = Inr t \<Longrightarrow> mountsOk s \<Longrightarrow> mountsOk t"
    unfolding secretBody_def by (rule addConfig_mounts)
  show "configRefBody L k s = Inr t \<Longrightarrow> mountsOk s \<Longrightarrow> mountsOk t"
    unfolding configRefBody_def
    by (erule addResolved_mounts) (rule resolve_mounts(2), assumption, simp only: mapErr_Inr_iff)
  show "secretRefBody L k s = Inr t \<Longrightarrow> mountsOk s \<Longrightarrow> mountsOk t"
    unfolding secretRefBody_def
    by (erule addResolved_mounts) (rule resolve_mounts(1), assumption, simp only: mapErr_Inr_iff)
qed

lemma UpdateConfig_mounts:
  assumes "mountsOk s" and "UpdateConfig L s = Inr t"
  shows "mountsOk t"
proof -
  from assms(2) obtain s1 s2 s3 where
    "foldE configBody (sortedKeys (sp_Config (sess_stack s))) s = Inr s1"
    "foldE (configRefBody L) (sortedKeys (sp_ConfigRef (sess_stack s1))) s1 = Inr s2"
    "foldE (secretBody L) (sortedKeys (sp_Secrets (sess_stack s2))) s2 = Inr s3"
    "foldE (secretRefBody L) (sortedKeys (sp_SecretRefs (sess_stack s3))) s3 = Inr t"
    by (auto simp: UpdateConfig_def bindE_Inr_iff)
  then show ?thesis
    using assms(1) foldE_invariant [where P = mountsOk] bodies_mounts by metis
qed

section \<open>Environment references\<close>

definition refLocal :: "string \<Rightarrow> ResourceRef \<Rightarrow> bool" where
  "refLocal namespace ref \<longleftrightarrow>
     (case rr_SelectorType ref of
        ResourceSelectorLiteral \<Rightarrow> rr_LiteralRef ref \<noteq> None
      | ResourceSelectorSecret \<Rightarrow>
          (case rr_SecretRef ref of None \<Rightarrow> False
           | Some r \<Rightarrow> ss_Namespace r = [] \<or> ss_Namespace r = namespace)
      | _ \<Rightarrow> False)"

lemma resolveEnv_local:
  "(\<exists>r. resolveResourceRefAsEnvVar s ref = Inr r) \<longleftrightarrow> refLocal (sess_namespace s) ref"
  by (auto simp: resolveResourceRefAsEnvVar_def refLocal_def crossNamespace_def
      split: ResourceSelectorType.split option.split)

lemma resolveConfig_local:
  "resolveResourceRefAsConfigItem L ref s = Inr (v, vf, t) \<Longrightarrow> refLocal (sess_namespace s) ref"
  by (auto simp: resolveResourceRefAsConfigItem_def refLocal_def crossNamespace_def
      split: ResourceSelectorType.splits option.splits if_splits)

definition envBody :: "string \<Rightarrow> Session \<Rightarrow> goerr + Session" where
  "envBody key sess =
     bindE (mapErr (Wrapf (''resolving env variable reference for '' @ goQuote key))
              (resolveResourceRefAsEnvVar sess (the (map_of (sp_EnvRefs (sess_stack sess)) key))))
       (\<lambda>(v, valueFrom). Inr (mapWsSpec (\<lambda>s. s\<lparr>ws_Env := ws_Env s @
          [\<lparr>ev_Name = key, ev_Value = v, ev_ValueFrom = valueFrom\<rparr>]\<rparr>) sess))"

lemma SetEnvRefs_loop: "SetEnvRefsForWorkspace sess = foldE envBody (sortedKeys (sp_EnvRefs (sess_stack sess))) sess"
  by (simp add: SetEnvRefsForWorkspace_def envBody_def [abs_def])

lemma envBody_keeps:
  assumes "envBody k s = Inr t"
  shows "sess_stack t = sess_stack s \<and> sess_namespace t = sess_namespace s \<and> (mountsOk s \<longrightarrow> mountsOk t)
    \<and> map ev_Name (ws_Env (w_Spec (sess_ws t))) = map ev_Name (ws_Env (w_Spec (sess_ws s))) @ [k]
    \<and> sess_wss t = sess_wss s"
  using assms by (auto simp: envBody_def bindE_Inr_iff podSpec_def mapWsSpec_def mountsOk_def)

lemma envBody_local:
  "envBody k s = Inr t \<Longrightarrow> refLocal (sess_namespace s) (the (map_of (sp_EnvRefs (sess_stack s)) k))"
  by (auto simp: envBody_def bindE_Inr_iff simp flip: resolveEnv_local)

lemma secretRefBody_local:
  "secretRefBody L k s = Inr t \<Longrightarrow> refLocal (sess_namespace s) (the (map_of (sp_SecretRefs (sess_stack s)) k))"
  by (auto simp: secretRefBody_def addResolved_def bindE_Inr_iff dest: resolveConfig_local)

lemma SetEnvRefs_keeps:
  assumes "SetEnvRefsForWorkspace s = Inr t"
  shows "sess_stack t = sess_stack s \<and> sess_namespace t = sess_namespace s \<and> (mountsOk s \<longrightarrow> mountsOk t)"
  using assms unfolding SetEnvRefs_loop
  by (rule foldE_invariant [where P = "\<lambda>u. sess_stack u = sess_stack s \<and> sess_namespace u = sess_namespace s
        \<and> (mountsOk s \<longrightarrow> mountsOk u)"]) (auto dest!: envBody_keeps)

lemma SetEnvRefs_local:
  assumes "SetEnvRefsForWorkspace s = Inr t" and "map_of (sp_EnvRefs (sess_stack s)) k = Some ref"
  shows "refLocal (sess_namespace s) ref"
proof -
  let ?P = "\<lambda>u. sess_stack u = sess_stack s \<and> sess_namespace u = sess_namespace s"
  have "\<exists>u v. ?P u \<and> envBody k u = Inr v"
    by (rule foldE_each [OF assms(1) [unfolded SetEnvRefs_loop], where P = ?P])
       (use assms(2) in \<open>auto dest!: envBody_keeps\<close>)
  then show ?thesis using assms(2) by (auto dest!: envBody_local)
qed

lemma UpdateConfig_local:
  assumes "UpdateConfig L s = Inr t" and "map_of (sp_SecretRefs (sess_stack s)) k = Some ref"
  shows "refLocal (sess_namespace s) ref"
proof -
  let ?P = "\<lambda>u. sess_stack u = sess_stack s \<and> sess_namespace u = sess_namespace s"
  from assms(1) obtain s1 s2 s3 where
    st: "foldE configBody (sortedKeys (sp_Config (sess_stack s))) s = Inr s1"
    "foldE (configRefBody L) (sortedKeys (sp_ConfigRef (sess_stack s1))) s1 = Inr s2"
    "foldE (secretBody L) (sortedKeys (sp_Secrets (sess_stack s2))) s2 = Inr s3"
    and last: "foldE (secretRefBody L) (sortedKeys (sp_SecretRefs (sess_stack s3))) s3 = Inr t"
    by (auto simp: UpdateConfig_def bindE_Inr_iff)
  have P: "?P s3"
    using config_loops(1) [OF st(1)] config_loops(2) [OF st(2)] config_loops(3) [OF st(3)] by simp
  have "\<exists>u v. ?P u \<and> secretRefBody L k u = Inr v"
    by (rule foldE_each [OF last, where P = ?P])
       (use P assms(2) addsItem_bodies(4) [of L] in \<open>auto simp: addsItem_def\<close>)
  then show ?thesis using assms(2) by (auto dest!: secretRefBody_local)
qed

section \<open>Map order\<close>

text \<open>
  Replacing the specification of a session by one whose maps have the same entries in another
  order changes nothing but that copy of the specification.
\<close>

abbreviation reStack :: "StackSpec \<Rightarrow> Session \<Rightarrow> Session" where
  "reStack x s \<equiv> s\<lparr>sess_stack := x\<rparr>"

definition sameMaps :: "StackSpec \<Rightarrow> StackSpec \<Rightarrow> bool" where
  "sameMaps sp sp' \<longleftrightarrow>
     map_of (sp_EnvRefs sp) = map_of (sp_EnvRefs sp') \<and> map_of (sp_Config sp) = map_of (sp_Config sp')
     \<and> map_of (sp_ConfigRef sp) = map_of (sp_ConfigRef sp') \<and> map_of (sp_Secrets sp) = map_of (sp_Secrets sp')
     \<and> map_of (sp_SecretRefs sp) = map_of (sp_SecretRefs sp')
     \<and> sp' = sp\<lparr>sp_EnvRefs := sp_EnvRefs sp', sp_Config := sp_Config sp', sp_ConfigRef := sp_ConfigRef sp',
                sp_Secrets := sp_Secrets sp', sp_SecretRefs := sp_SecretRefs sp'\<rparr>"

lemma reStack_ws [simp]:
  "mapWsSpec f (reStack x s) = reStack x (mapWsSpec f s)"
  "setPodSpec ps (reStack x s) = reStack x (setPodSpec ps s)"
  "readContainer (reStack x s) = readContainer s"
  by (simp_all add: mapWsSpec_def setPodSpec_def readContainer_def split: ContainerPtr.split option.split)

lemma reStack_write [simp]: "writeContainer c (reStack x s) = reStack x (writeContainer c s)"
  by (simp add: writeContainer_def split: ContainerPtr.split option.split)

lemma reStack_mount [simp]: "mountVolume n p src (reStack x s) = mapOk (reStack x) (mountVolume n p src s)"
  by (auto simp: mountVolume_def Let_def bindE_def split: sum.split option.split)

lemma reStack_add [simp]: "addConfig item (reStack x s) = mapOk (reStack x) (addConfig item s)"
  by (simp add: addConfig_def split: option.split)

lemma reStack_cross [simp]: "crossNamespace (reStack x s) r = crossNamespace s r"
  by (simp add: crossNamespace_def)

definition onSession :: "(Session \<Rightarrow> Session) \<Rightarrow> 'a \<times> 'b \<times> Session \<Rightarrow> 'a \<times> 'b \<times> Session" where
  "onSession h r = (case r of (v, vf, s) \<Rightarrow> (v, vf, h s))"

lemma reStack_secretItem:
  "resolveResourceRefAsConfigItem L ref (reStack x s)
    = mapOk (onSession (reStack x)) (resolveResourceRefAsConfigItem L ref s)"
  by (auto simp: resolveResourceRefAsConfigItem_def Let_def onSession_def
      split: ResourceSelectorType.split option.split)

lemma reStack_configMapItem:
  "resolveConfigMapRefAsConfigItem L ref (reStack x s)
    = mapOk (onSession (reStack x)) (resolveConfigMapRefAsConfigItem L ref s)"
  by (auto simp: resolveConfigMapRefAsConfigItem_def Let_def onSession_def split: option.split)

lemma addResolved_map:
  "addResolved k b (mapOk (onSession (reStack x)) r) = mapOk (reStack x) (addResolved k b r)"
  by (cases r) (auto simp: addResolved_def onSession_def)

lemma reStack_bodies:
  assumes "sameMaps (sess_stack s) x"
  shows "configBody k (reStack x s) = mapOk (reStack x) (configBody k s)"
    and "configRefBody L k (reStack x s) = mapOk (reStack x) (configRefBody L k s)"
    and "secretBody L k (reStack x s) = mapOk (reStack x) (secretBody L k s)"
    and "secretRefBody L k (reStack x s) = mapOk (reStack x) (secretRefBody L k s)"
  using assms
  by (simp_all add: sameMaps_def configBody_def configRefBody_def secretBody_def secretRefBody_def
      reStack_secretItem reStack_configMapItem addResolved_map)

lemma reStack_loop:
  assumes "\<And>k u. sameMaps (sess_stack u) x \<Longrightarrow> body k (reStack x u) = mapOk (reStack x) (body k u)"
    and "addsItem secret body" and "sameMaps (sess_stack s) x"
  shows "foldE body ks (reStack x s) = mapOk (reStack x) (foldE body ks s)"
  by (rule foldE_map [where P = "\<lambda>u. sameMaps (sess_stack u) x"])
     (use assms in \<open>auto simp: addsItem_def\<close>)

lemmas reStack_loops =
  reStack_loop [OF reStack_bodies(1) addsItem_bodies(1)] reStack_loop [OF reStack_bodies(2) addsItem_bodies(2)]
  reStack_loop [OF reStack_bodies(3) addsItem_bodies(3)] reStack_loop [OF reStack_bodies(4) addsItem_bodies(4)]

lemma sameMaps_keys:
  assumes "sameMaps sp sp'"
  shows "sortedKeys (sp_EnvRefs sp') = sortedKeys (sp_EnvRefs sp)"
    "sortedKeys (sp_Config sp') = sortedKeys (sp_Config sp)"
    "sortedKeys (sp_ConfigRef sp') = sortedKeys (sp_ConfigRef sp)"
    "sortedKeys (sp_Secrets sp') = sortedKeys (sp_Secrets sp)"
    "sortedKeys (sp_SecretRefs sp') = sortedKeys (sp_SecretRefs sp)"
  using assms by (auto simp: sameMaps_def intro!: sortedKeys_eq)

lemma reStack_UpdateConfig:
  assumes "sameMaps (sess_stack s) x"
  shows "UpdateConfig L (reStack x s) = mapOk (reStack x) (UpdateConfig L s)"
proof -
  note keys = sameMaps_keys [OF assms]
  show ?thesis
    unfolding UpdateConfig_def
    by (intro bindE_mapOk_cong)
       (use assms keys in \<open>auto simp: reStack_loops dest!: config_loops(1) config_loops(2) config_loops(3)\<close>)
qed

lemma reStack_env:
  assumes "sameMaps (sess_stack s) x"
  shows "envBody k (reStack x s) = mapOk (reStack x) (envBody k s)"
  using assms by (auto simp: envBody_def sameMaps_def resolveResourceRefAsEnvVar_def bindE_def mapErr_def
      split: sum.split ResourceSelectorType.split option.split)

lemma reStack_SetEnvRefs:
  assumes "sameMaps (sess_stack s) x"
  shows "SetEnvRefsForWorkspace (reStack x s) = mapOk (reStack x) (SetEnvRefsForWorkspace s)"
  using assms sameMaps_keys(1) [OF assms] unfolding SetEnvRefs_loop
  by (simp, intro foldE_map [where P = "\<lambda>u. sameMaps (sess_stack u) x"])
     (auto simp: reStack_env dest!: envBody_keeps)

definition withBasics :: "Session \<Rightarrow> Session" where
  "withBasics sess = (
     let sp = sess_stack sess;
         sess = (if sp_ServiceAccountName sp \<noteq> []
                 then mapWsSpec (\<lambda>s. s\<lparr>ws_ServiceAccountName := sp_ServiceAccountName sp\<rparr>) sess else sess);
         sess = (if sp_Backend sp \<noteq> []
                 then addEnv \<lparr>ev_Name = ''PULUMI_BACKEND_URL'', ev_Value = sp_Backend sp, ev_ValueFrom = None\<rparr> sess
                 else sess)
     in (if sp_AccessTokenSecret sp \<noteq> []
                 then addEnv \<lparr>ev_Name = ''PULUMI_ACCESS_TOKEN'', ev_Value = [],
                              ev_ValueFrom = Some (SecretKeyRef \<lparr>sk_Name = sp_AccessTokenSecret sp,
                                sk_Key = ''accessToken'', sk_Optional = None\<rparr>)\<rparr> sess
                 else sess))"

definition newStackEntry :: "StackSpec \<Rightarrow> WorkspaceStack" where
  "newStackEntry sp = \<lparr>wst_Name = sp_Stack sp, wst_Create = Some (\<not> sp_UseLocalStackOnly sp),
     wst_SecretsProvider = (if sp_SecretsProvider sp \<noteq> [] then Some (sp_SecretsProvider sp) else None),
     wst_Config = [], wst_Environment = sp_Environment sp\<rparr>"

lemma setupWorkspace_stages:
  "setupWorkspace L T up s =
     bindE (SetEnvRefsForWorkspace (withBasics s))
       (\<lambda>s'. bindE (mapErr (Wrapf ''failed to set stack config'')
                      (UpdateConfig L (s'\<lparr>sess_wss := Some (newStackEntry (sess_stack s))\<rparr>)))
          (\<lambda>s''. case sp_WorkspaceTemplate (sess_stack s) of
                   None \<Rightarrow> Inr s''
                 | Some template \<Rightarrow>
                     bindE (mapErr (Wrapf ''patching workspace spec'')
                              (patchObject (tp_Workspace T) (sess_ws s'')
                                 (if up then withoutSources template else template)))
                       (repointContainer s'')))"
  by (simp add: setupWorkspace_def withBasics_def newStackEntry_def Let_def)

lemma withBasics_frame [simp]:
  "sess_stack (withBasics s) = sess_stack s" "sess_namespace (withBasics s) = sess_namespace s"
  "mountsOk (withBasics s) = mountsOk s"
  by (auto simp: withBasics_def addEnv_def Let_def mapWsSpec_def mountsOk_def podSpec_def)

lemma repoint_frame:
  "repointContainer s w = Inr t \<Longrightarrow> sess_stack t = sess_stack s \<and> sess_namespace t = sess_namespace s \<and> sess_wss t = sess_wss s"
  by (auto simp: repointContainer_def split: option.splits)

lemma setupWorkspace_E:
  assumes "setupWorkspace L T up s = Inr t"
  obtains s1 s2 where "SetEnvRefsForWorkspace (withBasics s) = Inr s1"
    "UpdateConfig L (s1\<lparr>sess_wss := Some (newStackEntry (sess_stack s))\<rparr>) = Inr s2"
    "sess_wss t = sess_wss s2" "sp_WorkspaceTemplate (sess_stack s) = None \<longrightarrow> t = s2"
    "sess_stack s1 = sess_stack s" "sess_namespace s1 = sess_namespace s"
proof -
  from assms obtain s1 s2 where 1: "SetEnvRefsForWorkspace (withBasics s) = Inr s1"
    and 2: "UpdateConfig L (s1\<lparr>sess_wss := Some (newStackEntry (sess_stack s))\<rparr>) = Inr s2"
    and 3: "(case sp_WorkspaceTemplate (sess_stack s) of None \<Rightarrow> Inr s2 | Some template \<Rightarrow>
       bindE (mapErr (Wrapf ''patching workspace spec'') (patchObject (tp_Workspace T) (sess_ws s2)
          (if up then withoutSources template else template))) (repointContainer s2)) = Inr t"
    unfolding setupWorkspace_stages by (auto simp: bindE_Inr_iff)
  have "sess_wss t = sess_wss s2" and "sp_WorkspaceTemplate (sess_stack s) = None \<longrightarrow> t = s2"
    using 3 by (auto simp: bindE_Inr_iff dest: repoint_frame split: option.splits)
  with 1 2 show thesis using SetEnvRefs_keeps [OF 1] that by simp
qed

text \<open>A volume name made for a reference is never longer than a DNS label may be, so
  the pod is accepted whatever the name of the referenced object.\<close>

lemma volume_name_fits:
  assumes "label_api L"
  shows "length (makeRefVolumeName L prefix nm) \<le> 63"
  using label_api.label_length [OF assms, of "prefix @ nm"] label_api.sum_length [OF assms, of nm]
  by (auto simp: makeRefVolumeName_def Let_def DNS1123LabelMaxLength_def)

lemma volume_name_fits_witness:
  "length (makeRefVolumeName docLib ''secret-'' ''my.dotted.name'') \<le> 63"
  by (rule volume_name_fits [OF docLabels.label_api_axioms])

text \<open>A workspace is only planned for a stack all of whose environment and secret
  references are literals or secrets of the stack's own namespace: a reference across namespaces,
  or to the operator's environment or files, ends the set-up with an error.\<close>

lemma workspace_refs_local:
  assumes "setupWorkspace L T usingProjectInfo s = Inr t"
    and "map_of (sp_EnvRefs (sess_stack s)) k = Some ref \<or> map_of (sp_SecretRefs (sess_stack s)) k = Some ref"
  shows "refLocal (sess_namespace s) ref"
proof -
  from assms(1) obtain s1 s2 where st: "SetEnvRefsForWorkspace (withBasics s) = Inr s1"
    "UpdateConfig L (s1\<lparr>sess_wss := Some (newStackEntry (sess_stack s))\<rparr>) = Inr s2"
    "sess_stack s1 = sess_stack s" "sess_namespace s1 = sess_namespace s"
    by (rule setupWorkspace_E)
  show ?thesis
    using assms(2) SetEnvRefs_local [OF st(1), of k ref] UpdateConfig_local [OF st(2), of k ref] st(3,4) by auto
qed

definition exampleSpec :: StackSpec where
  "exampleSpec = emptyStackSpec\<lparr>sp_Stack := ''dev'', sp_Backend := ''s3://state'',
     sp_EnvRefs := [(''REGION'', NewLiteralResourceRef ''eu'')],
     sp_Config := [(''b'', ''1''), (''a'', ''2'')],
     sp_SecretRefs := [(''token'', NewSecretResourceRef ''default'' ''creds'' ''t'')]\<rparr>"

definition exampleSession :: Session where
  "exampleSession = projr (NewWorkspace docLib exampleStack (newStackReconcilerSession exampleSpec ''default''))"

definition noTemplates :: templates where
  "noTemplates = \<lparr>tp_Workspace = \<lparr>cd_MarshalBase = (\<lambda>_. Inr []), cd_MarshalPatch = (\<lambda>_. Inr []),
       cd_Merge = (\<lambda>a b. Inr []), cd_Unmarshal = (\<lambda>_. Inr emptyWorkspace)\<rparr>,
     tp_Update = \<lparr>cd_MarshalBase = (\<lambda>_. Inr []), cd_MarshalPatch = (\<lambda>_. Inr []),
       cd_Merge = (\<lambda>a b. Inr []), cd_Unmarshal = (\<lambda>_. Inr exampleUpdate)\<rparr>\<rparr>"

lemma exampleSetup:
  "\<exists>t. setupWorkspace docLib noTemplates False exampleSession = Inr t"
proof -
  have "isl (setupWorkspace docLib noTemplates False exampleSession) = False" by code_simp
  then show ?thesis by (cases "setupWorkspace docLib noTemplates False exampleSession") auto
qed

lemma workspace_refs_local_witness:
  "refLocal ''default'' (NewSecretResourceRef ''default'' ''creds'' ''t'')
   \<and> refLocal ''default'' (NewLiteralResourceRef ''eu'')"
proof -
  obtain t where t: "setupWorkspace docLib noTemplates False exampleSession = Inr t"
    using exampleSetup by blast
  have "sess_stack exampleSession = exampleSpec" "sess_namespace exampleSession = ''default''"
    by (simp_all add: exampleSession_def NewWorkspace_def newStackReconcilerSession_def Let_def docLib_def refOwner_def)
  then show ?thesis
    using workspace_refs_local [OF t, of "''token''" "NewSecretResourceRef ''default'' ''creds'' ''t''"]
      workspace_refs_local [OF t, of "''REGION''" "NewLiteralResourceRef ''eu''"]
    by (simp add: exampleSpec_def)
qed

text \<open>The configuration of the planned stack has one item per entry of the four maps:
  inline values, then ConfigMap references, then inline secrets, then secret references, each
  group in key order; exactly the items of the last two groups are marked secret.\<close>

lemma workspace_config_items:
  assumes "setupWorkspace L T usingProjectInfo s = Inr t"
  shows "configKeys t =
     map (\<lambda>k. (k, Some False)) (sortedKeys (sp_Config (sess_stack s)) @ sortedKeys (sp_ConfigRef (sess_stack s)))
     @ map (\<lambda>k. (k, Some True)) (sortedKeys (sp_Secrets (sess_stack s)) @ sortedKeys (sp_SecretRefs (sess_stack s)))"
proof -
  from assms obtain s1 s2 where 2: "UpdateConfig L (s1\<lparr>sess_wss := Some (newStackEntry (sess_stack s))\<rparr>) = Inr s2"
    and eq: "sess_wss t = sess_wss s2" "sess_stack s1 = sess_stack s"
    by (rule setupWorkspace_E)
  show ?thesis
    using UpdateConfig_stages [OF 2] eq(2) configKeys_wss [OF eq(1)]
    by (simp add: configKeys_def newStackEntry_def)
qed

lemma workspace_config_items_witness:
  "configKeys (projr (setupWorkspace docLib noTemplates False exampleSession))
    = [(''a'', Some False), (''b'', Some False), (''token'', Some True)]"
proof -
  obtain t where t: "setupWorkspace docLib noTemplates False exampleSession = Inr t"
    using exampleSetup by blast
  have "sortedKeys (sp_Config (sess_stack exampleSession)) = [''a'', ''b'']"
    "sortedKeys (sp_ConfigRef (sess_stack exampleSession)) = []"
    "sortedKeys (sp_Secrets (sess_stack exampleSession)) = []"
    "sortedKeys (sp_SecretRefs (sess_stack exampleSession)) = [''token'']"
    by code_simp+
  then show ?thesis using workspace_config_items [OF t] by (simp add: t)
qed

lemma NewWorkspace_mounts:
  "NewWorkspace L stack s = Inr t \<Longrightarrow>
     mountsOk t \<and> sess_stack t = sess_stack s \<and> sess_namespace t = sess_namespace s"
  by (auto simp: NewWorkspace_def Let_def bindE_Inr_iff mountsOk_def podSpec_def emptyContainer_def)

text \<open>Without a template of the user's, setting up a planned workspace leaves the pod
  with one container whose mounts are exactly the pod's volumes, none repeated: however many
  references name the same object, it is mounted once.\<close>

lemma workspace_mounts_match:
  assumes "mountsOk s" and "sp_WorkspaceTemplate (sess_stack s) = None"
    and "setupWorkspace L T usingProjectInfo s = Inr t"
  shows "mountsOk t"
proof -
  from assms(3) obtain s1 s2 where st: "SetEnvRefsForWorkspace (withBasics s) = Inr s1"
    "UpdateConfig L (s1\<lparr>sess_wss := Some (newStackEntry (sess_stack s))\<rparr>) = Inr s2" "t = s2"
    by (rule setupWorkspace_E) (use assms(2) in blast)
  have "mountsOk s1" using SetEnvRefs_keeps [OF st(1)] assms(1) by simp
  then have "mountsOk (s1\<lparr>sess_wss := Some (newStackEntry (sess_stack s))\<rparr>)"
    by (simp add: mountsOk_def)
  then show ?thesis using UpdateConfig_mounts [OF _ st(2)] st(3) by simp
qed

lemma workspace_mounts_match_witness:
  "mountsOk (projr (setupWorkspace docLib noTemplates False exampleSession))"
proof -
  obtain t where t: "setupWorkspace docLib noTemplates False exampleSession = Inr t"
    using exampleSetup by blast
  have "NewWorkspace docLib exampleStack (newStackReconcilerSession exampleSpec ''default'') = Inr exampleSession"
    by (simp add: exampleSession_def NewWorkspace_def Let_def docLib_def refOwner_def)
  then have "mountsOk exampleSession" "sess_stack exampleSession = exampleSpec"
    using NewWorkspace_mounts by (fastforce simp: newStackReconcilerSession_def)+
  then show ?thesis
    using workspace_mounts_match [OF _ _ t] by (simp add: t exampleSpec_def emptyStackSpec_def)
qed

lemma withBasics_reStack:
  "sameMaps (sess_stack s) x \<Longrightarrow> withBasics (reStack x s) = reStack x (withBasics s)"
  by (cases x; cases "sess_stack s") (auto simp: withBasics_def addEnv_def Let_def sameMaps_def)

lemma sameMaps_fields:
  assumes "sameMaps sp sp'"
  shows "newStackEntry sp' = newStackEntry sp" "sp_WorkspaceTemplate sp' = sp_WorkspaceTemplate sp"
  using assms by (cases sp; cases sp'; simp add: sameMaps_def newStackEntry_def)+

lemma repoint_reStack: "repointContainer (reStack x s) = (\<lambda>w. mapOk (reStack x) (repointContainer s w))"
  by (rule ext) (simp add: repointContainer_def split: option.split sum.split)

lemma template_reStack:
  "(case template of None \<Rightarrow> Inr (reStack x a)
    | Some t \<Rightarrow> bindE (mapErr w (patchObject C (sess_ws (reStack x a)) (f t))) (repointContainer (reStack x a)))
   = mapOk (reStack x)
      (case template of None \<Rightarrow> Inr a
       | Some t \<Rightarrow> bindE (mapErr w (patchObject C (sess_ws a) (f t))) (repointContainer a))"
  by (simp add: repoint_reStack split: option.split)

text \<open>C38: The workspace is a function of the specification's maps as maps: enumerating their
  entries in another order gives the same workspace and the same errors, so a re-run does not
  change the pod for no reason.\<close>

lemma workspace_order_independent:
  assumes "sameMaps (sess_stack s) spec"
  shows "setupWorkspace L T usingProjectInfo (s\<lparr>sess_stack := spec\<rparr>)
    = mapOk (\<lambda>t. t\<lparr>sess_stack := spec\<rparr>) (setupWorkspace L T usingProjectInfo s)"
proof -
  have U: "UpdateConfig L ((reStack spec u)\<lparr>sess_wss := w\<rparr>)
      = mapOk (reStack spec) (UpdateConfig L (u\<lparr>sess_wss := w\<rparr>))"
    if "sess_stack u = sess_stack s" for u w
  proof -
    have eq: "(reStack spec u)\<lparr>sess_wss := w\<rparr> = reStack spec (u\<lparr>sess_wss := w\<rparr>)" by simp
    show ?thesis unfolding eq by (rule reStack_UpdateConfig) (use that assms in simp)
  qed
  show ?thesis
    unfolding setupWorkspace_stages
  proof (rule bindE_mapOk_cong [where h = "reStack spec"])
    show "SetEnvRefsForWorkspace (withBasics (s\<lparr>sess_stack := spec\<rparr>))
        = mapOk (reStack spec) (SetEnvRefsForWorkspace (withBasics s))"
      using assms by (simp add: withBasics_reStack reStack_SetEnvRefs)
  next
    fix a
    assume "SetEnvRefsForWorkspace (withBasics s) = Inr a"
    then have a: "sess_stack a = sess_stack s" using SetEnvRefs_keeps by fastforce
    show "bindE (mapErr (Wrapf ''failed to set stack config'') (UpdateConfig L
             (reStack spec a\<lparr>sess_wss := Some (newStackEntry (sess_stack (s\<lparr>sess_stack := spec\<rparr>)))\<rparr>)))
           (\<lambda>s''. case sp_WorkspaceTemplate (sess_stack (s\<lparr>sess_stack := spec\<rparr>)) of None \<Rightarrow> Inr s''
              | Some template \<Rightarrow> bindE (mapErr (Wrapf ''patching workspace spec'')
                    (patchObject (tp_Workspace T) (sess_ws s'')
                      (if usingProjectInfo then withoutSources template else template))) (repointContainer s''))
         = mapOk (reStack spec) (bindE (mapErr (Wrapf ''failed to set stack config'') (UpdateConfig L
             (a\<lparr>sess_wss := Some (newStackEntry (sess_stack s))\<rparr>)))
           (\<lambda>s''. case sp_WorkspaceTemplate (sess_stack s) of None \<Rightarrow> Inr s''
              | Some template \<Rightarrow> bindE (mapErr (Wrapf ''patching workspace spec'')
                    (patchObject (tp_Workspace T) (sess_ws s'')
                      (if usingProjectInfo then withoutSources template else template))) (repointContainer s'')))"
      by (rule bindE_mapOk_cong) (use U [OF a] assms in \<open>simp_all add: sameMaps_fields template_reStack\<close>)
  qed
qed

lemma workspace_order_independent_witness:
  "setupWorkspace docLib noTemplates False
      (exampleSession\<lparr>sess_stack := exampleSpec\<lparr>sp_Config := [(''a'', ''2''), (''b'', ''1'')]\<rparr>\<rparr>)
    = mapOk (\<lambda>t. t\<lparr>sess_stack := exampleSpec\<lparr>sp_Config := [(''a'', ''2''), (''b'', ''1'')]\<rparr>\<rparr>)
        (setupWorkspace docLib noTemplates False exampleSession)"
proof -
  have "sess_stack exampleSession = exampleSpec"
    by (simp add: exampleSession_def NewWorkspace_def newStackReconcilerSession_def Let_def docLib_def refOwner_def)
  then have "sameMaps (sess_stack exampleSession) (exampleSpec\<lparr>sp_Config := [(''a'', ''2''), (''b'', ''1'')]\<rparr>)"
    by (auto simp: sameMaps_def exampleSpec_def fun_eq_iff)
  then show ?thesis by (rule workspace_order_independent)
qed

end
