(* ===== verification/GitSource.thy ===== *)
theory GitSource
  imports SessionFacts
begin

text \<open>
  Git sources of a stack (operator/internal/controller/pulumi/git.go): the check of the source,
  the commit a reference stands for, the credentials of the operator and those given to the
  workspace. Parsing of URLs, the hash test, SSH keys and the listing of a remote are go-git's and
  Pulumi's, hence arguments; so is the exchange of a GitHub App key for a token. Reads of secrets
  are a function of namespace and name.
\<close>

section \<open>The source\<close>

text \<open>\<^verbatim>\<open>auto.GitAuth\<close>, \<^verbatim>\<open>transport.AuthMethod\<close> and a listed reference.\<close>

record AutoGitAuth =
  aga_SSHPrivateKey :: string
  aga_PersonalAccessToken :: string
  aga_Username :: string
  aga_Password :: string

definition emptyGitAuth :: AutoGitAuth where
  "emptyGitAuth = \<lparr>aga_SSHPrivateKey = [], aga_PersonalAccessToken = [], aga_Username = [], aga_Password = []\<rparr>"

datatype AuthMethod = HttpBasicAuth string string | SshPublicKeys string

record GitRef =
  gr_Name :: string
  gr_Short :: string
  gr_Hash :: string

record gitlib =
  ParseGitRepoURL :: "string \<Rightarrow> goerr + string"
  IsHash :: "string \<Rightarrow> bool"
  NewPublicKeys :: "string \<Rightarrow> string \<Rightarrow> string \<Rightarrow> goerr + AuthMethod"
  ListRemote :: "string \<Rightarrow> AuthMethod option \<Rightarrow> goerr + GitRef list"
  GetGitHubAppInstallationToken :: "string \<Rightarrow> string \<Rightarrow> string \<Rightarrow> goerr + string"

record gitSource =
  gsrc_ref :: string
  gsrc_remote :: string
  gsrc_auth :: "AutoGitAuth option"

definition newGitSource :: "gitlib \<Rightarrow> string \<Rightarrow> string \<Rightarrow> AutoGitAuth option \<Rightarrow> goerr + gitSource" where
  "newGitSource G rawURL ref auth =
     bindE (mapErr (Wrapf (''parsing '' @ goQuote rawURL)) (ParseGitRepoURL G rawURL))
       (\<lambda>url. Inr \<lparr>gsrc_ref = ref, gsrc_remote = url, gsrc_auth = auth\<rparr>)"

definition NewGitSource :: "gitlib \<Rightarrow> StackGitSource \<Rightarrow> AutoGitAuth option \<Rightarrow> goerr + gitSource" where
  "NewGitSource G gs auth =
     (if sgs_ProjectRepo gs = [] then Inl (Errorf (''missing '' @ goQuote ''projectRepo''))
      else if sgs_Commit gs = [] \<and> sgs_Branch gs = []
      then Inl (Errorf (''missing '' @ goQuote ''commit'' @ '' or '' @ goQuote ''branch''))
      else if sgs_Commit gs \<noteq> [] \<and> sgs_Branch gs \<noteq> []
      then Inl (Errorf (''only one of '' @ goQuote ''commit'' @ '' or '' @ goQuote ''branch'' @ '' should be specified''))
      else let ref = sgs_Commit gs;
               ref = (if sgs_Branch gs \<noteq> [] then sgs_Branch gs else ref)
           in newGitSource G (sgs_ProjectRepo gs) ref auth)"

definition authMethod :: "gitlib \<Rightarrow> gitSource \<Rightarrow> goerr + AuthMethod option" where
  "authMethod G gs =
     (case gsrc_auth gs of
        None \<Rightarrow> Inr None
      | Some a \<Rightarrow>
          (if aga_Username a \<noteq> [] then Inr (Some (HttpBasicAuth (aga_Username a) (aga_Password a)))
           else if aga_PersonalAccessToken a \<noteq> []
           then Inr (Some (HttpBasicAuth ''git'' (aga_PersonalAccessToken a)))
           else if aga_SSHPrivateKey a \<noteq> []
           then bindE (NewPublicKeys G ''git'' (aga_SSHPrivateKey a) (aga_Password a)) (\<lambda>k. Inr (Some k))
           else Inr None))"

definition CurrentCommit :: "gitlib \<Rightarrow> gitSource \<Rightarrow> goerr + string" where
  "CurrentCommit G gs =
     (if IsHash G (gsrc_ref gs) then Inr (gsrc_ref gs)
      else bindE (mapErr (Wrapf ''getting auth method'') (authMethod G gs))
        (\<lambda>auth. bindE (mapErr (Wrapf ''listing'') (ListRemote G (gsrc_remote gs) auth))
          (\<lambda>refs. case List.find (\<lambda>r. gr_Name r = gsrc_ref gs \<or> gr_Short r = gsrc_ref gs) refs of
                    Some r \<Rightarrow> Inr (gr_Hash r)
                  | None \<Rightarrow> Inl (Errorf (''no commits found for ref '' @ goQuote (gsrc_ref gs))))))"

section \<open>Credentials of the operator\<close>

type_synonym secretReader = "string \<Rightarrow> string \<Rightarrow> goerr + string gomap"

definition resolveSecretResourceRef :: "secretReader \<Rightarrow> Session \<Rightarrow> ResourceRef \<Rightarrow> goerr + string" where
  "resolveSecretResourceRef getSecret sess ref =
     (case rr_SelectorType ref of
        ResourceSelectorSecret \<Rightarrow>
          (case rr_SecretRef ref of
             None \<Rightarrow> Inl (Errorf ''missing secret reference in ResourceRef'')
           | Some r \<Rightarrow>
               (let namespace = (if ss_Namespace r = [] then sess_namespace sess else ss_Namespace r)
                in if namespace \<noteq> sess_namespace sess then Inl errNamespaceIsolation
                   else bindE (mapErr (Wrapf (''unable to get secret '' @ namespace @ ''/'' @ ss_Name r))
                                 (getSecret namespace (ss_Name r)))
                          (\<lambda>config. case map_of config (ss_Key r) of
                             Some v \<Rightarrow> Inr v
                           | None \<Rightarrow> Inl (Errorf (''no key '' @ goQuote (ss_Key r) @ '' found in secret ''
                                          @ namespace @ ''/'' @ ss_Name r)))))
      | t \<Rightarrow> Inl (Errorf (selectorTypeString t @ '' selectors are no longer supported in v2, please use a secret reference instead'')))"

text \<open>The branch of \<^verbatim>\<open>resolveGitAuth\<close> for \<^verbatim>\<open>gitAuthSecret\<close>.\<close>

definition authFromSecret :: "string \<Rightarrow> string gomap \<Rightarrow> goerr + AutoGitAuth" where
  "authFromSecret namespacedName secret =
     (case map_of secret ''sshPrivateKey'' of
        Some key \<Rightarrow>
          Inr (case map_of secret ''password'' of
                 Some p \<Rightarrow> emptyGitAuth\<lparr>aga_SSHPrivateKey := key, aga_Password := p\<rparr>
               | None \<Rightarrow> emptyGitAuth\<lparr>aga_SSHPrivateKey := key\<rparr>)
      | None \<Rightarrow>
          (case map_of secret ''accessToken'' of
             Some token \<Rightarrow> Inr (emptyGitAuth\<lparr>aga_PersonalAccessToken := token\<rparr>)
           | None \<Rightarrow>
               (case map_of secret ''username'' of
                  Some u \<Rightarrow>
                    (case map_of secret ''password'' of
                       Some p \<Rightarrow> Inr (emptyGitAuth\<lparr>aga_Username := u, aga_Password := p\<rparr>)
                     | None \<Rightarrow> Inl (Errorf (''creating gitAuth: no key '' @ goQuote ''password''
                                     @ '' found in secret '' @ namespacedName)))
                | None \<Rightarrow> Inr emptyGitAuth)))"

text \<open>The branch for \<^verbatim>\<open>gitAuth\<close>, its four alternatives in the code's order.\<close>

definition authFromConfig :: "gitlib \<Rightarrow> secretReader \<Rightarrow> Session \<Rightarrow> GitAuthConfig \<Rightarrow> goerr + AutoGitAuth" where
  "authFromConfig G getSecret sess stackAuth = (
     let resolve = (\<lambda>what ref. mapErr (Wrapf (''resolving gitAuth '' @ what)) (resolveSecretResourceRef getSecret sess ref))
     in case gac_SSHAuth stackAuth of
          Some ssh \<Rightarrow>
            bindE (resolve ''SSH private key'' (ssh_SSHPrivateKey ssh))
              (\<lambda>key. case ssh_Password ssh of
                       None \<Rightarrow> Inr (emptyGitAuth\<lparr>aga_SSHPrivateKey := key\<rparr>)
                     | Some pw \<Rightarrow> bindE (resolve ''SSH password'' pw)
                         (\<lambda>p. Inr (emptyGitAuth\<lparr>aga_SSHPrivateKey := key, aga_Password := p\<rparr>)))
        | None \<Rightarrow>
       (case gac_PersonalAccessToken stackAuth of
          Some pat \<Rightarrow>
            bindE (resolve ''personal access token'' pat)
              (\<lambda>token. Inr (emptyGitAuth\<lparr>aga_PersonalAccessToken := token\<rparr>))
        | None \<Rightarrow>
       (case gac_GitHubApp stackAuth of
          Some app \<Rightarrow>
            bindE (resolve ''GitHub App ID'' (sgh_AppID app))
              (\<lambda>appID. bindE (resolve ''GitHub App installation ID'' (sgh_InstallationID app))
              (\<lambda>installationID. bindE (resolve ''GitHub App private key'' (sgh_PrivateKey app))
              (\<lambda>privateKey. bindE (mapErr (Wrapf ''getting GitHub App installation token'')
                                     (GetGitHubAppInstallationToken G appID installationID privateKey))
              (\<lambda>token. Inr (emptyGitAuth\<lparr>aga_PersonalAccessToken := token\<rparr>)))))
        | None \<Rightarrow>
       (case gac_BasicAuth stackAuth of
          None \<Rightarrow> Inl (Errorf (''gitAuth config must specify exactly one of ''
                   @ [char_of (39::nat)] @ ''personalAccessToken'' @ [char_of (39::nat)] @ '', ''
                   @ [char_of (39::nat)] @ ''sshPrivateKey'' @ [char_of (39::nat)] @ '', ''
                   @ [char_of (39::nat)] @ ''basicAuth'' @ [char_of (39::nat)] @ '', or ''
                   @ [char_of (39::nat)] @ ''githubApp'' @ [char_of (39::nat)]))
        | Some basic \<Rightarrow>
            bindE (resolve ''username'' (ba_UserName basic))
              (\<lambda>u. bindE (resolve ''password'' (ba_Password basic))
              (\<lambda>p. Inr (emptyGitAuth\<lparr>aga_Username := u, aga_Password := p\<rparr>)))))))"

definition resolveGitAuth :: "gitlib \<Rightarrow> secretReader \<Rightarrow> Session \<Rightarrow> goerr + AutoGitAuth" where
  "resolveGitAuth G getSecret sess =
     (case sp_GitSource (sess_stack sess) of
        None \<Rightarrow> Inr emptyGitAuth
      | Some gs \<Rightarrow>
          (if sgs_GitAuthSecret gs = [] \<and> sgs_GitAuth gs = None then Inr emptyGitAuth
           else if sgs_GitAuthSecret gs \<noteq> []
           then bindE (getSecret (sess_namespace sess) (sgs_GitAuthSecret gs))
                  (authFromSecret (sess_namespace sess @ ''/'' @ sgs_GitAuthSecret gs))
           else case sgs_GitAuth gs of
                  Some stackAuth \<Rightarrow> authFromConfig G getSecret sess stackAuth
                | None \<Rightarrow> Inr emptyGitAuth))"

section \<open>Credentials of the workspace\<close>

definition emptyWsGitAuth :: GitAuth where
  "emptyWsGitAuth = \<lparr>ga_SSHPrivateKey = None, ga_Username = None, ga_Password = None, ga_Token = None,
     ga_GitHubApp = None\<rparr>"

definition optionalKey :: "string \<Rightarrow> string \<Rightarrow> SecretKeySelector option" where
  "optionalKey nm key = Some \<lparr>sk_Name = nm, sk_Key = key, sk_Optional = Some True\<rparr>"

text \<open>\<^verbatim>\<open>ref.SecretRef.Name\<close> and \<^verbatim>\<open>ref.SecretRef.Key\<close>, without a check of the pointer.\<close>

definition derefKey :: "ResourceRef \<Rightarrow> goerr + SecretKeySelector option" where
  "derefKey ref =
     (case rr_SecretRef ref of
        None \<Rightarrow> Inl (Panic ''nil dereference: SecretRef'')
      | Some r \<Rightarrow> Inr (Some \<lparr>sk_Name = ss_Name r, sk_Key = ss_Key r, sk_Optional = None\<rparr>))"

definition workspaceGitAuth :: "StackGitSource \<Rightarrow> goerr + GitAuth" where
  "workspaceGitAuth gs = (
     let auth = emptyWsGitAuth;
         auth = (if sgs_GitAuthSecret gs \<noteq> []
                 then auth\<lparr>ga_SSHPrivateKey := optionalKey (sgs_GitAuthSecret gs) ''sshPrivateKey'',
                           ga_Password := optionalKey (sgs_GitAuthSecret gs) ''password'',
                           ga_Username := optionalKey (sgs_GitAuthSecret gs) ''username'',
                           ga_Token := optionalKey (sgs_GitAuthSecret gs) ''accessToken''\<rparr>
                 else auth)
     in case sgs_GitAuth gs of
          None \<Rightarrow> Inr auth
        | Some cfg \<Rightarrow>
            bindE (case gac_SSHAuth cfg of
                     None \<Rightarrow> Inr auth
                   | Some ssh \<Rightarrow>
                       bindE (derefKey (ssh_SSHPrivateKey ssh))
                         (\<lambda>k. case ssh_Password ssh of
                                None \<Rightarrow> Inr (auth\<lparr>ga_SSHPrivateKey := k\<rparr>)
                              | Some pw \<Rightarrow> bindE (derefKey pw)
                                  (\<lambda>p. Inr (auth\<lparr>ga_SSHPrivateKey := k, ga_Password := p\<rparr>))))
          (\<lambda>auth.
            bindE (case gac_BasicAuth cfg of
                     None \<Rightarrow> Inr auth
                   | Some basic \<Rightarrow>
                       bindE (derefKey (ba_UserName basic))
                         (\<lambda>u. bindE (derefKey (ba_Password basic))
                         (\<lambda>p. Inr (auth\<lparr>ga_Username := u, ga_Password := p\<rparr>))))
          (\<lambda>auth.
            bindE (case gac_PersonalAccessToken cfg of
                     None \<Rightarrow> Inr auth
                   | Some pat \<Rightarrow> bindE (derefKey pat) (\<lambda>t. Inr (auth\<lparr>ga_Token := t\<rparr>)))
          (\<lambda>auth.
            Inr (case gac_GitHubApp cfg of
                   None \<Rightarrow> auth
                 | Some app \<Rightarrow>
                     (case (rr_SecretRef (sgh_AppID app), rr_SecretRef (sgh_InstallationID app), rr_SecretRef (sgh_PrivateKey app)) of
                        (Some a, Some i, Some p) \<Rightarrow>
                          auth\<lparr>ga_GitHubApp := Some
                            \<lparr>gha_AppID = Some \<lparr>sk_Name = ss_Name a, sk_Key = ss_Key a, sk_Optional = None\<rparr>,
                             gha_InstallationID = Some \<lparr>sk_Name = ss_Name i, sk_Key = ss_Key i, sk_Optional = None\<rparr>,
                             gha_PrivateKey = Some \<lparr>sk_Name = ss_Name p, sk_Key = ss_Key p, sk_Optional = None\<rparr>\<rparr>\<rparr>
                      | _ \<Rightarrow> auth))))))"

definition setupWorkspaceFromGitSource :: "string \<Rightarrow> Session \<Rightarrow> goerr + Session" where
  "setupWorkspaceFromGitSource commit sess =
     (case sp_GitSource (sess_stack sess) of
        None \<Rightarrow> Inl (Errorf ''missing gitSource'')
      | Some gs \<Rightarrow>
          bindE (workspaceGitAuth gs)
            (\<lambda>auth. Inr (mapWsSpec (\<lambda>s. s\<lparr>ws_Git := Some
               \<lparr>gs_URL = sgs_ProjectRepo gs, gs_Ref = commit, gs_Dir = sgs_RepoDir gs,
                gs_Auth = (if auth \<noteq> emptyWsGitAuth then Some auth else None),
                gs_Shallow = sgs_Shallow gs\<rparr>\<rparr>) sess)))"

section \<open>Which sources are accepted\<close>

lemma newGitSource_Inr:
  "newGitSource G u r a = Inr src \<longleftrightarrow>
     (\<exists>url. ParseGitRepoURL G u = Inr url \<and> src = \<lparr>gsrc_ref = r, gsrc_remote = url, gsrc_auth = a\<rparr>)"
  by (auto simp: newGitSource_def bindE_Inr_iff)

text \<open>A git source is accepted exactly when it names a repository whose URL parses and one
  of commit and branch; the reference followed is then the one given.\<close>

lemma git_source_accepted:
  "NewGitSource G gs auth = Inr src \<longleftrightarrow>
     sgs_ProjectRepo gs \<noteq> [] \<and> (sgs_Commit gs = []) \<noteq> (sgs_Branch gs = [])
     \<and> (\<exists>url. ParseGitRepoURL G (sgs_ProjectRepo gs) = Inr url
          \<and> src = \<lparr>gsrc_ref = sgs_Commit gs @ sgs_Branch gs, gsrc_remote = url, gsrc_auth = auth\<rparr>)"
  by (auto simp: NewGitSource_def newGitSource_Inr Let_def)

section \<open>Agreement of the two sets of credentials\<close>

text \<open>The value a selector has for the workspace; an absent selector is the empty string.\<close>

definition selectorValue :: "secretReader \<Rightarrow> string \<Rightarrow> SecretKeySelector option \<Rightarrow> string option" where
  "selectorValue getSecret namespace sel =
     (case sel of None \<Rightarrow> Some []
      | Some s \<Rightarrow> (case getSecret namespace (sk_Name s) of
                     Inr config \<Rightarrow> map_of config (sk_Key s) | Inl e \<Rightarrow> None))"

lemma resolveSecret_value:
  assumes "resolveSecretResourceRef getSecret sess ref = Inr v"
  shows "\<exists>sel. derefKey ref = Inr sel \<and> selectorValue getSecret (sess_namespace sess) sel = Some v"
  using assms
  by (auto simp: resolveSecretResourceRef_def derefKey_def selectorValue_def Let_def bindE_Inr_iff
      split: ResourceSelectorType.splits option.splits if_splits)

definition agrees :: "secretReader \<Rightarrow> string \<Rightarrow> AutoGitAuth \<Rightarrow> GitAuth \<Rightarrow> bool" where
  "agrees getSecret namespace a w \<longleftrightarrow>
     selectorValue getSecret namespace (ga_SSHPrivateKey w) = Some (aga_SSHPrivateKey a)
     \<and> selectorValue getSecret namespace (ga_Token w) = Some (aga_PersonalAccessToken a)
     \<and> selectorValue getSecret namespace (ga_Username w) = Some (aga_Username a)
     \<and> selectorValue getSecret namespace (ga_Password w) = Some (aga_Password a)"

lemma selectorValue_None [simp]: "selectorValue getSecret ns None = Some []"
  by (simp add: selectorValue_def)

lemma mapErr_resolved:
  assumes "mapErr w (resolveSecretResourceRef getSecret sess ref) = Inr v"
  obtains sel where "derefKey ref = Inr sel" "selectorValue getSecret (sess_namespace sess) sel = Some v"
  using assms resolveSecret_value [of getSecret sess ref v] by auto

lemma credentials_ssh:
  assumes "sgs_GitAuthSecret gs = []" and "sgs_GitAuth gs = Some cfg"
    and "gac_SSHAuth cfg = Some ssh" "gac_PersonalAccessToken cfg = None"
      "gac_GitHubApp cfg = None" "gac_BasicAuth cfg = None"
    and "authFromConfig G getSecret sess cfg = Inr a"
  shows "\<exists>w. workspaceGitAuth gs = Inr w \<and> agrees getSecret (sess_namespace sess) a w"
  using assms
  by (cases "ssh_Password ssh")
     (auto simp: authFromConfig_def workspaceGitAuth_def bindE_Inr_iff Let_def agrees_def
        emptyGitAuth_def emptyWsGitAuth_def dest!: resolveSecret_value)

lemma credentials_token:
  assumes "sgs_GitAuthSecret gs = []" and "sgs_GitAuth gs = Some cfg"
    and "gac_SSHAuth cfg = None" "gac_PersonalAccessToken cfg = Some pat"
      "gac_GitHubApp cfg = None" "gac_BasicAuth cfg = None"
    and "authFromConfig G getSecret sess cfg = Inr a"
  shows "\<exists>w. workspaceGitAuth gs = Inr w \<and> agrees getSecret (sess_namespace sess) a w"
  using assms
  by (auto simp: authFromConfig_def workspaceGitAuth_def bindE_Inr_iff Let_def agrees_def
        emptyGitAuth_def emptyWsGitAuth_def dest!: resolveSecret_value)

lemma credentials_basic:
  assumes "sgs_GitAuthSecret gs = []" and "sgs_GitAuth gs = Some cfg"
    and "gac_SSHAuth cfg = None" "gac_PersonalAccessToken cfg = None"
      "gac_GitHubApp cfg = None" "gac_BasicAuth cfg = Some basic"
    and "authFromConfig G getSecret sess cfg = Inr a"
  shows "\<exists>w. workspaceGitAuth gs = Inr w \<and> agrees getSecret (sess_namespace sess) a w"
  using assms
  by (auto simp: authFromConfig_def workspaceGitAuth_def bindE_Inr_iff Let_def agrees_def
        emptyGitAuth_def emptyWsGitAuth_def dest!: resolveSecret_value)

definition gitSpec :: StackGitSource where
  "gitSpec = \<lparr>sgs_ProjectRepo = ''https://host/repo'', sgs_GitAuthSecret = [],
     sgs_GitAuth = Some \<lparr>gac_PersonalAccessToken = Some (NewSecretResourceRef ''default'' ''creds'' ''t''),
       gac_SSHAuth = None, gac_BasicAuth = None, gac_GitHubApp = None\<rparr>,
     sgs_RepoDir = [], sgs_Commit = [], sgs_Branch = ''main'', sgs_Shallow = False\<rparr>"

definition gitSession :: Session where
  "gitSession = newStackReconcilerSession (emptyStackSpec\<lparr>sp_GitSource := Some gitSpec\<rparr>) ''default''"

definition credsReader :: secretReader where
  "credsReader ns nm = (if nm = ''creds'' then Inr [(''t'', ''tok''), (''accessToken'', ''tok2'')] else Inl (ApiErr
     \<lparr>as_Reason = ReasonNotFound, as_Causes = [], as_Message = ''not found''\<rparr>))"

definition docGit :: gitlib where
  "docGit = \<lparr>ParseGitRepoURL = (\<lambda>u. Inr u), IsHash = (\<lambda>r. length r = 40),
     NewPublicKeys = (\<lambda>u k p. Inr (SshPublicKeys k)),
     ListRemote = (\<lambda>u a. Inr [\<lparr>gr_Name = ''refs/heads/main'', gr_Short = ''main'', gr_Hash = ''abc''\<rparr>]),
     GetGitHubAppInstallationToken = (\<lambda>a i k. Inr ''ghs'')\<rparr>"

text \<open>For a stack with one authentication method in its git configuration (a token, an SSH key
  or a user name and password), when the operator can resolve its own credentials, the workspace
  is given selectors that have the same values in the stack's namespace, so it clones with the
  credentials that found the commit.\<close>

lemma git_credentials_agree:
  assumes "sp_GitSource (sess_stack sess) = Some gs" and "sgs_GitAuthSecret gs = []"
    and "sgs_GitAuth gs = Some cfg" and "gac_GitHubApp cfg = None"
    and "length (filter id [gac_SSHAuth cfg \<noteq> None, gac_PersonalAccessToken cfg \<noteq> None, gac_BasicAuth cfg \<noteq> None]) = 1"
    and "resolveGitAuth G getSecret sess = Inr a"
  shows "\<exists>t g. setupWorkspaceFromGitSource commit sess = Inr t \<and> ws_Git (w_Spec (sess_ws t)) = Some g
    \<and> gs_Ref g = commit \<and> gs_URL g = sgs_ProjectRepo gs
    \<and> agrees getSecret (sess_namespace sess) a (case gs_Auth g of None \<Rightarrow> emptyWsGitAuth | Some w \<Rightarrow> w)"
proof -
  have a: "authFromConfig G getSecret sess cfg = Inr a"
    using assms(1,2,3,6) by (simp add: resolveGitAuth_def)
  have "\<exists>w. workspaceGitAuth gs = Inr w \<and> agrees getSecret (sess_namespace sess) a w"
    using assms(4,5) credentials_ssh [OF assms(2,3) _ _ _ _ a] credentials_token [OF assms(2,3) _ _ _ _ a]
      credentials_basic [OF assms(2,3) _ _ _ _ a]
    by (cases "gac_SSHAuth cfg"; cases "gac_PersonalAccessToken cfg"; cases "gac_BasicAuth cfg") auto
  then show ?thesis
    using assms(1) by (auto simp: setupWorkspaceFromGitSource_def)
qed

lemma git_credentials_agree_witness:
  "\<exists>t g. setupWorkspaceFromGitSource ''abc'' gitSession = Inr t \<and> ws_Git (w_Spec (sess_ws t)) = Some g
    \<and> gs_Ref g = ''abc''"
proof -
  have "resolveGitAuth docGit credsReader gitSession = Inr (emptyGitAuth\<lparr>aga_PersonalAccessToken := ''tok''\<rparr>)"
    by code_simp
  then show ?thesis
    using git_credentials_agree [of gitSession gitSpec "the (sgs_GitAuth gitSpec)" docGit credsReader _ "''abc''"]
    by (fastforce simp: gitSession_def gitSpec_def newStackReconcilerSession_def)
qed

text \<open>With both an authentication secret and a token reference that is not a secret, the
  operator's own credentials resolve (the secret wins and the reference is not looked at), and
  setting up the workspace then dereferences a nil pointer.\<close>

lemma git_setup_panics:
  assumes "sp_GitSource (sess_stack sess) = Some gs" and "sgs_GitAuthSecret gs \<noteq> []"
    and "getSecret (sess_namespace sess) (sgs_GitAuthSecret gs) = Inr secret"
    and "map_of secret ''accessToken'' = Some token" and "map_of secret ''sshPrivateKey'' = None"
    and "sgs_GitAuth gs = Some cfg" and "gac_SSHAuth cfg = None" and "gac_BasicAuth cfg = None"
    and "gac_PersonalAccessToken cfg = Some pat" and "rr_SecretRef pat = None"
  shows "resolveGitAuth G getSecret sess = Inr (emptyGitAuth\<lparr>aga_PersonalAccessToken := token\<rparr>)
    \<and> (\<exists>msg. setupWorkspaceFromGitSource commit sess = Inl (Panic msg))"
  using assms
  by (simp add: resolveGitAuth_def authFromSecret_def setupWorkspaceFromGitSource_def
      workspaceGitAuth_def derefKey_def Let_def)

definition panicSession :: Session where
  "panicSession = newStackReconcilerSession (emptyStackSpec\<lparr>sp_GitSource := Some (gitSpec
     \<lparr>sgs_GitAuthSecret := ''creds'', sgs_GitAuth := Some
        \<lparr>gac_PersonalAccessToken = Some (NewLiteralResourceRef ''tok''),
         gac_SSHAuth = None, gac_BasicAuth = None, gac_GitHubApp = None\<rparr>\<rparr>)\<rparr>) ''default''"

lemma git_setup_panics_witness:
  "resolveGitAuth docGit credsReader panicSession = Inr (emptyGitAuth\<lparr>aga_PersonalAccessToken := ''tok2''\<rparr>)
   \<and> (\<exists>msg. setupWorkspaceFromGitSource ''abc'' panicSession = Inl (Panic msg))"
  using git_setup_panics [of panicSession "the (sp_GitSource (sess_stack panicSession))" credsReader
      "[(''t'', ''tok''), (''accessToken'', ''tok2'')]" "''tok2''"
      "the (sgs_GitAuth (the (sp_GitSource (sess_stack panicSession))))" "NewLiteralResourceRef ''tok''" docGit "''abc''"]
  by (simp add: panicSession_def newStackReconcilerSession_def gitSpec_def credsReader_def NewLiteralResourceRef_def)

end
