(* ===== verification/FluxSource.thy ===== *)
theory FluxSource
  imports SessionFacts
begin

text \<open>
  Flux and Program sources (operator/internal/controller/pulumi/flux.go, with Artifact of
  operator/api/pulumi/v1/artifact_types.go), the lazily installed watches on source kinds of
  \<^verbatim>\<open>SetupWithManager\<close>, and the validation of migration.go. An unstructured object is an argument
  type; the nested-map access, the conversion to an artifact, the parsing of a group and version
  and the text of a kind are apimachinery's.
\<close>

section \<open>Artifacts\<close>

record Artifact =
  art_Path :: string
  art_URL :: string
  art_Revision :: string
  art_Digest :: string
  art_LastUpdateTime :: time
  art_Size :: "int option"
  art_Metadata :: "string gomap"

definition HasRevision :: "Artifact option \<Rightarrow> string \<Rightarrow> bool" where
  "HasRevision a revision = (case a of None \<Rightarrow> False | Some x \<Rightarrow> art_Revision x = revision)"

definition HasDigest :: "Artifact option \<Rightarrow> string \<Rightarrow> bool" where
  "HasDigest a digest = (case a of None \<Rightarrow> False | Some x \<Rightarrow> art_Digest x = digest)"

record ('u, 'm) unstructuredlib =
  NestedMap :: "'u \<Rightarrow> string list \<Rightarrow> goerr + 'm option"
  FromUnstructured :: "'m \<Rightarrow> goerr + Artifact"

text \<open>
  \<^verbatim>\<open>getArtifact\<close> returns an artifact, a flag and an error; every caller keeps the artifact only.
\<close>

definition getArtifact :: "('u, 'm) unstructuredlib \<Rightarrow> 'u \<Rightarrow> Artifact option \<times> bool \<times> goerr option" where
  "getArtifact U source =
     (case NestedMap U source [''status'', ''artifact''] of
        Inl e \<Rightarrow> (None, False, Some e)
      | Inr None \<Rightarrow> (None, False, None)
      | Inr (Some m) \<Rightarrow>
          (case FromUnstructured U m of
             Inl e \<Rightarrow> (None, False, Some (Wrapf ''failed to decode artifact'' e))
           | Inr artifact \<Rightarrow> (Some artifact, True, None)))"

abbreviation artifactOf :: "('u, 'm) unstructuredlib \<Rightarrow> 'u \<Rightarrow> Artifact option" where
  "artifactOf U source \<equiv> fst (getArtifact U source)"

definition SetupWorkspaceFromFluxSource :: "Artifact \<Rightarrow> string \<Rightarrow> Session \<Rightarrow> goerr + Session" where
  "SetupWorkspaceFromFluxSource artifact dir sess =
     Inr (mapWsSpec (\<lambda>s. s\<lparr>ws_Flux := Some \<lparr>fs_Url = art_URL artifact, fs_Digest = art_Digest artifact,
                                                fs_Dir = dir\<rparr>\<rparr>) sess)"

text \<open>The object of an event: nil, an unstructured object, or one of another type.\<close>

datatype 'u EventObject = NilObject | Unstructured 'u | OtherObject

definition SourceRevisionChangePredicate_Update ::
  "('u, 'm) unstructuredlib \<Rightarrow> 'u EventObject \<Rightarrow> 'u EventObject \<Rightarrow> bool" where
  "SourceRevisionChangePredicate_Update U old new =
     (case (old, new) of
        (Unstructured oldSource, Unstructured newSource) \<Rightarrow>
          (let oldArtifact = artifactOf U oldSource;
               newArtifact = artifactOf U newSource
           in if oldArtifact = None \<and> newArtifact \<noteq> None then True
              else if oldArtifact \<noteq> None \<and> newArtifact \<noteq> None
                   \<and> \<not> HasRevision oldArtifact (art_Revision (the newArtifact)) then True
              else False)
      | _ \<Rightarrow> False)"

section \<open>Kinds and keys\<close>

record GVK =
  gvk_Group :: string
  gvk_Version :: string
  gvk_Kind :: string

record gvklib =
  ParseGroupVersion :: "string \<Rightarrow> goerr + string \<times> string"
  GvkString :: "GVK \<Rightarrow> string"

definition getSourceGVK :: "gvklib \<Rightarrow> FluxSourceReference \<Rightarrow> goerr + GVK" where
  "getSourceGVK V src =
     bindE (ParseGroupVersion V (fsr_APIVersion src))
       (\<lambda>(g, v). Inr \<lparr>gvk_Group = g, gvk_Version = v, gvk_Kind = fsr_Kind src\<rparr>)"

definition fluxSourceKey :: "gvklib \<Rightarrow> GVK \<Rightarrow> string \<Rightarrow> string" where
  "fluxSourceKey V gvk nm = GvkString V gvk @ '':'' @ nm"

definition fluxSourceIndex :: "gvklib \<Rightarrow> Stack \<Rightarrow> string list" where
  "fluxSourceIndex V stack =
     (case sp_FluxSource (s_Spec stack) of
        None \<Rightarrow> []
      | Some source \<Rightarrow>
          (case getSourceGVK V (sfs_SourceRef source) of
             Inl e \<Rightarrow> []
           | Inr gvk \<Rightarrow> [fluxSourceKey V gvk (fsr_Name (sfs_SourceRef source))]))"

section \<open>Lazily installed watches\<close>

text \<open>
  \<^verbatim>\<open>maybeWatchFluxSourceKind\<close> runs in several workers at once. Its three critical sections are the
  steps of a worker: test and set under the mutex, the call that installs the watch without it,
  and the removal of the mark under it when that call fails.
\<close>

definition watchTestAndSet :: "GVK \<Rightarrow> GVK set \<Rightarrow> bool \<times> GVK set" where
  "watchTestAndSet gvk watched =
     (let ok = (gvk \<in> watched) in (ok, if \<not> ok then insert gvk watched else watched))"

definition watchUnmark :: "GVK \<Rightarrow> GVK set \<Rightarrow> GVK set" where
  "watchUnmark gvk watched = watched - {gvk}"

text \<open>One worker that is not interrupted: the call of \<^verbatim>\<open>c.Watch\<close> is an argument.\<close>

definition maybeWatchFluxSourceKind ::
  "gvklib \<Rightarrow> (GVK \<Rightarrow> goerr option) \<Rightarrow> FluxSourceReference \<Rightarrow> GVK set \<Rightarrow> goerr option \<times> GVK set" where
  "maybeWatchFluxSourceKind V watch src watched =
     (case getSourceGVK V src of
        Inl e \<Rightarrow> (Some e, watched)
      | Inr gvk \<Rightarrow>
          (let (ok, watched) = watchTestAndSet gvk watched
           in if \<not> ok
              then (case watch gvk of
                      Some e \<Rightarrow> (Some e, watchUnmark gvk watched)
                    | None \<Rightarrow> (None, watched))
              else (None, watched)))"

text \<open>
  Interleaved workers: which kinds are marked, which worker is inside its call to install a watch,
  and the watches installed so far, in order.
\<close>

record WatchState =
  wa_watched :: "GVK set"
  wa_calling :: "nat \<Rightarrow> GVK option"
  wa_installed :: "GVK list"

definition watchInit :: WatchState where
  "watchInit = \<lparr>wa_watched = {}, wa_calling = (\<lambda>w. None), wa_installed = []\<rparr>"

inductive watchStep :: "WatchState \<Rightarrow> WatchState \<Rightarrow> bool" where
  enter: "\<lbrakk>wa_calling s w = None; watchTestAndSet gvk (wa_watched s) = (False, ws)\<rbrakk>
    \<Longrightarrow> watchStep s (s\<lparr>wa_watched := ws, wa_calling := (wa_calling s)(w := Some gvk)\<rparr>)"
| already: "\<lbrakk>wa_calling s w = None; watchTestAndSet gvk (wa_watched s) = (True, ws)\<rbrakk>
    \<Longrightarrow> watchStep s (s\<lparr>wa_watched := ws\<rparr>)"
| installed: "wa_calling s w = Some gvk
    \<Longrightarrow> watchStep s (s\<lparr>wa_calling := (wa_calling s)(w := None), wa_installed := wa_installed s @ [gvk]\<rparr>)"
| failed: "wa_calling s w = Some gvk
    \<Longrightarrow> watchStep s (s\<lparr>wa_calling := (wa_calling s)(w := None), wa_watched := watchUnmark gvk (wa_watched s)\<rparr>)"

section \<open>Validation\<close>

datatype FieldError =
    FieldInvalid string string string
  | FieldNotSupported string string "string list"

text \<open>\<^verbatim>\<open>ValidateStack\<close> of migration.go; the errors of the references come in the map's order.\<close>

definition ValidateStack :: "Stack \<Rightarrow> FieldError list" where
  "ValidateStack s =
     (if sp_ExpectNoRefreshChanges (s_Spec s)
      then [FieldInvalid ''spec.expectNoRefreshChanges'' ''true'' ''expectNoRefreshChanges is ignored''] else [])
     @ concat (map (\<lambda>(key, ref).
          let path = ''spec.envRefs['' @ key @ '']''
          in (if rr_SelectorType ref \<noteq> ResourceSelectorLiteral \<and> rr_SelectorType ref \<noteq> ResourceSelectorSecret
              then [FieldNotSupported (path @ ''.selectorType'') (selectorTypeString (rr_SelectorType ref))
                      [selectorTypeString ResourceSelectorLiteral, selectorTypeString ResourceSelectorSecret]] else [])
             @ (case rr_SecretRef ref of
                  Some r \<Rightarrow> (if rr_SelectorType ref = ResourceSelectorSecret \<and> ss_Namespace r \<noteq> []
                               \<and> ss_Namespace r \<noteq> om_Namespace (s_Meta s)
                             then [FieldInvalid (path @ ''.secret.namespace'') (ss_Namespace r)
                                     ''cross-namespace references are not allowed''] else [])
                | None \<Rightarrow> []))
        (sp_EnvRefs (s_Spec s)))"

text \<open>\<^verbatim>\<open>exactlyOneOf\<close> of utils.go.\<close>

fun exactlyOneOf_loop :: "bool \<Rightarrow> bool list \<Rightarrow> bool" where
  "exactlyOneOf_loop found [] = found"
| "exactlyOneOf_loop found (b # bs) =
     (if found \<and> b then False else exactlyOneOf_loop (found \<or> b) bs)"

definition exactlyOneOf :: "bool list \<Rightarrow> bool" where
  "exactlyOneOf these = exactlyOneOf_loop False these"

section \<open>Properties\<close>

lemma exactlyOneOf_loop_count:
  "exactlyOneOf_loop found bs \<longleftrightarrow> (if found then 1 else 0) + length (filter id bs) = (1::nat)"
  by (induction bs arbitrary: found) auto

text \<open>The helper is true exactly when one of its arguments is.\<close>

lemma exactly_one_counts: "exactlyOneOf bs \<longleftrightarrow> length (filter id bs) = 1"
  by (simp add: exactlyOneOf_def exactlyOneOf_loop_count)

text \<open>
  At any moment the installed watches and the calls under way are of different kinds, and the
  marked kinds are exactly theirs.
\<close>

definition watchInv :: "WatchState \<Rightarrow> bool" where
  "watchInv s \<longleftrightarrow> distinct (wa_installed s)
     \<and> (\<forall>w g. wa_calling s w = Some g \<longrightarrow> g \<notin> set (wa_installed s))
     \<and> (\<forall>w v g. wa_calling s w = Some g \<and> wa_calling s v = Some g \<longrightarrow> w = v)
     \<and> wa_watched s = set (wa_installed s) \<union> {g. \<exists>w. wa_calling s w = Some g}"

lemma watchInv_init: "watchInv watchInit"
  by (simp add: watchInv_def watchInit_def)

lemma watchInvI:
  assumes "distinct (wa_installed s)"
    and "\<And>w g. wa_calling s w = Some g \<Longrightarrow> g \<notin> set (wa_installed s)"
    and "\<And>w v g. wa_calling s w = Some g \<Longrightarrow> wa_calling s v = Some g \<Longrightarrow> w = v"
    and "\<And>g. g \<in> wa_watched s \<longleftrightarrow> g \<in> set (wa_installed s) \<or> (\<exists>w. wa_calling s w = Some g)"
  shows "watchInv s"
  using assms unfolding watchInv_def by blast

lemma watchInvD:
  assumes "watchInv s"
  shows "distinct (wa_installed s)"
    and "wa_calling s w = Some g \<Longrightarrow> g \<notin> set (wa_installed s)"
    and "wa_calling s w = Some g \<Longrightarrow> wa_calling s v = Some g \<Longrightarrow> w = v"
    and "g \<in> wa_watched s \<longleftrightarrow> g \<in> set (wa_installed s) \<or> (\<exists>w. wa_calling s w = Some g)"
  using assms unfolding watchInv_def by blast+

lemma calling_upd:
  "f w \<noteq> Some g \<Longrightarrow> x \<noteq> Some g \<Longrightarrow> (\<exists>v. (f(w := x)) v = Some g) \<longleftrightarrow> (\<exists>v. f v = Some g)"
  by (metis fun_upd_def)

lemma watchInv_step: "watchStep s t \<Longrightarrow> watchInv s \<Longrightarrow> watchInv t"
proof (induction rule: watchStep.induct)
  case (enter s w gvk ws)
  note inv = watchInvD [OF enter(3)]
  from enter(2) have ws: "gvk \<notin> wa_watched s" "ws = insert gvk (wa_watched s)"
    by (auto simp: watchTestAndSet_def Let_def split: if_splits)
  then have new: "gvk \<notin> set (wa_installed s)" "\<And>v. wa_calling s v \<noteq> Some gvk"
    using inv(4) [of gvk] by auto
  show ?case
  proof (rule watchInvI)
    fix g
    show "g \<in> wa_watched (s\<lparr>wa_watched := ws, wa_calling := (wa_calling s)(w := Some gvk)\<rparr>)
      \<longleftrightarrow> g \<in> set (wa_installed (s\<lparr>wa_watched := ws, wa_calling := (wa_calling s)(w := Some gvk)\<rparr>))
        \<or> (\<exists>v. wa_calling (s\<lparr>wa_watched := ws, wa_calling := (wa_calling s)(w := Some gvk)\<rparr>) v = Some g)"
    proof (cases "g = gvk")
      case True
      then show ?thesis using ws(2) by auto
    next
      case False
      then show ?thesis
        using ws(2) inv(4) [of g] calling_upd [of "wa_calling s" w g "Some gvk"] enter(1) by (simp del: fun_upd_apply)
    qed
  qed (use inv new in \<open>auto split: if_splits\<close>)
next
  case (already s w gvk ws)
  then have "ws = wa_watched s" by (auto simp: watchTestAndSet_def Let_def split: if_splits)
  with already show ?case by simp
next
  case (installed s w gvk)
  note inv = watchInvD [OF installed(2)]
  show ?case
  proof (rule watchInvI)
    fix v g
    assume "wa_calling (s\<lparr>wa_calling := (wa_calling s)(w := None), wa_installed := wa_installed s @ [gvk]\<rparr>) v = Some g"
    then have v: "v \<noteq> w" "wa_calling s v = Some g" by (auto split: if_splits)
    then have "g \<noteq> gvk" using inv(3) [of v g w] installed(1) by auto
    then show "g \<notin> set (wa_installed (s\<lparr>wa_calling := (wa_calling s)(w := None), wa_installed := wa_installed s @ [gvk]\<rparr>))"
      using inv(2) [OF v(2)] by simp
  next
    fix g
    show "g \<in> wa_watched (s\<lparr>wa_calling := (wa_calling s)(w := None), wa_installed := wa_installed s @ [gvk]\<rparr>)
      \<longleftrightarrow> g \<in> set (wa_installed (s\<lparr>wa_calling := (wa_calling s)(w := None), wa_installed := wa_installed s @ [gvk]\<rparr>))
        \<or> (\<exists>v. wa_calling (s\<lparr>wa_calling := (wa_calling s)(w := None), wa_installed := wa_installed s @ [gvk]\<rparr>) v = Some g)"
    proof (cases "g = gvk")
      case True
      then show ?thesis using inv(4) [of g] installed(1) by auto
    next
      case False
      then show ?thesis
        using inv(4) [of g] calling_upd [of "wa_calling s" w g None] installed(1) by (simp del: fun_upd_apply)
    qed
  qed (use inv installed in \<open>auto split: if_splits\<close>)
next
  case (failed s w gvk)
  note inv = watchInvD [OF failed(2)]
  show ?case
  proof (rule watchInvI)
    fix g
    show "g \<in> wa_watched (s\<lparr>wa_calling := (wa_calling s)(w := None), wa_watched := watchUnmark gvk (wa_watched s)\<rparr>)
      \<longleftrightarrow> g \<in> set (wa_installed (s\<lparr>wa_calling := (wa_calling s)(w := None), wa_watched := watchUnmark gvk (wa_watched s)\<rparr>))
        \<or> (\<exists>v. wa_calling (s\<lparr>wa_calling := (wa_calling s)(w := None), wa_watched := watchUnmark gvk (wa_watched s)\<rparr>) v = Some g)"
    proof (cases "g = gvk")
      case True
      then show ?thesis using inv(2) [OF failed(1)] inv(3) [OF failed(1)] by (auto simp: watchUnmark_def)
    next
      case False
      then show ?thesis
        using inv(4) [of g] calling_upd [of "wa_calling s" w g None] failed(1)
        by (simp add: watchUnmark_def del: fun_upd_apply)
    qed
  qed (use inv failed in \<open>auto split: if_splits\<close>)
qed

lemma watchInv_reachable: "watchStep\<^sup>*\<^sup>* watchInit s \<Longrightarrow> watchInv s"
  by (induction rule: rtranclp_induct) (auto intro: watchInv_init watchInv_step)

text \<open>C39: However the workers interleave, no kind is ever watched twice: the installed watches
  are distinct, no worker installs one that is installed, and no two install the same.\<close>

lemma watch_installed_once:
  assumes "watchStep\<^sup>*\<^sup>* watchInit s"
  shows "distinct (wa_installed s)
    \<and> (\<forall>w g. wa_calling s w = Some g \<longrightarrow> g \<notin> set (wa_installed s)
          \<and> (\<forall>v. wa_calling s v = Some g \<longrightarrow> v = w))"
  using watchInv_reachable [OF assms] unfolding watchInv_def by blast

definition exampleGVK :: GVK where
  "exampleGVK = \<lparr>gvk_Group = ''source.toolkit.fluxcd.io'', gvk_Version = ''v1'', gvk_Kind = ''GitRepository''\<rparr>"

definition watchEntered :: WatchState where
  "watchEntered = watchInit\<lparr>wa_watched := {exampleGVK}, wa_calling := (\<lambda>w. None)(0 := Some exampleGVK)\<rparr>"

definition watchDone :: WatchState where
  "watchDone = watchEntered\<lparr>wa_calling := (wa_calling watchEntered)(0 := None), wa_installed := [exampleGVK]\<rparr>"

lemma watch_installed_once_witness:
  "distinct (wa_installed watchDone) \<and> wa_installed watchDone = [exampleGVK]"
proof -
  have "watchStep watchInit (watchInit\<lparr>wa_watched := {exampleGVK}, wa_calling := (wa_calling watchInit)(0 := Some exampleGVK)\<rparr>)"
    by (rule watchStep.enter) (simp_all add: watchInit_def watchTestAndSet_def)
  then have 1: "watchStep watchInit watchEntered" by (simp add: watchEntered_def watchInit_def)
  have "watchStep watchEntered (watchEntered\<lparr>wa_calling := (wa_calling watchEntered)(0 := None),
      wa_installed := wa_installed watchEntered @ [exampleGVK]\<rparr>)"
    by (rule watchStep.installed) (simp add: watchEntered_def)
  then have 2: "watchStep watchEntered watchDone" by (simp add: watchDone_def watchEntered_def watchInit_def)
  from 1 2 have "watchStep\<^sup>*\<^sup>* watchInit watchDone" by auto
  from watch_installed_once [OF this] show ?thesis by (simp add: watchDone_def)
qed

text \<open>A source whose artifact appears or changes revision lets an event through, and one that
  keeps its revision, or loses its artifact, lets none through.\<close>

lemma source_revision_events:
  "SourceRevisionChangePredicate_Update U (Unstructured old) (Unstructured new) \<longleftrightarrow>
     artifactOf U new \<noteq> None
     \<and> map_option art_Revision (artifactOf U old) \<noteq> map_option art_Revision (artifactOf U new)"
  by (cases "artifactOf U old"; cases "artifactOf U new")
     (auto simp: SourceRevisionChangePredicate_Update_def HasRevision_def Let_def)

text \<open>The validation accepts a stack's environment references exactly when each is a literal or
  a secret of no other namespace; together with the presence of the named reference that is what
  the workspace set-up accepts.\<close>

lemma validate_matches_setup:
  assumes "\<forall>(k, ref)\<in>set (sp_EnvRefs (s_Spec s)).
      (rr_SelectorType ref = ResourceSelectorLiteral \<longrightarrow> rr_LiteralRef ref \<noteq> None)
      \<and> (rr_SelectorType ref = ResourceSelectorSecret \<longrightarrow> rr_SecretRef ref \<noteq> None)"
  shows "ValidateStack s = [] \<longleftrightarrow> \<not> sp_ExpectNoRefreshChanges (s_Spec s)
    \<and> (\<forall>(k, ref)\<in>set (sp_EnvRefs (s_Spec s)). refLocal (om_Namespace (s_Meta s)) ref)"
proof -
  have one: "(rr_SelectorType ref = ResourceSelectorLiteral \<or> rr_SelectorType ref = ResourceSelectorSecret)
      \<and> (\<forall>r. rr_SecretRef ref = Some r \<longrightarrow> rr_SelectorType ref = ResourceSelectorSecret
            \<longrightarrow> ss_Namespace r = [] \<or> ss_Namespace r = om_Namespace (s_Meta s))
     \<longleftrightarrow> refLocal (om_Namespace (s_Meta s)) ref"
    if "(k, ref) \<in> set (sp_EnvRefs (s_Spec s))" for k ref
    using assms that by (auto simp: refLocal_def split: ResourceSelectorType.splits option.splits)
  have "ValidateStack s = [] \<longleftrightarrow> \<not> sp_ExpectNoRefreshChanges (s_Spec s)
      \<and> (\<forall>(k, ref)\<in>set (sp_EnvRefs (s_Spec s)).
          (rr_SelectorType ref = ResourceSelectorLiteral \<or> rr_SelectorType ref = ResourceSelectorSecret)
          \<and> (\<forall>r. rr_SecretRef ref = Some r \<longrightarrow> rr_SelectorType ref = ResourceSelectorSecret
                \<longrightarrow> ss_Namespace r = [] \<or> ss_Namespace r = om_Namespace (s_Meta s)))"
    by (fastforce simp: ValidateStack_def Let_def split: if_splits option.splits)
  then show ?thesis using one by blast
qed

lemma validate_matches_setup_witness:
  "ValidateStack (exampleStack\<lparr>s_Spec := exampleSpec\<rparr>) = []"
proof -
  have "refLocal (om_Namespace (s_Meta (exampleStack\<lparr>s_Spec := exampleSpec\<rparr>))) (NewLiteralResourceRef ''eu'')"
    by (simp add: refLocal_def NewLiteralResourceRef_def)
  then show ?thesis
    using validate_matches_setup [of "exampleStack\<lparr>s_Spec := exampleSpec\<rparr>"]
    by (simp add: exampleSpec_def emptyStackSpec_def NewLiteralResourceRef_def)
qed

end
