(* ===== verification/StackReconcile.thy ===== *)
theory StackReconcile
  imports GitSource FluxSource
begin

text \<open>
  \<^verbatim>\<open>StackReconciler.Reconcile\<close> (operator/internal/controller/pulumi/stack_controller.go), in the
  phases of the code. A phase either leaves the handler with an outcome or passes its state on.
  The API server, the clock and the other packages are arguments; a call may depend on everything
  the handler has done so far, which the state keeps as a trace of writes and events.
\<close>

section \<open>Requests, effects and the cluster\<close>

text \<open>The status patch, with the optional fields that are only set when present.\<close>

record StackStatusApply =
  sa_ObservedGeneration :: int
  sa_ObservedReconcileRequest :: string
  sa_Conditions :: "ConditionApply list"
  sa_Outputs :: "StackOutputs option"
  sa_LastUpdate :: "StackUpdateState option"
  sa_CurrentUpdate :: "CurrentStackUpdate option"
  sa_ProjectInfo :: "ProjectInfo option"

text \<open>The writes the handler makes and the events it emits.\<close>

datatype Action =
    AUpdateStack Stack
  | ASaveStatus StackStatusApply
  | AApplyWorkspace Workspace
  | ADeleteWorkspace string
  | AAnnotate string string
  | ACreateUpdate Update
  | ADeleteUpdate string
  | AAddUpdateFinalizer string
  | ARemoveUpdateFinalizer string
  | AEvent emitted

type_synonym trace = "Action list"

record 'u cluster =
  GetStack :: "trace \<Rightarrow> string \<Rightarrow> string \<Rightarrow> goerr + Stack"
  GetUpdate :: "trace \<Rightarrow> string \<Rightarrow> string \<Rightarrow> goerr + Update"
  GetSecret :: "trace \<Rightarrow> string \<Rightarrow> string \<Rightarrow> goerr + OutputSecret"
  GetObject :: "trace \<Rightarrow> string \<Rightarrow> string \<Rightarrow> string \<Rightarrow> string \<Rightarrow> goerr + 'u"
  UpdateStack :: "trace \<Rightarrow> Stack \<Rightarrow> goerr + Stack"
  PatchStatus :: "trace \<Rightarrow> Stack \<Rightarrow> StackStatusApply \<Rightarrow> goerr + Stack"
  ApplyWorkspace :: "trace \<Rightarrow> Workspace \<Rightarrow> goerr + Workspace"
  DeleteWorkspaceObject :: "trace \<Rightarrow> Workspace \<Rightarrow> goerr option"
  AnnotateStack :: "trace \<Rightarrow> Stack \<Rightarrow> string \<Rightarrow> goerr option"
  CreateUpdate :: "trace \<Rightarrow> Update \<Rightarrow> goerr + Update"
  DeleteUpdate :: "trace \<Rightarrow> Update \<Rightarrow> goerr option"
  PatchUpdateFinalizer :: "trace \<Rightarrow> Update \<Rightarrow> string list \<Rightarrow> goerr option"
  MaybeWatchFluxSourceKind :: "trace \<Rightarrow> FluxSourceReference \<Rightarrow> goerr option"
  Now :: "trace \<Rightarrow> nat \<Rightarrow> time"

text \<open>All that the handler is given besides the request.\<close>

record ('u, 'm) env =
  en_L :: lib
  en_T :: templates
  en_G :: gitlib
  en_U :: "('u, 'm) unstructuredlib"
  en_A :: "'u cluster"

text \<open>
  The handler's variables: the request's namespace, the instance, the values computed from it at
  the start, the session, the update whose finalizer is to go, and the trace.
\<close>

record RState =
  rs_namespace :: string
  rs_stack :: Stack
  rs_deleted :: bool
  rs_syncRequest :: string
  rs_sess :: Session
  rs_toBeFinalized :: "Update option"
  rs_trace :: trace

record Outcome =
  oc_RequeueAfter :: duration
  oc_Err :: "goerr option"
  oc_Trace :: trace

definition leave :: "duration \<Rightarrow> goerr option \<Rightarrow> RState \<Rightarrow> Outcome" where
  "leave after err s = \<lparr>oc_RequeueAfter = after, oc_Err = err, oc_Trace = rs_trace s\<rparr>"

definition fails :: "goerr \<Rightarrow> RState \<Rightarrow> Outcome" where
  "fails e s = leave 0 (Some e) s"

text \<open>A failed step of a helper leaves the handler with its error.\<close>

definition orFail :: "RState \<Rightarrow> goerr + 'a \<Rightarrow> Outcome + 'a" where
  "orFail s m = mapErr (\<lambda>e. fails e s) m"

definition act :: "Action \<Rightarrow> RState \<Rightarrow> RState" where
  "act a s = s\<lparr>rs_trace := rs_trace s @ [a]\<rparr>"

definition emitAll :: "emitted list \<Rightarrow> RState \<Rightarrow> RState" where
  "emitAll es s = s\<lparr>rs_trace := rs_trace s @ map AEvent es\<rparr>"

definition setStatus :: "(StackStatus \<Rightarrow> StackStatus) \<Rightarrow> RState \<Rightarrow> RState" where
  "setStatus f s = s\<lparr>rs_stack := (rs_stack s)\<lparr>s_Status := f (s_Status (rs_stack s))\<rparr>\<rparr>"

abbreviation statusOf :: "RState \<Rightarrow> StackStatus" where
  "statusOf s \<equiv> s_Status (rs_stack s)"

abbreviation specOf :: "RState \<Rightarrow> StackSpec" where
  "specOf s \<equiv> sess_stack (rs_sess s)"

section \<open>Saving the status\<close>

text \<open>
  \<^verbatim>\<open>addUpdateFinalizer\<close> and \<^verbatim>\<open>removeUpdateFinalizer\<close>: a server-side apply of the finalizers the
  dedicated field manager owns, one or none.
\<close>

definition addUpdateFinalizer :: "('u, 'm) env \<Rightarrow> Update \<Rightarrow> RState \<Rightarrow> goerr option \<times> RState" where
  "addUpdateFinalizer E u s =
     (PatchUpdateFinalizer (en_A E) (rs_trace s) u [PulumiFinalizer], act (AAddUpdateFinalizer (om_Name (u_Meta u))) s)"

definition removeUpdateFinalizer :: "('u, 'm) env \<Rightarrow> Update \<Rightarrow> RState \<Rightarrow> goerr option \<times> RState" where
  "removeUpdateFinalizer E u s =
     (case PatchUpdateFinalizer (en_A E) (rs_trace s) u [] of
        Some e \<Rightarrow> if IsNotFound e then None else Some e
      | None \<Rightarrow> None,
      act (ARemoveUpdateFinalizer (om_Name (u_Meta u))) s)"

definition statusApply :: "StackStatus \<Rightarrow> StackStatusApply" where
  "statusApply st = \<lparr>sa_ObservedGeneration = st_ObservedGeneration st,
     sa_ObservedReconcileRequest = st_ObservedReconcileRequest st,
     sa_Conditions = map conditionToApply (st_Conditions st), sa_Outputs = st_Outputs st,
     sa_LastUpdate = st_LastUpdate st, sa_CurrentUpdate = st_CurrentUpdate st,
     sa_ProjectInfo = st_ProjectInfo st\<rparr>"

definition saveStatus :: "('u, 'm) env \<Rightarrow> RState \<Rightarrow> goerr option \<times> RState" where
  "saveStatus E s = (
     let patch = statusApply (statusOf s);
         s' = act (ASaveStatus patch) s
     in case PatchStatus (en_A E) (rs_trace s) (rs_stack s) patch of
          Inl e \<Rightarrow> (Some e, s')
        | Inr stack \<Rightarrow>
            (let s' = s'\<lparr>rs_stack := stack\<rparr>
             in case rs_toBeFinalized s' of
                  None \<Rightarrow> (None, s')
                | Some u \<Rightarrow> (None, (snd (removeUpdateFinalizer E u s'))\<lparr>rs_toBeFinalized := None\<rparr>)))"

text \<open>The common exit \<^verbatim>\<open>return reconcile.Result{RequeueAfter: after}, saveStatus()\<close>.\<close>

definition saveAndReturn :: "('u, 'm) env \<Rightarrow> duration \<Rightarrow> RState \<Rightarrow> Outcome" where
  "saveAndReturn E after s = (case saveStatus E s of (err, s') \<Rightarrow> leave after err s')"

text \<open>Removing the stack's finalizer at the end of its life.\<close>

definition finalizeStack :: "('u, 'm) env \<Rightarrow> RState \<Rightarrow> Outcome" where
  "finalizeStack E s = (
     let (fs, changed) = RemoveFinalizer (en_L E) (om_Finalizers (s_Meta (rs_stack s))) PulumiFinalizer;
         stack = (rs_stack s)\<lparr>s_Meta := (s_Meta (rs_stack s))\<lparr>om_Finalizers := fs\<rparr>\<rparr>
     in if changed
        then leave 0 (case UpdateStack (en_A E) (rs_trace s) stack of Inl e \<Rightarrow> Some e | Inr _ \<Rightarrow> None)
               (act (AUpdateStack stack) s)
        else leave 0 None s)"

section \<open>Fetching the stack\<close>

definition fetchPhase :: "('u, 'm) env \<Rightarrow> string \<Rightarrow> string \<Rightarrow> Outcome + RState" where
  "fetchPhase E namespace nm =
     (case GetStack (en_A E) [] namespace nm of
        Inl e \<Rightarrow> Inl \<lparr>oc_RequeueAfter = 0, oc_Err = (if IsNotFound e then None else Some e), oc_Trace = []\<rparr>
      | Inr st \<Rightarrow>
          (let m = s_Meta st;
               stack = st\<lparr>s_Status := (s_Status st)\<lparr>st_ObservedGeneration := om_Generation m,
                           st_ObservedReconcileRequest := syncRequestOf m\<rparr>\<rparr>;
               marked = (om_DeletionTimestamp m \<noteq> None);
               s = \<lparr>rs_namespace = namespace, rs_stack = stack, rs_deleted = marked,
                    rs_syncRequest = syncRequestOf m,
                    rs_sess = newStackReconcilerSession (s_Spec stack) namespace,
                    rs_toBeFinalized = None, rs_trace = []\<rparr>
           in if marked \<and> PulumiFinalizer \<notin> set (om_Finalizers m) then Inl (leave 0 None s)
              else let (fs, changed) = AddFinalizer (en_L E) (om_Finalizers m) PulumiFinalizer;
                       withFinalizer = stack\<lparr>s_Meta := m\<lparr>om_Finalizers := fs\<rparr>\<rparr>
                   in if \<not> marked \<and> changed
                      then (case UpdateStack (en_A E) [] withFinalizer of
                              Inl e \<Rightarrow> Inl (fails (Wrapf ''unable to add finalizer'' e) (act (AUpdateStack withFinalizer) s))
                            | Inr stack' \<Rightarrow> Inr (act (AUpdateStack withFinalizer) (s\<lparr>rs_stack := stack'\<rparr>)))
                      else Inr s))"

text \<open>The session is made from the instance as it is after the update, and plans the workspace.\<close>

definition sessionPhase :: "('u, 'm) env \<Rightarrow> RState \<Rightarrow> Outcome + RState" where
  "sessionPhase E s =
     bindE (orFail s (mapErr (Wrapf ''unable to define workspace for stack'')
              (NewWorkspace (en_L E) (rs_stack s) (newStackReconcilerSession (s_Spec (rs_stack s)) (rs_namespace s)))))
       (\<lambda>sess. Inr (s\<lparr>rs_sess := sess\<rparr>))"

section \<open>The outstanding update\<close>

definition waitForUpdate :: "('u, 'm) env \<Rightarrow> RState \<Rightarrow> Outcome" where
  "waitForUpdate E s = saveAndReturn E 0
     (setStatus (MarkReconcilingCondition (en_L E) ReconcilingProcessingReason ReconcilingProcessingUpdateMessage) s)"

definition absorbPhase :: "('u, 'm) env \<Rightarrow> RState \<Rightarrow> Outcome + RState" where
  "absorbPhase E s =
     (case st_CurrentUpdate (statusOf s) of
        None \<Rightarrow> Inr s
      | Some current \<Rightarrow>
          (case GetUpdate (en_A E) (rs_trace s) (rs_namespace s) (cu_Name current) of
             Inl e \<Rightarrow>
               (if IsNotFound e then Inl (waitForUpdate E s)
                else Inl (fails (Wrapf ''get current update'' e) s))
           | Inr update \<Rightarrow>
               (let s = s\<lparr>rs_sess := (rs_sess s)\<lparr>sess_update := Some update\<rparr>\<rparr>;
                    completed = (om_Generation (u_Meta update) = ust_ObservedGeneration (u_Status update)
                      \<and> IsStatusConditionTrue (en_L E) (ust_Conditions (u_Status update)) UpdateConditionTypeComplete)
                in if \<not> completed then Inl (waitForUpdate E s)
                   else bindE
                     (if IsStatusConditionTrue (en_L E) (ust_Conditions (u_Status update)) UpdateConditionTypeFailed
                      then Inr (markStackFailed (Now (en_A E) (rs_trace s) 0) (rs_stack s) current update)
                      else orFail s (mapErr (Wrapf ''marking stack succeeded'')
                             (markStackSucceeded (en_L E) (GetSecret (en_A E) (rs_trace s))
                                (Now (en_A E) (rs_trace s) 0) (rs_stack s) current update)))
                     (\<lambda>(stack, events).
                        Inr (setStatus (\<lambda>st. st\<lparr>st_CurrentUpdate := None\<rparr>)
                          ((emitAll events (s\<lparr>rs_stack := stack\<rparr>))\<lparr>rs_toBeFinalized := Some update\<rparr>))))))"

section \<open>Leaving early when there is nothing to destroy\<close>

definition nothingToDestroyPhase :: "('u, 'm) env \<Rightarrow> RState \<Rightarrow> Outcome + RState" where
  "nothingToDestroyPhase E s =
     (if rs_deleted s \<and> (\<not> sp_DestroyOnFinalize (specOf s) \<or> sp_Preview (specOf s))
      then (case saveStatus E (setStatus (MarkReadyCondition (en_L E)) s) of
              (Some e, s') \<Rightarrow> Inl (fails e s')
            | (None, s') \<Rightarrow> Inl (finalizeStack E s'))
      else Inr s)"

section \<open>The source\<close>

definition sourceUnavailableRequeueWait :: duration where "sourceUnavailableRequeueWait = 30 * Second"

text \<open>A stall with its reason and message, saved, with the given wait before the next attempt.\<close>

definition stallWith :: "('u, 'm) env \<Rightarrow> duration \<Rightarrow> string \<Rightarrow> string \<Rightarrow> RState \<Rightarrow> Outcome" where
  "stallWith E after reason msg s =
     saveAndReturn E after (setStatus (MarkStalledCondition (en_L E) reason msg) s)"

definition invalidSpec :: "('u, 'm) env \<Rightarrow> string \<Rightarrow> RState \<Rightarrow> Outcome" where
  "invalidSpec E msg s =
     stallWith E 0 StalledSpecInvalidReason msg (emitAll [(StackConfigInvalidEvent, msg, [])] s)"

text \<open>The readers of secrets that the git code uses.\<close>

definition secretData :: "('u, 'm) env \<Rightarrow> RState \<Rightarrow> secretReader" where
  "secretData E s ns nm = bindE (GetSecret (en_A E) (rs_trace s) ns nm) (\<lambda>sec. Inr (os_Data sec))"

definition gitPhase :: "('u, 'm) env \<Rightarrow> StackGitSource \<Rightarrow> RState \<Rightarrow> Outcome + (string \<times> RState)" where
  "gitPhase E gs s =
     (case resolveGitAuth (en_G E) (secretData E s) (rs_sess s) of
        Inl e \<Rightarrow> Inl (invalidSpec E (errorText e) s)
      | Inr auth \<Rightarrow>
     (case NewGitSource (en_G E) gs (Some auth) of
        Inl e \<Rightarrow> Inl (invalidSpec E (errorText e) s)
      | Inr source \<Rightarrow>
     (case CurrentCommit (en_G E) source of
        Inl e \<Rightarrow> Inl (stallWith E sourceUnavailableRequeueWait StalledSourceUnavailableReason (errorText e) s)
      | Inr commit \<Rightarrow>
          bindE (orFail s (setupWorkspaceFromGitSource commit (rs_sess s)))
            (\<lambda>sess. Inr (commit, s\<lparr>rs_sess := sess\<rparr>)))))"

definition artifactPhase ::
  "('u, 'm) env \<Rightarrow> 'u \<Rightarrow> string \<Rightarrow> string \<Rightarrow> RState \<Rightarrow> Outcome + (string \<times> RState)" where
  "artifactPhase E obj noArtifact dir s =
     (case artifactOf (en_U E) obj of
        None \<Rightarrow> Inl (stallWith E sourceUnavailableRequeueWait StalledSourceUnavailableReason noArtifact s)
      | Some artifact \<Rightarrow>
          bindE (orFail s (SetupWorkspaceFromFluxSource artifact dir (rs_sess s)))
            (\<lambda>sess. Inr (art_Revision artifact, s\<lparr>rs_sess := sess\<rparr>)))"

definition fluxPhase :: "('u, 'm) env \<Rightarrow> StackFluxSource \<Rightarrow> RState \<Rightarrow> Outcome + (string \<times> RState)" where
  "fluxPhase E fs s =
     (case MaybeWatchFluxSourceKind (en_A E) (rs_trace s) (sfs_SourceRef fs) of
        Some e \<Rightarrow> Inl (stallWith E 0 StalledSpecInvalidReason (errorText (Wrapf ''cannot process source reference'' e)) s)
      | None \<Rightarrow>
     (case GetObject (en_A E) (rs_trace s) (fsr_APIVersion (sfs_SourceRef fs)) (fsr_Kind (sfs_SourceRef fs))
              (rs_namespace s) (fsr_Name (sfs_SourceRef fs)) of
        Inl e \<Rightarrow>
          (if IsNotFound e
           then Inl (stallWith E sourceUnavailableRequeueWait StalledSourceUnavailableReason
                       (errorText (Wrapf ''could not resolve sourceRef'' e)) s)
           else Inl (fails e s))
      | Inr obj \<Rightarrow> artifactPhase E obj ''Flux source has no artifact'' (sfs_Dir fs) s))"

definition errProgramNotFound :: goerr where
  "errProgramNotFound = Errorf ''unable to retrieve program for stack''"

definition PulumiGroupVersion :: string where "PulumiGroupVersion = ''pulumi.com/v1''"

definition programPhase :: "('u, 'm) env \<Rightarrow> ProgramReference \<Rightarrow> RState \<Rightarrow> Outcome + (string \<times> RState)" where
  "programPhase E ref s =
     (case GetObject (en_A E) (rs_trace s) PulumiGroupVersion ''Program'' (rs_namespace s) (pr_Name ref) of
        Inl e \<Rightarrow>
          (if IsNotFound e
           then Inl (stallWith E sourceUnavailableRequeueWait StalledSourceUnavailableReason
                       (errorText errProgramNotFound) s)
           else Inl (fails e s))
      | Inr obj \<Rightarrow> artifactPhase E obj ''Program has no artifact'' [] s)"

text \<open>The switch over the kinds of source: the commit and whether the saved project is used.\<close>

definition sourcePhase :: "('u, 'm) env \<Rightarrow> RState \<Rightarrow> Outcome + (string \<times> bool \<times> RState)" where
  "sourcePhase E s =
     (if shouldUseProjectInfoWorkspaceForDestroy (rs_stack s)
      then Inr ([], True, s\<lparr>rs_sess := mapWsSpec
             (\<lambda>ws. setProjectInfoSource ws (the (st_ProjectInfo (statusOf s)))) (rs_sess s)\<rparr>)
      else case sp_GitSource (specOf s) of
        Some gs \<Rightarrow> bindE (gitPhase E gs s) (\<lambda>(commit, s). Inr (commit, False, s))
      | None \<Rightarrow>
     (case sp_FluxSource (specOf s) of
        Some fs \<Rightarrow> bindE (fluxPhase E fs s) (\<lambda>(commit, s). Inr (commit, False, s))
      | None \<Rightarrow>
     (case sp_ProgramRef (specOf s) of
        Some ref \<Rightarrow> bindE (programPhase E ref s) (\<lambda>(commit, s). Inr (commit, False, s))
      | None \<Rightarrow> Inr ([], False, s))))"

definition setupPhase :: "('u, 'm) env \<Rightarrow> bool \<Rightarrow> RState \<Rightarrow> Outcome + RState" where
  "setupPhase E usingProjectInfo s =
     (case setupWorkspace (en_L E) (en_T E) usingProjectInfo (rs_sess s) of
        Inl e \<Rightarrow>
          (case asStallError e of
             Some msg \<Rightarrow> Inl (invalidSpec E msg s)
           | None \<Rightarrow> Inl (fails e s))
      | Inr sess \<Rightarrow>
          Inr (s\<lparr>rs_sess := SetSecretEnvs (sp_SecretEnvs (specOf s)) (SetEnvs (sp_Envs (specOf s)) sess)\<rparr>))"

section \<open>A stack in sync\<close>

text \<open>\<^verbatim>\<open>max(1*time.Second, time.Until(LastResyncTime.Add(d)))\<close>.\<close>

definition untilAfter :: "time \<Rightarrow> StackUpdateState \<Rightarrow> duration \<Rightarrow> duration" where
  "untilAfter now lu d = max (1 * Second) (time_sub (lu_LastResyncTime lu + d) now)"

definition syncedRequeue :: "lib \<Rightarrow> time \<Rightarrow> StackSpec \<Rightarrow> Stack \<Rightarrow> StackUpdateState \<Rightarrow> duration \<times> bool" where
  "syncedRequeue L now spec stack lu = (
     let (requeueAfter, updateFailed) =
           (if lu_State lu = FailedStackStateMessage
            then (if lu_Failures lu < maxUpdateFailures then untilAfter now lu (cooldown L stack) else 0, True)
            else (0, False));
         requeueAfter =
           (if lu_State lu = SucceededStackStateMessage \<and> sp_ContinueResyncOnCommitMatch spec
            then untilAfter now lu (resyncFreq stack) else requeueAfter);
         requeueAfter =
           (case sp_GitSource spec of
              None \<Rightarrow> requeueAfter
            | Some gs \<Rightarrow>
                (if length (sgs_Branch gs) > 0
                 then (let pollFreq = resyncFreq stack
                       in if requeueAfter > 0 then max (1 * Second) (min pollFreq requeueAfter)
                          else max (1 * Second) pollFreq)
                 else requeueAfter))
     in (requeueAfter, updateFailed))"

definition deleteWorkspace :: "('u, 'm) env \<Rightarrow> RState \<Rightarrow> goerr option \<times> RState" where
  "deleteWorkspace E s =
     (case DeleteWorkspaceObject (en_A E) (rs_trace s) (sess_ws (rs_sess s)) of
        Some e \<Rightarrow> if IsNotFound e then None else Some e
      | None \<Rightarrow> None,
      act (ADeleteWorkspace (om_Name (w_Meta (sess_ws (rs_sess s))))) s)"

text \<open>The reclaim: the update's finalizer goes first, then the workspace.\<close>

definition reclaimPhase :: "('u, 'm) env \<Rightarrow> RState \<Rightarrow> Outcome + RState" where
  "reclaimPhase E s =
     bindE (case rs_toBeFinalized s of
              None \<Rightarrow> Inr s
            | Some u \<Rightarrow>
                (case removeUpdateFinalizer E u s of
                   (Some e, s') \<Rightarrow> Inl (fails (Wrapf ''removing update finalizer before workspace deletion'' e) s')
                 | (None, s') \<Rightarrow> Inr (s'\<lparr>rs_toBeFinalized := None\<rparr>)))
       (\<lambda>s. case deleteWorkspace E s of
              (Some e, s') \<Rightarrow> Inl (fails e s')
            | (None, s') \<Rightarrow> Inr (emitAll [(WorkspaceDeletedEvent, ''Workspace deleted per reclaim policy'', [])] s'))"

definition whenSynced :: "('u, 'm) env \<Rightarrow> RState \<Rightarrow> Outcome" where
  "whenSynced E s =
     (case markStackResult (en_L E) (statusOf s) of
        Inl e \<Rightarrow> fails e s
      | Inr st \<Rightarrow>
          (let s = setStatus (\<lambda>_. st) s
           in case st_LastUpdate st of
                None \<Rightarrow> fails (Panic ''nil dereference: instance.Status.LastUpdate'') s
              | Some lu \<Rightarrow>
                  (if rs_deleted s
                   then (if lu_State lu \<noteq> SucceededStackStateMessage
                         then saveAndReturn E (untilAfter (Now (en_A E) (rs_trace s) 2) lu (cooldown (en_L E) (rs_stack s))) s
                         else finalizeStack E (snd (saveStatus E s)))
                   else
                     (case syncedRequeue (en_L E) (Now (en_A E) (rs_trace s) 2) (specOf s) (rs_stack s) lu of
                        (requeueAfter, updateFailed) \<Rightarrow>
                          (if \<not> updateFailed
                              \<and> sp_WorkspaceReclaimPolicy (s_Spec (rs_stack s)) = WorkspaceReclaimDelete
                           then (case reclaimPhase E s of
                                   Inl o' \<Rightarrow> o'
                                 | Inr s' \<Rightarrow> saveAndReturn E requeueAfter s')
                           else saveAndReturn E requeueAfter s)))))"

text \<open>Whether an update is needed: the message of the update, when the handler goes on.\<close>

definition syncPhase :: "('u, 'm) env \<Rightarrow> string \<Rightarrow> RState \<Rightarrow> Outcome + (string \<times> RState)" where
  "syncPhase E currentCommit s =
     (case isSynced (en_L E) (Now (en_A E) (rs_trace s) 1) (rs_stack s) currentCommit of
        ((isIn, msg), events) \<Rightarrow>
          (if isIn then Inl (whenSynced E (emitAll events s)) else Inr (msg, emitAll events s)))"

section \<open>Prerequisites\<close>

text \<open>The loop's variables: the names that failed, the last error, and the handler's state.\<close>

type_synonym PrereqState = "string list \<times> goerr option \<times> RState"

definition touchPrereq :: "('u, 'm) env \<Rightarrow> Stack \<Rightarrow> string \<Rightarrow> RState \<Rightarrow> Outcome + RState" where
  "touchPrereq E prereqStack lastUpdateName s = (
     let v = ''after-'' @ lastUpdateName
     in if map_of (om_Annotations (s_Meta prereqStack)) ReconcileRequestAnnotation \<noteq> Some v
        then (case AnnotateStack (en_A E) (rs_trace s) prereqStack v of
                Some e \<Rightarrow> Inl (fails (Wrapf ''annotating prerequisite to force resync'' e)
                              (act (AAnnotate (om_Name (s_Meta prereqStack)) v) s))
              | None \<Rightarrow> Inr (act (AAnnotate (om_Name (s_Meta prereqStack)) v) s))
        else Inr s)"

definition prereqBody :: "('u, 'm) env \<Rightarrow> PrerequisiteRef \<Rightarrow> PrereqState \<Rightarrow> Outcome + PrereqState" where
  "prereqBody E prereq p =
     (case p of (names, err, s) \<Rightarrow>
        (if rs_deleted s then Inr (names, err, s)
         else case GetStack (en_A E) (rs_trace s) (om_Namespace (s_Meta (rs_stack s))) (pq_Name prereq) of
           Inl e \<Rightarrow>
             (if IsNotFound e
              then Inr (names @ [pq_Name prereq],
                        Some (Wrapf (''unable to fetch prerequisite '' @ goQuote (pq_Name prereq)) e), s)
              else Inl (fails (Wrapf ''fetching prerequisite'' e) s))
         | Inr prereqStack \<Rightarrow>
             (case isRequirementSatisfied (Now (en_A E) (rs_trace s) 3) (pq_Requirement prereq) prereqStack of
                None \<Rightarrow> Inr (names, err, s)
              | Some requireErr \<Rightarrow>
                  bindE (case asOutOfDate requireErr of
                           None \<Rightarrow> Inr s
                         | Some (lastUpdateName, elapsed) \<Rightarrow> touchPrereq E prereqStack lastUpdateName s)
                    (\<lambda>s. Inr (names @ [pq_Name prereq],
                              Some (Wrapf (''prerequisite not satisfied for '' @ goQuote (pq_Name prereq)) requireErr),
                              s)))))"

definition prereqPhase :: "('u, 'm) env \<Rightarrow> RState \<Rightarrow> Outcome + RState" where
  "prereqPhase E s =
     bindE (foldE (prereqBody E) (sp_Prerequisites (s_Spec (rs_stack s))) ([], None, s))
       (\<lambda>(names, err, s).
          let err = (if length names > 1
                     then Some (Errorf (''multiple prerequisites were not satisfied '' @ joinWith '', '' names))
                     else err)
          in case err of
               None \<Rightarrow> Inr s
             | Some e \<Rightarrow>
                 Inl (saveAndReturn E 0 (setStatus (MarkReconcilingCondition (en_L E)
                        ReconcilingPrerequisiteNotSatisfiedReason (errorText e)) s)))"

section \<open>The workspace\<close>

definition NamespaceTerminatingCause :: string where "NamespaceTerminatingCause = ''NamespaceTerminating''"

definition namespaceTerminatingMessage :: "Stack \<Rightarrow> string" where
  "namespaceTerminatingMessage stack = (
     let ns = om_Namespace (s_Meta stack);
         nm = om_Name (s_Meta stack);
         q = [char_of (34::nat)];
         a = [char_of (39::nat)];
         detail = (case st_LastUpdate (s_Status stack) of
                     None \<Rightarrow> ''the Pulumi backend''
                   | Some lu \<Rightarrow> if lu_Permalink lu \<noteq> [] then lu_Permalink lu else ''the Pulumi backend'')
     in ''namespace '' @ goQuote ns @ '' is terminating, so a workspace cannot be created to run ''
        @ ''destroy; cloud resources will NOT be deleted and must be cleaned up manually (see '' @ detail @ ''). ''
        @ ''The finalizer is retained to avoid silently orphaning resources. Once the resources are ''
        @ ''handled, release the Stack with: kubectl patch stack '' @ nm @ '' -n '' @ ns @ '' --type=merge ''
        @ ''-p '' @ a @ ''{'' @ q @ ''metadata'' @ q @ '':{'' @ q @ ''finalizers'' @ q @ '':[]}}'' @ a)"

definition createWorkspace :: "('u, 'm) env \<Rightarrow> RState \<Rightarrow> (goerr + unit) \<times> RState" where
  "createWorkspace E s =
     (case sess_wss (rs_sess s) of
        None \<Rightarrow> (Inl (Panic ''nil dereference: sess.wss''), s)
      | Some wss \<Rightarrow>
          (let sess = mapWsSpec (\<lambda>ws. ws\<lparr>ws_Stacks := ws_Stacks ws @ [wss]\<rparr>) (rs_sess s);
               s' = act (AApplyWorkspace (sess_ws sess)) (s\<lparr>rs_sess := sess\<rparr>)
           in case ApplyWorkspace (en_A E) (rs_trace s) (sess_ws sess) of
                Inl e \<Rightarrow> (Inl e, s')
              | Inr ws \<Rightarrow> (Inr (), s'\<lparr>rs_sess := sess\<lparr>sess_ws := ws\<rparr>\<rparr>)))"

definition stalledReason :: "Condition \<Rightarrow> string" where
  "stalledReason c = (if c_Reason c = ''IncompatibleConfiguration'' then StalledPulumiVersionTooLowReason
                      else StalledWorkspaceFailedReason)"

text \<open>The workspace exists but is not ready.\<close>

definition whenNotReady :: "('u, 'm) env \<Rightarrow> RState \<Rightarrow> Outcome" where
  "whenNotReady E s =
     (case FindStatusCondition (en_L E) (wst_Conditions (w_Status (sess_ws (rs_sess s)))) WorkspaceStalled of
        None \<Rightarrow> leave 0 None s
      | Some c \<Rightarrow>
          (if c_Status c = ConditionTrue
           then (if rs_deleted s \<and> st_LastUpdate (statusOf s) = None then finalizeStack E s
                 else stallWith E 0 (stalledReason c) (c_Reason c @ '': '' @ c_Message c) s)
           else leave 0 None s))"

definition workspacePhase :: "('u, 'm) env \<Rightarrow> RState \<Rightarrow> Outcome + RState" where
  "workspacePhase E s =
     (case saveStatus E (setStatus (MarkReconcilingCondition (en_L E) ReconcilingProcessingReason
                                      ReconcilingProcessingWorkspaceMessage) s) of
        (Some e, s) \<Rightarrow> Inl (fails (Wrapf ''unable to update the status'' e) s)
      | (None, s) \<Rightarrow>
          (case createWorkspace E s of
             (Inl e, s) \<Rightarrow>
               (if rs_deleted s \<and> HasStatusCause e NamespaceTerminatingCause
                then Inl (stallWith E sourceUnavailableRequeueWait StalledNamespaceTerminatingReason
                            (namespaceTerminatingMessage (rs_stack s)) s)
                else Inl (fails (Wrapf ''unable to create workspace'' e) s))
           | (Inr _, s) \<Rightarrow>
               (if \<not> isWorkspaceReady (en_L E) (Some (sess_ws (rs_sess s))) then Inl (whenNotReady E s)
                else Inr s)))"

section \<open>The update\<close>

definition prepareUpdate :: "('u, 'm) env \<Rightarrow> string \<Rightarrow> RState \<Rightarrow> Outcome + Update" where
  "prepareUpdate E msg s = (
     let now = Now (en_A E) (rs_trace s) 4
     in if rs_deleted s
        then orFail s (mapErr (Wrapf ''unable to prepare update (destroy) for stack'')
               (newDestroy (en_L E) (en_T E) now (rs_sess s) (rs_stack s) msg))
        else if sp_Preview (s_Spec (rs_stack s))
        then orFail s (mapErr (Wrapf ''unable to prepare update (preview) for stack'')
               (newUp (en_L E) (en_T E) now (rs_sess s) (rs_stack s) PreviewType msg))
        else orFail s (mapErr (Wrapf ''unable to prepare update (up) for stack'')
               (newUp (en_L E) (en_T E) now (rs_sess s) (rs_stack s) UpType msg)))"

definition clearCurrent :: "RState \<Rightarrow> RState" where
  "clearCurrent = setStatus (\<lambda>st. st\<lparr>st_CurrentUpdate := None\<rparr>)"

definition createUpdate :: "('u, 'm) env \<Rightarrow> Update \<Rightarrow> RState \<Rightarrow> Outcome" where
  "createUpdate E update s =
     (case CreateUpdate (en_A E) (rs_trace s) update of
        Inl e \<Rightarrow>
          fails (Wrapf ''unable to create update for stack'' e)
            (snd (saveStatus E (clearCurrent (act (ACreateUpdate update) s))))
      | Inr created \<Rightarrow>
          (case addUpdateFinalizer E created (act (ACreateUpdate update) s) of
             (None, s) \<Rightarrow> leave 0 None s
           | (Some e, s) \<Rightarrow>
               fails (Wrapf ''unable to add finalizer to update'' e)
                 (snd (saveStatus E (clearCurrent (act (ADeleteUpdate (om_Name (u_Meta created))) s))))))"

definition updatePhase :: "('u, 'm) env \<Rightarrow> string \<Rightarrow> string \<Rightarrow> RState \<Rightarrow> Outcome" where
  "updatePhase E currentCommit msg s0 = (
     let s = setStatus (MarkReconcilingCondition (en_L E) ReconcilingProcessingReason
               ReconcilingProcessingUpdateMessage) s0
     in case prepareUpdate E msg s of
          Inl o' \<Rightarrow> o'
        | Inr update \<Rightarrow>
            (case saveStatus E (setStatus (\<lambda>st. st\<lparr>st_CurrentUpdate := Some
                     \<lparr>cu_Generation = om_Generation (s_Meta (rs_stack s)),
                      cu_ReconcileRequest = rs_syncRequest s,
                      cu_Name = om_Name (u_Meta update),
                      cu_Commit = currentCommit\<rparr>\<rparr>) s) of
               (Some e, s) \<Rightarrow> fails (Wrapf ''unable to update the status'' e) s
             | (None, s) \<Rightarrow> createUpdate E update s))"

section \<open>The handler\<close>

text \<open>From the source on: what happens to a stack whose status is up to date.\<close>

definition drivePhase :: "('u, 'm) env \<Rightarrow> RState \<Rightarrow> Outcome + Outcome" where
  "drivePhase E s =
     bindE (sourcePhase E s) (\<lambda>(currentCommit, usingProjectInfo, s).
     bindE (setupPhase E usingProjectInfo s) (\<lambda>s.
     bindE (syncPhase E currentCommit s) (\<lambda>(msg, s).
     bindE (prereqPhase E s) (\<lambda>s.
     bindE (workspacePhase E s) (\<lambda>s.
     Inr (updatePhase E currentCommit msg s))))))"

definition Reconcile :: "('u, 'm) env \<Rightarrow> string \<Rightarrow> string \<Rightarrow> Outcome" where
  "Reconcile E namespace nm =
     (case bindE (fetchPhase E namespace nm) (\<lambda>s.
           bindE (sessionPhase E s) (\<lambda>s.
           bindE (absorbPhase E s) (\<lambda>s.
           bindE (nothingToDestroyPhase E s) (drivePhase E)))) of
        Inl o' \<Rightarrow> o' | Inr o' \<Rightarrow> o')"

end
