(* ===== verification/ReconcileSteps.thy ===== *)
theory ReconcileSteps
  imports StackReconcile
begin

text \<open>
  What every phase of the stack's reconcile adds to the trace and leaves alone: the lemmas the
  properties of the whole handler are put together from.
\<close>

section \<open>What each step adds to the trace\<close>

text \<open>
  A predicate on actions that holds of everything the handler does in passing: events, prerequisite
  touches, the application of the workspace, the removal of an update's finalizer, and every
  status patch whose conditions respect the ready protocol.
\<close>

definition quiet :: "lib \<Rightarrow> (Action \<Rightarrow> bool) \<Rightarrow> bool" where
  "quiet L P \<longleftrightarrow> (\<forall>st. protocolOk L st \<longrightarrow> P (ASaveStatus (statusApply st)))
     \<and> (\<forall>n. P (ARemoveUpdateFinalizer n)) \<and> (\<forall>e. P (AEvent e)) \<and> (\<forall>n v. P (AAnnotate n v))
     \<and> (\<forall>w. P (AApplyWorkspace w))"

lemma quietD:
  assumes "quiet L P"
  shows "protocolOk L st \<Longrightarrow> P (ASaveStatus (statusApply st))" "P (ARemoveUpdateFinalizer n)" "P (AEvent e)"
    "P (AAnnotate n v)" "P (AApplyWorkspace w)"
  using assms unfolding quiet_def by blast+

lemma state_simps [simp]:
  "rs_trace (act a s) = rs_trace s @ [a]" "rs_stack (act a s) = rs_stack s" "rs_deleted (act a s) = rs_deleted s"
  "rs_sess (act a s) = rs_sess s" "rs_toBeFinalized (act a s) = rs_toBeFinalized s"
  "rs_namespace (act a s) = rs_namespace s" "rs_syncRequest (act a s) = rs_syncRequest s"
  "rs_trace (setStatus f s) = rs_trace s" "rs_deleted (setStatus f s) = rs_deleted s"
  "rs_sess (setStatus f s) = rs_sess s" "rs_toBeFinalized (setStatus f s) = rs_toBeFinalized s"
  "rs_namespace (setStatus f s) = rs_namespace s" "rs_syncRequest (setStatus f s) = rs_syncRequest s"
  "statusOf (setStatus f s) = f (statusOf s)" "s_Meta (rs_stack (setStatus f s)) = s_Meta (rs_stack s)"
  "s_Spec (rs_stack (setStatus f s)) = s_Spec (rs_stack s)"
  "rs_trace (emitAll es s) = rs_trace s @ map AEvent es" "rs_stack (emitAll es s) = rs_stack s"
  "rs_deleted (emitAll es s) = rs_deleted s" "rs_sess (emitAll es s) = rs_sess s"
  "rs_toBeFinalized (emitAll es s) = rs_toBeFinalized s"
  "rs_namespace (emitAll es s) = rs_namespace s" "rs_syncRequest (emitAll es s) = rs_syncRequest s"
  by (simp_all add: act_def setStatus_def emitAll_def)

lemma outcome_simps [simp]:
  "oc_Trace (leave after err s) = rs_trace s" "oc_Err (leave after err s) = err"
  "oc_RequeueAfter (leave after err s) = after" "oc_Trace (fails e s) = rs_trace s"
  "oc_Err (fails e s) = Some e" "oc_RequeueAfter (fails e s) = 0"
  by (simp_all add: leave_def fails_def)

lemma orFail_iff [simp]:
  "orFail s m = Inr a \<longleftrightarrow> m = Inr a" "orFail s m = Inl o' \<longleftrightarrow> (\<exists>e. m = Inl e \<and> o' = fails e s)"
  by (cases m; auto simp: orFail_def)+

lemma saveStatus_trace:
  "rs_trace (snd (saveStatus E s)) = rs_trace s @ [ASaveStatus (statusApply (statusOf s))]
   \<or> (\<exists>u. rs_toBeFinalized s = Some u \<and> rs_trace (snd (saveStatus E s)) =
        rs_trace s @ [ASaveStatus (statusApply (statusOf s)), ARemoveUpdateFinalizer (om_Name (u_Meta u))])"
  by (auto simp: saveStatus_def removeUpdateFinalizer_def Let_def split: sum.split option.split)

lemma saveStatus_frame:
  "saveStatus E s = (err, t) \<Longrightarrow> rs_deleted t = rs_deleted s \<and> rs_sess t = rs_sess s
     \<and> rs_syncRequest t = rs_syncRequest s \<and> rs_namespace t = rs_namespace s"
  by (auto simp: saveStatus_def removeUpdateFinalizer_def Let_def split: sum.splits option.splits)

lemma saveStatus_all:
  assumes "quiet L P" and "protocolOk L (statusOf s)"
  shows "list_all P (rs_trace (snd (saveStatus E s))) = list_all P (rs_trace s)"
  using saveStatus_trace [of E s] quietD(1) [OF assms] quietD(2) [OF assms(1)] by auto

lemma saveAndReturn_all:
  assumes "quiet L P" and "protocolOk L (statusOf s)"
  shows "list_all P (oc_Trace (saveAndReturn E after s)) = list_all P (rs_trace s)"
  using saveStatus_all [OF assms, of E] by (cases "saveStatus E s") (simp add: saveAndReturn_def)

lemma quiet_events: "quiet L P \<Longrightarrow> list_all P (map AEvent es)"
  unfolding list_all_iff by (auto intro: quietD(3))

lemma emitAll_all:
  "quiet L P \<Longrightarrow> list_all P (rs_trace (emitAll es s)) = list_all P (rs_trace s)"
  by (simp add: quiet_events)

definition ctx :: "('u, 'm) env \<Rightarrow> (Action \<Rightarrow> bool) \<Rightarrow> bool" where
  "ctx E P \<longleftrightarrow> condition_api (en_L E) \<and> quiet (en_L E) P"

lemma ctxD:
  assumes "ctx E P"
  shows "quiet (en_L E) P" "protocolOk (en_L E) (MarkReconcilingCondition (en_L E) r m st)"
    "protocolOk (en_L E) (MarkStalledCondition (en_L E) r m st)" "protocolOk (en_L E) (MarkReadyCondition (en_L E) st)"
    "P (ARemoveUpdateFinalizer n)" "P (AEvent e)" "P (AAnnotate n v)" "P (AApplyWorkspace w)"
  using assms condition_api.protocol_reconciling condition_api.protocol_stalled condition_api.protocol_ready
  by (auto simp: ctx_def intro: quietD)

lemma stallWith_all [simp]: "ctx E P \<Longrightarrow> list_all P (oc_Trace (stallWith E after r m s)) = list_all P (rs_trace s)"
  by (simp add: stallWith_def saveAndReturn_all [OF ctxD(1)] ctxD(3))

lemma invalidSpec_all [simp]: "ctx E P \<Longrightarrow> list_all P (oc_Trace (invalidSpec E m s)) = list_all P (rs_trace s)"
  by (simp add: invalidSpec_def emitAll_all [OF ctxD(1)] del: state_simps)

lemma waitForUpdate_all [simp]: "ctx E P \<Longrightarrow> list_all P (oc_Trace (waitForUpdate E s)) = list_all P (rs_trace s)"
  by (simp add: waitForUpdate_def saveAndReturn_all [OF ctxD(1)] ctxD(2))

lemma absorb_Inl:
  "absorbPhase E s = Inl o' \<Longrightarrow> ctx E P \<Longrightarrow> list_all P (oc_Trace o') = list_all P (rs_trace s)"
  by (auto simp: absorbPhase_def Let_def bindE_Inl_iff split: option.splits sum.splits if_splits)

lemma absorb_Inr:
  "absorbPhase E s = Inr t \<Longrightarrow> ctx E P \<Longrightarrow> list_all P (rs_trace t) = list_all P (rs_trace s)"
  by (auto simp: absorbPhase_def Let_def bindE_Inr_iff quiet_events [OF ctxD(1)]
      split: option.splits sum.splits if_splits)

text \<open>What the phases before the workspace leave alone.\<close>

definition sameStack :: "RState \<Rightarrow> RState \<Rightarrow> bool" where
  "sameStack s t \<longleftrightarrow> s_Meta (rs_stack t) = s_Meta (rs_stack s) \<and> s_Spec (rs_stack t) = s_Spec (rs_stack s)
     \<and> specOf t = specOf s \<and> rs_deleted t = rs_deleted s \<and> rs_syncRequest t = rs_syncRequest s
     \<and> rs_namespace t = rs_namespace s"

lemma sameStack_trans: "sameStack s t \<Longrightarrow> sameStack t u \<Longrightarrow> sameStack s u"
  by (simp add: sameStack_def)

lemma sameStack_refl [simp]: "sameStack s s"
  by (simp add: sameStack_def)

lemma markStackSucceeded_frame:
  "markStackSucceeded L g t stack cur u = Inr (stack', ev) \<Longrightarrow> s_Meta stack' = s_Meta stack \<and> s_Spec stack' = s_Spec stack"
  using markStackSucceeded_Inr by blast

lemma absorb_frame: "absorbPhase E s = Inr t \<Longrightarrow> sameStack s t"
  by (auto simp: absorbPhase_def sameStack_def Let_def bindE_Inr_iff dest: markStackSucceeded_frame
      split: option.splits sum.splits if_splits) (metis fst_conv markStackFailed_frame)+

lemma nothingToDestroy_Inr:
  "nothingToDestroyPhase E s = Inr t \<longleftrightarrow>
     t = s \<and> \<not> (rs_deleted s \<and> (\<not> sp_DestroyOnFinalize (specOf s) \<or> sp_Preview (specOf s)))"
  by (auto simp: nothingToDestroyPhase_def split: if_splits prod.splits option.splits)

lemma finalizeStack_trace:
  "oc_Trace (finalizeStack E s) = rs_trace s
   \<or> (\<exists>fs. oc_Trace (finalizeStack E s) = rs_trace s @
        [AUpdateStack ((rs_stack s)\<lparr>s_Meta := (s_Meta (rs_stack s))\<lparr>om_Finalizers := fs\<rparr>\<rparr>)])"
  by (auto simp: finalizeStack_def Let_def split: prod.splits)

lemma nothingToDestroy_Inl:
  assumes "ctx E P" and "nothingToDestroyPhase E s = Inl o'" and "list_all P (rs_trace s)"
  shows "list_all P (oc_Trace o')
    \<or> rs_deleted s \<and> (\<not> sp_DestroyOnFinalize (specOf s) \<or> sp_Preview (specOf s))"
  using assms by (auto simp: nothingToDestroyPhase_def split: if_splits)

lemma git_Inl:
  "gitPhase E gs s = Inl o' \<Longrightarrow> ctx E P \<Longrightarrow> list_all P (oc_Trace o') = list_all P (rs_trace s)"
  by (auto simp: gitPhase_def bindE_Inl_iff split: sum.splits)

lemma git_Inr:
  "gitPhase E gs s = Inr (c, t) \<Longrightarrow> sameStack s t \<and> rs_trace t = rs_trace s \<and> statusOf t = statusOf s"
  by (auto simp: gitPhase_def bindE_Inr_iff sameStack_def setupWorkspaceFromGitSource_def split: sum.splits option.splits)

lemma artifact_Inl:
  "artifactPhase E obj m d s = Inl o' \<Longrightarrow> ctx E P \<Longrightarrow> list_all P (oc_Trace o') = list_all P (rs_trace s)"
  by (auto simp: artifactPhase_def bindE_Inl_iff split: option.splits)

lemma artifact_Inr:
  "artifactPhase E obj m d s = Inr (c, t) \<Longrightarrow> sameStack s t \<and> rs_trace t = rs_trace s \<and> statusOf t = statusOf s"
  by (auto simp: artifactPhase_def bindE_Inr_iff SetupWorkspaceFromFluxSource_def sameStack_def split: option.splits)

lemma flux_Inl:
  "fluxPhase E fs s = Inl o' \<Longrightarrow> ctx E P \<Longrightarrow> list_all P (oc_Trace o') = list_all P (rs_trace s)"
  by (auto simp: fluxPhase_def dest: artifact_Inl split: sum.splits option.splits if_splits)

lemma flux_Inr:
  "fluxPhase E fs s = Inr (c, t) \<Longrightarrow> sameStack s t \<and> rs_trace t = rs_trace s \<and> statusOf t = statusOf s"
  by (auto simp: fluxPhase_def dest: artifact_Inr split: sum.splits option.splits if_splits)

lemma program_Inl:
  "programPhase E fs s = Inl o' \<Longrightarrow> ctx E P \<Longrightarrow> list_all P (oc_Trace o') = list_all P (rs_trace s)"
  by (auto simp: programPhase_def dest: artifact_Inl split: sum.splits if_splits)

lemma program_Inr:
  "programPhase E fs s = Inr (c, t) \<Longrightarrow> sameStack s t \<and> rs_trace t = rs_trace s \<and> statusOf t = statusOf s"
  by (auto simp: programPhase_def dest: artifact_Inr split: sum.splits if_splits)

lemma source_Inl:
  "sourcePhase E s = Inl o' \<Longrightarrow> ctx E P \<Longrightarrow> list_all P (oc_Trace o') = list_all P (rs_trace s)"
  by (auto simp: sourcePhase_def bindE_Inl_iff dest: git_Inl flux_Inl program_Inl split: option.splits if_splits)

lemma source_Inr:
  "sourcePhase E s = Inr (c, up, t) \<Longrightarrow> sameStack s t \<and> rs_trace t = rs_trace s \<and> statusOf t = statusOf s"
  by (auto simp: sourcePhase_def bindE_Inr_iff sameStack_def [of s "s\<lparr>rs_sess := x\<rparr>" for x]
      dest: git_Inr flux_Inr program_Inr split: option.splits if_splits)

lemma setup_Inl:
  "setupPhase E up s = Inl o' \<Longrightarrow> ctx E P \<Longrightarrow> list_all P (oc_Trace o') = list_all P (rs_trace s)"
  by (auto simp: setupPhase_def split: sum.splits option.splits)

lemma setupWorkspace_stack:
  assumes "setupWorkspace L T up s = Inr t"
  shows "sess_stack t = sess_stack s"
  using assms unfolding setupWorkspace_stages bindE_Inr_iff
  by (auto split: option.splits simp: bindE_Inr_iff dest!: SetEnvRefs_keeps UpdateConfig_stages repoint_frame)

lemma setup_Inr:
  "setupPhase E up s = Inr t \<Longrightarrow> sameStack s t \<and> rs_trace t = rs_trace s \<and> statusOf t = statusOf s"
  by (auto simp: setupPhase_def sameStack_def SetEnvs_def SetSecretEnvs_def dest: setupWorkspace_stack
      split: sum.splits option.splits)

lemma sync_Inr:
  "syncPhase E c s = Inr (msg, t) \<longleftrightarrow>
     (\<exists>es. isSynced (en_L E) (Now (en_A E) (rs_trace s) 1) (rs_stack s) c = ((False, msg), es) \<and> t = emitAll es s)"
  by (auto simp: syncPhase_def split: prod.splits if_splits)

lemma touch_Inr:
  "touchPrereq E st v s = Inr t \<Longrightarrow> t = s \<or> (\<exists>n w. t = act (AAnnotate n w) s)"
  by (auto simp: touchPrereq_def Let_def split: if_splits option.splits)

lemma sameStack_act [simp]: "sameStack s (act a t) = sameStack s t" "sameStack s (emitAll es t) = sameStack s t"
  by (simp_all add: sameStack_def)

lemma prereqBody_Inr:
  assumes "prereqBody E p (ns, err, s) = Inr (ns', err', t)"
  shows "sameStack s t \<and> statusOf t = statusOf s \<and> (ctx E P \<longrightarrow> list_all P (rs_trace t) = list_all P (rs_trace s))"
  using assms
  by (auto simp: prereqBody_def bindE_Inr_iff ctxD(7) dest!: touch_Inr split: if_splits sum.splits option.splits)

lemma prereq_Inr:
  assumes "prereqPhase E s = Inr t"
  shows "sameStack s t \<and> statusOf t = statusOf s \<and> (ctx E P \<longrightarrow> list_all P (rs_trace t) = list_all P (rs_trace s))"
proof -
  let ?P = "\<lambda>p :: PrereqState. sameStack s (snd (snd p)) \<and> statusOf (snd (snd p)) = statusOf s
    \<and> (ctx E P \<longrightarrow> list_all P (rs_trace (snd (snd p))) = list_all P (rs_trace s))"
  from assms obtain ns err where
    "foldE (prereqBody E) (sp_Prerequisites (s_Spec (rs_stack s))) ([], None, s) = Inr (ns, err, t)"
    by (auto simp: prereqPhase_def bindE_Inr_iff Let_def split: if_splits option.splits)
  then have "?P (ns, err, t)"
  proof (rule foldE_invariant)
    show "?P ([], None, s)" by simp
  next
    fix a u v
    assume "?P u" "prereqBody E a u = Inr v"
    then show "?P v"
      using prereqBody_Inr [of E a "fst u" "fst (snd u)" "snd (snd u)" "fst v" "fst (snd v)" "snd (snd v)" P]
        sameStack_trans by (cases u; cases v) auto
  qed
  then show ?thesis by simp
qed

lemma touch_Inl:
  "touchPrereq E st v s = Inl o' \<Longrightarrow> ctx E P \<Longrightarrow> list_all P (oc_Trace o') = list_all P (rs_trace s)"
  by (auto simp: touchPrereq_def Let_def ctxD(7) split: if_splits option.splits)

lemma foldE_Inl:
  assumes "foldE f as s = Inl e" and "P s"
    and "\<And>a u v. P u \<Longrightarrow> f a u = Inr v \<Longrightarrow> P v"
  shows "\<exists>a u. P u \<and> f a u = Inl e"
  using assms
proof (induction as arbitrary: s)
  case Nil
  then show ?case by simp
next
  case (Cons a as)
  show ?case
  proof (cases "f a s")
    case (Inl e')
    then show ?thesis using Cons.prems(1,2) by auto
  next
    case (Inr u)
    then have "P u" using Cons.prems(2,3) by blast
    then show ?thesis using Cons.IH [of u] Cons.prems(1,3) Inr by auto
  qed
qed

lemma prereqBody_Inl:
  assumes "prereqBody E p u = Inl o'" and "ctx E P"
  shows "list_all P (oc_Trace o') = list_all P (rs_trace (snd (snd u)))"
  using assms
  by (cases u) (auto simp: prereqBody_def bindE_Inl_iff touch_Inl split: if_splits sum.splits option.splits)

lemma prereq_Inl:
  assumes "ctx E P" and "prereqPhase E s = Inl o'" and "list_all P (rs_trace s)"
  shows "list_all P (oc_Trace o')"
proof -
  let ?P = "\<lambda>p :: PrereqState. list_all P (rs_trace (snd (snd p)))"
  have step: "?P u \<Longrightarrow> prereqBody E a u = Inr v \<Longrightarrow> ?P v" for a u v
    using prereqBody_Inr [of E a "fst u" "fst (snd u)" "snd (snd u)" "fst v" "fst (snd v)" "snd (snd v)" P]
      assms(1) by (cases u; cases v) auto
  let ?fold = "foldE (prereqBody E) (sp_Prerequisites (s_Spec (rs_stack s))) ([], None, s)"
  show ?thesis
  proof (cases ?fold)
    case (Inl e)
    have "\<exists>a u. ?P u \<and> prereqBody E a u = Inl e"
      by (rule foldE_Inl [OF Inl]) (use assms(3) step in auto)
    then obtain a u where "?P u" "prereqBody E a u = Inl e" by blast
    then show ?thesis using Inl assms prereqBody_Inl [of E a u e P] by (simp add: prereqPhase_def)
  next
    case (Inr p)
    have "?P p" by (rule foldE_invariant [OF Inr]) (use assms(3) step in auto)
    then show ?thesis
      using Inr assms(1,2)
      by (cases p) (auto simp: prereqPhase_def Let_def saveAndReturn_all [OF ctxD(1)] ctxD(2)
          split: option.splits if_splits)
  qed
qed

section \<open>The end phases\<close>

lemma markStackResult_ok:
  assumes "condition_api L" and "markStackResult L st = Inr st'"
  shows "protocolOk L st' \<and> st_LastUpdate st' = st_LastUpdate st"
  using assms condition_api.protocol_ready [OF assms(1)] condition_api.protocol_stalled [OF assms(1)]
    condition_api.protocol_reconciling [OF assms(1)]
  by (auto simp: markStackResult_def split: option.splits if_splits)

lemma saveStatus_ctx:
  assumes "saveStatus E s = (err, t)" and "ctx E P" and "protocolOk (en_L E) (statusOf s)"
  shows "list_all P (rs_trace t) = list_all P (rs_trace s)
    \<and> ASaveStatus (statusApply (statusOf s)) \<in> set (rs_trace t)"
  using saveStatus_all [OF ctxD(1) [OF assms(2)] assms(3), of E] saveStatus_trace [of E s] assms(1) by auto

lemma reclaim_Inr:
  assumes "reclaimPhase E s = Inr t" and "ctx E P" and "\<And>n. P (ADeleteWorkspace n)"
  shows "list_all P (rs_trace t) = list_all P (rs_trace s) \<and> rs_stack t = rs_stack s"
  using assms
  by (auto simp: reclaimPhase_def bindE_Inr_iff removeUpdateFinalizer_def deleteWorkspace_def ctxD(5,6)
      split: option.splits sum.splits prod.splits if_splits)

lemma reclaim_Inl:
  assumes "reclaimPhase E s = Inl o'" and "ctx E P" and "\<And>n. P (ADeleteWorkspace n)"
  shows "list_all P (oc_Trace o') = list_all P (rs_trace s)"
  using assms
  by (auto simp: reclaimPhase_def bindE_Inl_iff bindE_Inr_iff removeUpdateFinalizer_def deleteWorkspace_def ctxD(5,6)
      split: option.splits sum.splits prod.splits if_splits)

lemma whenSynced_live:
  assumes "\<not> rs_deleted s" and "ctx E P" and "\<And>n. P (ADeleteWorkspace n)" and "list_all P (rs_trace s)"
  shows "list_all P (oc_Trace (whenSynced E s))"
proof (cases "markStackResult (en_L E) (statusOf s)")
  case (Inl e)
  then show ?thesis using assms(4) by (simp add: whenSynced_def)
next
  case (Inr st)
  have ok: "protocolOk (en_L E) st" using markStackResult_ok [OF _ Inr] assms(2) by (simp add: ctx_def)
  then show ?thesis
    using assms Inr reclaim_Inr [OF _ assms(2,3)] reclaim_Inl [OF _ assms(2,3)]
    by (auto simp: whenSynced_def Let_def saveAndReturn_all [OF ctxD(1)] split: option.split prod.split sum.split)
qed

lemma whenSynced_deleted:
  assumes "rs_deleted s" and "ctx E P" and "list_all P (rs_trace s)"
  shows "list_all P (oc_Trace (whenSynced E s))
    \<or> (\<exists>lu p. st_LastUpdate (statusOf s) = Some lu \<and> lu_State lu = SucceededStackStateMessage
          \<and> ASaveStatus p \<in> set (oc_Trace (whenSynced E s)) \<and> sa_LastUpdate p = Some lu)"
proof (cases "markStackResult (en_L E) (statusOf s)")
  case (Inl e)
  then show ?thesis using assms(3) by (simp add: whenSynced_def)
next
  case (Inr st)
  let ?s = "setStatus (\<lambda>_. st) s"
  have ok: "protocolOk (en_L E) st" "st_LastUpdate st = st_LastUpdate (statusOf s)"
    using markStackResult_ok [OF _ Inr] assms(2) by (simp_all add: ctx_def)
  show ?thesis
  proof (cases "st_LastUpdate st")
    case None
    then show ?thesis using assms(3) Inr by (simp add: whenSynced_def)
  next
    case (Some lu)
    show ?thesis
    proof (cases "lu_State lu = SucceededStackStateMessage")
      case False
      then show ?thesis
        using assms Inr Some ok by (simp add: whenSynced_def Let_def saveAndReturn_all [OF ctxD(1)])
    next
      case True
      obtain err t where t: "saveStatus E ?s = (err, t)" by (cases "saveStatus E ?s")
      have "oc_Trace (whenSynced E s) = oc_Trace (finalizeStack E t)"
        using assms(1) Inr Some True t by (simp add: whenSynced_def Let_def)
      moreover have "ASaveStatus (statusApply st) \<in> set (rs_trace t)"
        using saveStatus_ctx [OF t assms(2)] ok(1) by simp
      ultimately have "ASaveStatus (statusApply st) \<in> set (oc_Trace (whenSynced E s))"
        using finalizeStack_trace [of E t] by auto
      then show ?thesis using True Some ok(2) by (auto simp: statusApply_def)
    qed
  qed
qed

lemma createWorkspace_frame:
  assumes "createWorkspace E s = (r, t)"
  shows "rs_deleted t = rs_deleted s \<and> rs_stack t = rs_stack s \<and> rs_syncRequest t = rs_syncRequest s
    \<and> (ctx E P \<longrightarrow> list_all P (rs_trace t) = list_all P (rs_trace s))
    \<and> (\<forall>x. r = Inr x \<longrightarrow> (\<exists>tr w. AApplyWorkspace w \<in> set (rs_trace t) \<and> ApplyWorkspace (en_A E) tr w = Inr (sess_ws (rs_sess t))))"
  using assms by (auto simp: createWorkspace_def Let_def ctxD(8) split: option.splits sum.splits) blast

lemma workspace_Inr:
  assumes "workspacePhase E s = Inr t" and "ctx E P"
  shows "list_all P (rs_trace t) = list_all P (rs_trace s) \<and> rs_deleted t = rs_deleted s
    \<and> rs_syncRequest t = rs_syncRequest s"
proof -
  let ?s = "setStatus (MarkReconcilingCondition (en_L E) ReconcilingProcessingReason ReconcilingProcessingWorkspaceMessage) s"
  from assms(1) obtain u r where u: "saveStatus E ?s = (None, u)" "createWorkspace E u = (r, t)"
    by (auto simp: workspacePhase_def split: prod.splits option.splits sum.splits if_splits)
  have "protocolOk (en_L E) (statusOf ?s)" using ctxD(2) [OF assms(2)] by simp
  then show ?thesis
    using saveStatus_ctx [OF u(1) assms(2)] saveStatus_frame [OF u(1)] createWorkspace_frame [OF u(2), of P] assms(2)
    by simp
qed

text \<open>The finalizer of a stack whose workspace cannot be used: only without any past update.\<close>

definition stalledNeverUpdated :: "('u, 'm) env \<Rightarrow> Outcome \<Rightarrow> bool" where
  "stalledNeverUpdated E o' \<longleftrightarrow>
     (\<exists>tr st w ws. oc_Trace o' = tr @ [AUpdateStack st] \<and> st_LastUpdate (s_Status st) = None
        \<and> AApplyWorkspace w \<in> set tr \<and> (\<exists>tr'. ApplyWorkspace (en_A E) tr' w = Inr ws)
        \<and> isWorkspaceStalled (en_L E) (Some ws))"

lemma whenNotReady_all:
  assumes "ctx E P" and "list_all P (rs_trace s)"
    and "\<exists>tr w. AApplyWorkspace w \<in> set (rs_trace s) \<and> ApplyWorkspace (en_A E) tr w = Inr (sess_ws (rs_sess s))"
  shows "list_all P (oc_Trace (whenNotReady E s))
    \<or> rs_deleted s \<and> stalledNeverUpdated E (whenNotReady E s)"
proof -
  have stalled: "isWorkspaceStalled (en_L E) (Some (sess_ws (rs_sess s)))"
    if "FindStatusCondition (en_L E) (wst_Conditions (w_Status (sess_ws (rs_sess s)))) WorkspaceStalled = Some c"
      "c_Status c = ConditionTrue" for c
    using that assms(1) condition_api.true_iff [of "en_L E"] by (auto simp: isWorkspaceStalled_def ctx_def)
  show ?thesis
  proof (cases "FindStatusCondition (en_L E) (wst_Conditions (w_Status (sess_ws (rs_sess s)))) WorkspaceStalled")
    case None
    then show ?thesis using assms(2) by (simp add: whenNotReady_def)
  next
    case (Some c)
    show ?thesis
    proof (cases "c_Status c = ConditionTrue \<and> rs_deleted s \<and> st_LastUpdate (statusOf s) = None")
      case True
      then have "whenNotReady E s = finalizeStack E s" using Some by (simp add: whenNotReady_def)
      moreover have "stalledNeverUpdated E (finalizeStack E s) \<or> oc_Trace (finalizeStack E s) = rs_trace s"
        using finalizeStack_trace [of E s] assms(3) stalled [OF Some] True
        unfolding stalledNeverUpdated_def by fastforce
      ultimately show ?thesis using True assms(2) by auto
    next
      case False
      then show ?thesis using Some assms(1,2) by (auto simp: whenNotReady_def)
    qed
  qed
qed

lemma workspace_Inl:
  assumes "workspacePhase E s = Inl o'" and "ctx E P" and "list_all P (rs_trace s)"
  shows "list_all P (oc_Trace o') \<or> rs_deleted s \<and> stalledNeverUpdated E o'"
proof -
  let ?s = "setStatus (MarkReconcilingCondition (en_L E) ReconcilingProcessingReason ReconcilingProcessingWorkspaceMessage) s"
  obtain err u where u: "saveStatus E ?s = (err, u)" by (cases "saveStatus E ?s")
  have ok: "list_all P (rs_trace u)" "rs_deleted u = rs_deleted s"
    using saveStatus_ctx [OF u assms(2)] saveStatus_frame [OF u] ctxD(2) [OF assms(2)] assms(3) by simp_all
  obtain r t where t: "createWorkspace E u = (r, t)" by (cases "createWorkspace E u")
  note f = createWorkspace_frame [OF t, of P]
  have "list_all P (rs_trace t)" "rs_deleted t = rs_deleted s" using f ok assms(2) by auto
  moreover have "r = Inr x \<Longrightarrow> list_all P (oc_Trace (whenNotReady E t))
      \<or> rs_deleted t \<and> stalledNeverUpdated E (whenNotReady E t)" for x
    by (rule whenNotReady_all [OF assms(2)]) (use f ok assms(2) in auto)
  ultimately show ?thesis
    using assms(1,2) u t ok by (cases err; cases r) (auto simp: workspacePhase_def split: if_splits)
qed

lemma saveStatus_any:
  assumes "\<And>p. P (ASaveStatus p)" and "\<And>n. P (ARemoveUpdateFinalizer n)"
  shows "list_all P (rs_trace (snd (saveStatus E s))) = list_all P (rs_trace s)"
  using saveStatus_trace [of E s] assms by auto

lemma update_all:
  assumes "\<And>p. P (ASaveStatus p)" and "\<And>n. P (ARemoveUpdateFinalizer n)" and "\<And>u. P (ACreateUpdate u)"
    and "\<And>n. P (ADeleteUpdate n)" and "\<And>n. P (AAddUpdateFinalizer n)" and "list_all P (rs_trace s)"
  shows "list_all P (oc_Trace (updatePhase E c msg s))"
proof -
  have save: "saveStatus E u = (err, t) \<Longrightarrow> list_all P (rs_trace t) = list_all P (rs_trace u)" for u err t
    using saveStatus_any [OF assms(1,2), of E u] by simp
  have create: "list_all P (oc_Trace (createUpdate E upd u))" if "list_all P (rs_trace u)" for upd u
    using that assms(3,4,5) saveStatus_any [of P, OF assms(1,2), of E]
    by (auto simp: createUpdate_def addUpdateFinalizer_def clearCurrent_def split: sum.split option.split)
  show ?thesis
    using assms(6) save create
    by (auto simp: updatePhase_def Let_def prepareUpdate_def split: sum.split prod.split option.split if_splits)
qed

section \<open>When the finalizer writes are of no concern\<close>

text \<open>The same facts for a predicate that also holds of every write of the stack.\<close>

definition lax :: "('u, 'm) env \<Rightarrow> (Action \<Rightarrow> bool) \<Rightarrow> bool" where
  "lax E P \<longleftrightarrow> ctx E P \<and> (\<forall>st. P (AUpdateStack st)) \<and> (\<forall>n. P (ADeleteWorkspace n))"

lemma laxD: "lax E P \<Longrightarrow> ctx E P" "lax E P \<Longrightarrow> P (AUpdateStack st)" "lax E P \<Longrightarrow> P (ADeleteWorkspace n)"
  by (simp_all add: lax_def)

lemma finalizeStack_lax [simp]:
  "lax E P \<Longrightarrow> list_all P (oc_Trace (finalizeStack E s)) = list_all P (rs_trace s)"
  using finalizeStack_trace [of E s] laxD(2) [of E P] by auto

lemma nothingToDestroy_lax:
  assumes "nothingToDestroyPhase E s = Inl o'" and "lax E P"
  shows "list_all P (oc_Trace o') = list_all P (rs_trace s)"
proof -
  let ?s = "setStatus (MarkReadyCondition (en_L E)) s"
  obtain err t where t: "saveStatus E ?s = (err, t)" by (cases "saveStatus E ?s")
  have "list_all P (rs_trace t) = list_all P (rs_trace s)"
    using saveStatus_ctx [OF t laxD(1) [OF assms(2)]] ctxD(4) [OF laxD(1) [OF assms(2)]] by simp
  then show ?thesis using assms t by (cases err) (auto simp: nothingToDestroyPhase_def split: if_splits)
qed

lemma whenSynced_lax:
  assumes "lax E P" and "list_all P (rs_trace s)"
  shows "list_all P (oc_Trace (whenSynced E s))"
proof (cases "rs_deleted s")
  case False
  then show ?thesis using whenSynced_live [OF False laxD(1) [OF assms(1)] laxD(3) [OF assms(1)] assms(2)] by simp
next
  case True
  show ?thesis
  proof (cases "markStackResult (en_L E) (statusOf s)")
    case (Inl e)
    then show ?thesis using assms(2) by (simp add: whenSynced_def)
  next
    case (Inr st)
    let ?s = "setStatus (\<lambda>_. st) s"
    have ok: "protocolOk (en_L E) st"
      using markStackResult_ok [OF _ Inr] laxD(1) [OF assms(1)] by (simp add: ctx_def)
    obtain err t where t: "saveStatus E ?s = (err, t)" by (cases "saveStatus E ?s")
    have "list_all P (rs_trace t)"
      using saveStatus_ctx [OF t laxD(1) [OF assms(1)]] ok assms(2) by simp
    then show ?thesis
      using True Inr t assms ok
      by (auto simp: whenSynced_def Let_def saveAndReturn_all [OF ctxD(1) [OF laxD(1)]] split: option.split)
  qed
qed

lemma whenNotReady_lax:
  "lax E P \<Longrightarrow> list_all P (oc_Trace (whenNotReady E s)) = list_all P (rs_trace s)"
  using laxD(1) [of E P] by (auto simp: whenNotReady_def split: option.split)

lemma workspace_lax:
  assumes "workspacePhase E s = Inl o'" and "lax E P" and "list_all P (rs_trace s)"
  shows "list_all P (oc_Trace o')"
proof -
  let ?s = "setStatus (MarkReconcilingCondition (en_L E) ReconcilingProcessingReason ReconcilingProcessingWorkspaceMessage) s"
  note c = laxD(1) [OF assms(2)]
  obtain err u where u: "saveStatus E ?s = (err, u)" by (cases "saveStatus E ?s")
  have "list_all P (rs_trace u)" using saveStatus_ctx [OF u c] ctxD(2) [OF c] assms(3) by simp
  moreover obtain r t where t: "createWorkspace E u = (r, t)" by (cases "createWorkspace E u")
  ultimately have "list_all P (rs_trace t)" "list_all P (rs_trace u)"
    using createWorkspace_frame [OF t, of P] c by auto
  then show ?thesis
    using assms(1,2) u t c whenNotReady_lax [OF assms(2)]
    by (cases err; cases r) (auto simp: workspacePhase_def split: if_splits)
qed

section \<open>The handler as a whole\<close>

lemma sync_Inl:
  "syncPhase E c s = Inl o' \<Longrightarrow> \<exists>msg es. isSynced (en_L E) (Now (en_A E) (rs_trace s) 1) (rs_stack s) c = ((True, msg), es)
     \<and> o' = whenSynced E (emitAll es s)"
  by (auto simp: syncPhase_def split: prod.splits if_splits)

lemma session_Inr:
  "sessionPhase E s = Inr t \<Longrightarrow> rs_stack t = rs_stack s \<and> rs_deleted t = rs_deleted s \<and> rs_trace t = rs_trace s
     \<and> rs_syncRequest t = rs_syncRequest s \<and> rs_toBeFinalized t = rs_toBeFinalized s
     \<and> rs_namespace t = rs_namespace s \<and> specOf t = s_Spec (rs_stack s)"
  by (auto simp: sessionPhase_def bindE_Inr_iff newStackReconcilerSession_def dest!: NewWorkspace_mounts)

lemma session_Inl: "sessionPhase E s = Inl o' \<Longrightarrow> oc_Trace o' = rs_trace s"
  by (auto simp: sessionPhase_def bindE_Inl_iff)

lemma fetch_Inr:
  assumes "fetchPhase E ns nm = Inr s"
  shows "\<exists>st0. GetStack (en_A E) [] ns nm = Inr st0
    \<and> rs_deleted s = (om_DeletionTimestamp (s_Meta st0) \<noteq> None)
    \<and> rs_syncRequest s = syncRequestOf (s_Meta st0) \<and> rs_toBeFinalized s = None \<and> rs_namespace s = ns
    \<and> (rs_deleted s \<longrightarrow> rs_trace s = [] \<and> s_Meta (rs_stack s) = s_Meta st0 \<and> s_Spec (rs_stack s) = s_Spec st0
          \<and> PulumiFinalizer \<in> set (om_Finalizers (s_Meta st0))
          \<and> statusOf s = (s_Status st0)\<lparr>st_ObservedGeneration := om_Generation (s_Meta st0),
                  st_ObservedReconcileRequest := syncRequestOf (s_Meta st0)\<rparr>)
    \<and> (rs_trace s = [] \<or> (\<exists>st. rs_trace s = [AUpdateStack st]
          \<and> om_Finalizers (s_Meta st) = fst (AddFinalizer (en_L E) (om_Finalizers (s_Meta st0)) PulumiFinalizer)))"
  using assms by (auto simp: fetchPhase_def Let_def split: sum.splits if_splits prod.splits)

lemma fetch_Inl:
  assumes "fetchPhase E ns nm = Inl o'"
  shows "oc_Trace o' = [] \<or> (\<exists>st0 st. GetStack (en_A E) [] ns nm = Inr st0 \<and> oc_Trace o' = [AUpdateStack st]
    \<and> om_Finalizers (s_Meta st) = fst (AddFinalizer (en_L E) (om_Finalizers (s_Meta st0)) PulumiFinalizer))"
  using assms by (auto simp: fetchPhase_def Let_def split: sum.splits if_splits prod.splits)

lemma Reconcile_cases:
  obtains (fetch) "fetchPhase E ns nm = Inl (Reconcile E ns nm)"
  | (session) s where "fetchPhase E ns nm = Inr s" "sessionPhase E s = Inl (Reconcile E ns nm)"
  | (absorb) s s1 where "fetchPhase E ns nm = Inr s" "sessionPhase E s = Inr s1"
      "absorbPhase E s1 = Inl (Reconcile E ns nm)"
  | (early) s s1 s2 where "fetchPhase E ns nm = Inr s" "sessionPhase E s = Inr s1" "absorbPhase E s1 = Inr s2"
      "nothingToDestroyPhase E s2 = Inl (Reconcile E ns nm)"
  | (drive) s s1 s2 where "fetchPhase E ns nm = Inr s" "sessionPhase E s = Inr s1" "absorbPhase E s1 = Inr s2"
      "nothingToDestroyPhase E s2 = Inr s2"
      "drivePhase E s2 = Inl (Reconcile E ns nm) \<or> drivePhase E s2 = Inr (Reconcile E ns nm)"
proof (cases "fetchPhase E ns nm")
  case (Inl e)
  then show ?thesis using fetch by (simp add: Reconcile_def)
next
  case s: (Inr s)
  show ?thesis
  proof (cases "sessionPhase E s")
    case (Inl e)
    then show ?thesis using session s by (simp add: Reconcile_def)
  next
    case s1: (Inr s1)
    show ?thesis
    proof (cases "absorbPhase E s1")
      case (Inl e)
      then show ?thesis using absorb s s1 by (simp add: Reconcile_def)
    next
      case s2: (Inr s2)
      show ?thesis
      proof (cases "nothingToDestroyPhase E s2")
        case (Inl e)
        then show ?thesis using early s s1 s2 by (simp add: Reconcile_def)
      next
        case (Inr s3)
        then have "s3 = s2" by (simp add: nothingToDestroy_Inr)
        then show ?thesis
          using drive s s1 s2 Inr by (cases "drivePhase E s2") (simp_all add: Reconcile_def)
      qed
    qed
  qed
qed

text \<open>The part from the source on: where its outcome comes from.\<close>

lemma drive_cases:
  assumes "drivePhase E s = Inl o' \<or> drivePhase E s = Inr o'"
  obtains (resolving) "sourcePhase E s = Inl o'"
  | (planning) c up t where "sourcePhase E s = Inr (c, up, t)" "setupPhase E up t = Inl o'"
  | (sync) c up t u where "sourcePhase E s = Inr (c, up, t)" "setupPhase E up t = Inr u" "syncPhase E c u = Inl o'"
  | (prereq) c up t u msg v where "sourcePhase E s = Inr (c, up, t)" "setupPhase E up t = Inr u"
      "syncPhase E c u = Inr (msg, v)" "prereqPhase E v = Inl o'"
  | (workspace) c up t u msg v w where "sourcePhase E s = Inr (c, up, t)" "setupPhase E up t = Inr u"
      "syncPhase E c u = Inr (msg, v)" "prereqPhase E v = Inr w" "workspacePhase E w = Inl o'"
  | (update) c up t u msg v w x where "sourcePhase E s = Inr (c, up, t)" "setupPhase E up t = Inr u"
      "syncPhase E c u = Inr (msg, v)" "prereqPhase E v = Inr w" "workspacePhase E w = Inr x"
      "o' = updatePhase E c msg x"
  using assms by (auto simp: drivePhase_def bindE_Inl_iff bindE_Inr_iff)

lemma drive_frame:
  assumes "sourcePhase E s = Inr (c, up, t)" and "setupPhase E up t = Inr u"
  shows "sameStack s u \<and> rs_trace u = rs_trace s \<and> statusOf u = statusOf s"
  using source_Inr [OF assms(1)] setup_Inr [OF assms(2)] sameStack_trans by auto

text \<open>
  A property of actions that only a creation or deletion of an update can break: the handler keeps
  it, or it gets to the phase that creates an update with the property intact.
\<close>

lemma drive_lax:
  assumes "drivePhase E s = Inl o' \<or> drivePhase E s = Inr o'" and "lax E P" and "list_all P (rs_trace s)"
  shows "list_all P (oc_Trace o')
    \<or> (\<exists>c msg z. o' = updatePhase E c msg z \<and> list_all P (rs_trace z) \<and> rs_syncRequest z = rs_syncRequest s)"
proof -
  note c = laxD(1) [OF assms(2)]
  have ev: "list_all P (map AEvent es)" for es by (rule quiet_events [OF ctxD(1) [OF c]])
  have synced: "list_all P (rs_trace v) \<and> rs_syncRequest v = rs_syncRequest s"
    if "sourcePhase E s = Inr (x, up, t)" "setupPhase E up t = Inr y" "syncPhase E x y = Inr (msg, v)" for x up t y msg v
    using drive_frame [OF that(1,2)] that(3) assms(3) ev by (auto simp: sync_Inr sameStack_def)
  from assms(1) show ?thesis
  proof (cases rule: drive_cases)
    case resolving
    then show ?thesis using source_Inl [OF _ c] assms(3) by blast
  next
    case (planning x up t)
    then show ?thesis using source_Inr [OF planning(1)] setup_Inl [OF planning(2) c] assms(3) by simp
  next
    case (sync x up t y)
    from sync_Inl [OF sync(3)] obtain es where w: "o' = whenSynced E (emitAll es y)" by blast
    have "list_all P (rs_trace (emitAll es y))" using drive_frame [OF sync(1,2)] assms(3) ev by simp
    then show ?thesis using whenSynced_lax [OF assms(2)] w by simp
  next
    case (prereq x up t y msg v)
    then show ?thesis using synced [OF prereq(1-3)] prereq_Inl [OF c prereq(4)] by simp
  next
    case (workspace x up t y msg v w)
    then have "list_all P (rs_trace w)" using synced [OF workspace(1-3)] prereq_Inr [OF workspace(4), of P] c by auto
    then show ?thesis using workspace_lax [OF workspace(5) assms(2)] by simp
  next
    case (update x up t y msg v w z)
    have w: "list_all P (rs_trace w)" "rs_syncRequest w = rs_syncRequest s"
      using synced [OF update(1-3)] prereq_Inr [OF update(4), of P] c by (auto simp: sameStack_def)
    then show ?thesis using workspace_Inr [OF update(5) c] update(6) by auto
  qed
qed

lemma reconcile_lax:
  assumes "lax E P"
  shows "list_all P (oc_Trace (Reconcile E ns nm))
    \<or> (\<exists>st0 c msg z. GetStack (en_A E) [] ns nm = Inr st0 \<and> Reconcile E ns nm = updatePhase E c msg z
         \<and> list_all P (rs_trace z) \<and> rs_syncRequest z = syncRequestOf (s_Meta st0))"
proof -
  note c = laxD(1) [OF assms]
  have first: "list_all P (rs_trace s) \<and> (\<exists>st0. GetStack (en_A E) [] ns nm = Inr st0 \<and> rs_syncRequest s = syncRequestOf (s_Meta st0))"
    if "fetchPhase E ns nm = Inr s" for s
    using fetch_Inr [OF that] laxD(2) [OF assms] by auto
  have start: "list_all P (rs_trace s2) \<and> (\<exists>st0. GetStack (en_A E) [] ns nm = Inr st0 \<and> rs_syncRequest s2 = syncRequestOf (s_Meta st0))"
    if "fetchPhase E ns nm = Inr s" "sessionPhase E s = Inr s1" "absorbPhase E s1 = Inr s2" for s s1 s2
    using first [OF that(1)] session_Inr [OF that(2)] absorb_Inr [OF that(3) c] absorb_frame [OF that(3)]
    by (auto simp: sameStack_def)
  show ?thesis
  proof (cases rule: Reconcile_cases [of E ns nm])
    case fetch
    then show ?thesis using fetch_Inl [OF fetch] laxD(2) [OF assms] by auto
  next
    case (session s)
    then show ?thesis using first [OF session(1)] session_Inl [OF session(2)] by simp
  next
    case (absorb s s1)
    then show ?thesis using first [OF absorb(1)] session_Inr [OF absorb(2)] absorb_Inl [OF absorb(3) c] by simp
  next
    case (early s s1 s2)
    then show ?thesis using start [OF early(1-3)] nothingToDestroy_lax [OF early(4) assms] by simp
  next
    case (drive s s1 s2)
    then show ?thesis using start [OF drive(1-3)] drive_lax [OF drive(5) assms] by metis
  qed
qed

end
