(* ===== verification/ReconcileFacts.thy ===== *)
theory ReconcileFacts
  imports ReconcileSteps
begin

text \<open>
  The properties of the stack's reconcile: when the finalizer goes, how updates are created, what
  every saved status looks like, and where an error ends.
\<close>

section \<open>Finalizer safety\<close>

text \<open>A write of the stack without its finalizer.\<close>

fun removesFinalizer :: "Action \<Rightarrow> bool" where
  "removesFinalizer (AUpdateStack st) \<longleftrightarrow> PulumiFinalizer \<notin> set (om_Finalizers (s_Meta st))"
| "removesFinalizer a \<longleftrightarrow> False"

text \<open>
  What the cluster told about a stack: it has been destroyed as it was fetched. Either the status
  recorded it, or the status names an update that is complete, has not failed and was a destroy
  of this generation and reconciliation request.
\<close>

definition destroyKnown :: "('u, 'm) env \<Rightarrow> string \<Rightarrow> Stack \<Rightarrow> bool" where
  "destroyKnown E ns st0 \<longleftrightarrow>
     (case st_CurrentUpdate (s_Status st0) of
        None \<Rightarrow> (\<exists>lu. st_LastUpdate (s_Status st0) = Some lu \<and> lu_State lu = SucceededStackStateMessage
                  \<and> lu_Type lu = DestroyType \<and> sameInputs st0 lu)
      | Some cu \<Rightarrow> (\<exists>u. GetUpdate (en_A E) [] ns (cu_Name cu) = Inr u \<and> isUpdateComplete (en_L E) (Some u)
                  \<and> \<not> IsStatusConditionTrue (en_L E) (ust_Conditions (u_Status u)) UpdateConditionTypeFailed
                  \<and> us_Type (u_Spec u) = DestroyType \<and> cu_Generation cu = om_Generation (s_Meta st0)
                  \<and> cu_ReconcileRequest cu = syncRequestOf (s_Meta st0)))"

abbreviation keepsFinalizer :: "Action \<Rightarrow> bool" where
  "keepsFinalizer a \<equiv> \<not> removesFinalizer a"

lemma keeps_ctx: "condition_api (en_L E) \<Longrightarrow> ctx E keepsFinalizer"
  by (simp add: ctx_def quiet_def)

lemma synced_destroy:
  assumes "isSynced L now stack c = ((True, msg), es)" and "om_DeletionTimestamp (s_Meta stack) \<noteq> None"
    and "st_LastUpdate (s_Status stack) = Some lu" and "lu_State lu = SucceededStackStateMessage"
  shows "lu_Type lu = DestroyType \<and> sameInputs stack lu"
proof -
  have "synced L now stack c" using assms(1) by simp
  then show ?thesis using assms(2-4) by (auto simp: synced_iff)
qed

definition destroyRecorded :: "Stack \<Rightarrow> bool" where
  "destroyRecorded stack \<longleftrightarrow> (\<exists>lu. st_LastUpdate (s_Status stack) = Some lu
     \<and> lu_State lu = SucceededStackStateMessage \<and> lu_Type lu = DestroyType \<and> sameInputs stack lu)"

lemma markStackFailed_state:
  "st_LastUpdate (s_Status (fst (markStackFailed t stack cu u))) = Some lu \<Longrightarrow> lu_State lu = FailedStackStateMessage"
  by (auto simp: markStackFailed_def Let_def split: option.splits if_splits)

lemma absorb_recorded:
  assumes "absorbPhase E s = Inr t" and "destroyRecorded (rs_stack t)" and "rs_trace s = []" and "rs_namespace s = ns"
  shows "destroyKnown E ns (rs_stack s)"
proof (cases "st_CurrentUpdate (statusOf s)")
  case None
  then show ?thesis using assms by (auto simp: absorbPhase_def destroyKnown_def destroyRecorded_def)
next
  case (Some cu)
  have same: "sameInputs (rs_stack t) lu = sameInputs (rs_stack s) lu" for lu
    by (rule sameInputs_meta) (use absorb_frame [OF assms(1)] in \<open>simp add: sameStack_def\<close>)
  from assms(2) obtain lu where lu: "st_LastUpdate (statusOf t) = Some lu" "lu_State lu = SucceededStackStateMessage"
    "lu_Type lu = DestroyType" "sameInputs (rs_stack s) lu" by (auto simp: destroyRecorded_def same)
  from assms(1) Some obtain u where u: "GetUpdate (en_A E) [] ns (cu_Name cu) = Inr u"
    "isUpdateComplete (en_L E) (Some u)"
    by (auto simp: absorbPhase_def isUpdateComplete_def assms(3,4) Let_def split: sum.splits if_splits)
  note phase = assms(1) [unfolded absorbPhase_def Let_def] and got = u(2) [unfolded isUpdateComplete_def]
  have ok: "\<not> IsStatusConditionTrue (en_L E) (ust_Conditions (u_Status u)) UpdateConditionTypeFailed"
  proof
    assume "IsStatusConditionTrue (en_L E) (ust_Conditions (u_Status u)) UpdateConditionTypeFailed"
    with phase Some u(1) got have "st_LastUpdate (statusOf t) = st_LastUpdate (s_Status (fst (markStackFailed (Now (en_A E) [] 0) (rs_stack s) cu u)))"
      by (auto simp: assms(3,4) bindE_def split: if_splits prod.splits)
    then show False using lu(1,2) markStackFailed_state by simp
  qed
  with phase Some u(1) got obtain getS n st ev where
    "markStackSucceeded (en_L E) getS n (rs_stack s) cu u = Inr (st, ev)" "st_LastUpdate (statusOf t) = st_LastUpdate (s_Status st)"
    by (auto simp: assms(3,4) bindE_Inr_iff split: if_splits)
  then have "us_Type (u_Spec u) = lu_Type lu \<and> cu_Generation cu = lu_Generation lu \<and> cu_ReconcileRequest cu = lu_ReconcileRequest lu"
    using markStackSucceeded_Inr lu(1) by fastforce
  then show ?thesis using ok Some u lu(3,4) by (simp add: destroyKnown_def sameInputs_def)
qed

lemma drive_finalizer:
  assumes api: "condition_api (en_L E)" and o': "drivePhase E s = Inl o' \<or> drivePhase E s = Inr o'"
    and none: "list_all keepsFinalizer (rs_trace s)" and "\<not> list_all keepsFinalizer (oc_Trace o')"
    and marked: "rs_deleted s \<longrightarrow> om_DeletionTimestamp (s_Meta (rs_stack s)) \<noteq> None"
  shows "rs_deleted s \<and> (destroyRecorded (rs_stack s) \<or> stalledNeverUpdated E o')"
  using o'
proof (cases rule: drive_cases)
  case resolving
  then show ?thesis using source_Inl [OF _ keeps_ctx [OF api]] assms(3,4) by blast
next
  case (planning c up t)
  then show ?thesis
    using source_Inr [OF planning(1)] setup_Inl [OF planning(2) keeps_ctx [OF api]] assms(3,4) by simp
next
  case (sync c up t u)
  note f = drive_frame [OF sync(1,2)]
  from sync_Inl [OF sync(3)] obtain msg es where
    es: "isSynced (en_L E) (Now (en_A E) (rs_trace u) 1) (rs_stack u) c = ((True, msg), es)"
    and w: "o' = whenSynced E (emitAll es u)" by blast
  have none': "list_all keepsFinalizer (rs_trace (emitAll es u))"
    using f none quiet_events [OF ctxD(1) [OF keeps_ctx [OF api]]] by simp
  show ?thesis
  proof (cases "rs_deleted (emitAll es u)")
    case False
    then have "list_all keepsFinalizer (oc_Trace o')"
      unfolding w by (rule whenSynced_live) (use keeps_ctx [OF api] none' in auto)
    then show ?thesis using assms(4) by simp
  next
    case True
    from whenSynced_deleted [OF True keeps_ctx [OF api] none'] assms(4)
    obtain lu p where lu: "st_LastUpdate (statusOf u) = Some lu" "lu_State lu = SucceededStackStateMessage"
      "ASaveStatus p \<in> set (oc_Trace o')" "sa_LastUpdate p = Some lu"
      unfolding w by auto
    have del: "rs_deleted s" "om_DeletionTimestamp (s_Meta (rs_stack u)) \<noteq> None"
      using True f marked by (simp_all add: sameStack_def)
    show ?thesis
      using synced_destroy [OF es del(2) lu(1,2)] lu del(1) f
      by (auto simp: destroyRecorded_def sameInputs_def sameStack_def)
  qed
next
  case (prereq c up t u msg v)
  then have "list_all keepsFinalizer (rs_trace v)"
    using drive_frame [OF prereq(1,2)] none quiet_events [OF ctxD(1) [OF keeps_ctx [OF api]]]
    by (auto simp: sync_Inr)
  then show ?thesis using prereq_Inl [OF keeps_ctx [OF api] prereq(4)] assms(4) by simp
next
  case (workspace c up t u msg v w)
  have v: "list_all keepsFinalizer (rs_trace v)" "rs_deleted v = rs_deleted s"
    using drive_frame [OF workspace(1,2)] workspace(3) none quiet_events [OF ctxD(1) [OF keeps_ctx [OF api]]]
    by (auto simp: sync_Inr sameStack_def)
  have "list_all keepsFinalizer (rs_trace w)" "rs_deleted w = rs_deleted s"
    using prereq_Inr [OF workspace(4), of keepsFinalizer] keeps_ctx [OF api] v by (auto simp: sameStack_def)
  then show ?thesis using workspace_Inl [OF workspace(5) keeps_ctx [OF api]] assms(4) by auto
next
  case (update c up t u msg v w x)
  have v: "list_all keepsFinalizer (rs_trace v)"
    using drive_frame [OF update(1,2)] update(3) none quiet_events [OF ctxD(1) [OF keeps_ctx [OF api]]]
    by (auto simp: sync_Inr)
  have "list_all keepsFinalizer (rs_trace w)"
    using prereq_Inr [OF update(4), of keepsFinalizer] keeps_ctx [OF api] v by auto
  then have "list_all keepsFinalizer (rs_trace x)"
    using workspace_Inr [OF update(5) keeps_ctx [OF api]] by simp
  then have "list_all keepsFinalizer (oc_Trace o')"
    unfolding update(6) by (intro update_all) auto
  then show ?thesis using assms(4) by simp
qed

text \<open>C3: The finalizer of a stack is only ever removed from a stack marked for deletion, and only when
  there is nothing to destroy (no destroy on finalize was asked for, or the stack is a preview), a
  destroy of the stack as fetched has succeeded (its status recorded it, or its current update is
  complete and did not fail), or the workspace is stalled and no update was ever recorded. It is
  not claimed that the outcome of the destroy reaches the status before the finalizer goes: the
  handler ignores the error of that save (lemma finalized_unsaved).\<close>

lemma finalizer_removed_safely:
  assumes "condition_api (en_L E)" and "finalizer_api (en_L E)"
    and "a \<in> set (oc_Trace (Reconcile E ns nm))" and "removesFinalizer a"
  shows "\<exists>st0. GetStack (en_A E) [] ns nm = Inr st0 \<and> om_DeletionTimestamp (s_Meta st0) \<noteq> None
    \<and> (\<not> sp_DestroyOnFinalize (s_Spec st0) \<or> sp_Preview (s_Spec st0)
       \<or> destroyKnown E ns st0 \<or> stalledNeverUpdated E (Reconcile E ns nm))"
proof -
  let ?o = "Reconcile E ns nm"
  have bad: "\<not> list_all keepsFinalizer (oc_Trace ?o)" using assms(3,4) by (auto simp: list_all_iff)
  note k = keeps_ctx [OF assms(1)]
  have added: "om_Finalizers (s_Meta st) = fst (AddFinalizer (en_L E) fs PulumiFinalizer) \<Longrightarrow> keepsFinalizer (AUpdateStack st)"
    for st fs using finalizer_api.add_present [OF assms(2)] by simp
  have start: "\<exists>st0. GetStack (en_A E) [] ns nm = Inr st0 \<and> list_all keepsFinalizer (rs_trace s2)
      \<and> rs_deleted s2 = (om_DeletionTimestamp (s_Meta st0) \<noteq> None)
      \<and> (rs_deleted s2 \<longrightarrow> s_Meta (rs_stack s2) = s_Meta st0 \<and> specOf s2 = s_Spec st0)"
    if "fetchPhase E ns nm = Inr s" "sessionPhase E s = Inr s1" "absorbPhase E s1 = Inr s2" for s s1 s2
    using fetch_Inr [OF that(1)] session_Inr [OF that(2)] absorb_Inr [OF that(3) k] absorb_frame [OF that(3)] added
    by (fastforce simp: sameStack_def)
  show ?thesis
  proof (cases rule: Reconcile_cases [of E ns nm])
    case fetch
    then show ?thesis using fetch_Inl [OF fetch] added bad by fastforce
  next
    case (session s)
    then show ?thesis using fetch_Inr [OF session(1)] session_Inl [OF session(2)] added bad by fastforce
  next
    case (absorb s s1)
    then show ?thesis
      using fetch_Inr [OF absorb(1)] session_Inr [OF absorb(2)] absorb_Inl [OF absorb(3) k] added bad by fastforce
  next
    case (early s s1 s2)
    then show ?thesis using start [OF early(1-3)] nothingToDestroy_Inl [OF k early(4)] bad by auto
  next
    case (drive s s1 s2)
    from start [OF drive(1-3)] obtain st0 where
      st0: "GetStack (en_A E) [] ns nm = Inr st0" "list_all keepsFinalizer (rs_trace s2)"
        "rs_deleted s2 = (om_DeletionTimestamp (s_Meta st0) \<noteq> None)"
        "rs_deleted s2 \<longrightarrow> s_Meta (rs_stack s2) = s_Meta st0" by blast
    have left: "rs_deleted s2 \<and> (destroyRecorded (rs_stack s2) \<or> stalledNeverUpdated E ?o)"
      using drive_finalizer [OF assms(1) drive(5) st0(2) bad] st0(3,4) by simp
    have "destroyKnown E ns st0" if "destroyRecorded (rs_stack s2)"
    proof -
      have "rs_deleted s1" "rs_trace s1 = []" "rs_namespace s1 = ns" "s_Meta (rs_stack s1) = s_Meta st0"
        "st_CurrentUpdate (statusOf s1) = st_CurrentUpdate (s_Status st0)"
        "st_LastUpdate (statusOf s1) = st_LastUpdate (s_Status st0)"
        using fetch_Inr [OF drive(1)] session_Inr [OF drive(2)] absorb_frame [OF drive(3)] left st0(1)
        by (auto simp: sameStack_def)
      then show ?thesis
        using absorb_recorded [OF drive(3) that, of ns] by (simp add: destroyKnown_def sameInputs_def split: option.splits)
    qed
    then show ?thesis using left st0(1,3) by auto
  qed
qed

section \<open>Write-ahead of updates\<close>

fun createsUpdate :: "Action \<Rightarrow> bool" where
  "createsUpdate (ACreateUpdate u) \<longleftrightarrow> True"
| "createsUpdate a \<longleftrightarrow> False"

abbreviation noCreate :: "Action \<Rightarrow> bool" where
  "noCreate a \<equiv> \<not> createsUpdate a"

lemma noCreate_lax: "condition_api (en_L E) \<Longrightarrow> lax E noCreate"
  by (simp add: lax_def ctx_def quiet_def)

text \<open>
  What follows an accepted creation: the finalizer is put on the update, and where that fails the
  update is deleted before any status is saved.
\<close>

definition afterCreation :: "('u, 'm) env \<Rightarrow> trace \<Rightarrow> Update \<Rightarrow> trace \<Rightarrow> bool" where
  "afterCreation E done u post \<longleftrightarrow> list_all noCreate post
     \<and> (\<forall>v. CreateUpdate (en_A E) done u = Inr v \<longrightarrow>
          (let n = om_Name (u_Meta v)
           in post = [AAddUpdateFinalizer n] \<or> (\<exists>q. post = AAddUpdateFinalizer n # ADeleteUpdate n # q)))"

text \<open>
  A trace in which an update is created once, right after a successful save of a status that names
  it as the current update; in between only the finalizer of an older update may go.
\<close>

definition writtenAhead :: "('u, 'm) env \<Rightarrow> string \<Rightarrow> Update \<Rightarrow> trace \<Rightarrow> bool" where
  "writtenAhead E request u tr \<longleftrightarrow>
     (\<exists>pre p stack stack' mid post cu.
        tr = pre @ ASaveStatus p # mid @ ACreateUpdate u # post
        \<and> list_all noCreate pre \<and> afterCreation E (pre @ ASaveStatus p # mid) u post
        \<and> list_all (\<lambda>a. \<exists>n. a = ARemoveUpdateFinalizer n) mid
        \<and> PatchStatus (en_A E) pre stack p = Inr stack'
        \<and> sa_CurrentUpdate p = Some cu \<and> cu_Name cu = om_Name (u_Meta u)
        \<and> cu_Generation cu = om_Generation (s_Meta stack) \<and> cu_ReconcileRequest cu = request)"

lemma saveStatus_None:
  assumes "saveStatus E s = (None, t)"
  shows "\<exists>stack mid. PatchStatus (en_A E) (rs_trace s) (rs_stack s) (statusApply (statusOf s)) = Inr stack
    \<and> list_all (\<lambda>a. \<exists>n. a = ARemoveUpdateFinalizer n) mid
    \<and> rs_trace t = rs_trace s @ ASaveStatus (statusApply (statusOf s)) # mid"
  using assms
  by (auto simp: saveStatus_def removeUpdateFinalizer_def Let_def split: sum.splits option.splits)

lemma createUpdate_trace:
  "\<exists>post. oc_Trace (createUpdate E u s) = rs_trace s @ ACreateUpdate u # post \<and> afterCreation E (rs_trace s) u post"
proof -
  have save: "\<exists>q. rs_trace (snd (saveStatus E v)) = rs_trace v @ q \<and> list_all noCreate q" for v
    using saveStatus_trace [of E v] by auto
  show ?thesis
    using save [of "clearCurrent (act (ACreateUpdate u) s)"]
      save [of "clearCurrent (act (ADeleteUpdate n) (act (AAddUpdateFinalizer m) (act (ACreateUpdate u) s)))" for n m]
    by (fastforce simp: createUpdate_def addUpdateFinalizer_def clearCurrent_def afterCreation_def Let_def
        split: sum.split option.split)
qed

lemma prepareUpdate_Inl: "prepareUpdate E msg s = Inl o' \<Longrightarrow> oc_Trace o' = rs_trace s"
  by (auto simp: prepareUpdate_def Let_def split: if_splits)

lemma update_write_ahead:
  assumes "list_all noCreate (rs_trace s)" and "ACreateUpdate u \<in> set (oc_Trace (updatePhase E c msg s))"
  shows "writtenAhead E (rs_syncRequest s) u (oc_Trace (updatePhase E c msg s))"
proof -
  let ?s = "setStatus (MarkReconcilingCondition (en_L E) ReconcilingProcessingReason ReconcilingProcessingUpdateMessage) s"
  have old: "ACreateUpdate u \<notin> set (rs_trace s)" using assms(1) by (auto simp: list_all_iff)
  obtain upd where upd: "prepareUpdate E msg ?s = Inr upd"
    using assms(2) old prepareUpdate_Inl [of E msg ?s]
    by (cases "prepareUpdate E msg ?s") (auto simp: updatePhase_def Let_def)
  define v where "v = setStatus (\<lambda>st. st\<lparr>st_CurrentUpdate := Some
      \<lparr>cu_Generation = om_Generation (s_Meta (rs_stack ?s)), cu_ReconcileRequest = rs_syncRequest ?s,
       cu_Name = om_Name (u_Meta upd), cu_Commit = c\<rparr>\<rparr>) ?s"
  obtain err t where t: "saveStatus E v = (err, t)" by (cases "saveStatus E v")
  have v: "rs_trace v = rs_trace s" by (simp add: v_def)
  show ?thesis
  proof (cases err)
    case (Some e)
    then have "oc_Trace (updatePhase E c msg s) = rs_trace t"
      using upd t by (simp add: updatePhase_def Let_def v_def)
    then show ?thesis using assms(2) old saveStatus_trace [of E v] t v by auto
  next
    case None
    then have o': "updatePhase E c msg s = createUpdate E upd t"
      using upd t by (simp add: updatePhase_def Let_def v_def)
    from saveStatus_None [OF t [unfolded None]] obtain stack mid where
      mid: "PatchStatus (en_A E) (rs_trace s) (rs_stack v) (statusApply (statusOf v)) = Inr stack"
      "list_all (\<lambda>a. \<exists>n. a = ARemoveUpdateFinalizer n) mid"
      "rs_trace t = rs_trace s @ ASaveStatus (statusApply (statusOf v)) # mid"
      unfolding v by blast
    obtain post where post: "oc_Trace (createUpdate E upd t) = rs_trace t @ ACreateUpdate upd # post"
      "afterCreation E (rs_trace t) upd post" using createUpdate_trace by blast
    have "u = upd"
      using assms(2) old mid post unfolding o' by (auto simp: list_all_iff afterCreation_def)
    then show ?thesis
      unfolding o' writtenAhead_def post(1) mid(3)
      by (intro exI [of _ "rs_trace s"] exI [of _ "statusApply (statusOf v)"] exI [of _ "rs_stack v"]
            exI [of _ stack] exI [of _ mid] exI [of _ post]
            exI [of _ "\<lparr>cu_Generation = om_Generation (s_Meta (rs_stack s)), cu_ReconcileRequest = rs_syncRequest s,
               cu_Name = om_Name (u_Meta upd), cu_Commit = c\<rparr>"])
         (use assms(1) mid post in \<open>simp add: v_def statusApply_def\<close>)
  qed
qed

text \<open>C4: An update is created at most once per reconcile, for the generation in hand and only after the
  status that names it has been saved: if creating it is interrupted, the next reconcile finds
  the name in the status.\<close>

lemma update_created_write_ahead:
  assumes "condition_api (en_L E)" and "ACreateUpdate u \<in> set (oc_Trace (Reconcile E ns nm))"
  shows "\<exists>st0. GetStack (en_A E) [] ns nm = Inr st0
    \<and> writtenAhead E (syncRequestOf (s_Meta st0)) u (oc_Trace (Reconcile E ns nm))"
proof -
  have "\<not> list_all noCreate (oc_Trace (Reconcile E ns nm))"
    using assms(2) createsUpdate.simps(1) [of u] unfolding list_all_iff by blast
  with reconcile_lax [OF noCreate_lax [OF assms(1)], of ns nm] obtain st0 c msg z where
    z: "GetStack (en_A E) [] ns nm = Inr st0" "Reconcile E ns nm = updatePhase E c msg z"
      "list_all noCreate (rs_trace z)" "rs_syncRequest z = syncRequestOf (s_Meta st0)" by blast
  show ?thesis using update_write_ahead [OF z(3), of u E c msg] assms(2) z(1,4) unfolding z(2) by simp
qed

text \<open>While the current update recorded in the status of a stack (one that has its finalizer)
  is not complete, or cannot be read, no update is created: at most one is outstanding.\<close>

lemma no_overlapping_update:
  assumes "condition_api (en_L E)" and "finalizer_api (en_L E)"
    and "GetStack (en_A E) [] ns nm = Inr st0" and "PulumiFinalizer \<in> set (om_Finalizers (s_Meta st0))"
    and "st_CurrentUpdate (s_Status st0) = Some cu"
    and "\<nexists>u. GetUpdate (en_A E) [] ns (cu_Name cu) = Inr u \<and> isUpdateComplete (en_L E) (Some u)"
  shows "list_all noCreate (oc_Trace (Reconcile E ns nm))"
proof -
  note c = laxD(1) [OF noCreate_lax [OF assms(1)]]
  have unchanged: "\<not> snd (AddFinalizer (en_L E) (om_Finalizers (s_Meta st0)) PulumiFinalizer)"
    using finalizer_api.add_changed [OF assms(2)] assms(4) by simp
  have first: "rs_trace s = [] \<and> rs_namespace s = ns \<and> st_CurrentUpdate (statusOf s) = Some cu"
    if "fetchPhase E ns nm = Inr s" for s
    using that assms(3,4,5) unchanged by (auto simp: fetchPhase_def Let_def split: prod.splits if_splits)
  have stop: False if "fetchPhase E ns nm = Inr s" "sessionPhase E s = Inr s1" "absorbPhase E s1 = Inr s2" for s s1 s2
    using first [OF that(1)] session_Inr [OF that(2)] that(3) assms(6)
    by (auto simp: absorbPhase_def isUpdateComplete_def Let_def split: sum.splits if_splits)
  show ?thesis
  proof (cases rule: Reconcile_cases [of E ns nm])
    case fetch
    then show ?thesis using fetch_Inl [OF fetch] by fastforce
  next
    case (session s)
    then show ?thesis using first [OF session(1)] session_Inl [OF session(2)] by simp
  next
    case (absorb s s1)
    then show ?thesis using first [OF absorb(1)] session_Inr [OF absorb(2)] absorb_Inl [OF absorb(3) c] by simp
  next
    case (early s s1 s2)
    then show ?thesis using stop by blast
  next
    case (drive s s1 s2)
    then show ?thesis using stop by blast
  qed
qed

section \<open>The ready protocol at every save\<close>

definition protocolPatch :: "lib \<Rightarrow> StackStatusApply \<Rightarrow> bool" where
  "protocolPatch L p \<longleftrightarrow> (\<exists>st. protocolOk L st \<and> sa_Conditions p = map conditionToApply (st_Conditions st))"

fun savesOk :: "lib \<Rightarrow> Action \<Rightarrow> bool" where
  "savesOk L (ASaveStatus p) \<longleftrightarrow> protocolPatch L p"
| "savesOk L a \<longleftrightarrow> True"

text \<open>
  The API server's answer to a status patch has the conditions of the patch, which the handler
  owns with force.
\<close>

definition echoesConditions :: "'u cluster \<Rightarrow> bool" where
  "echoesConditions A \<longleftrightarrow> (\<forall>tr st s st'. PatchStatus A tr st (statusApply s) = Inr st'
     \<longrightarrow> map conditionToApply (st_Conditions (s_Status st')) = map conditionToApply (st_Conditions s))"

lemma savesOk_lax: "condition_api (en_L E) \<Longrightarrow> lax E (savesOk (en_L E))"
  by (auto simp: lax_def ctx_def quiet_def protocolPatch_def statusApply_def)

lemma protocolOk_CurrentUpdate [simp]:
  "protocolOk L (st\<lparr>st_CurrentUpdate := c\<rparr>) = protocolOk L st"
  by (simp add: protocolOk_def readyState_def)

lemma save_protocol:
  assumes "saveStatus E s = (None, t)" and "echoesConditions (en_A E)" and "protocolOk (en_L E) (statusOf s)"
  shows "protocolPatch (en_L E) (statusApply (f (statusOf t))) \<or> st_Conditions (f (statusOf t)) \<noteq> st_Conditions (statusOf t)"
proof -
  have "map conditionToApply (st_Conditions (statusOf t)) = map conditionToApply (st_Conditions (statusOf s))"
    using assms(1,2)
    by (auto simp: saveStatus_def removeUpdateFinalizer_def Let_def echoesConditions_def
        split: sum.splits option.splits) 
  then show ?thesis using assms(3) unfolding protocolPatch_def by (auto simp: statusApply_def)
qed

lemma createUpdate_protocol:
  assumes "list_all (savesOk (en_L E)) (rs_trace s)"
    and "protocolPatch (en_L E) (statusApply ((statusOf s)\<lparr>st_CurrentUpdate := None\<rparr>))"
  shows "list_all (savesOk (en_L E)) (oc_Trace (createUpdate E u s))"
proof -
  have "list_all (savesOk (en_L E)) (rs_trace (snd (saveStatus E v)))"
    if "list_all (savesOk (en_L E)) (rs_trace v)" "protocolPatch (en_L E) (statusApply (statusOf v))" for v
    using saveStatus_trace [of E v] that by auto
  then show ?thesis
    using assms by (auto simp: createUpdate_def addUpdateFinalizer_def clearCurrent_def split: sum.split option.split)
qed

lemma update_protocol:
  assumes "condition_api (en_L E)" and "echoesConditions (en_A E)" and "list_all (savesOk (en_L E)) (rs_trace s)"
  shows "list_all (savesOk (en_L E)) (oc_Trace (updatePhase E c msg s))"
proof -
  let ?s = "setStatus (MarkReconcilingCondition (en_L E) ReconcilingProcessingReason ReconcilingProcessingUpdateMessage) s"
  note k = laxD(1) [OF savesOk_lax [OF assms(1)]]
  show ?thesis
  proof (cases "prepareUpdate E msg ?s")
    case (Inl o')
    then show ?thesis using prepareUpdate_Inl [OF Inl] assms(3) by (simp add: updatePhase_def Let_def)
  next
    case (Inr upd)
    define v where "v = setStatus (\<lambda>st. st\<lparr>st_CurrentUpdate := Some
        \<lparr>cu_Generation = om_Generation (s_Meta (rs_stack ?s)), cu_ReconcileRequest = rs_syncRequest ?s,
         cu_Name = om_Name (u_Meta upd), cu_Commit = c\<rparr>\<rparr>) ?s"
    obtain err t where t: "saveStatus E v = (err, t)" by (cases "saveStatus E v")
    have ok: "protocolOk (en_L E) (statusOf v)" using ctxD(2) [OF k] by (simp add: v_def)
    have all: "list_all (savesOk (en_L E)) (rs_trace t)"
      using saveStatus_ctx [OF t k ok] assms(3) by (simp add: v_def)
    show ?thesis
    proof (cases err)
      case (Some e)
      then show ?thesis using Inr t all by (simp add: updatePhase_def Let_def v_def)
    next
      case None
      have "protocolPatch (en_L E) (statusApply ((statusOf t)\<lparr>st_CurrentUpdate := None\<rparr>))"
        using save_protocol [OF t [unfolded None] assms(2) ok, of "\<lambda>st. st\<lparr>st_CurrentUpdate := None\<rparr>"] by simp
      then show ?thesis
        using Inr t None createUpdate_protocol [OF all, of upd] by (simp add: updatePhase_def Let_def v_def)
    qed
  qed
qed

text \<open>C8: Every status the handler saves, on every path, respects the ready protocol: exactly one of Ready,
  Stalled and Reconciling is true in it.\<close>

lemma saved_status_protocol:
  assumes "condition_api (en_L E)" and "echoesConditions (en_A E)"
    and "ASaveStatus p \<in> set (oc_Trace (Reconcile E ns nm))"
  shows "protocolPatch (en_L E) p"
proof -
  have "list_all (savesOk (en_L E)) (oc_Trace (Reconcile E ns nm))"
    using reconcile_lax [OF savesOk_lax [OF assms(1)], of ns nm] update_protocol [OF assms(1,2)] by metis
  then show ?thesis using assms(3) savesOk.simps(1) unfolding list_all_iff by blast
qed

section \<open>Errors and dead ends\<close>

text \<open>Any failure to resolve the git credentials, an unavailable API server or token service
  included, is reported as an invalid specification, with no further attempt scheduled and, once
  the status is saved, no error that would bring one.\<close>

lemma git_auth_failure_stalls:
  assumes "resolveGitAuth (en_G E) (secretData E s) (rs_sess s) = Inl e"
    and "\<forall>tr st p. \<exists>st'. PatchStatus (en_A E) tr st p = Inr st'"
  shows "\<exists>o'. gitPhase E gs s = Inl o' \<and> oc_RequeueAfter o' = 0 \<and> oc_Err o' = None"
proof -
  have "saveStatus E t = (None, snd (saveStatus E t))" for t
    using assms(2) by (auto simp: saveStatus_def Let_def split: sum.split option.split) (metis Inl_Inr_False)
  then show ?thesis
    using assms(1) by (auto simp: gitPhase_def invalidSpec_def stallWith_def saveAndReturn_def split: prod.split) (metis fst_conv)
qed

section \<open>A cluster to run on\<close>

definition exampleWorkspaceStatus :: WorkspaceStatus where
  "exampleWorkspaceStatus = emptyWorkspaceStatus\<lparr>wst_Conditions := [mkCondition WorkspaceReady ConditionTrue [] []]\<rparr>"

definition notFound :: goerr where
  "notFound = ApiErr \<lparr>as_Reason = ReasonNotFound, as_Causes = [], as_Message = ''not found''\<rparr>"

text \<open>One stack; every write succeeds and is echoed; the applied workspace is ready.\<close>

definition exampleCluster :: "Stack \<Rightarrow> unit cluster" where
  "exampleCluster st = \<lparr>GetStack = (\<lambda>tr ns nm. Inr st),
     GetUpdate = (\<lambda>tr ns nm. Inl notFound),
     GetSecret = (\<lambda>tr ns nm. Inl notFound),
     GetObject = (\<lambda>tr v k ns nm. Inl notFound),
     UpdateStack = (\<lambda>tr st. Inr st),
     PatchStatus = (\<lambda>tr st p. Inr (st\<lparr>s_Status := (s_Status st)\<lparr>st_Conditions :=
        map (\<lambda>c. \<lparr>c_Type = ca_Type c, c_Status = ca_Status c,
               c_ObservedGeneration = (case ca_ObservedGeneration c of Some g \<Rightarrow> g | None \<Rightarrow> 0),
               c_LastTransitionTime = ca_LastTransitionTime c, c_Reason = ca_Reason c,
               c_Message = ca_Message c\<rparr>) (sa_Conditions p)\<rparr>\<rparr>)),
     ApplyWorkspace = (\<lambda>tr w. Inr (w\<lparr>w_Status := exampleWorkspaceStatus\<rparr>)),
     DeleteWorkspaceObject = (\<lambda>tr w. None),
     AnnotateStack = (\<lambda>tr st v. None),
     CreateUpdate = (\<lambda>tr u. Inr u),
     DeleteUpdate = (\<lambda>tr u. None),
     PatchUpdateFinalizer = (\<lambda>tr u fs. None),
     MaybeWatchFluxSourceKind = (\<lambda>tr r. None),
     Now = (\<lambda>tr i. unixEpoch)\<rparr>"

definition exampleEnv :: "Stack \<Rightarrow> (unit, unit) env" where
  "exampleEnv st = \<lparr>en_L = docLib, en_T = noTemplates, en_G = docGit,
     en_U = \<lparr>NestedMap = (\<lambda>u ks. Inr None), FromUnstructured = (\<lambda>m. Inl (Errorf []))\<rparr>,
     en_A = exampleCluster st\<rparr>"

definition newStack :: Stack where
  "newStack = exampleStack\<lparr>s_Meta := exampleMeta\<lparr>om_Finalizers := [PulumiFinalizer]\<rparr>\<rparr>"

definition leavingStack :: Stack where
  "leavingStack = exampleStack\<lparr>s_Meta := exampleMeta\<lparr>om_Finalizers := [PulumiFinalizer],
     om_DeletionTimestamp := Some 900\<rparr>\<rparr>"

definition busyStack :: Stack where
  "busyStack = newStack\<lparr>s_Status := emptyStackStatus\<lparr>st_CurrentUpdate := Some
     \<lparr>cu_Generation = 2, cu_ReconcileRequest = [], cu_Name = ''app-0'', cu_Commit = []\<rparr>\<rparr>\<rparr>"

lemma example_parts [simp]:
  "en_L (exampleEnv st) = docLib" "en_A (exampleEnv st) = exampleCluster st"
  "GetStack (exampleCluster st) tr ns nm = Inr st"
  "GetUpdate (exampleCluster st) tr ns nm = Inl notFound"
  by (simp_all add: exampleEnv_def exampleCluster_def)

lemma example_creates: "list_ex createsUpdate (oc_Trace (Reconcile (exampleEnv newStack) ''default'' ''app''))"
  by code_simp

lemma example_removes: "list_ex removesFinalizer (oc_Trace (Reconcile (exampleEnv leavingStack) ''default'' ''app''))"
  by code_simp

lemma finalizer_removed_safely_witness:
  "list_ex removesFinalizer (oc_Trace (Reconcile (exampleEnv leavingStack) ''default'' ''app''))
   \<and> \<not> sp_DestroyOnFinalize (s_Spec leavingStack)"
proof -
  from example_removes obtain a where
    "a \<in> set (oc_Trace (Reconcile (exampleEnv leavingStack) ''default'' ''app''))" "removesFinalizer a"
    by (auto simp: list_ex_iff)
  from finalizer_removed_safely [OF _ _ this] have "om_DeletionTimestamp (s_Meta leavingStack) \<noteq> None"
    using docConditions.condition_api_axioms docFinalizers.finalizer_api_axioms by simp
  then show ?thesis using example_removes by (simp add: leavingStack_def exampleStack_def emptyStackSpec_def)
qed

lemma update_created_write_ahead_witness:
  "\<exists>u. writtenAhead (exampleEnv newStack) [] u (oc_Trace (Reconcile (exampleEnv newStack) ''default'' ''app''))"
proof -
  from example_creates obtain a where
    a: "a \<in> set (oc_Trace (Reconcile (exampleEnv newStack) ''default'' ''app''))" "createsUpdate a"
    by (auto simp: list_ex_iff)
  then obtain u where "a = ACreateUpdate u" by (auto elim: createsUpdate.elims)
  with a(1) have u: "ACreateUpdate u \<in> set (oc_Trace (Reconcile (exampleEnv newStack) ''default'' ''app''))" by simp
  have "syncRequestOf (s_Meta newStack) = []"
    by (simp add: newStack_def exampleMeta_def emptyMeta_def getReconcileRequestAnnotation_def)
  then show ?thesis
    using update_created_write_ahead [OF _ u] docConditions.condition_api_axioms by auto
qed

lemma no_overlapping_update_witness:
  "list_all noCreate (oc_Trace (Reconcile (exampleEnv busyStack) ''default'' ''app''))"
  by (rule no_overlapping_update [where cu = "the (st_CurrentUpdate (s_Status busyStack))" and ?st0.0 = busyStack])
     (simp_all add: docConditions.condition_api_axioms docFinalizers.finalizer_api_axioms busyStack_def newStack_def)

lemma conditionToApply_back:
  "conditionToApply \<lparr>c_Type = ca_Type c, c_Status = ca_Status c,
      c_ObservedGeneration = (case ca_ObservedGeneration c of Some g \<Rightarrow> g | None \<Rightarrow> 0),
      c_LastTransitionTime = ca_LastTransitionTime c, c_Reason = ca_Reason c, c_Message = ca_Message c\<rparr> = c"
  if "c = conditionToApply d" for c d
  by (simp add: that conditionToApply_def)

lemma example_echo: "echoesConditions (exampleCluster st)"
  by (auto simp: echoesConditions_def exampleCluster_def statusApply_def o_def conditionToApply_back)

lemma saved_status_protocol_witness:
  "list_all (savesOk docLib) (oc_Trace (Reconcile (exampleEnv newStack) ''default'' ''app''))"
proof -
  have p: "protocolPatch docLib p"
    if "ASaveStatus p \<in> set (oc_Trace (Reconcile (exampleEnv newStack) ''default'' ''app''))" for p
    using saved_status_protocol [of "exampleEnv newStack" p "''default''" "''app''", OF _ _ that]
      docConditions.condition_api_axioms example_echo by simp
  have "savesOk docLib a" if "a \<in> set (oc_Trace (Reconcile (exampleEnv newStack) ''default'' ''app''))" for a
    by (cases a) (use p that in simp_all)
  then show ?thesis by (simp add: list_all_iff)
qed

text \<open>
  The destroy of a deleted stack has succeeded, and the API server accepts no status: the handler
  looks no further than that its save failed, and lets the stack go. The status never tells of the
  destroy, and its update keeps the finalizer that only a successful save takes off.
\<close>

definition destroyedStack :: Stack where
  "destroyedStack = leavingStack\<lparr>s_Spec := emptyStackSpec\<lparr>sp_DestroyOnFinalize := True\<rparr>,
     s_Status := emptyStackStatus\<lparr>st_CurrentUpdate := Some
     \<lparr>cu_Generation = 2, cu_ReconcileRequest = [], cu_Name = ''app-1'', cu_Commit = []\<rparr>\<rparr>\<rparr>"

definition destroyUpdate :: Update where
  "destroyUpdate = exampleUpdate\<lparr>u_Spec := emptyUpdateSpec\<lparr>us_Type := DestroyType\<rparr>,
     u_Status := emptyUpdateStatus\<lparr>ust_Conditions := [mkCondition UpdateConditionTypeComplete ConditionTrue [] []]\<rparr>\<rparr>"

definition readOnlyEnv :: "(unit, unit) env" where
  "readOnlyEnv = (exampleEnv destroyedStack)\<lparr>en_A := (exampleCluster destroyedStack)\<lparr>
     GetUpdate := (\<lambda>tr ns nm. Inr destroyUpdate), PatchStatus := (\<lambda>tr st p. Inl (Errorf ''unavailable''))\<rparr>\<rparr>"

fun takesUpdateFinalizer :: "Action \<Rightarrow> bool" where
  "takesUpdateFinalizer (ARemoveUpdateFinalizer n) \<longleftrightarrow> True"
| "takesUpdateFinalizer a \<longleftrightarrow> False"

lemma finalized_unsaved:
  "list_ex removesFinalizer (oc_Trace (Reconcile readOnlyEnv ''default'' ''app''))
   \<and> \<not> list_ex takesUpdateFinalizer (oc_Trace (Reconcile readOnlyEnv ''default'' ''app''))
   \<and> oc_Err (Reconcile readOnlyEnv ''default'' ''app'') = None"
  by code_simp

definition gitStack :: Stack where
  "gitStack = newStack\<lparr>s_Spec := emptyStackSpec\<lparr>sp_GitSource := Some gitSpec\<rparr>\<rparr>"

definition exampleState :: "Stack \<Rightarrow> RState" where
  "exampleState st = \<lparr>rs_namespace = ''default'', rs_stack = st,
     rs_deleted = (om_DeletionTimestamp (s_Meta st) \<noteq> None), rs_syncRequest = [],
     rs_sess = newStackReconcilerSession (s_Spec st) ''default'', rs_toBeFinalized = None, rs_trace = []\<rparr>"

lemma git_auth_failure_stalls_witness:
  "\<exists>o'. gitPhase (exampleEnv gitStack) gitSpec (exampleState gitStack) = Inl o' \<and> oc_RequeueAfter o' = 0 \<and> oc_Err o' = None"
proof -
  have "isl (resolveGitAuth (en_G (exampleEnv gitStack)) (secretData (exampleEnv gitStack) (exampleState gitStack))
      (rs_sess (exampleState gitStack)))" by code_simp
  then obtain e where e: "resolveGitAuth (en_G (exampleEnv gitStack)) (secretData (exampleEnv gitStack) (exampleState gitStack))
      (rs_sess (exampleState gitStack)) = Inl e" by (auto simp: isl_def)
  show ?thesis by (rule git_auth_failure_stalls [OF e]) (simp add: exampleCluster_def)
qed

end
