(* ===== verification/UpdateController.thy ===== *)
theory UpdateController
  imports StackSession
begin

text \<open>
  The controller of Update objects (operator/internal/controller/auto/update_controller.go): the
  handler with its status session, the four Pulumi operations and the reader of their response
  streams, the secret of the outputs, and the watch functions. The API server, the agent's
  service and the clock are arguments (record \<^verbatim>\<open>uenv\<close>); a call may depend on the writes made
  before it, which the state keeps as a trace.
\<close>

section \<open>Events\<close>

datatype eventType = EventTypeNormal | EventTypeWarning

datatype eventReason =
    Migrated | ConnectionFailure | InstallationFailure | StackInitializationFailure | UpdateFailed
  | Initialized | UpdateExpired | UpdateSucceeded

record autoEvent =
  ae_Reason :: eventReason
  ae_EventType :: eventType

definition MigratedEvent :: autoEvent where
  "MigratedEvent = \<lparr>ae_Reason = Migrated, ae_EventType = EventTypeWarning\<rparr>"
definition ConnectionFailureEvent :: autoEvent where
  "ConnectionFailureEvent = \<lparr>ae_Reason = ConnectionFailure, ae_EventType = EventTypeWarning\<rparr>"
definition InstallationFailureEvent :: autoEvent where
  "InstallationFailureEvent = \<lparr>ae_Reason = InstallationFailure, ae_EventType = EventTypeWarning\<rparr>"
definition StackInitializationFailureEvent :: autoEvent where
  "StackInitializationFailureEvent = \<lparr>ae_Reason = StackInitializationFailure, ae_EventType = EventTypeWarning\<rparr>"
definition UpdateFailedEvent :: autoEvent where
  "UpdateFailedEvent = \<lparr>ae_Reason = UpdateFailed, ae_EventType = EventTypeWarning\<rparr>"
definition InitializedEvent :: autoEvent where
  "InitializedEvent = \<lparr>ae_Reason = Initialized, ae_EventType = EventTypeNormal\<rparr>"
definition UpdateExpiredEvent :: autoEvent where
  "UpdateExpiredEvent = \<lparr>ae_Reason = UpdateExpired, ae_EventType = EventTypeNormal\<rparr>"
definition UpdateSucceededEvent :: autoEvent where
  "UpdateSucceededEvent = \<lparr>ae_Reason = UpdateSucceeded, ae_EventType = EventTypeNormal\<rparr>"

section \<open>The agent's service\<close>

text \<open>
  A gRPC error is a status with code, message and details, or any other error value; what
  \<^verbatim>\<open>status.FromError\<close> and \<^verbatim>\<open>status.Code\<close> answer is read off. Only the code
  \<^verbatim>\<open>Unavailable\<close> is told apart.
\<close>

datatype statusCode = Unavailable | OtherCode int

datatype detail = PulumiErrorInfo string string | OtherDetail

datatype rpcError = StatusError string statusCode string "detail list" | PlainError string

fun rpcErrorText :: "rpcError \<Rightarrow> string" where
  "rpcErrorText (StatusError text c m ds) = text"
| "rpcErrorText (PlainError text) = text"

fun codeOf :: "rpcError \<Rightarrow> statusCode" where
  "codeOf (StatusError text c m ds) = c"
| "codeOf (PlainError text) = OtherCode 2"

record PreviewRequest =
  pr_Parallel :: "int option"
  pr_Message :: "string option"
  pr_ExpectNoChanges :: "bool option"
  pr_Replace :: "string list"
  pr_Target :: "string list"
  pr_TargetDependents :: "bool option"
  pr_Refresh :: "bool option"

record UpRequest =
  ur_Parallel :: "int option"
  ur_Message :: "string option"
  ur_ExpectNoChanges :: "bool option"
  ur_Replace :: "string list"
  ur_Target :: "string list"
  ur_TargetDependents :: "bool option"
  ur_Refresh :: "bool option"
  ur_ContinueOnError :: "bool option"

record RefreshRequest =
  rr_Parallel :: "int option"
  rr_Message :: "string option"
  rr_ExpectNoChanges :: "bool option"
  rr_Target :: "string list"
  rr_RunProgram :: "bool option"

record DestroyRequest =
  dr_Parallel :: "int option"
  dr_Message :: "string option"
  dr_Target :: "string list"
  dr_TargetDependents :: "bool option"
  dr_Refresh :: "bool option"
  dr_ContinueOnError :: "bool option"
  dr_Remove :: "bool option"
  dr_RunProgram :: "bool option"

datatype request =
    CallPreview PreviewRequest
  | CallUp UpRequest
  | CallRefresh RefreshRequest
  | CallDestroy DestroyRequest

record UpdateSummary =
  sm_Result :: string
  sm_Message :: string
  sm_StartTime :: time
  sm_EndTime :: time

text \<open>What every result has, and the outputs that only an \<^verbatim>\<open>UpResult\<close> has.\<close>

record OutputValue =
  ov_Value :: JSON
  ov_Secret :: bool

record result =
  res_Summary :: "UpdateSummary option"
  res_Permalink :: string
  res_ProjectInfo :: "ProjectInfo option"

datatype streamMessage =
    PreviewStream "result option"
  | UpStream "(result \<times> OutputValue gomap option) option"
  | RefreshStream "result option"
  | DestroyStream "result option"

datatype opResult = AnyResult result | UpResult result "OutputValue gomap option"

fun commonPart :: "opResult \<Rightarrow> result" where
  "commonPart (AnyResult r) = r"
| "commonPart (UpResult r outs) = r"

text \<open>One answer of \<^verbatim>\<open>receiver.Recv()\<close>.\<close>

datatype received = RecvEOF | RecvErr rpcError | RecvMsg streamMessage

section \<open>The handler's state\<close>

text \<open>
  The session points at the three conditions of the object, or at fresh ones where the object has
  none. A pointer into \<^verbatim>\<open>obj.Status.Conditions\<close> is \<^verbatim>\<open>Shared\<close>: a write through it
  changes the object.
\<close>

datatype slot = SProgressing | SFailed | SComplete

fun slotType :: "slot \<Rightarrow> string" where
  "slotType SProgressing = UpdateConditionTypeProgressing"
| "slotType SFailed = UpdateConditionTypeFailed"
| "slotType SComplete = UpdateConditionTypeComplete"

datatype condPtr = Shared | Own Condition

record reconcileSession =
  se_progressing :: condPtr
  se_failed :: condPtr
  se_complete :: condPtr

text \<open>The status patch; start time, end time and project info are only sent when set.\<close>

record UpdateStatusApply =
  ua_ObservedGeneration :: int
  ua_Message :: string
  ua_Permalink :: string
  ua_Outputs :: string
  ua_Conditions :: "ConditionApply list"
  ua_StartTime :: "time option"
  ua_EndTime :: "time option"
  ua_ProjectInfo :: "ProjectInfo option"

record OutputsSecret =
  sec_Meta :: ObjectMeta
  sec_Immutable :: "bool option"
  sec_Data :: "JSON gomap"

text \<open>
  What the handler does to the world: writes and calls, each with whether it was acknowledged, and
  events.
\<close>

datatype UAction =
    UPatchStatus UpdateStatusApply bool
  | UDeleteObject bool
  | USelectStack string bool
  | UCall request bool
  | UCreateSecret OutputsSecret bool
  | UEvent autoEvent string "string list"

type_synonym utrace = "UAction list"

record uenv =
  ue_L :: lib
  ue_StatusSucceeded :: string
  ue_Patch :: "utrace \<Rightarrow> Update \<Rightarrow> UpdateStatusApply \<Rightarrow> goerr + Update"
  ue_Delete :: "utrace \<Rightarrow> Update \<Rightarrow> goerr option"
  ue_GetWorkspace :: "utrace \<Rightarrow> string \<Rightarrow> string \<Rightarrow> goerr + Workspace"
  ue_Connect :: "utrace \<Rightarrow> Workspace \<Rightarrow> goerr option"
  ue_SelectStack :: "utrace \<Rightarrow> string \<Rightarrow> rpcError option"
  ue_Start :: "utrace \<Rightarrow> request \<Rightarrow> rpcError + (nat \<Rightarrow> received)"
  ue_CreateSecret :: "utrace \<Rightarrow> OutputsSecret \<Rightarrow> goerr option"
  ue_Now :: "utrace \<Rightarrow> nat \<Rightarrow> time"

record UState =
  uv_obj :: Update
  uv_sess :: reconcileSession
  uv_trace :: utrace

text \<open>
  How a reconcile ends: with a requeue delay and an error, or not at all (it waits for ever on the
  response stream). The trace is what it did.
\<close>

record UOutcome =
  uo_Return :: "(duration \<times> goerr option) option"
  uo_Trace :: utrace

definition uleave :: "duration \<Rightarrow> goerr option \<Rightarrow> UState \<Rightarrow> UOutcome" where
  "uleave after err s = \<lparr>uo_Return = Some (after, err), uo_Trace = uv_trace s\<rparr>"

definition uact :: "UAction \<Rightarrow> UState \<Rightarrow> UState" where
  "uact a s = s\<lparr>uv_trace := uv_trace s @ [a]\<rparr>"

definition mapStatus :: "(UpdateStatus \<Rightarrow> UpdateStatus) \<Rightarrow> UState \<Rightarrow> UState" where
  "mapStatus f s = s\<lparr>uv_obj := (uv_obj s)\<lparr>u_Status := f (u_Status (uv_obj s))\<rparr>\<rparr>"

abbreviation condsOf :: "UState \<Rightarrow> Condition list" where
  "condsOf s \<equiv> ust_Conditions (u_Status (uv_obj s))"

section \<open>The session's conditions\<close>

fun ptrOf :: "slot \<Rightarrow> reconcileSession \<Rightarrow> condPtr" where
  "ptrOf SProgressing ss = se_progressing ss"
| "ptrOf SFailed ss = se_failed ss"
| "ptrOf SComplete ss = se_complete ss"

fun setPtr :: "slot \<Rightarrow> condPtr \<Rightarrow> reconcileSession \<Rightarrow> reconcileSession" where
  "setPtr SProgressing p ss = ss\<lparr>se_progressing := p\<rparr>"
| "setPtr SFailed p ss = ss\<lparr>se_failed := p\<rparr>"
| "setPtr SComplete p ss = ss\<lparr>se_complete := p\<rparr>"

definition freshCondition :: "slot \<Rightarrow> Condition" where
  "freshCondition k = mkCondition (slotType k) ConditionUnknown [] []"

definition newPtr :: "lib \<Rightarrow> Update \<Rightarrow> slot \<Rightarrow> condPtr" where
  "newPtr L obj k =
     (case FindStatusCondition L (ust_Conditions (u_Status obj)) (slotType k) of
        Some _ \<Rightarrow> Shared
      | None \<Rightarrow> Own (freshCondition k))"

definition newReconcileSession :: "lib \<Rightarrow> Update \<Rightarrow> reconcileSession" where
  "newReconcileSession L obj =
     \<lparr>se_progressing = newPtr L obj SProgressing, se_failed = newPtr L obj SFailed,
      se_complete = newPtr L obj SComplete\<rparr>"

text \<open>Reading and writing through a pointer of the session.\<close>

definition deref :: "lib \<Rightarrow> slot \<Rightarrow> UState \<Rightarrow> Condition" where
  "deref L k s =
     (case ptrOf k (uv_sess s) of
        Own c \<Rightarrow> c
      | Shared \<Rightarrow> (case FindStatusCondition L (condsOf s) (slotType k) of
                     Some c \<Rightarrow> c
                   | None \<Rightarrow> freshCondition k))"

fun inPlace :: "string \<Rightarrow> (Condition \<Rightarrow> Condition) \<Rightarrow> Condition list \<Rightarrow> Condition list" where
  "inPlace ty f [] = []"
| "inPlace ty f (c # cs) = (if c_Type c = ty then f c # cs else c # inPlace ty f cs)"

definition store :: "slot \<Rightarrow> (Condition \<Rightarrow> Condition) \<Rightarrow> UState \<Rightarrow> UState" where
  "store k f s =
     (case ptrOf k (uv_sess s) of
        Own c \<Rightarrow> s\<lparr>uv_sess := setPtr k (Own (f c)) (uv_sess s)\<rparr>
      | Shared \<Rightarrow> mapStatus (\<lambda>st. st\<lparr>ust_Conditions := inPlace (slotType k) f (ust_Conditions st)\<rparr>) s)"

definition mark :: "slot \<Rightarrow> ConditionStatus \<Rightarrow> string \<Rightarrow> UState \<Rightarrow> UState" where
  "mark k st reason = store k (\<lambda>c. c\<lparr>c_Status := st, c_Reason := reason\<rparr>)"

definition markMsg :: "slot \<Rightarrow> ConditionStatus \<Rightarrow> string \<Rightarrow> UState \<Rightarrow> UState" where
  "markMsg k st reason = store k (\<lambda>c. c\<lparr>c_Status := st, c_Reason := reason, c_Message := []\<rparr>)"

definition markFailed :: "string \<Rightarrow> UState \<Rightarrow> UState" where
  "markFailed reason s =
     mark SComplete ConditionTrue ''Failed''
       (mark SFailed ConditionTrue reason (mark SProgressing ConditionFalse ''Failed'' s))"

definition markRunning :: "UState \<Rightarrow> UState" where
  "markRunning s =
     mark SComplete ConditionFalse ''Progressing''
       (mark SFailed ConditionFalse ''Progressing'' (mark SProgressing ConditionTrue ''Progressing'' s))"

definition markWaiting :: "string \<Rightarrow> UState \<Rightarrow> UState" where
  "markWaiting reason s =
     mark SComplete ConditionFalse ''Progressing''
       (mark SFailed ConditionFalse ''Progressing'' (mark SProgressing ConditionFalse reason s))"

section \<open>Writing the status\<close>

text \<open>
  \<^verbatim>\<open>meta.SetStatusCondition\<close> appends a condition of a new type; the slice, a copy of a cached
  object, has no spare capacity, so the append moves it and the session's pointers are left with
  the old array.
\<close>

definition unshare :: "lib \<Rightarrow> UState \<Rightarrow> UState" where
  "unshare L s = s\<lparr>uv_sess := \<lparr>se_progressing = Own (deref L SProgressing s),
     se_failed = Own (deref L SFailed s), se_complete = Own (deref L SComplete s)\<rparr>\<rparr>"

definition syncCondition :: "lib \<Rightarrow> slot \<Rightarrow> UState \<Rightarrow> UState" where
  "syncCondition L k s = (
     let s = store k (\<lambda>c. c\<lparr>c_ObservedGeneration := om_Generation (u_Meta (uv_obj s))\<rparr>) s;
         c = deref L k s;
         s = (if FindStatusCondition L (condsOf s) (c_Type c) = None then unshare L s else s)
     in mapStatus (\<lambda>st. st\<lparr>ust_Conditions := SetStatusCondition L (ust_Conditions st) c\<rparr>) s)"

definition updateConditionToApply :: "Condition \<Rightarrow> ConditionApply" where
  "updateConditionToApply c = \<lparr>ca_Type = c_Type c, ca_Status = c_Status c,
     ca_LastTransitionTime = c_LastTransitionTime c, ca_Reason = c_Reason c, ca_Message = c_Message c,
     ca_ObservedGeneration = Some (c_ObservedGeneration c)\<rparr>"

definition updateStatusApply :: "Update \<Rightarrow> UpdateStatusApply" where
  "updateStatusApply obj = (let st = u_Status obj in
     \<lparr>ua_ObservedGeneration = om_Generation (u_Meta obj), ua_Message = ust_Message st,
      ua_Permalink = ust_Permalink st, ua_Outputs = ust_Outputs st,
      ua_Conditions = map updateConditionToApply (ust_Conditions st),
      ua_StartTime = (if ust_StartTime st = 0 then None else Some (ust_StartTime st)),
      ua_EndTime = (if ust_EndTime st = 0 then None else Some (ust_EndTime st)),
      ua_ProjectInfo = ust_ProjectInfo st\<rparr>)"

definition syncAll :: "lib \<Rightarrow> UState \<Rightarrow> UState" where
  "syncAll L s =
     syncCondition L SComplete (syncCondition L SFailed (syncCondition L SProgressing
       (mapStatus (\<lambda>st. st\<lparr>ust_ObservedGeneration := om_Generation (u_Meta (uv_obj s))\<rparr>) s)))"

definition updateStatus :: "uenv \<Rightarrow> UState \<Rightarrow> goerr option \<times> UState" where
  "updateStatus E s = (
     let s = syncAll (ue_L E) s;
         patch = updateStatusApply (uv_obj s)
     in case ue_Patch E (uv_trace s) (uv_obj s) patch of
          Inl e \<Rightarrow> (Some (Wrapf ''updating status'' e), uact (UPatchStatus patch False) s)
        | Inr obj \<Rightarrow> (None, uact (UPatchStatus patch True) (s\<lparr>uv_obj := obj\<rparr>)))"

text \<open>The common exit \<^verbatim>\<open>return ctrl.Result{RequeueAfter: after}, rs.updateStatus(ctx, obj)\<close>.\<close>

definition leaveUpdating :: "uenv \<Rightarrow> duration \<Rightarrow> UState \<Rightarrow> UOutcome" where
  "leaveUpdating E after s = (case updateStatus E s of (err, s) \<Rightarrow> uleave after err s)"

section \<open>Reading a response stream\<close>

fun GetResult :: "streamMessage \<Rightarrow> opResult option" where
  "GetResult (UpStream r) = map_option (\<lambda>(r, outs). UpResult r outs) r"
| "GetResult (DestroyStream r) = map_option AnyResult r"
| "GetResult (PreviewStream r) = map_option AnyResult r"
| "GetResult (RefreshStream r) = map_option AnyResult r"

text \<open>
  The loop of \<^verbatim>\<open>Result\<close>: messages without a result are skipped. It gives what ended it, or
  nothing when the stream goes on for ever without a result.
\<close>

partial_function (option) recvLoop :: "(nat \<Rightarrow> received) \<Rightarrow> nat \<Rightarrow> received option" where
  "recvLoop recv i =
     (case recv i of
        RecvMsg m \<Rightarrow> (if GetResult m = None then recvLoop recv (Suc i) else Some (RecvMsg m))
      | other \<Rightarrow> Some other)"

definition applyProjectInfoToUpdate :: "ProjectInfo option \<Rightarrow> UpdateStatus \<Rightarrow> UpdateStatus" where
  "applyProjectInfoToUpdate info st =
     (case info of None \<Rightarrow> st
      | Some i \<Rightarrow> st\<lparr>ust_ProjectInfo := Some \<lparr>pi_Name = pi_Name i, pi_Runtime = pi_Runtime i\<rparr>\<rparr>)"

definition onResult :: "uenv \<Rightarrow> time \<Rightarrow> result \<Rightarrow> UState \<Rightarrow> UState" where
  "onResult E startTime res s = (
     let s = (if res_Permalink res \<noteq> [] then mapStatus (\<lambda>st. st\<lparr>ust_Permalink := res_Permalink res\<rparr>) s else s);
         s = mapStatus (applyProjectInfoToUpdate (res_ProjectInfo res)) s;
         s = mark SProgressing ConditionFalse ''Complete'' s;
         s = mark SComplete ConditionTrue ''Updated'' s
     in case res_Summary res of
          Some summary \<Rightarrow> (
            let s = mapStatus (\<lambda>st. st\<lparr>ust_StartTime := sm_StartTime summary,
                      ust_EndTime := sm_EndTime summary, ust_Message := sm_Message summary\<rparr>) s
            in if sm_Result summary = ue_StatusSucceeded E
               then markMsg SFailed ConditionFalse ''UpdateSucceeded'' s
               else markMsg SFailed ConditionTrue ''UpdateFailed'' s)
        | None \<Rightarrow>
            markMsg SFailed ConditionFalse ''UpdateSucceeded''
              (mapStatus (\<lambda>st. st\<lparr>ust_StartTime := startTime,
                 ust_EndTime := ue_Now E (uv_trace s) 1, ust_Message := []\<rparr>) s))"

definition setStatusBlockFromGRPCErr :: "rpcError \<Rightarrow> UState \<Rightarrow> UState" where
  "setStatusBlockFromGRPCErr err s = (
     let s = mapStatus (\<lambda>st. st\<lparr>ust_Message := ''An unknown error occurred''\<rparr>) s;
         s = mark SProgressing ConditionFalse ''Complete'' s;
         s = mark SComplete ConditionTrue ''Updated'' s
     in case err of
          PlainError _ \<Rightarrow> s
        | StatusError _ _ msg details \<Rightarrow> (
            let s = mapStatus (\<lambda>st. st\<lparr>ust_Message := msg\<rparr>) s;
                s = markMsg SFailed ConditionTrue ''Unknown'' s
            in case details of
                 [] \<Rightarrow> s
               | PulumiErrorInfo m reason # _ \<Rightarrow>
                   markMsg SFailed ConditionTrue reason (mapStatus (\<lambda>st. st\<lparr>ust_Message := m\<rparr>) s)
               | OtherDetail # _ \<Rightarrow> s))"

text \<open>\<^verbatim>\<open>streamReader.Result\<close>: nothing when it does not return.\<close>

definition Result :: "uenv \<Rightarrow> (nat \<Rightarrow> received) \<Rightarrow> UState \<Rightarrow> ((goerr + opResult) \<times> UState) option" where
  "Result E recv s = (
     let startTime = ue_Now E (uv_trace s) 0
     in map_option
          (\<lambda>r. case r of
             RecvEOF \<Rightarrow> (Inl (Errorf ''didn't receive a result''), s)
           | RecvErr err \<Rightarrow> (Inl (Errorf (rpcErrorText err)), setStatusBlockFromGRPCErr err s)
           | RecvMsg m \<Rightarrow> (let res = the (GetResult m)
                            in (Inr res, onResult E startTime (commonPart res) s)))
          (recvLoop recv 0))"

section \<open>The secret of the outputs\<close>

text \<open>
  Go strings are bytes; \<^verbatim>\<open>regexp\<close> reads them as UTF-8, a byte that does not belong to a
  valid encoding being a character of its own. \<^verbatim>\<open>runeWidth\<close> is the number of bytes of the
  first character.
\<close>

definition byteIn :: "nat \<Rightarrow> nat \<Rightarrow> char \<Rightarrow> bool" where
  "byteIn lo hi c = (let n = (of_char c :: nat) in lo \<le> n \<and> n \<le> hi)"

fun runeWidth :: "string \<Rightarrow> nat" where
  "runeWidth (a # b # c # d # _) =
     (if byteIn 194 223 a \<and> byteIn 128 191 b then 2
      else if (byteIn 224 224 a \<and> byteIn 160 191 b \<or> byteIn 225 236 a \<and> byteIn 128 191 b
               \<or> byteIn 237 237 a \<and> byteIn 128 159 b \<or> byteIn 238 239 a \<and> byteIn 128 191 b)
              \<and> byteIn 128 191 c then 3
      else if (byteIn 240 240 a \<and> byteIn 144 191 b \<or> byteIn 241 243 a \<and> byteIn 128 191 b
               \<or> byteIn 244 244 a \<and> byteIn 128 143 b)
              \<and> byteIn 128 191 c \<and> byteIn 128 191 d then 4
      else 1)"
| "runeWidth [a, b, c] =
     (if byteIn 194 223 a \<and> byteIn 128 191 b then 2
      else if (byteIn 224 224 a \<and> byteIn 160 191 b \<or> byteIn 225 236 a \<and> byteIn 128 191 b
               \<or> byteIn 237 237 a \<and> byteIn 128 159 b \<or> byteIn 238 239 a \<and> byteIn 128 191 b)
              \<and> byteIn 128 191 c then 3
      else 1)"
| "runeWidth [a, b] = (if byteIn 194 223 a \<and> byteIn 128 191 b then 2 else 1)"
| "runeWidth _ = 1"

text \<open>The class \<^verbatim>\<open>[-._a-zA-Z0-9]\<close> of the characters that are kept.\<close>

definition secretKeyChar :: "char \<Rightarrow> bool" where
  "secretKeyChar c \<longleftrightarrow> c = CHR ''-'' \<or> c = CHR ''.'' \<or> c = CHR ''_''
     \<or> byteIn 97 122 c \<or> byteIn 65 90 c \<or> byteIn 48 57 c"

fun sanitizeFrom :: "nat \<Rightarrow> string \<Rightarrow> string" where
  "sanitizeFrom n [] = []"
| "sanitizeFrom (Suc n) (c # cs) = sanitizeFrom n cs"
| "sanitizeFrom 0 (c # cs) =
     (if secretKeyChar c then c # sanitizeFrom 0 cs
      else CHR ''_'' # sanitizeFrom (runeWidth (c # cs) - 1) cs)"

definition secretKey :: "string \<Rightarrow> string" where
  "secretKey outputName = sanitizeFrom 0 outputName"

definition ComponentLabelAuto :: string where "ComponentLabelAuto = ''auto.pulumi.com/component''"
definition UpdateNameLabel :: string where "UpdateNameLabel = ''auto.pulumi.com/update-name''"
definition UpdateComponent :: string where "UpdateComponent = ''update''"

definition labelsForUpdateSecret :: "Update \<Rightarrow> string gomap" where
  "labelsForUpdateSecret u = [(ComponentLabelAuto, UpdateComponent), (UpdateNameLabel, om_Name (u_Meta u))]"

text \<open>\<^verbatim>\<open>m[k] = v\<close>.\<close>

definition mapPut :: "string \<Rightarrow> 'v \<Rightarrow> 'v gomap \<Rightarrow> 'v gomap" where
  "mapPut k v m = (k, v) # filter (\<lambda>(k', _). k' \<noteq> k) m"

definition addOutput :: "string \<times> OutputValue \<Rightarrow> JSON gomap \<times> string list \<Rightarrow> JSON gomap \<times> string list" where
  "addOutput nv acc = (
     let k = secretKey (fst nv)
     in (mapPut k (ov_Value (snd nv)) (fst acc),
         if ov_Secret (snd nv) then snd acc @ [k] else snd acc))"

definition outputsToSecret :: "lib \<Rightarrow> Update \<Rightarrow> OutputValue gomap \<Rightarrow> OutputsSecret" where
  "outputsToSecret L owner outputs = (
     let (datas, secrets) = fold addOutput outputs ([], []);
         secrets = sort secrets
     in \<lparr>sec_Meta = emptyMeta
           \<lparr>om_Name := om_Name (u_Meta owner) @ ''-stack-outputs'',
            om_Namespace := om_Namespace (u_Meta owner),
            om_OwnerReferences := [\<lparr>or_APIVersion = u_APIVersion owner, or_Kind = u_Kind owner,
              or_Name = om_Name (u_Meta owner), or_UID = om_UID (u_Meta owner), or_Controller = None,
              or_BlockOwnerDeletion = None\<rparr>],
            om_Labels := labelsForUpdateSecret owner,
            om_Annotations := [(SecretOutputsAnnotation, JsonMarshalStrings L secrets)]\<rparr>,
         sec_Immutable = Some True, sec_Data = datas\<rparr>)"

section \<open>The operations\<close>

definition emitOn :: "autoEvent \<Rightarrow> string \<Rightarrow> string list \<Rightarrow> UState \<Rightarrow> UState" where
  "emitOn ev fmt args = uact (UEvent ev fmt args)"

abbreviation stackName :: "UState \<Rightarrow> string" where
  "stackName s \<equiv> us_StackName (u_Spec (uv_obj s))"

definition workspaceUnreachable :: "rpcError \<Rightarrow> bool" where
  "workspaceUnreachable err \<longleftrightarrow> codeOf err = Unavailable"

definition retryUnreachable :: "uenv \<Rightarrow> rpcError \<Rightarrow> UState \<Rightarrow> UOutcome" where
  "retryUnreachable E err s =
     (case updateStatus E (markWaiting ''TransientFailure''
             (emitOn ConnectionFailureEvent ''%s'' [rpcErrorText err] s)) of
        (Some statusErr, s) \<Rightarrow> uleave 0 (Some statusErr) s
      | (None, s) \<Rightarrow> uleave 0 (Some (Errorf (rpcErrorText err))) s)"

definition requestFailed :: "uenv \<Rightarrow> string \<Rightarrow> rpcError \<Rightarrow> UState \<Rightarrow> UOutcome" where
  "requestFailed E operation err s =
     (if workspaceUnreachable err then retryUnreachable E err s
      else uleave 0 (Some (Wrapf ''failed request to workspace'' (Errorf (rpcErrorText err))))
             (emitOn UpdateFailedEvent ''Failed to %s stack %q'' [operation, stackName s] s))"

text \<open>
  The course of an operation, which the four methods share: the call, the result of its stream,
  and on success what comes after it. They differ in the request and in the text of the events.
\<close>

definition runOperation ::
  "uenv \<Rightarrow> string \<Rightarrow> string \<Rightarrow> request \<Rightarrow> (opResult \<Rightarrow> UState \<Rightarrow> UOutcome) \<Rightarrow> UState \<Rightarrow> UOutcome" where
  "runOperation E operation failedFmt req succeeded s =
     (case ue_Start E (uv_trace s) req of
        Inl err \<Rightarrow> requestFailed E operation err (uact (UCall req False) s)
      | Inr recv \<Rightarrow>
          (case Result E recv (uact (UCall req True) s) of
             None \<Rightarrow> \<lparr>uo_Return = None, uo_Trace = uv_trace (uact (UCall req True) s)\<rparr>
           | Some (Inl err, s) \<Rightarrow>
               (case updateStatus E (emitOn UpdateFailedEvent failedFmt [stackName s] s) of
                  (Some e, s) \<Rightarrow> uleave 0 (Some (Wrapf ''failed to update the status'' e)) s
                | (None, s) \<Rightarrow> uleave 0 (Some err) s)
           | Some (Inr res, s) \<Rightarrow> succeeded res s))"

definition operationDone :: "uenv \<Rightarrow> string \<Rightarrow> UState \<Rightarrow> UOutcome" where
  "operationDone E fmt s = leaveUpdating E 0 (emitOn UpdateSucceededEvent fmt [stackName s] s)"

definition Preview :: "uenv \<Rightarrow> UState \<Rightarrow> UOutcome" where
  "Preview E s = (let sp = u_Spec (uv_obj s) in
     runOperation E ''preview'' ''Failed to preview stack %q''
       (CallPreview \<lparr>pr_Parallel = us_Parallel sp, pr_Message = us_Message sp,
          pr_ExpectNoChanges = us_ExpectNoChanges sp, pr_Replace = us_Replace sp, pr_Target = us_Target sp,
          pr_TargetDependents = us_TargetDependents sp, pr_Refresh = us_Refresh sp\<rparr>)
       (\<lambda>_. operationDone E ''Previewed stack %q'') s)"

definition afterUp :: "uenv \<Rightarrow> opResult \<Rightarrow> UState \<Rightarrow> UOutcome" where
  "afterUp E res s =
     (case res of
        UpResult _ (Some outputs) \<Rightarrow>
          (let secret = outputsToSecret (ue_L E) (uv_obj s) outputs
           in case ue_CreateSecret E (uv_trace s) secret of
                Some e \<Rightarrow> uleave 0 (Some (Wrapf ''creating output secret'' e)) (uact (UCreateSecret secret False) s)
              | None \<Rightarrow> operationDone E ''Updated stack %q''
                  (mapStatus (\<lambda>st. st\<lparr>ust_Outputs := om_Name (sec_Meta secret)\<rparr>)
                     (uact (UCreateSecret secret True) s)))
      | _ \<Rightarrow> operationDone E ''Updated stack %q'' s)"

definition Up :: "uenv \<Rightarrow> UState \<Rightarrow> UOutcome" where
  "Up E s = (let sp = u_Spec (uv_obj s) in
     runOperation E ''update'' ''Failed to update stack %q''
       (CallUp \<lparr>ur_Parallel = us_Parallel sp, ur_Message = us_Message sp,
          ur_ExpectNoChanges = us_ExpectNoChanges sp, ur_Replace = us_Replace sp, ur_Target = us_Target sp,
          ur_TargetDependents = us_TargetDependents sp, ur_Refresh = us_Refresh sp,
          ur_ContinueOnError = us_ContinueOnError sp\<rparr>)
       (afterUp E) s)"

definition Refresh :: "uenv \<Rightarrow> UState \<Rightarrow> UOutcome" where
  "Refresh E s = (let sp = u_Spec (uv_obj s) in
     runOperation E ''refresh'' ''Failed to refresh stack %q''
       (CallRefresh \<lparr>rr_Parallel = us_Parallel sp, rr_Message = us_Message sp,
          rr_ExpectNoChanges = us_ExpectNoChanges sp, rr_Target = us_Target sp,
          rr_RunProgram = us_RunProgram sp\<rparr>)
       (\<lambda>_. operationDone E ''Refreshed stack %q'') s)"

definition Destroy :: "uenv \<Rightarrow> UState \<Rightarrow> UOutcome" where
  "Destroy E s = (let sp = u_Spec (uv_obj s) in
     runOperation E ''destroy'' ''Failed to destroy stack %q''
       (CallDestroy \<lparr>dr_Parallel = us_Parallel sp, dr_Message = us_Message sp, dr_Target = us_Target sp,
          dr_TargetDependents = us_TargetDependents sp, dr_Refresh = us_Refresh sp,
          dr_ContinueOnError = us_ContinueOnError sp, dr_Remove = us_Remove sp,
          dr_RunProgram = us_RunProgram sp\<rparr>)
       (\<lambda>_. operationDone E ''Destroyed stack %q'') s)"

section \<open>The handler\<close>

definition isOrphaned :: "lib \<Rightarrow> Update \<Rightarrow> bool" where
  "isOrphaned L obj \<longleftrightarrow> \<not> HasControllerReference L (om_OwnerReferences (u_Meta obj))"

definition autoWorkspaceReady :: "lib \<Rightarrow> Workspace option \<Rightarrow> bool" where
  "autoWorkspaceReady L wo = (case wo of None \<Rightarrow> False | Some w \<Rightarrow>
     if om_DeletionTimestamp (w_Meta w) \<noteq> None
        \<or> om_Generation (w_Meta w) \<noteq> wst_ObservedGeneration (w_Status w) then False
     else IsStatusConditionTrue L (wst_Conditions (w_Status w)) WorkspaceReady)"

text \<open>A completed update: its deletion when the time to live is over.\<close>

definition completedPhase :: "uenv \<Rightarrow> UState \<Rightarrow> UOutcome" where
  "completedPhase E s = (
     let obj = uv_obj s
     in case us_TtlAfterCompleted (u_Spec obj) of
          Some ttl \<Rightarrow>
            (if om_DeletionTimestamp (u_Meta obj) = None
             then let remainingTtl = time_sub (c_LastTransitionTime (deref (ue_L E) SComplete s) + ttl)
                                       (ue_Now E (uv_trace s) 0)
                  in if remainingTtl \<le> 0
                     then let s = emitOn UpdateExpiredEvent ''ttl expired and was deleted'' [] s
                          in case ue_Delete E (uv_trace s) obj of
                               Some e \<Rightarrow> uleave 0 (Some (Wrapf ''failed to delete completed update'' e))
                                           (uact (UDeleteObject False) s)
                             | None \<Rightarrow> uleave 0 None (uact (UDeleteObject True) s)
                     else uleave remainingTtl None s
             else uleave 0 None s)
        | None \<Rightarrow> uleave 0 None s)"

definition dispatch :: "uenv \<Rightarrow> UState \<Rightarrow> UOutcome" where
  "dispatch E s =
     (case us_Type (u_Spec (uv_obj s)) of
        PreviewType \<Rightarrow> Preview E s
      | UpType \<Rightarrow> Up E s
      | RefreshType \<Rightarrow> Refresh E s
      | DestroyType \<Rightarrow> Destroy E s
      | OtherUpdateType t \<Rightarrow> uleave 0 (Some (Errorf (''unsupported update type '' @ goQuote t))) s)"

text \<open>With the status saying so, the workspace is looked up, connected to, and the stack selected.\<close>

definition connectPhase :: "uenv \<Rightarrow> Workspace \<Rightarrow> UState \<Rightarrow> UOutcome" where
  "connectPhase E w s =
     (case ue_Connect E (uv_trace s) w of
        Some e \<Rightarrow> leaveUpdating E (5 * Second)
          (markWaiting ''TransientFailure'' (emitOn ConnectionFailureEvent (errorText e) [] s))
      | None \<Rightarrow>
          (case ue_SelectStack E (uv_trace s) (stackName s) of
             Some e \<Rightarrow> uleave 0 (Some (Wrapf ''failed request to workspace'' (Errorf (rpcErrorText e))))
                         (uact (USelectStack (stackName s) False) s)
           | None \<Rightarrow> dispatch E (uact (USelectStack (stackName s) True) s)))"

definition startPhase :: "uenv \<Rightarrow> UState \<Rightarrow> UOutcome" where
  "startPhase E s =
     (case updateStatus E (markRunning s) of
        (Some e, s) \<Rightarrow> uleave 0 (Some (Wrapf ''failed to update the status'' e)) s
      | (None, s) \<Rightarrow>
          (case ue_GetWorkspace E (uv_trace s) (om_Namespace (u_Meta (uv_obj s)))
                  (us_WorkspaceName (u_Spec (uv_obj s))) of
             Inl e \<Rightarrow>
               (if IsNotFound e then leaveUpdating E 0 (markWaiting ''WorkspaceNotFound'' s)
                else uleave 0 (Some (Wrapf ''failed to get workspace'' e)) s)
           | Inr w \<Rightarrow>
               (if \<not> autoWorkspaceReady (ue_L E) (Some w)
                then leaveUpdating E 0 (markWaiting ''WorkspaceNotReady'' s)
                else connectPhase E w s)))"

definition UpdateReconcile :: "uenv \<Rightarrow> goerr + Update \<Rightarrow> UOutcome" where
  "UpdateReconcile E got =
     (case got of
        Inl e \<Rightarrow> \<lparr>uo_Return = Some (0, if IsNotFound e then None else Some e), uo_Trace = []\<rparr>
      | Inr obj \<Rightarrow>
          (let s = \<lparr>uv_obj = obj, uv_sess = newReconcileSession (ue_L E) obj, uv_trace = []\<rparr>
           in if c_Status (deref (ue_L E) SComplete s) = ConditionTrue then completedPhase E s
              else if c_Status (deref (ue_L E) SProgressing s) = ConditionTrue
              then leaveUpdating E 0 (markFailed ''Aborted'' s)
              else if om_DeletionTimestamp (u_Meta obj) \<noteq> None
              then leaveUpdating E 0 (markFailed ''Canceled'' s)
              else if isOrphaned (ue_L E) obj
              then leaveUpdating E 0 (markFailed ''Canceled'' s)
              else startPhase E s))"

section \<open>Watches\<close>

definition autoWorkspaceReadyPredicate_Create :: "lib \<Rightarrow> Workspace \<Rightarrow> bool" where
  "autoWorkspaceReadyPredicate_Create L w = autoWorkspaceReady L (Some w)"

definition autoWorkspaceReadyPredicate_Update :: "lib \<Rightarrow> Workspace option \<Rightarrow> Workspace option \<Rightarrow> bool" where
  "autoWorkspaceReadyPredicate_Update L old new =
     (if old = None \<or> new = None then False else \<not> autoWorkspaceReady L old \<and> autoWorkspaceReady L new)"

definition updateCompletedPredicate_Update :: "lib \<Rightarrow> Update option \<Rightarrow> Update option \<Rightarrow> bool" where
  "updateCompletedPredicate_Update L old new =
     (case (old, new) of
        (Some o1, Some n) \<Rightarrow>
          \<not> IsStatusConditionTrue L (ust_Conditions (u_Status o1)) UpdateConditionTypeComplete
          \<and> IsStatusConditionTrue L (ust_Conditions (u_Status n)) UpdateConditionTypeComplete
      | _ \<Rightarrow> False)"

definition OwnerReferencesChangedPredicate_Update :: "ObjectMeta option \<Rightarrow> ObjectMeta option \<Rightarrow> bool" where
  "OwnerReferencesChangedPredicate_Update old new =
     (case (old, new) of (Some o1, Some n) \<Rightarrow> om_OwnerReferences o1 \<noteq> om_OwnerReferences n | _ \<Rightarrow> False)"

definition indexUpdateByWorkspace :: "lib \<Rightarrow> Update \<Rightarrow> string list" where
  "indexUpdateByWorkspace L u =
     (if IsStatusConditionTrue L (ust_Conditions (u_Status u)) UpdateConditionTypeComplete then []
      else [us_WorkspaceName (u_Spec u)])"

type_synonym namespacedName = "string \<times> string"

definition updateKey :: "Update \<Rightarrow> namespacedName" where
  "updateKey u = (om_Namespace (u_Meta u), om_Name (u_Meta u))"

text \<open>
  The set of updates being reconciled: \<^verbatim>\<open>Reconcile\<close> stores its key after the read and
  deletes it when it returns; the map function reads it.
\<close>

definition activeStore :: "namespacedName \<Rightarrow> namespacedName list \<Rightarrow> namespacedName list" where
  "activeStore k active = List.insert k active"

definition activeDelete :: "namespacedName \<Rightarrow> namespacedName list \<Rightarrow> namespacedName list" where
  "activeDelete k active = removeAll k active"

definition mapWorkspaceToUpdate ::
  "(string \<Rightarrow> string \<Rightarrow> goerr + Update list) \<Rightarrow> namespacedName list \<Rightarrow> ObjectMeta \<Rightarrow> namespacedName list" where
  "mapWorkspaceToUpdate listUpdates active w =
     (case listUpdates (om_Namespace w) (om_Name w) of
        Inl _ \<Rightarrow> []
      | Inr us \<Rightarrow> filter (\<lambda>key. \<not> List.member active key) (map updateKey us))"

end
