(* ===== verification/UpdateFacts.thy ===== *)
theory UpdateFacts
  imports UpdateController
begin

text \<open>
  Proofs about the update controller (theory UpdateController): the contracts of the condition
  helpers and of the status patch, the session's pointers into the object, the order of status
  writes and operation calls in a reconcile, the life of an Update over many reconciles that may be
  cut short. Theory UpdateActions goes on from here.
\<close>

section \<open>Contracts\<close>

text \<open>
  The further documented behaviour of the condition helpers the update controller relies on: a
  condition is found by its type, the first one counting, and the transition time is kept while
  the status does not change.
\<close>

locale condition_slice = condition_api L for L :: lib +
  assumes find_first: "FindStatusCondition L cs ty = refFind cs ty"
    and keeps_time:
      "\<lbrakk>refFind cs (c_Type c) = Some d; c_Status d = c_Status c\<rbrakk>
        \<Longrightarrow> refFind (SetStatusCondition L cs c) (c_Type c) = Some (c\<lparr>c_LastTransitionTime := c_LastTransitionTime d\<rparr>)"

lemma refSet_keeps_time:
  "refFind cs (c_Type c) = Some d \<Longrightarrow> c_Status d = c_Status c
    \<Longrightarrow> refFind (refSet cs c) (c_Type c) = Some (c\<lparr>c_LastTransitionTime := c_LastTransitionTime d\<rparr>)"
  by (induction cs) (auto simp: refFind_def)

interpretation docSlice: condition_slice docLib
  by unfold_locales (auto simp: docLib_def refSet_keeps_time)

text \<open>The status that an applied patch leaves in the store.\<close>

definition appliedCondition :: "ConditionApply \<Rightarrow> Condition" where
  "appliedCondition a = \<lparr>c_Type = ca_Type a, c_Status = ca_Status a,
     c_ObservedGeneration = (case ca_ObservedGeneration a of Some g \<Rightarrow> g | None \<Rightarrow> 0),
     c_LastTransitionTime = ca_LastTransitionTime a, c_Reason = ca_Reason a, c_Message = ca_Message a\<rparr>"

definition appliedStatus :: "UpdateStatusApply \<Rightarrow> UpdateStatus" where
  "appliedStatus p = \<lparr>ust_ObservedGeneration = ua_ObservedGeneration p,
     ust_StartTime = (case ua_StartTime p of Some t \<Rightarrow> t | None \<Rightarrow> 0),
     ust_EndTime = (case ua_EndTime p of Some t \<Rightarrow> t | None \<Rightarrow> 0),
     ust_Permalink = ua_Permalink p, ust_Message = ua_Message p, ust_Outputs = ua_Outputs p,
     ust_Conditions = map appliedCondition (ua_Conditions p), ust_ProjectInfo = ua_ProjectInfo p\<rparr>"

lemma applied_toApply [simp]: "appliedCondition (updateConditionToApply c) = c"
  by (simp add: appliedCondition_def updateConditionToApply_def)

lemma applied_updateStatusApply:
  "appliedStatus (updateStatusApply u) = (u_Status u)\<lparr>ust_ObservedGeneration := om_Generation (u_Meta u)\<rparr>"
  by (simp add: appliedStatus_def updateStatusApply_def Let_def o_def map_idI)

text \<open>The API server answers a status patch with the object whose conditions are those sent.\<close>

locale update_server = condition_slice "ue_L E" for E :: uenv +
  assumes patch_conditions:
    "ue_Patch E tr u p = Inr v \<Longrightarrow> ust_Conditions (u_Status v) = ust_Conditions (appliedStatus p)"

section \<open>Conditions in a slice\<close>

lemma refFind_type: "refFind cs ty = Some c \<Longrightarrow> c_Type c = ty"
  unfolding refFind_def by (induction cs) (auto split: if_splits)

lemma refFind_inPlace:
  assumes "\<And>c. c_Type (f c) = c_Type c"
  shows "refFind (inPlace ty f cs) ty' = (if ty' = ty then map_option f (refFind cs ty) else refFind cs ty')"
  by (induction cs) (auto simp: refFind_def assms)

definition core :: "Condition \<Rightarrow> string \<times> ConditionStatus \<times> string \<times> string" where
  "core c = (c_Type c, c_Status c, c_Reason c, c_Message c)"

lemma core_simps [simp]:
  "core (c\<lparr>c_ObservedGeneration := g\<rparr>) = core c"
  "core (c\<lparr>c_LastTransitionTime := t\<rparr>) = core c"
  by (simp_all add: core_def)

lemma core_status: "core c = core d \<Longrightarrow> c_Status c = c_Status d"
  by (simp add: core_def)

lemma slotType_inj [simp]: "slotType j = slotType k \<longleftrightarrow> j = k"
  by (cases j; cases k) (simp_all add: update_condition_types)

lemma ptr_set [simp]: "ptrOf j (setPtr k p ss) = (if j = k then p else ptrOf j ss)"
  by (cases j; cases k) simp_all

text \<open>The pointers of a session are of their types, and shared ones have something to point at.\<close>

definition sessOk :: "UState \<Rightarrow> bool" where
  "sessOk s \<longleftrightarrow> (\<forall>k. case ptrOf k (uv_sess s) of
      Own c \<Rightarrow> c_Type c = slotType k
    | Shared \<Rightarrow> refFind (condsOf s) (slotType k) \<noteq> None)"

lemma sessOk_Own: "sessOk s \<Longrightarrow> ptrOf k (uv_sess s) = Own c \<Longrightarrow> c_Type c = slotType k"
  by (auto simp: sessOk_def dest: spec [of _ k])

lemma sessOk_Shared: "sessOk s \<Longrightarrow> ptrOf k (uv_sess s) = Shared \<Longrightarrow> \<exists>c. refFind (condsOf s) (slotType k) = Some c"
  by (auto simp: sessOk_def dest: spec [of _ k])

definition sameHead :: "UState \<Rightarrow> UState \<Rightarrow> bool" where
  "sameHead s t \<longleftrightarrow> uv_trace t = uv_trace s \<and> u_Meta (uv_obj t) = u_Meta (uv_obj s) \<and> u_Spec (uv_obj t) = u_Spec (uv_obj s)"

lemma store_frame [simp]:
  "uv_trace (store k f s) = uv_trace s" "u_Meta (uv_obj (store k f s)) = u_Meta (uv_obj s)"
  "u_Spec (uv_obj (store k f s)) = u_Spec (uv_obj s)"
  by (simp_all add: store_def mapStatus_def split: condPtr.split)

lemma mapStatus_frame [simp]:
  "uv_trace (mapStatus f s) = uv_trace s" "u_Meta (uv_obj (mapStatus f s)) = u_Meta (uv_obj s)"
  "u_Spec (uv_obj (mapStatus f s)) = u_Spec (uv_obj s)" "uv_sess (mapStatus f s) = uv_sess s"
  "u_Status (uv_obj (mapStatus f s)) = f (u_Status (uv_obj s))"
  by (simp_all add: mapStatus_def)

context condition_slice
begin

lemma deref_store:
  assumes ok: "sessOk s" and ty: "\<And>c. c_Type (f c) = c_Type c"
  shows "deref L j (store k f s) = (if j = k then f (deref L k s) else deref L j s)"
proof (cases "ptrOf k (uv_sess s)")
  case (Own c)
  then show ?thesis by (simp add: store_def deref_def split: condPtr.split)
next
  case Shared
  with ok obtain c where "refFind (condsOf s) (slotType k) = Some c" using sessOk_Shared by blast
  with Shared show ?thesis by (auto simp: store_def deref_def find_first refFind_inPlace ty split: condPtr.split)
qed

lemma sessOk_store:
  assumes ok: "sessOk s" and ty: "\<And>c. c_Type (f c) = c_Type c"
  shows "sessOk (store k f s)"
proof (cases "ptrOf k (uv_sess s)")
  case (Own c)
  show ?thesis unfolding sessOk_def
  proof
    fix j
    show "case ptrOf j (uv_sess (store k f s)) of
            Own c \<Rightarrow> c_Type c = slotType j
          | Shared \<Rightarrow> refFind (condsOf (store k f s)) (slotType j) \<noteq> None"
      using Own sessOk_Own [OF ok, of j] sessOk_Shared [OF ok, of j]
      by (auto simp: store_def ty split: condPtr.split)
  qed
next
  case Shared
  show ?thesis unfolding sessOk_def
  proof
    fix j
    show "case ptrOf j (uv_sess (store k f s)) of
            Own c \<Rightarrow> c_Type c = slotType j
          | Shared \<Rightarrow> refFind (condsOf (store k f s)) (slotType j) \<noteq> None"
      using ok Shared sessOk_Own [OF ok, of j] sessOk_Shared [OF ok, of j]
      by (auto simp: store_def refFind_inPlace ty split: condPtr.split)
  qed
qed

lemma deref_type: "sessOk s \<Longrightarrow> c_Type (deref L k s) = slotType k"
proof (cases "ptrOf k (uv_sess s)")
  case (Own c)
  then show "sessOk s \<Longrightarrow> ?thesis" using sessOk_Own [of s k c] by (simp add: deref_def)
next
  case Shared
  assume ok: "sessOk s"
  obtain c where "refFind (condsOf s) (slotType k) = Some c" using sessOk_Shared [OF ok Shared] by blast
  then show ?thesis using Shared refFind_type by (simp add: deref_def find_first)
qed

lemma sessOk_mapStatus:
  assumes "sessOk s" and "\<And>st k. refFind (ust_Conditions st) (slotType k) \<noteq> None
            \<Longrightarrow> refFind (ust_Conditions (f st)) (slotType k) \<noteq> None"
  shows "sessOk (mapStatus f s)"
  using assms by (force simp: sessOk_def split: condPtr.splits)

lemma deref_mapStatus:
  assumes "\<And>st. ust_Conditions (f st) = ust_Conditions st"
  shows "deref L k (mapStatus f s) = deref L k s" and "sessOk (mapStatus f s) = sessOk s"
  by (simp_all add: deref_def sessOk_def assms cong: condPtr.case_cong)

lemma sessOk_unshare: "sessOk s \<Longrightarrow> sessOk (unshare L s)"
proof -
  assume ok: "sessOk s"
  show ?thesis unfolding sessOk_def
  proof
    fix k
    show "case ptrOf k (uv_sess (unshare L s)) of
            Own c \<Rightarrow> c_Type c = slotType k | Shared \<Rightarrow> refFind (condsOf (unshare L s)) (slotType k) \<noteq> None"
      by (cases k) (simp_all add: unshare_def deref_type [OF ok])
  qed
qed

lemma deref_unshare [simp]: "deref L k (unshare L s) = deref L k s"
  by (cases k) (simp_all add: unshare_def deref_def [of _ _ "_\<lparr>uv_sess := _\<rparr>"])

lemma unshare_frame [simp]: "uv_obj (unshare L s) = uv_obj s" "uv_trace (unshare L s) = uv_trace s"
  by (simp_all add: unshare_def)

text \<open>Writing one condition of the session into the object.\<close>

lemma syncCondition_effect:
  assumes ok: "sessOk s" and t0: "t = syncCondition L k s"
  shows "sessOk t" and "core (deref L j t) = core (deref L j s)" and "sameHead s t"
    and "map_option core (refFind (condsOf t) (slotType j))
          = (if j = k then Some (core (deref L k s)) else map_option core (refFind (condsOf s) (slotType j)))"
proof -
  define s1 where "s1 = store k (\<lambda>c. c\<lparr>c_ObservedGeneration := om_Generation (u_Meta (uv_obj s))\<rparr>) s"
  define c where "c = deref L k s1"
  define s2 where "s2 = (if FindStatusCondition L (condsOf s1) (c_Type c) = None then unshare L s1 else s1)"
  have t: "t = mapStatus (\<lambda>st. st\<lparr>ust_Conditions := SetStatusCondition L (ust_Conditions st) c\<rparr>) s2"
    unfolding t0 syncCondition_def Let_def s1_def c_def s2_def by simp
  have ok1: "sessOk s1" unfolding s1_def by (rule sessOk_store [OF ok]) simp
  have d1: "core (deref L i s1) = core (deref L i s)" for i
    unfolding s1_def by (simp add: deref_store [OF ok])
  have cty: "c_Type c = slotType k" unfolding c_def by (rule deref_type [OF ok1])
  have ok2: "sessOk s2" unfolding s2_def using ok1 sessOk_unshare by simp
  have d2: "deref L i s2 = deref L i s1" for i unfolding s2_def by simp
  have f1: "refFind (condsOf s1) (slotType i) = (if i = k \<and> ptrOf k (uv_sess s) = Shared
      then map_option (\<lambda>c. c\<lparr>c_ObservedGeneration := om_Generation (u_Meta (uv_obj s))\<rparr>) (refFind (condsOf s) (slotType i))
      else refFind (condsOf s) (slotType i))" for i
    unfolding s1_def by (auto simp: store_def refFind_inPlace split: condPtr.split)
  have obj2: "uv_obj s2 = uv_obj s1" unfolding s2_def by simp
  have conds: "condsOf t = SetStatusCondition L (condsOf s1) c" by (simp add: t obj2)
  obtain tm where same: "refFind (condsOf t) (slotType k) = Some (c\<lparr>c_LastTransitionTime := tm\<rparr>)"
    using find_set_same [of "condsOf s1" c] by (auto simp: conds cty find_first)
  have other: "i \<noteq> k \<Longrightarrow> refFind (condsOf t) (slotType i) = refFind (condsOf s1) (slotType i)" for i
    using find_set_other [of "slotType i" c "condsOf s1"] by (simp add: conds cty find_first)
  have cc: "core c = core (deref L k s)" by (simp add: c_def d1)
  show "map_option core (refFind (condsOf t) (slotType j))
          = (if j = k then Some (core (deref L k s)) else map_option core (refFind (condsOf s) (slotType j)))"
    using same other [of j] f1 [of j] cc by auto
  show "sameHead s t" by (simp add: sameHead_def t s2_def s1_def)
  have found: "refFind (condsOf s1) (slotType i) \<noteq> None \<Longrightarrow> refFind (condsOf t) (slotType i) \<noteq> None" for i
    using same other [of i] by (cases "i = k") auto
  have sess: "uv_sess t = uv_sess s2" by (simp add: t)
  show "sessOk t"
    using ok2 found unfolding sessOk_def sess obj2 [symmetric] by (force split: condPtr.splits)
  show "core (deref L j t) = core (deref L j s)"
  proof (cases "ptrOf j (uv_sess s2)")
    case (Own d)
    then have "deref L j t = deref L j s2" by (simp add: deref_def sess)
    then show ?thesis by (simp add: d2 d1)
  next
    case Shared
    then obtain d where d: "refFind (condsOf s1) (slotType j) = Some d" using sessOk_Shared [OF ok2] obj2 by metis
    have "deref L j s2 = d" using Shared d by (simp add: deref_def find_first obj2)
    then have "core d = core (deref L j s)" by (simp add: d2 d1 flip: d1)
    moreover have "deref L j t = the (refFind (condsOf t) (slotType j))"
      using found [of j] d Shared by (auto simp: deref_def sess find_first split: option.split)
    ultimately show ?thesis using same other [of j] d cc by (cases "j = k") auto
  qed
qed


lemma syncAll_effect:
  assumes ok: "sessOk s" and t: "t = syncAll L s"
  shows "sessOk t" and "core (deref L j t) = core (deref L j s)" and "sameHead s t"
    and "map_option core (refFind (condsOf t) (slotType j)) = Some (core (deref L j s))"
proof -
  define s0 where "s0 = mapStatus (\<lambda>st. st\<lparr>ust_ObservedGeneration := om_Generation (u_Meta (uv_obj s))\<rparr>) s"
  define s1 where "s1 = syncCondition L SProgressing s0"
  define s2 where "s2 = syncCondition L SFailed s1"
  have t': "t = syncCondition L SComplete s2" by (simp add: t syncAll_def s0_def s1_def s2_def)
  have d0: "deref L i s0 = deref L i s" for i unfolding s0_def by (rule deref_mapStatus) simp
  have ok0: "sessOk s0" unfolding s0_def by (rule sessOk_mapStatus [OF ok]) simp
  note e1 = syncCondition_effect [OF ok0 s1_def]
  note e2 = syncCondition_effect [OF e1(1) s2_def]
  note e3 = syncCondition_effect [OF e2(1) t']
  show "sessOk t" by (rule e3(1))
  show "core (deref L j t) = core (deref L j s)" by (simp add: e3(2) e2(2) e1(2) d0)
  show "sameHead s t" using e1(3) e2(3) e3(3) by (simp add: sameHead_def s0_def)
  show "map_option core (refFind (condsOf t) (slotType j)) = Some (core (deref L j s))"
    using e3(4) [of j] e2(4) [of j] e1(4) [of j] by (auto simp: e1(2) e2(2) d0 split: if_splits intro: slot.exhaust [of j])
qed

text \<open>Marking a condition changes its status, and no other condition.\<close>

lemma mark_effect:
  assumes "sessOk s"
  shows "sessOk (mark k st r s)" and "sessOk (markMsg k st r s)"
    and "c_Status (deref L j (mark k st r s)) = (if j = k then st else c_Status (deref L j s))"
    and "c_Status (deref L j (markMsg k st r s)) = (if j = k then st else c_Status (deref L j s))"
    and "c_Reason (deref L j (mark k st r s)) = (if j = k then r else c_Reason (deref L j s))"
    and "c_Reason (deref L j (markMsg k st r s)) = (if j = k then r else c_Reason (deref L j s))"
  using assms by (simp_all add: mark_def markMsg_def sessOk_store deref_store)

end

lemma slotMark_frame [simp]:
  "uv_trace (mark k st r s) = uv_trace s" "uv_trace (markMsg k st r s) = uv_trace s"
  "u_Meta (uv_obj (mark k st r s)) = u_Meta (uv_obj s)" "u_Meta (uv_obj (markMsg k st r s)) = u_Meta (uv_obj s)"
  "u_Spec (uv_obj (mark k st r s)) = u_Spec (uv_obj s)" "u_Spec (uv_obj (markMsg k st r s)) = u_Spec (uv_obj s)"
  by (simp_all add: mark_def markMsg_def)

lemma marks_trace [simp]:
  "uv_trace (markFailed r s) = uv_trace s" "uv_trace (markRunning s) = uv_trace s"
  "uv_trace (markWaiting r s) = uv_trace s"
  by (simp_all add: markFailed_def markRunning_def markWaiting_def)

text \<open>A step that only adds to the trace.\<close>

lemma uact_view [simp]:
  "uv_trace (uact a s) = uv_trace s @ [a]" "uv_obj (uact a s) = uv_obj s" "uv_sess (uact a s) = uv_sess s"
  "deref L k (uact a s) = deref L k s" "sessOk (uact a s) = sessOk s"
  by (simp_all add: uact_def deref_def sessOk_def cong: condPtr.case_cong)

lemma emitOn_view [simp]:
  "uv_trace (emitOn e f as s) = uv_trace s @ [UEvent e f as]" "uv_obj (emitOn e f as s) = uv_obj s"
  "uv_sess (emitOn e f as s) = uv_sess s" "deref L k (emitOn e f as s) = deref L k s" "sessOk (emitOn e f as s) = sessOk s"
  by (simp_all add: emitOn_def)

section \<open>The status writes of a trace\<close>

text \<open>A status that keeps the controller from starting an operation: progressing or complete.\<close>

definition statusOfSlot :: "Condition list \<Rightarrow> slot \<Rightarrow> ConditionStatus option" where
  "statusOfSlot cs k = map_option c_Status (refFind cs (slotType k))"

definition guardedConds :: "Condition list \<Rightarrow> bool" where
  "guardedConds cs \<longleftrightarrow> statusOfSlot cs SComplete = Some ConditionTrue
     \<or> statusOfSlot cs SProgressing = Some ConditionTrue"

abbreviation guardedPatch :: "UpdateStatusApply \<Rightarrow> bool" where
  "guardedPatch p \<equiv> guardedConds (ust_Conditions (appliedStatus p))"

definition guarding :: "lib \<Rightarrow> UState \<Rightarrow> bool" where
  "guarding L s \<longleftrightarrow> c_Status (deref L SComplete s) = ConditionTrue
     \<or> c_Status (deref L SProgressing s) = ConditionTrue"

text \<open>
  What a trace must be: an operation is only called after an acknowledged status write that
  guards the update, at most one call is accepted, and after it every status written still
  guards. The flags say whether the store is known to guard, and whether an operation has begun.
\<close>

fun checked :: "bool \<Rightarrow> bool \<Rightarrow> utrace \<Rightarrow> bool" where
  "checked g d [] \<longleftrightarrow> True"
| "checked g d (UPatchStatus p ack # tr) \<longleftrightarrow>
     (if d then guardedPatch p \<and> checked g d tr else checked (ack \<and> guardedPatch p) d tr)"
| "checked g d (UCall r ack # tr) \<longleftrightarrow> g \<and> \<not> d \<and> checked g ack tr"
| "checked g d (_ # tr) \<longleftrightarrow> checked g d tr"

definition safeFrom :: "bool \<Rightarrow> bool \<Rightarrow> UState \<Rightarrow> UOutcome \<Rightarrow> bool" where
  "safeFrom g d s oc \<longleftrightarrow> (\<exists>tr. uo_Trace oc = uv_trace s @ tr \<and> checked g d tr)"

lemma safe_leave [simp]: "uv_trace t = uv_trace s \<Longrightarrow> safeFrom g d s (uleave after e t)"
  by (simp add: safeFrom_def uleave_def)

lemma safe_trace: "uv_trace s = uv_trace t \<Longrightarrow> safeFrom g d s oc = safeFrom g d t oc"
  by (simp add: safeFrom_def)

lemma safe_step:
  assumes "safeFrom g' d' t oc" and "uv_trace t = uv_trace s @ [a]"
    and "\<And>tr. checked g' d' tr \<Longrightarrow> checked g d (a # tr)"
  shows "safeFrom g d s oc"
  using assms by (auto simp: safeFrom_def)

lemma safe_emit: "safeFrom g d (emitOn e f as s) oc \<Longrightarrow> safeFrom g d s oc"
proof (erule safe_step)
  show "uv_trace (emitOn e f as s) = uv_trace s @ [UEvent e f as]" by simp
  show "checked g d tr \<Longrightarrow> checked g d (UEvent e f as # tr)" for tr by simp
qed

lemma safe_leave_step:
  "uv_trace t = uv_trace s @ [a] \<Longrightarrow> checked g d [a] \<Longrightarrow> safeFrom g d s (uleave after e t)"
  by (auto simp: safeFrom_def uleave_def)

context update_server
begin

abbreviation L where "L \<equiv> ue_L E"

lemma updateStatus_effect:
  assumes ok: "sessOk s" and run: "updateStatus E s = (r, t)"
  shows "sessOk t" and "core (deref L j t) = core (deref L j s)"
    and "\<exists>p. uv_trace t = uv_trace s @ [UPatchStatus p (r = None)]
           \<and> (\<forall>k. map_option core (refFind (ust_Conditions (appliedStatus p)) (slotType k)) = Some (core (deref L k s)))"
proof -
  define s1 where "s1 = syncAll L s"
  define p where "p = updateStatusApply (uv_obj s1)"
  note e = syncAll_effect [OF ok s1_def]
  have conds: "ust_Conditions (appliedStatus p) = condsOf s1" by (simp add: p_def applied_updateStatusApply)
  have tr1: "uv_trace s1 = uv_trace s" using e(3) by (simp add: sameHead_def)
  have "sessOk t \<and> core (deref L j t) = core (deref L j s) \<and> uv_trace t = uv_trace s @ [UPatchStatus p (r = None)]"
  proof (cases "ue_Patch E (uv_trace s1) (uv_obj s1) p")
    case (Inl err)
    with run have "r = Some (Wrapf ''updating status'' err)" "t = uact (UPatchStatus p False) s1"
      by (auto simp: updateStatus_def Let_def s1_def p_def)
    then show ?thesis using e tr1 by simp
  next
    case (Inr v)
    with run have r: "r = None" and t: "t = uact (UPatchStatus p True) (s1\<lparr>uv_obj := v\<rparr>)"
      by (auto simp: updateStatus_def Let_def s1_def p_def)
    have v: "ust_Conditions (u_Status v) = condsOf s1" using patch_conditions [OF Inr] conds by simp
    have "deref L j (s1\<lparr>uv_obj := v\<rparr>) = deref L j s1" by (simp add: deref_def v cong: condPtr.case_cong)
    moreover have "sessOk (s1\<lparr>uv_obj := v\<rparr>) = sessOk s1" by (simp add: sessOk_def v cong: condPtr.case_cong)
    ultimately show ?thesis using e tr1 r t by simp
  qed
  then show "sessOk t" and "core (deref L j t) = core (deref L j s)"
    and "\<exists>p. uv_trace t = uv_trace s @ [UPatchStatus p (r = None)]
           \<and> (\<forall>k. map_option core (refFind (ust_Conditions (appliedStatus p)) (slotType k)) = Some (core (deref L k s)))"
    using e(4) conds by auto
qed

lemma updateStatus_guard:
  assumes ok: "sessOk s" and run: "updateStatus E s = (r, t)"
  obtains p where "uv_trace t = uv_trace s @ [UPatchStatus p (r = None)]"
    and "guardedPatch p = guarding L s"
proof -
  from updateStatus_effect(3) [OF ok run] obtain p where p: "uv_trace t = uv_trace s @ [UPatchStatus p (r = None)]"
    and c: "\<And>k. map_option core (refFind (ust_Conditions (appliedStatus p)) (slotType k)) = Some (core (deref L k s))"
    by blast
  have "statusOfSlot (ust_Conditions (appliedStatus p)) k = Some (c_Status (deref L k s))" for k
    using c [of k] by (auto simp: statusOfSlot_def dest: core_status)
  then show ?thesis by (intro that [OF p]) (simp add: guardedConds_def guarding_def)
qed

lemma guarding_core: "(\<And>k. core (deref L k t) = core (deref L k s)) \<Longrightarrow> guarding L t = guarding L s"
  using core_status by (metis guarding_def)

text \<open>Writing the status as the last step, before and after an operation has begun.\<close>

lemma safe_leaveUpdating:
  assumes ok: "sessOk s" and "d \<Longrightarrow> guarding L s"
  shows "safeFrom g d s (leaveUpdating E after s)"
proof -
  obtain r t where run: "updateStatus E s = (r, t)" by (cases "updateStatus E s")
  from updateStatus_guard [OF ok run] obtain p where p: "uv_trace t = uv_trace s @ [UPatchStatus p (r = None)]"
    "guardedPatch p = guarding L s" by blast
  show ?thesis unfolding leaveUpdating_def run prod.case
    by (rule safe_leave_step [OF p(1)]) (use assms p in simp)
qed

lemma safe_updateStatus:
  assumes ok: "sessOk s" and run: "updateStatus E s = (r, t)"
    and "d \<Longrightarrow> guarding L s" and "safeFrom (if d then g else r = None \<and> guarding L s) d t oc"
  shows "safeFrom g d s oc"
proof -
  from updateStatus_guard [OF ok run] obtain p where p: "uv_trace t = uv_trace s @ [UPatchStatus p (r = None)]"
    "guardedPatch p = guarding L s" by blast
  show ?thesis by (rule safe_step [OF assms(4) p(1)]) (use assms(3) p(2) in auto)
qed

end

section \<open>The operations keep the guard\<close>

context update_server
begin

lemma sessOk_conditions_kept:
  assumes "\<And>st. ust_Conditions (f st) = ust_Conditions st"
  shows "sessOk (mapStatus f s) = sessOk s" and "deref L k (mapStatus f s) = deref L k s"
  using deref_mapStatus [OF assms] by simp_all

lemma guarding_mapStatus [simp]:
  "(\<And>st. ust_Conditions (f st) = ust_Conditions st) \<Longrightarrow> guarding L (mapStatus f s) = guarding L s"
  by (simp add: guarding_def sessOk_conditions_kept)

lemma guarding_emit [simp]: "guarding L (emitOn e f as s) = guarding L s" "guarding L (uact a s) = guarding L s"
  by (simp_all add: guarding_def)

lemma projectInfo_conditions [simp]:
  "ust_Conditions (applyProjectInfoToUpdate i st) = ust_Conditions st"
  by (simp add: applyProjectInfoToUpdate_def split: option.split)

text \<open>A mark of another condition than Complete and Progressing, or one to true, keeps the guard.\<close>

lemma guarding_failed:
  assumes "sessOk s"
  shows "guarding L (mark SFailed st r s) = guarding L s" "guarding L (markMsg SFailed st r s) = guarding L s"
  using mark_effect [OF assms] by (simp_all add: guarding_def)

lemma guarding_complete:
  assumes "sessOk s"
  shows "guarding L (mark SComplete ConditionTrue r s)"
  using mark_effect [OF assms] by (simp add: guarding_def)

lemma onResult_state:
  assumes "sessOk s"
  shows "sessOk (onResult E t res s)" and "guarding L (onResult E t res s)"
    and "uv_trace (onResult E t res s) = uv_trace s"
proof -
  define s1 where "s1 = mark SComplete ConditionTrue ''Updated'' (mark SProgressing ConditionFalse ''Complete''
    (mapStatus (applyProjectInfoToUpdate (res_ProjectInfo res))
      (if res_Permalink res \<noteq> [] then mapStatus (\<lambda>st. st\<lparr>ust_Permalink := res_Permalink res\<rparr>) s else s)))"
  have ok1: "sessOk s1" unfolding s1_def by (simp add: mark_effect sessOk_conditions_kept assms)
  have g1: "guarding L s1" unfolding s1_def
    by (rule guarding_complete) (simp add: mark_effect sessOk_conditions_kept assms)
  have tr1: "uv_trace s1 = uv_trace s" by (simp add: s1_def)
  have run: "onResult E t res s = (case res_Summary res of
          Some summary \<Rightarrow> (
            let s = mapStatus (\<lambda>st. st\<lparr>ust_StartTime := sm_StartTime summary,
                      ust_EndTime := sm_EndTime summary, ust_Message := sm_Message summary\<rparr>) s1
            in if sm_Result summary = ue_StatusSucceeded E
               then markMsg SFailed ConditionFalse ''UpdateSucceeded'' s
               else markMsg SFailed ConditionTrue ''UpdateFailed'' s)
        | None \<Rightarrow>
            markMsg SFailed ConditionFalse ''UpdateSucceeded''
              (mapStatus (\<lambda>st. st\<lparr>ust_StartTime := t,
                 ust_EndTime := ue_Now E (uv_trace s1) 1, ust_Message := []\<rparr>) s1))"
    unfolding onResult_def Let_def s1_def ..
  show "sessOk (onResult E t res s)" and "guarding L (onResult E t res s)"
    and "uv_trace (onResult E t res s) = uv_trace s"
    unfolding run using ok1 g1 tr1
    by (auto simp: mark_effect sessOk_conditions_kept guarding_failed Let_def split: option.split)
qed

lemma setStatusBlock_state:
  assumes "sessOk s"
  shows "sessOk (setStatusBlockFromGRPCErr e s)" and "guarding L (setStatusBlockFromGRPCErr e s)"
    and "uv_trace (setStatusBlockFromGRPCErr e s) = uv_trace s"
proof -
  define s1 where "s1 = mark SComplete ConditionTrue ''Updated'' (mark SProgressing ConditionFalse ''Complete''
    (mapStatus (\<lambda>st. st\<lparr>ust_Message := ''An unknown error occurred''\<rparr>) s))"
  have ok1: "sessOk s1" unfolding s1_def by (simp add: mark_effect sessOk_conditions_kept assms)
  have g1: "guarding L s1" unfolding s1_def
    by (rule guarding_complete) (simp add: mark_effect sessOk_conditions_kept assms)
  have tr1: "uv_trace s1 = uv_trace s" by (simp add: s1_def)
  note run = setStatusBlockFromGRPCErr_def [of e s, unfolded Let_def, folded s1_def]
  show "sessOk (setStatusBlockFromGRPCErr e s)" and "guarding L (setStatusBlockFromGRPCErr e s)"
    and "uv_trace (setStatusBlockFromGRPCErr e s) = uv_trace s"
    unfolding run using ok1 g1 tr1
    by (auto simp: mark_effect sessOk_conditions_kept guarding_failed split: rpcError.split list.split detail.split)
qed

lemma Result_state:
  assumes "sessOk s" and "guarding L s" and "Result E recv s = Some (r, t)"
  shows "sessOk t" and "guarding L t" and "uv_trace t = uv_trace s"
proof -
  from assms(3) obtain z where z: "recvLoop recv 0 = Some z" by (auto simp: Result_def)
  show "sessOk t" and "guarding L t" and "uv_trace t = uv_trace s"
    using assms z onResult_state [OF assms(1)] setStatusBlock_state [OF assms(1)]
    by (cases z; auto simp: Result_def Let_def)+
qed

lemma safe_operationDone:
  assumes "sessOk s" and "guarding L s"
  shows "safeFrom g True s (operationDone E fmt s)"
  unfolding operationDone_def
  by (rule safe_emit, rule safe_leaveUpdating) (use assms in simp_all)

lemma safe_afterUp:
  assumes ok: "sessOk s" and "guarding L s"
  shows "safeFrom g True s (afterUp E res s)"
proof (cases res)
  case (AnyResult r)
  then show ?thesis using safe_operationDone [OF assms] by (simp add: afterUp_def)
next
  case (UpResult r outs)
  show ?thesis
  proof (cases outs)
    case None
    with UpResult show ?thesis using safe_operationDone [OF assms] by (simp add: afterUp_def)
  next
    case (Some outputs)
    let ?sec = "outputsToSecret L (uv_obj s) outputs"
    let ?t = "mapStatus (\<lambda>st. st\<lparr>ust_Outputs := om_Name (sec_Meta ?sec)\<rparr>) (uact (UCreateSecret ?sec True) s)"
    have done1: "safeFrom g True ?t (operationDone E fmt ?t)" for fmt
      by (rule safe_operationDone) (use assms in \<open>simp_all add: sessOk_conditions_kept\<close>)
    show ?thesis
    proof (cases "ue_CreateSecret E (uv_trace s) ?sec")
      case None
      have "safeFrom g True s (operationDone E ''Updated stack %q'' ?t)"
        by (rule safe_step [OF done1]) (simp, simp)
      with None UpResult Some show ?thesis by (simp add: afterUp_def Let_def)
    next
      case (Some e)
      have "safeFrom g True s (uleave 0 x (uact (UCreateSecret ?sec False) s))" for x
        by (rule safe_leave_step) (simp, simp)
      with Some UpResult \<open>outs = _\<close> show ?thesis by (simp add: afterUp_def Let_def)
    qed
  qed
qed

lemma marking_ok:
  assumes "sessOk s"
  shows "sessOk (markWaiting r s)" "sessOk (markFailed r s)" "sessOk (markRunning s)"
    and "guarding L (markFailed r s)" and "guarding L (markRunning s)"
    and "c_Status (deref L SProgressing (markRunning s)) = ConditionTrue"
  using assms by (simp_all add: markWaiting_def markFailed_def markRunning_def mark_effect guarding_def)

lemma safe_requestFailed:
  assumes ok: "sessOk s"
  shows "safeFrom g False s (requestFailed E op err s)"
proof (cases "workspaceUnreachable err")
  case False
  then show ?thesis by (simp add: requestFailed_def safe_leave_step)
next
  case True
  let ?s = "markWaiting ''TransientFailure'' (emitOn ConnectionFailureEvent ''%s'' [rpcErrorText err] s)"
  obtain r t where run: "updateStatus E ?s = (r, t)" by (cases "updateStatus E ?s")
  have ok': "sessOk ?s" by (rule marking_ok) (simp add: ok)
  have "safeFrom g False ?s (uleave 0 x t)" for x
    by (rule safe_updateStatus [OF ok' run]) simp_all
  then have "safeFrom g False (emitOn ConnectionFailureEvent ''%s'' [rpcErrorText err] s) (uleave 0 x t)" for x
    by (simp add: safe_trace [of ?s "emitOn ConnectionFailureEvent ''%s'' [rpcErrorText err] s"])
  then have "safeFrom g False s (uleave 0 x t)" for x by (rule safe_emit)
  with True show ?thesis
    by (cases r) (simp_all add: requestFailed_def retryUnreachable_def run)
qed

lemma runOperation_begun:
  assumes start: "ue_Start E (uv_trace s) req = Inr recv" and ok: "sessOk s" and gd: "guarding L s"
    and succ: "\<And>r t. sessOk t \<Longrightarrow> guarding L t \<Longrightarrow> safeFrom True True t (after r t)"
  shows "safeFrom True True (uact (UCall req True) s) (runOperation E op fmt req after s)"
proof -
  let ?s = "uact (UCall req True) s"
  have oks: "sessOk ?s" "guarding L ?s" using ok gd by simp_all
  show ?thesis
  proof (cases "Result E recv ?s")
    case None
    with start show ?thesis by (simp add: runOperation_def safeFrom_def)
  next
    case (Some rt)
    obtain r t where rt: "rt = (r, t)" by (cases rt)
    note st = Result_state [OF oks Some [unfolded rt]]
    show ?thesis
    proof (cases r)
      case (Inr res)
      have "safeFrom True True ?s (after res t)"
        using succ [OF st(1,2), of res] safe_trace [OF st(3)] by simp
      with Inr Some rt start show ?thesis by (simp add: runOperation_def)
    next
      case (Inl err)
      let ?e = "emitOn UpdateFailedEvent fmt [stackName t] t"
      obtain u w where run: "updateStatus E ?e = (u, w)" by (cases "updateStatus E ?e")
      have "safeFrom True True ?e (uleave 0 x w)" for x
        by (rule safe_updateStatus [OF _ run]) (use st in simp_all)
      then have "safeFrom True True t (uleave 0 x w)" for x by (rule safe_emit)
      then have "safeFrom True True ?s (uleave 0 x w)" for x using safe_trace [OF st(3)] by blast
      with Inl Some rt run start show ?thesis by (cases u) (simp_all add: runOperation_def)
    qed
  qed
qed

lemma safe_runOperation:
  assumes ok: "sessOk s" and gd: "guarding L s"
    and succ: "\<And>r t. sessOk t \<Longrightarrow> guarding L t \<Longrightarrow> safeFrom True True t (after r t)"
  shows "safeFrom True False s (runOperation E op fmt req after s)"
proof (cases "ue_Start E (uv_trace s) req")
  case (Inl err)
  have "safeFrom True False (uact (UCall req False) s) (requestFailed E op err (uact (UCall req False) s))"
    by (rule safe_requestFailed) (simp add: ok)
  then have "safeFrom True False s (requestFailed E op err (uact (UCall req False) s))"
    by (rule safe_step) (simp, simp)
  with Inl show ?thesis by (simp add: runOperation_def)
next
  case (Inr recv)
  show ?thesis by (rule safe_step [OF runOperation_begun [OF Inr ok gd succ]]) (simp, simp, simp, simp)
qed

lemma safe_dispatch:
  assumes "sessOk s" and "guarding L s"
  shows "safeFrom True False s (dispatch E s)"
  unfolding dispatch_def Preview_def Up_def Refresh_def Destroy_def Let_def
  using assms
  by (auto intro!: safe_runOperation safe_operationDone safe_afterUp split: UpdateType.split)

lemma safe_connectPhase:
  assumes ok: "sessOk s" and gd: "guarding L s"
  shows "safeFrom True False s (connectPhase E w s)"
proof -
  have "safeFrom True False s (leaveUpdating E after (markWaiting r (emitOn e f as s)))" for after r e f as
  proof (rule safe_emit)
    have "safeFrom True False (markWaiting r (emitOn e f as s)) (leaveUpdating E after (markWaiting r (emitOn e f as s)))"
      by (rule safe_leaveUpdating) (simp_all add: marking_ok ok)
    then show "safeFrom True False (emitOn e f as s) (leaveUpdating E after (markWaiting r (emitOn e f as s)))"
      by (subst safe_trace) simp_all
  qed
  moreover have "safeFrom True False s (uleave 0 x (uact (USelectStack n False) s))" for x n
    by (rule safe_leave_step) (simp, simp)
  moreover have "safeFrom True False s (dispatch E (uact (USelectStack n True) s))" for n
    by (rule safe_step [OF safe_dispatch]) (use ok gd in \<open>simp, simp, simp, simp\<close>)
  ultimately show ?thesis by (simp add: connectPhase_def split: option.split)
qed

lemma safe_startPhase:
  assumes ok: "sessOk s"
  shows "safeFrom g False s (startPhase E s)"
proof -
  let ?s = "markRunning s"
  obtain r t where run: "updateStatus E ?s = (r, t)" by (cases "updateStatus E ?s")
  have okr: "sessOk ?s" and gr: "guarding L ?s" using marking_ok [OF ok] by simp_all
  note e = updateStatus_effect [OF okr run]
  have gt: "guarding L t" using guarding_core [OF e(2)] gr by simp
  have wait: "safeFrom True False t (leaveUpdating E 0 (markWaiting m t))" for m
    using safe_leaveUpdating [of "markWaiting m t" False True 0] marking_ok(1) [OF e(1)]
    by (simp add: safe_trace [of t "markWaiting m t"])
  have "safeFrom (r = None \<and> guarding L ?s) False t (case r of
      Some x \<Rightarrow> uleave 0 (Some (Wrapf ''failed to update the status'' x)) t
    | None \<Rightarrow> (case ue_GetWorkspace E (uv_trace t) (om_Namespace (u_Meta (uv_obj t)))
                  (us_WorkspaceName (u_Spec (uv_obj t))) of
             Inl e \<Rightarrow>
               (if IsNotFound e then leaveUpdating E 0 (markWaiting ''WorkspaceNotFound'' t)
                else uleave 0 (Some (Wrapf ''failed to get workspace'' e)) t)
           | Inr w \<Rightarrow>
               (if \<not> autoWorkspaceReady (ue_L E) (Some w)
                then leaveUpdating E 0 (markWaiting ''WorkspaceNotReady'' t)
                else connectPhase E w t)))"
    using wait safe_connectPhase [OF e(1) gt] gr by (simp split: option.split sum.split)
  then have "safeFrom g False ?s (startPhase E s)"
    by (intro safe_updateStatus [OF okr run]) (simp_all add: startPhase_def run split: option.split)
  then show ?thesis by (simp add: safe_trace [of s ?s])
qed

end

section \<open>The handler\<close>

definition initialState :: "lib \<Rightarrow> Update \<Rightarrow> UState" where
  "initialState L obj = \<lparr>uv_obj = obj, uv_sess = newReconcileSession L obj, uv_trace = []\<rparr>"

context condition_slice
begin

lemma ptr_initial: "ptrOf k (uv_sess (initialState L obj)) = newPtr L obj k"
  by (cases k) (simp_all add: initialState_def newReconcileSession_def)

lemma sessOk_initial: "sessOk (initialState L obj)"
  unfolding sessOk_def ptr_initial
  by (auto simp: newPtr_def find_first freshCondition_def initialState_def split: option.split)

lemma deref_initial:
  "deref L k (initialState L obj)
    = (case refFind (ust_Conditions (u_Status obj)) (slotType k) of Some c \<Rightarrow> c | None \<Rightarrow> freshCondition k)"
  unfolding deref_def ptr_initial
  by (simp add: newPtr_def find_first initialState_def split: option.split)

lemma status_initial:
  "c_Status (deref L k (initialState L obj)) = ConditionTrue
    \<longleftrightarrow> statusOfSlot (ust_Conditions (u_Status obj)) k = Some ConditionTrue"
  unfolding deref_initial by (simp add: statusOfSlot_def freshCondition_def split: option.split)

lemma guarding_initial: "guarding L (initialState L obj) = guardedConds (ust_Conditions (u_Status obj))"
  by (simp add: guarding_def guardedConds_def status_initial)

end

lemma UpdateReconcile_unfold:
  "UpdateReconcile E (Inr obj) = (let s = initialState (ue_L E) obj in
     if c_Status (deref (ue_L E) SComplete s) = ConditionTrue then completedPhase E s
     else if c_Status (deref (ue_L E) SProgressing s) = ConditionTrue
     then leaveUpdating E 0 (markFailed ''Aborted'' s)
     else if om_DeletionTimestamp (u_Meta obj) \<noteq> None then leaveUpdating E 0 (markFailed ''Canceled'' s)
     else if isOrphaned (ue_L E) obj then leaveUpdating E 0 (markFailed ''Canceled'' s)
     else startPhase E s)"
  by (simp add: UpdateReconcile_def initialState_def Let_def)

lemma completedPhase_trace:
  "\<exists>tr. uo_Trace (completedPhase E s) = uv_trace s @ tr \<and> (\<forall>p a. UPatchStatus p a \<notin> set tr) \<and> (\<forall>r a. UCall r a \<notin> set tr)"
  by (auto simp: completedPhase_def uleave_def Let_def split: option.split)

lemma checked_quiet:
  "(\<forall>p a. UPatchStatus p a \<notin> set tr) \<Longrightarrow> (\<forall>r a. UCall r a \<notin> set tr) \<Longrightarrow> checked g d tr"
  by (induction g d tr rule: checked.induct) auto

lemma safe_completedPhase: "safeFrom g d s (completedPhase E s)"
  using completedPhase_trace [of E s] checked_quiet by (fastforce simp: safeFrom_def)

context update_server
begin

lemma safe_abort:
  assumes "sessOk s"
  shows "safeFrom g d s (leaveUpdating E 0 (markFailed r s))"
proof -
  have "safeFrom g d (markFailed r s) (leaveUpdating E 0 (markFailed r s))"
    by (rule safe_leaveUpdating) (use assms marking_ok in simp_all)
  then show ?thesis by (simp add: safe_trace [of s "markFailed r s"])
qed

lemma checked_Reconcile: "checked False False (uo_Trace (UpdateReconcile E got))"
proof (cases got)
  case (Inl e)
  then show ?thesis by (simp add: UpdateReconcile_def)
next
  case (Inr obj)
  have "safeFrom False False (initialState L obj) (UpdateReconcile E (Inr obj))"
    by (simp add: UpdateReconcile_unfold Let_def safe_completedPhase safe_abort safe_startPhase sessOk_initial)
  then show ?thesis by (simp add: Inr safeFrom_def initialState_def)
qed

lemma checked_guarded:
  assumes "guardedConds (ust_Conditions (u_Status obj))"
  shows "checked g True (uo_Trace (UpdateReconcile E (Inr obj)))"
proof -
  have "c_Status (deref L SComplete (initialState L obj)) = ConditionTrue
      \<or> c_Status (deref L SProgressing (initialState L obj)) = ConditionTrue"
    using assms by (simp add: guarding_initial [symmetric] guarding_def)
  then have "safeFrom g True (initialState L obj) (UpdateReconcile E (Inr obj))"
    by (auto simp: UpdateReconcile_unfold Let_def safe_completedPhase safe_abort sessOk_initial)
  then show ?thesis by (simp add: safeFrom_def initialState_def)
qed

end

section \<open>Updates over many reconciles\<close>

text \<open>
  What the store holds after a trace: an acknowledged status write replaces the status; one that
  was not acknowledged may or may not have arrived.
\<close>

inductive persist :: "Update \<Rightarrow> utrace \<Rightarrow> Update \<Rightarrow> bool" where
  persist_nil: "persist u [] u"
| persist_patch: "persist (u\<lparr>u_Status := appliedStatus p\<rparr>) tr v \<Longrightarrow> persist u (UPatchStatus p ack # tr) v"
| persist_lost: "persist u tr v \<Longrightarrow> persist u (UPatchStatus p False # tr) v"
| persist_other: "persist u tr v \<Longrightarrow> (\<forall>p ack. a \<noteq> UPatchStatus p ack) \<Longrightarrow> persist u (a # tr) v"

definition operationsBegun :: "utrace \<Rightarrow> nat" where
  "operationsBegun tr = length (filter (\<lambda>a. case a of UCall r ack \<Rightarrow> ack | _ \<Rightarrow> False) tr)"

text \<open>
  The life of an Update: it is created, with whatever status; anything but its status may be
  changed by others; it is reconciled with a current copy, in any environment, and the process may
  stop after any prefix of what the handler does. The number counts the operations begun.
\<close>

inductive updateLife :: "Update \<Rightarrow> nat \<Rightarrow> bool" where
  life_created: "updateLife u 0"
| life_changed: "updateLife u n \<Longrightarrow> u_Status v = u_Status u \<Longrightarrow> updateLife v n"
| life_reconciled: "\<lbrakk>updateLife u n; update_server E; uo_Trace (UpdateReconcile E (Inr u)) = tr @ rest; persist u tr v\<rbrakk>
     \<Longrightarrow> updateLife v (n + operationsBegun tr)"

lemma persist_checked:
  assumes "persist u tr v" and "checked g d (tr @ rest)"
    and "g \<or> d \<Longrightarrow> guardedConds (ust_Conditions (u_Status u))"
  shows "operationsBegun tr \<le> (if d then 0 else 1)
    \<and> (d \<or> 0 < operationsBegun tr \<longrightarrow> guardedConds (ust_Conditions (u_Status v)))"
  using assms
proof (induction arbitrary: g d rule: persist.induct)
  case (persist_nil u)
  then show ?case by (simp add: operationsBegun_def)
next
  case (persist_patch p u tr v ack)
  show ?case using persist_patch.prems persist_patch.IH [of g d] persist_patch.IH [of "ack \<and> guardedPatch p" d]
    by (cases d) (auto simp: operationsBegun_def)
next
  case (persist_lost u tr v p)
  show ?case using persist_lost.prems persist_lost.IH [of g d] persist_lost.IH [of False d]
    by (cases d) (auto simp: operationsBegun_def)
next
  case (persist_other u tr v a)
  show ?case
  proof (cases a)
    case (UCall r ack)
    then show ?thesis using persist_other.prems persist_other.IH [of g ack]
      by (cases ack) (auto simp: operationsBegun_def)
  next
    case (UPatchStatus p ack)
    then show ?thesis using persist_other.hyps by blast
  qed (use persist_other.prems persist_other.IH [of g d] in \<open>simp_all add: operationsBegun_def\<close>)
qed

lemma updateLife_invariant:
  "updateLife u n \<Longrightarrow> n \<le> 1 \<and> (0 < n \<longrightarrow> guardedConds (ust_Conditions (u_Status u)))"
proof (induction rule: updateLife.induct)
  case (life_reconciled u n E tr rest v)
  show ?case
  proof (cases "n = 0")
    case True
    have "checked False False (tr @ rest)"
      using update_server.checked_Reconcile [OF life_reconciled.hyps(2), of "Inr u"] life_reconciled.hyps(3) by simp
    then show ?thesis using persist_checked [OF life_reconciled.hyps(4), of False False rest] True by simp
  next
    case False
    with life_reconciled.IH have g: "guardedConds (ust_Conditions (u_Status u))" and n: "n = 1" by auto
    have "checked False True (tr @ rest)"
      using update_server.checked_guarded [OF life_reconciled.hyps(2) g] life_reconciled.hyps(3) by simp
    then show ?thesis using persist_checked [OF life_reconciled.hyps(4), of False True rest] g n by simp
  qed
qed simp_all

lemma persist_total: "\<exists>v. persist u tr v"
proof (induction tr arbitrary: u)
  case Nil
  show ?case by (blast intro: persist_nil)
next
  case (Cons a tr)
  show ?case
  proof (cases "\<exists>p ack. a = UPatchStatus p ack")
    case True
    then obtain p ack where a: "a = UPatchStatus p ack" by blast
    from Cons obtain v where "persist (u\<lparr>u_Status := appliedStatus p\<rparr>) tr v" by blast
    then show ?thesis unfolding a by (blast intro: persist_patch)
  next
    case False
    from Cons obtain v where "persist u tr v" by blast
    with False show ?thesis by (blast intro: persist_other)
  qed
qed

section \<open>An example update\<close>

definition exampleWorkspace :: Workspace where
  "exampleWorkspace = \<lparr>w_APIVersion = ''auto.pulumi.com/v1alpha1'', w_Kind = ''Workspace'',
     w_Meta = emptyMeta\<lparr>om_Name := ''ws'', om_Namespace := ''default''\<rparr>, w_Spec = emptyWorkspaceSpec,
     w_Status = emptyWorkspaceStatus\<lparr>wst_Conditions := [mkCondition WorkspaceReady ConditionTrue ''Ready'' []]\<rparr>\<rparr>"

definition exampleRun :: Update where
  "exampleRun = \<lparr>u_APIVersion = ''auto.pulumi.com/v1alpha1'', u_Kind = ''Update'',
     u_Meta = emptyMeta\<lparr>om_Name := ''up'', om_Namespace := ''default'',
       om_OwnerReferences := [\<lparr>or_APIVersion = [], or_Kind = ''Stack'', or_Name = ''app'', or_UID = ''u1'',
         or_Controller = Some True, or_BlockOwnerDeletion = None\<rparr>]\<rparr>,
     u_Spec = emptyUpdateSpec\<lparr>us_WorkspaceName := ''ws'', us_StackName := ''dev'', us_Type := UpType,
       us_TtlAfterCompleted := Some 60\<rparr>,
     u_Status = emptyUpdateStatus\<rparr>"

definition exampleResult :: result where
  "exampleResult = \<lparr>res_Summary = Some \<lparr>sm_Result = ''succeeded'', sm_Message = [], sm_StartTime = 900, sm_EndTime = 1000\<rparr>,
     res_Permalink = [], res_ProjectInfo = None\<rparr>"

definition exampleUEnv :: "(nat \<Rightarrow> received) \<Rightarrow> uenv" where
  "exampleUEnv recv = \<lparr>ue_L = docLib, ue_StatusSucceeded = ''succeeded'',
     ue_Patch = (\<lambda>tr u p. Inr (u\<lparr>u_Status := appliedStatus p\<rparr>)), ue_Delete = (\<lambda>tr u. None),
     ue_GetWorkspace = (\<lambda>tr ns n. Inr exampleWorkspace), ue_Connect = (\<lambda>tr w. None),
     ue_SelectStack = (\<lambda>tr n. None), ue_Start = (\<lambda>tr r. Inr recv), ue_CreateSecret = (\<lambda>tr s. None),
     ue_Now = (\<lambda>tr i. 1000)\<rparr>"

interpretation exampleServer: update_server "exampleUEnv recv"
  for recv
  by (simp add: exampleUEnv_def update_server_def update_server_axioms_def docSlice.condition_slice_axioms)

definition exampleRecv :: "nat \<Rightarrow> received" where
  "exampleRecv i = (if i = 0 then RecvMsg (UpStream None)
     else if i = 1 then RecvMsg (UpStream (Some (exampleResult,
            Some [(''a/b'', \<lparr>ov_Value = ''1'', ov_Secret = True\<rparr>), (''c'', \<lparr>ov_Value = ''2'', ov_Secret = False\<rparr>)])))
     else RecvEOF)"

text \<open>The request an update stands for.\<close>

definition requestFor :: "UpdateSpec \<Rightarrow> request option" where
  "requestFor sp = (case us_Type sp of
     PreviewType \<Rightarrow> Some (CallPreview \<lparr>pr_Parallel = us_Parallel sp, pr_Message = us_Message sp,
       pr_ExpectNoChanges = us_ExpectNoChanges sp, pr_Replace = us_Replace sp, pr_Target = us_Target sp,
       pr_TargetDependents = us_TargetDependents sp, pr_Refresh = us_Refresh sp\<rparr>)
   | UpType \<Rightarrow> Some (CallUp \<lparr>ur_Parallel = us_Parallel sp, ur_Message = us_Message sp,
       ur_ExpectNoChanges = us_ExpectNoChanges sp, ur_Replace = us_Replace sp, ur_Target = us_Target sp,
       ur_TargetDependents = us_TargetDependents sp, ur_Refresh = us_Refresh sp,
       ur_ContinueOnError = us_ContinueOnError sp\<rparr>)
   | RefreshType \<Rightarrow> Some (CallRefresh \<lparr>rr_Parallel = us_Parallel sp, rr_Message = us_Message sp,
       rr_ExpectNoChanges = us_ExpectNoChanges sp, rr_Target = us_Target sp, rr_RunProgram = us_RunProgram sp\<rparr>)
   | DestroyType \<Rightarrow> Some (CallDestroy \<lparr>dr_Parallel = us_Parallel sp, dr_Message = us_Message sp,
       dr_Target = us_Target sp, dr_TargetDependents = us_TargetDependents sp, dr_Refresh = us_Refresh sp,
       dr_ContinueOnError = us_ContinueOnError sp, dr_Remove = us_Remove sp, dr_RunProgram = us_RunProgram sp\<rparr>)
   | OtherUpdateType t \<Rightarrow> None)"

context update_server
begin

lemma dispatch_begun:
  assumes "requestFor (u_Spec (uv_obj s)) = Some req" and "ue_Start E (uv_trace s) req = Inr recv"
    and "sessOk s" and "guarding L s"
  shows "safeFrom True True (uact (UCall req True) s) (dispatch E s)"
  using assms
  by (auto simp: requestFor_def dispatch_def Preview_def Up_def Refresh_def Destroy_def Let_def
        intro!: runOperation_begun safe_operationDone safe_afterUp split: UpdateType.splits)

text \<open>An update that may run, with everything at hand: the first three things the handler does.\<close>

lemma startPhase_begins:
  assumes ok: "sessOk s" and run: "updateStatus E (markRunning s) = (None, t)"
    and w: "ue_GetWorkspace E (uv_trace t) (om_Namespace (u_Meta (uv_obj t))) (us_WorkspaceName (u_Spec (uv_obj t))) = Inr w"
    and "autoWorkspaceReady L (Some w)" and "ue_Connect E (uv_trace t) w = None"
    and "ue_SelectStack E (uv_trace t) (stackName t) = None"
    and req: "requestFor (u_Spec (uv_obj t)) = Some req"
    and start: "\<And>tr. \<exists>recv. ue_Start E tr req = Inr recv"
  shows "\<exists>rest. uo_Trace (startPhase E s) = uv_trace t @ USelectStack (stackName t) True # UCall req True # rest"
proof -
  note okr = marking_ok(3) [OF ok]
  note e = updateStatus_effect [OF okr run]
  have gt: "guarding L t" using guarding_core [OF e(2)] marking_ok(5) [OF ok] by simp
  let ?t = "uact (USelectStack (stackName t) True) t"
  obtain recv where recv: "ue_Start E (uv_trace ?t) req = Inr recv" using start by blast
  have "safeFrom True True (uact (UCall req True) ?t) (dispatch E ?t)"
    by (rule dispatch_begun [OF _ recv]) (use req e(1) gt in simp_all)
  moreover have "startPhase E s = dispatch E ?t"
    using assms by (simp add: startPhase_def connectPhase_def run)
  ultimately show ?thesis by (auto simp: safeFrom_def)
qed

end

context update_server
begin

lemma Reconcile_begins:
  assumes free: "\<not> guardedConds (ust_Conditions (u_Status obj))"
    and live: "om_DeletionTimestamp (u_Meta obj) = None" and owned: "\<not> isOrphaned L obj"
    and patch: "\<And>tr u p. \<exists>v. ue_Patch E tr u p = Inr v \<and> om_Namespace (u_Meta v) = om_Namespace (u_Meta u) \<and> u_Spec v = u_Spec u"
    and w: "\<And>tr. ue_GetWorkspace E tr (om_Namespace (u_Meta obj)) (us_WorkspaceName (u_Spec obj)) = Inr w"
    and ready: "autoWorkspaceReady L (Some w)" and conn: "\<And>tr. ue_Connect E tr w = None"
    and sel: "\<And>tr n. ue_SelectStack E tr n = None"
    and req: "requestFor (u_Spec obj) = Some req" and start: "\<And>tr. \<exists>recv. ue_Start E tr req = Inr recv"
  shows "\<exists>p rest. uo_Trace (UpdateReconcile E (Inr obj))
           = UPatchStatus p True # USelectStack (us_StackName (u_Spec obj)) True # UCall req True # rest
         \<and> statusOfSlot (ust_Conditions (appliedStatus p)) SProgressing = Some ConditionTrue"
proof -
  let ?s = "initialState L obj"
  note ok = sessOk_initial [of obj]
  obtain r t where run: "updateStatus E (markRunning ?s) = (r, t)" by (cases "updateStatus E (markRunning ?s)")
  note okr = marking_ok(3) [OF ok]
  note e = updateStatus_effect [OF okr run]
  have tr0: "uv_trace (markRunning ?s) = []" by (simp add: initialState_def)
  from e(3) obtain p where p: "uv_trace t = [UPatchStatus p (r = None)]"
    and c: "\<And>k. map_option core (refFind (ust_Conditions (appliedStatus p)) (slotType k))
              = Some (core (deref L k (markRunning ?s)))"
    unfolding tr0 by auto
  have sync: "sameHead (markRunning ?s) (syncAll L (markRunning ?s))" by (rule syncAll_effect [OF okr refl])
  have head: "r = None \<and> om_Namespace (u_Meta (uv_obj t)) = om_Namespace (u_Meta obj) \<and> u_Spec (uv_obj t) = u_Spec obj"
  proof -
    let ?a = "syncAll L (markRunning ?s)"
    obtain v where v: "ue_Patch E (uv_trace ?a) (uv_obj ?a) (updateStatusApply (uv_obj ?a)) = Inr v"
      "om_Namespace (u_Meta v) = om_Namespace (u_Meta (uv_obj ?a))" "u_Spec v = u_Spec (uv_obj ?a)" using patch by blast
    have m: "u_Meta (uv_obj (markRunning ?s)) = u_Meta obj" "u_Spec (uv_obj (markRunning ?s)) = u_Spec obj"
      by (simp_all add: markRunning_def initialState_def)
    have "t = uact (UPatchStatus (updateStatusApply (uv_obj ?a)) True) (?a\<lparr>uv_obj := v\<rparr>) \<and> r = None"
      using run v(1) by (auto simp: updateStatus_def Let_def)
    then show ?thesis using v sync m by (simp add: sameHead_def)
  qed
  have "\<exists>rest. uo_Trace (startPhase E ?s) = uv_trace t @ USelectStack (stackName t) True # UCall req True # rest"
    by (rule startPhase_begins [OF ok, of t w]) (use run head w ready conn sel req start in simp_all)
  moreover have "UpdateReconcile E (Inr obj) = startPhase E ?s"
    using free live owned guarding_initial [of obj] by (simp add: UpdateReconcile_unfold Let_def guarding_def)
  moreover have "statusOfSlot (ust_Conditions (appliedStatus p)) SProgressing = Some ConditionTrue"
    using c [of SProgressing] marking_ok(6) [OF ok] by (auto simp: statusOfSlot_def dest!: core_status)
  ultimately show ?thesis using p head by auto
qed

end

end
