(* ===== verification/UpdateActions.thy ===== *)
theory UpdateActions
  imports UpdateFacts
begin

text \<open>
  A general rule for what every action of the update controller's handler satisfies, and its two
  uses: the transition times of the conditions are never changed, and an update that is not complete is
  not deleted.
\<close>

section \<open>What every action satisfies\<close>

text \<open>
  A property of the handler's state that marks and writes keep, and that gives a property of each
  status written: it then holds of everything the handler does for an update not yet complete.
\<close>

definition patched :: "(UAction \<Rightarrow> bool) \<Rightarrow> UState \<Rightarrow> UOutcome \<Rightarrow> bool" where
  "patched Q s oc \<longleftrightarrow> (\<exists>tr. uo_Trace oc = uv_trace s @ tr \<and> list_all Q tr)"

text \<open>The actions that are neither a status write nor the deletion of the object.\<close>

fun plainAction :: "UAction \<Rightarrow> bool" where
  "plainAction (UPatchStatus p ack) = False"
| "plainAction (UDeleteObject ack) = False"
| "plainAction _ = True"

lemma patched_leave [simp]: "uv_trace t = uv_trace s \<Longrightarrow> patched Q s (uleave after e t)"
  by (simp add: patched_def uleave_def)

lemma patched_same: "uv_trace s = uv_trace t \<Longrightarrow> patched Q s oc = patched Q t oc"
  by (simp add: patched_def)

lemma patched_step:
  assumes "patched Q (uact a s) oc" and "Q a"
  shows "patched Q s oc"
  using assms by (auto simp: patched_def)

text \<open>
  The invariant holds from the first mark on; what the handler starts from may satisfy less. The marks
  come in groups, and in between the invariant need not hold.
\<close>

locale handler_invariant = update_server E for E :: uenv +
  fixes J :: "UState \<Rightarrow> bool" and I :: "UState \<Rightarrow> bool" and Q :: "UAction \<Rightarrow> bool"
  assumes I_running: "sessOk s \<Longrightarrow> J s \<Longrightarrow> I (markRunning s)"
    and I_failed: "sessOk s \<Longrightarrow> J s \<Longrightarrow> I (markFailed r s)"
    and I_waiting: "sessOk s \<Longrightarrow> I s \<Longrightarrow> I (markWaiting r s)"
    and I_onResult: "sessOk s \<Longrightarrow> I s \<Longrightarrow> I (onResult E now res s)"
    and I_setStatusBlock: "sessOk s \<Longrightarrow> I s \<Longrightarrow> I (setStatusBlockFromGRPCErr e s)"
    and I_status: "I s \<Longrightarrow> (\<And>st. ust_Conditions (f st) = ust_Conditions st) \<Longrightarrow> I (mapStatus f s)"
    and I_act: "I s \<Longrightarrow> I (uact a s)"
    and I_save: "sessOk s \<Longrightarrow> I s \<Longrightarrow> updateStatus E s = (err, t)
                  \<Longrightarrow> I t \<and> (\<exists>p. uv_trace t = uv_trace s @ [UPatchStatus p (err = None)] \<and> Q (UPatchStatus p (err = None)))"
    and Q_plain: "plainAction a \<Longrightarrow> Q a"
begin

lemma patched_emit: "patched Q (emitOn e f as s) oc \<Longrightarrow> patched Q s oc"
  unfolding emitOn_def by (erule patched_step) (simp add: Q_plain)

lemma I_emit: "I s \<Longrightarrow> I (emitOn e f as s)"
  by (simp add: emitOn_def I_act)

lemma patched_save:
  assumes "sessOk s" and "I s" and run: "updateStatus E s = (r, t)" and "patched Q t oc"
  shows "patched Q s oc"
  using I_save [OF assms(1-3)] assms(4) by (auto simp: patched_def)

lemma patched_leaveUpdating:
  assumes "sessOk s" and "I s"
  shows "patched Q s (leaveUpdating E after s)"
proof -
  obtain r t where run: "updateStatus E s = (r, t)" by (cases "updateStatus E s")
  show ?thesis unfolding leaveUpdating_def run prod.case
    by (rule patched_save [OF assms run]) simp
qed

lemma I_Result:
  assumes "sessOk s" and "I s" and "Result E recv s = Some (r, t)"
  shows "I t" and "sessOk t" and "uv_trace t = uv_trace s"
proof -
  from assms(3) obtain z where z: "recvLoop recv 0 = Some z" by (auto simp: Result_def)
  show "I t" and "sessOk t" and "uv_trace t = uv_trace s"
    using assms z I_onResult [OF assms(1,2)] I_setStatusBlock [OF assms(1,2)]
      onResult_state [OF assms(1)] setStatusBlock_state [OF assms(1)]
    by (cases z; auto simp: Result_def Let_def)+
qed

lemma patched_operationDone:
  assumes "sessOk s" and "I s"
  shows "patched Q s (operationDone E fmt s)"
  unfolding operationDone_def
  by (rule patched_emit, rule patched_leaveUpdating) (use assms I_emit in simp_all)

lemma patched_afterUp:
  assumes "sessOk s" and "I s"
  shows "patched Q s (afterUp E res s)"
proof (cases "\<exists>r outputs. res = UpResult r (Some outputs)")
  case False
  then show ?thesis using patched_operationDone [OF assms]
    by (auto simp: afterUp_def split: opResult.split option.split)
next
  case True
  then obtain r outputs where res: "res = UpResult r (Some outputs)" by blast
  let ?sec = "outputsToSecret L (uv_obj s) outputs"
  let ?f = "\<lambda>st. st\<lparr>ust_Outputs := om_Name (sec_Meta ?sec)\<rparr>"
  have "patched Q (mapStatus ?f (uact (UCreateSecret ?sec True) s))
          (operationDone E fmt (mapStatus ?f (uact (UCreateSecret ?sec True) s)))" for fmt
    by (rule patched_operationDone) (simp_all add: sessOk_conditions_kept assms I_status I_act)
  then have "patched Q (uact (UCreateSecret ?sec True) s)
          (operationDone E fmt (mapStatus ?f (uact (UCreateSecret ?sec True) s)))" for fmt
    by (subst patched_same [of _ "mapStatus ?f (uact (UCreateSecret ?sec True) s)"]) simp_all
  then have "patched Q s (operationDone E fmt (mapStatus ?f (uact (UCreateSecret ?sec True) s)))" for fmt
    by (rule patched_step) (simp add: Q_plain)
  moreover have "patched Q s (uleave 0 x (uact (UCreateSecret ?sec False) s))" for x
    by (rule patched_step [where a = "UCreateSecret ?sec False"]) (simp_all add: Q_plain)
  ultimately show ?thesis by (simp add: res afterUp_def Let_def split: option.split)
qed

lemma patched_requestFailed:
  assumes "sessOk s" and "I s"
  shows "patched Q s (requestFailed E op err s)"
proof -
  let ?e = "emitOn ConnectionFailureEvent ''%s'' [rpcErrorText err] s"
  let ?s = "markWaiting ''TransientFailure'' ?e"
  obtain r t where run: "updateStatus E ?s = (r, t)" by (cases "updateStatus E ?s")
  have "patched Q ?s (uleave 0 x t)" for x
    by (rule patched_save [OF _ _ run]) (simp_all add: marking_ok I_waiting I_emit assms)
  then have "patched Q ?e (uleave 0 x t)" for x using patched_same [of ?s ?e] by simp
  then have "patched Q s (uleave 0 x t)" for x by (rule patched_emit)
  moreover have "patched Q s (uleave 0 x (emitOn e f as s))" for x e f as
    by (rule patched_emit [of e f as]) simp
  ultimately show ?thesis
    by (simp add: requestFailed_def retryUnreachable_def run split: option.split)
qed

lemma patched_runOperation:
  assumes ok: "sessOk s" and inv: "I s"
    and succ: "\<And>r t. sessOk t \<Longrightarrow> I t \<Longrightarrow> patched Q t (after r t)"
  shows "patched Q s (runOperation E op fmt req after s)"
proof (cases "ue_Start E (uv_trace s) req")
  case (Inl err)
  have "patched Q s (requestFailed E op err (uact (UCall req False) s))"
    by (rule patched_step [OF patched_requestFailed]) (simp_all add: ok inv I_act Q_plain)
  with Inl show ?thesis by (simp add: runOperation_def)
next
  case (Inr recv)
  let ?s = "uact (UCall req True) s"
  have lift: "patched Q ?s oc \<Longrightarrow> patched Q s oc" for oc by (erule patched_step) (simp add: Q_plain)
  show ?thesis
  proof (cases "Result E recv ?s")
    case None
    with Inr show ?thesis by (simp add: runOperation_def patched_def Q_plain)
  next
    case (Some rt)
    obtain r t where rt: "rt = (r, t)" by (cases rt)
    have "sessOk ?s" "I ?s" using ok inv by (simp_all add: I_act)
    note st = I_Result [OF this Some [unfolded rt]]
    let ?e = "emitOn UpdateFailedEvent fmt [stackName t] t"
    obtain u w where run: "updateStatus E ?e = (u, w)" by (cases "updateStatus E ?e")
    have "patched Q ?e (uleave 0 x w)" for x
      by (rule patched_save [OF _ _ run]) (simp_all add: st I_emit)
    then have "patched Q t (uleave 0 x w)" for x by (rule patched_emit)
    then have "patched Q s (uleave 0 x w)" for x using lift patched_same [OF st(3)] by blast
    moreover have "patched Q s (after res t)" for res using lift patched_same [OF st(3)] succ st by blast
    ultimately show ?thesis using Inr Some rt run
      by (simp add: runOperation_def split: sum.split option.split)
  qed
qed

lemma patched_dispatch: "sessOk s \<Longrightarrow> I s \<Longrightarrow> patched Q s (dispatch E s)"
  unfolding dispatch_def Preview_def Up_def Refresh_def Destroy_def Let_def
  by (auto intro!: patched_runOperation patched_operationDone patched_afterUp split: UpdateType.split)

lemma patched_waiting:
  assumes "sessOk s" and "I s"
  shows "patched Q s (leaveUpdating E after (markWaiting m s))"
  using patched_leaveUpdating [OF marking_ok(1) [OF assms(1)] I_waiting [OF assms]]
  by (simp add: patched_same [of s "markWaiting m s"])

lemma patched_startPhase:
  assumes ok: "sessOk s" and inv: "J s"
  shows "patched Q s (startPhase E s)"
proof -
  let ?s = "markRunning s"
  obtain r t where run: "updateStatus E ?s = (r, t)" by (cases "updateStatus E ?s")
  have okr: "sessOk ?s" and ir: "I ?s" using ok inv by (simp_all add: marking_ok I_running)
  have okt: "sessOk t" and it: "I t" using updateStatus_effect [OF okr run] I_save [OF okr ir run] by simp_all
  have "patched Q t (leaveUpdating E after (markWaiting m (emitOn e f as t)))" for after m e f as
    by (rule patched_emit, rule patched_waiting) (simp_all add: okt it I_emit)
  moreover have "patched Q t (uleave 0 x (uact (USelectStack n False) t))" for x n
    by (rule patched_step [where a = "USelectStack n False"]) (simp_all add: Q_plain)
  moreover have "patched Q t (dispatch E (uact (USelectStack n True) t))" for n
    by (rule patched_step [OF patched_dispatch]) (simp_all add: okt it I_act Q_plain)
  ultimately have "patched Q t (connectPhase E w t)" for w
    by (simp add: connectPhase_def split: option.split)
  then have "patched Q ?s (startPhase E s)"
    by (intro patched_save [OF okr ir run])
       (simp add: startPhase_def run patched_waiting okt it split: option.split sum.split)
  then show ?thesis by (simp add: patched_same [of s ?s])
qed

lemma every_action:
  assumes "J (initialState L obj)"
    and "statusOfSlot (ust_Conditions (u_Status obj)) SComplete \<noteq> Some ConditionTrue"
  shows "list_all Q (uo_Trace (UpdateReconcile E (Inr obj)))"
proof -
  let ?s = "initialState L obj"
  note ok = sessOk_initial [of obj]
  have "patched Q ?s (leaveUpdating E 0 (markFailed r ?s))" for r
    using patched_leaveUpdating [OF marking_ok(2) [OF ok] I_failed [OF ok assms(1)]]
    by (simp add: patched_same [of ?s "markFailed r ?s"])
  then have "patched Q ?s (UpdateReconcile E (Inr obj))"
    using patched_startPhase [OF ok assms(1)] assms(2) by (simp add: UpdateReconcile_unfold Let_def status_initial)
  then show ?thesis by (simp add: patched_def initialState_def)
qed

text \<open>A completed update's status is not written again.\<close>

lemma every_patch:
  assumes "J (initialState L obj)" and "UPatchStatus p ack \<in> set (uo_Trace (UpdateReconcile E (Inr obj)))"
  shows "Q (UPatchStatus p ack)"
proof (cases "statusOfSlot (ust_Conditions (u_Status obj)) SComplete = Some ConditionTrue")
  case False
  then show ?thesis using every_action [OF assms(1)] assms(2) by (simp add: list_all_iff)
next
  case True
  then have "UpdateReconcile E (Inr obj) = completedPhase E (initialState L obj)"
    by (simp add: UpdateReconcile_unfold Let_def status_initial)
  then show ?thesis using assms(2) completedPhase_trace [of E "initialState L obj"] by (auto simp: initialState_def)
qed

end

text \<open>A contract on each single mark gives the one on the groups.\<close>

locale session_invariant = update_server E for E :: uenv +
  fixes I :: "UState \<Rightarrow> bool" and Q :: "UAction \<Rightarrow> bool"
  assumes mark_kept: "sessOk s \<Longrightarrow> I s \<Longrightarrow> I (mark k st r s)"
    and markMsg_kept: "sessOk s \<Longrightarrow> I s \<Longrightarrow> I (markMsg k st r s)"
    and status_kept: "I s \<Longrightarrow> (\<And>st. ust_Conditions (f st) = ust_Conditions st) \<Longrightarrow> I (mapStatus f s)"
    and act_kept: "I s \<Longrightarrow> I (uact a s)"
    and save_kept: "sessOk s \<Longrightarrow> I s \<Longrightarrow> updateStatus E s = (err, t)
                  \<Longrightarrow> I t \<and> (\<exists>p. uv_trace t = uv_trace s @ [UPatchStatus p (err = None)] \<and> Q (UPatchStatus p (err = None)))"
    and plain_holds: "plainAction a \<Longrightarrow> Q a"
begin

lemma marks_kept:
  assumes "sessOk s" and "I s"
  shows "I (markWaiting r s)" "I (markFailed r s)" "I (markRunning s)"
  unfolding markWaiting_def markFailed_def markRunning_def
  using assms by (simp_all add: mark_kept mark_effect)

lemma onResult_kept: "sessOk s \<Longrightarrow> I s \<Longrightarrow> I (onResult E t res s)"
  unfolding onResult_def Let_def
  by (auto intro!: markMsg_kept mark_kept status_kept simp: mark_effect sessOk_conditions_kept split: option.split)

lemma setStatusBlock_kept: "sessOk s \<Longrightarrow> I s \<Longrightarrow> I (setStatusBlockFromGRPCErr e s)"
  unfolding setStatusBlockFromGRPCErr_def Let_def
  by (auto intro!: markMsg_kept mark_kept status_kept simp: mark_effect sessOk_conditions_kept
        split: rpcError.split list.split detail.split)

end

sublocale session_invariant < handler: handler_invariant E I I Q
  by unfold_locales
     (simp_all add: marks_kept onResult_kept setStatusBlock_kept status_kept act_kept save_kept plain_holds)

section \<open>Transition times\<close>

text \<open>All three conditions are the object's own, and each has a given transition time.\<close>

definition frozenAt :: "(slot \<Rightarrow> time) \<Rightarrow> UState \<Rightarrow> bool" where
  "frozenAt T s \<longleftrightarrow> (\<forall>k. ptrOf k (uv_sess s) = Shared
     \<and> map_option c_LastTransitionTime (refFind (condsOf s) (slotType k)) = Some (T k))"

fun frozenAction :: "(slot \<Rightarrow> time) \<Rightarrow> UAction \<Rightarrow> bool" where
  "frozenAction T (UPatchStatus p ack) = (\<forall>k. map_option c_LastTransitionTime
     (refFind (ust_Conditions (appliedStatus p)) (slotType k)) = Some (T k))"
| "frozenAction T _ = True"

lemma frozen_store:
  assumes "frozenAt T s" and "\<And>c. c_Type (f c) = c_Type c" and "\<And>c. c_LastTransitionTime (f c) = c_LastTransitionTime c"
  shows "frozenAt T (store k f s)"
  using assms
  by (force simp: frozenAt_def store_def refFind_inPlace option.map_comp o_def split: condPtr.split)

context condition_slice
begin

lemma frozen_sync:
  assumes ok: "sessOk s" and fr: "frozenAt T s"
  shows "frozenAt T (syncCondition L k s)"
proof -
  define s1 where "s1 = store k (\<lambda>c. c\<lparr>c_ObservedGeneration := om_Generation (u_Meta (uv_obj s))\<rparr>) s"
  have fr1: "frozenAt T s1" unfolding s1_def by (rule frozen_store [OF fr]) simp_all
  obtain d where d: "refFind (condsOf s1) (slotType k) = Some d" "c_LastTransitionTime d = T k"
    and sh: "ptrOf k (uv_sess s1) = Shared"
    using fr1 by (auto simp: frozenAt_def dest!: spec [of _ k])
  have c: "deref L k s1 = d" using d sh by (simp add: deref_def find_first)
  have ty: "c_Type d = slotType k" using refFind_type [OF d(1)] .
  have t: "syncCondition L k s = mapStatus (\<lambda>st. st\<lparr>ust_Conditions := SetStatusCondition L (ust_Conditions st) d\<rparr>) s1"
    unfolding syncCondition_def Let_def s1_def [symmetric] c using d ty by (simp add: find_first)
  have same: "refFind (SetStatusCondition L (condsOf s1) d) (slotType k) = Some (d\<lparr>c_LastTransitionTime := T k\<rparr>)"
    using keeps_time [of "condsOf s1" d d] d ty by simp
  have other: "j \<noteq> k \<Longrightarrow> refFind (SetStatusCondition L (condsOf s1) d) (slotType j) = refFind (condsOf s1) (slotType j)" for j
    using find_set_other [of "slotType j" d "condsOf s1"] ty by (simp add: find_first)
  show ?thesis
    unfolding frozenAt_def t
  proof
    fix j
    show "ptrOf j (uv_sess (mapStatus (\<lambda>st. st\<lparr>ust_Conditions := SetStatusCondition L (ust_Conditions st) d\<rparr>) s1)) = Shared
      \<and> map_option c_LastTransitionTime (refFind (condsOf (mapStatus (\<lambda>st. st\<lparr>ust_Conditions := SetStatusCondition L (ust_Conditions st) d\<rparr>) s1)) (slotType j)) = Some (T j)"
      using fr1 same other [of j] by (cases "j = k") (simp_all add: frozenAt_def)
  qed
qed

lemma frozen_syncAll:
  assumes ok: "sessOk s" and fr: "frozenAt T s"
  shows "frozenAt T (syncAll L s)"
proof -
  let ?s0 = "mapStatus (\<lambda>st. st\<lparr>ust_ObservedGeneration := om_Generation (u_Meta (uv_obj s))\<rparr>) s"
  have ok0: "sessOk ?s0" by (rule sessOk_mapStatus [OF ok]) simp
  have fr0: "frozenAt T ?s0" using fr by (simp add: frozenAt_def)
  note e1 = syncCondition_effect [OF ok0 refl, of SProgressing]
  note e2 = syncCondition_effect [OF e1(1) refl, of SFailed]
  show ?thesis unfolding syncAll_def
    by (intro frozen_sync e1(1) e2(1) fr0 ok0)
qed

end

sublocale update_server < frozen: session_invariant E "frozenAt T" "frozenAction T"
  for T
proof unfold_locales
  show "frozenAt T s \<Longrightarrow> frozenAt T (mark k st r s)" "frozenAt T s \<Longrightarrow> frozenAt T (markMsg k st r s)" for s k st r
    unfolding mark_def markMsg_def by (simp_all add: frozen_store)
  show "frozenAt T s \<Longrightarrow> (\<And>st. ust_Conditions (f st) = ust_Conditions st) \<Longrightarrow> frozenAt T (mapStatus f s)" for s f
    by (simp add: frozenAt_def)
  show "frozenAt T s \<Longrightarrow> frozenAt T (uact a s)" for s a by (simp add: frozenAt_def)
  show "plainAction a \<Longrightarrow> frozenAction T a" for a by (cases a) simp_all
  fix s err t
  assume ok: "sessOk s" and fr: "frozenAt T s" and run: "updateStatus E s = (err, t)"
  define a where "a = syncAll (ue_L E) s"
  define p where "p = updateStatusApply (uv_obj a)"
  have fa: "frozenAt T a" unfolding a_def by (rule frozen_syncAll [OF ok fr])
  have tr: "uv_trace a = uv_trace s" using syncAll_effect(3) [OF ok a_def] by (simp add: sameHead_def)
  have conds: "ust_Conditions (appliedStatus p) = condsOf a" by (simp add: p_def applied_updateStatusApply)
  have q: "frozenAction T (UPatchStatus p b)" for b using fa by (simp add: conds frozenAt_def)
  show "frozenAt T t \<and> (\<exists>p. uv_trace t = uv_trace s @ [UPatchStatus p (err = None)] \<and> frozenAction T (UPatchStatus p (err = None)))"
  proof (cases "ue_Patch E (uv_trace a) (uv_obj a) p")
    case (Inl e)
    with run have "err = Some (Wrapf ''updating status'' e)" "t = uact (UPatchStatus p False) a"
      by (auto simp: updateStatus_def Let_def a_def p_def)
    then show ?thesis using fa tr q by (auto simp: frozenAt_def)
  next
    case (Inr v)
    with run have "err = None" and t: "t = uact (UPatchStatus p True) (a\<lparr>uv_obj := v\<rparr>)"
      by (auto simp: updateStatus_def Let_def a_def p_def)
    moreover have "ust_Conditions (u_Status v) = condsOf a" using patch_conditions [OF Inr] conds by simp
    ultimately show ?thesis using fa tr q by (auto simp: frozenAt_def)
  qed
qed

text \<open>Only a completed update is deleted.\<close>

fun keepsObject :: "UAction \<Rightarrow> bool" where
  "keepsObject (UDeleteObject ack) = False"
| "keepsObject _ = True"

sublocale update_server < keeping: session_invariant E "\<lambda>_. True" keepsObject
proof unfold_locales
  show "plainAction a \<Longrightarrow> keepsObject a" for a by (cases a) simp_all
  show "True \<and> (\<exists>p. uv_trace t = uv_trace s @ [UPatchStatus p (err = None)] \<and> keepsObject (UPatchStatus p (err = None)))"
    if "sessOk s" and "updateStatus E s = (err, t)" for s err t
    using updateStatus_effect(3) [OF that] by auto
qed simp_all

context update_server
begin

lemma frozen_initial:
  assumes "\<And>k. refFind (ust_Conditions (u_Status obj)) (slotType k) = Some (C k)"
  shows "frozenAt (\<lambda>k. c_LastTransitionTime (C k)) (initialState L obj)"
  unfolding frozenAt_def ptr_initial
  by (simp add: newPtr_def find_first assms initialState_def)

lemma transition_times_kept:
  assumes "\<And>k. refFind (ust_Conditions (u_Status obj)) (slotType k) = Some (C k)"
    and "UPatchStatus p ack \<in> set (uo_Trace (UpdateReconcile E (Inr obj)))"
  shows "map_option c_LastTransitionTime (refFind (ust_Conditions (appliedStatus p)) (slotType k))
    = Some (c_LastTransitionTime (C k))"
  using frozen.handler.every_patch [OF frozen_initial [OF assms(1)] assms(2)] by simp

lemma not_complete_kept:
  assumes "statusOfSlot (ust_Conditions (u_Status obj)) SComplete \<noteq> Some ConditionTrue"
  shows "UDeleteObject ack \<notin> set (uo_Trace (UpdateReconcile E (Inr obj)))"
  using keeping.handler.every_action [OF TrueI assms] by (auto simp: list_all_iff)

end

end
