(* ===== verification/StackSystem.thy ===== *)
theory StackSystem
  imports ReconcileFacts UpdateActions
begin

text \<open>
  The stack controller and the update controller together: one Stack, the Update objects made for
  it, and reconciles of both kinds that interleave action by action and may be cut short anywhere.
  At most one update is outstanding, a creation that is interrupted leaves the stack waiting, and a
  read of an old status makes a second update.
\<close>

section \<open>The API server as the stack controller sees it\<close>

text \<open>
  Whether a status patch is accepted is a matter of the object's name and the patch, not of the copy
  at hand; an update of the object itself does not touch the status subresource; a created
  object has the name it was sent with.
\<close>

locale stack_server = condition_slice "en_L E" for E :: "('u, 'm) env" +
  assumes same_answer: "PatchStatus (en_A E) tr st p = Inr v \<Longrightarrow> \<exists>v'. PatchStatus (en_A E) tr st' p = Inr v'"
    and update_keeps: "UpdateStack (en_A E) tr st = Inr v \<Longrightarrow> st_CurrentUpdate (s_Status v) = st_CurrentUpdate (s_Status st)"
    and created_name: "CreateUpdate (en_A E) tr u = Inr made \<Longrightarrow> om_Name (u_Meta made) = om_Name (u_Meta u)"

interpretation exampleStackServer: stack_server "exampleEnv st"
  by (rule stack_server.intro) (auto simp: docSlice.condition_slice_axioms stack_server_axioms_def exampleCluster_def)

definition acked :: "('u, 'm) env \<Rightarrow> trace \<Rightarrow> StackStatusApply \<Rightarrow> bool" where
  "acked E past p \<longleftrightarrow> (\<forall>st. \<exists>v. PatchStatus (en_A E) past st p = Inr v)"

definition finished :: "Update \<Rightarrow> bool" where
  "finished u \<longleftrightarrow> statusOfSlot (ust_Conditions (u_Status u)) SComplete = Some ConditionTrue"

section \<open>Where a reconcile stands\<close>

text \<open>
  What is known of the stored status while the handler runs: it keeps the current update it found;
  no update is outstanding; so, and the named update has been announced; that update was made.
\<close>

datatype turn = Held "CurrentStackUpdate option" | Free | Named string | Made string

fun moveOn :: "('u, 'm) env \<Rightarrow> trace \<Rightarrow> turn \<Rightarrow> Action \<Rightarrow> turn option" where
  "moveOn E past t (ASaveStatus p) =
     (case t of
        Held c \<Rightarrow> if sa_CurrentUpdate p = c then Some t else None
      | Made n \<Rightarrow> None
      | _ \<Rightarrow> Some (case sa_CurrentUpdate p of
                     Some cu \<Rightarrow> if acked E past p then Named (cu_Name cu) else Free
                   | None \<Rightarrow> Free))"
| "moveOn E past t (ACreateUpdate u) =
     (case t of
        Named n \<Rightarrow>
          if n = om_Name (u_Meta u)
          then Some (case CreateUpdate (en_A E) past u of Inl e \<Rightarrow> Free | Inr v \<Rightarrow> Made n)
          else None
      | _ \<Rightarrow> None)"
| "moveOn E past t (ADeleteUpdate n) =
     (case t of Made m \<Rightarrow> if n = m then Some Free else None | _ \<Rightarrow> Some t)"
| "moveOn E past t a = Some t"

fun track :: "('u, 'm) env \<Rightarrow> trace \<Rightarrow> turn \<Rightarrow> trace \<Rightarrow> bool" where
  "track E past t [] \<longleftrightarrow> True"
| "track E past t (a # rest) \<longleftrightarrow>
     (case moveOn E past t a of None \<Rightarrow> False | Some t' \<Rightarrow> track E (past @ [a]) t' rest)"

fun loose :: "turn \<Rightarrow> bool" where
  "loose Free \<longleftrightarrow> True"
| "loose (Named n) \<longleftrightarrow> True"
| "loose t \<longleftrightarrow> False"

lemma loose_moves: "loose t \<Longrightarrow> noCreate a \<Longrightarrow> \<exists>t'. moveOn E past t a = Some t' \<and> loose t'"
  by (cases a; cases t) (auto split: option.split)

lemma track_loose:
  assumes "loose t" and "list_all noCreate pre" and "\<And>t'. loose t' \<Longrightarrow> track E (past @ pre) t' rest"
  shows "track E past t (pre @ rest)"
  using assms
proof (induction pre arbitrary: past t)
  case (Cons a pre)
  then obtain t' where "moveOn E past t a = Some t'" "loose t'" using loose_moves [of t a E past] by auto
  then show ?case using Cons by simp
qed simp

lemma track_noCreate: "loose t \<Longrightarrow> list_all noCreate tr \<Longrightarrow> track E past t tr"
  using track_loose [of t tr E past "[]"] by simp

lemma track_quiet:
  assumes "list_all (\<lambda>a. \<exists>n. a = ARemoveUpdateFinalizer n) mid"
  shows "track E past t (mid @ rest) \<longleftrightarrow> track E (past @ mid) t rest"
  using assms by (induction mid arbitrary: past) auto

lemma track_save:
  assumes "loose t" and "acked E past p" and "sa_CurrentUpdate p = Some cu"
  shows "track E past t (ASaveStatus p # rest) \<longleftrightarrow> track E (past @ [ASaveStatus p]) (Named (cu_Name cu)) rest"
  using assms by (cases t) simp_all

text \<open>A reconcile that finds its update outstanding saves the status with that update, or nothing.\<close>

lemma waitForUpdate_trace:
  assumes "rs_toBeFinalized s = None"
  shows "\<exists>p. oc_Trace (waitForUpdate E s) = rs_trace s @ [ASaveStatus p] \<and> sa_CurrentUpdate p = st_CurrentUpdate (statusOf s)"
proof -
  let ?s = "setStatus (MarkReconcilingCondition (en_L E) ReconcilingProcessingReason ReconcilingProcessingUpdateMessage) s"
  have "rs_trace (snd (saveStatus E ?s)) = rs_trace s @ [ASaveStatus (statusApply (statusOf ?s))]"
    using saveStatus_trace [of E ?s] assms by simp
  moreover have "st_CurrentUpdate (statusOf ?s) = st_CurrentUpdate (statusOf s)"
    by (simp add: MarkReconcilingCondition_def)
  ultimately show ?thesis
    by (cases "saveStatus E ?s") (auto simp: waitForUpdate_def saveAndReturn_def statusApply_def)
qed

context stack_server
begin

lemma acked_once: "PatchStatus (en_A E) past st p = Inr v \<Longrightarrow> acked E past p"
  using same_answer by (auto simp: acked_def)

lemma track_created:
  assumes "afterCreation E past u post"
  shows "track E past (Named (om_Name (u_Meta u))) (ACreateUpdate u # post)"
proof (cases "CreateUpdate (en_A E) past u")
  case (Inl e)
  then show ?thesis using assms by (auto simp: afterCreation_def track_noCreate)
next
  case (Inr v)
  then show ?thesis
    using assms created_name [OF Inr] by (auto simp: afterCreation_def Let_def track_noCreate)
qed

lemma track_ahead:
  assumes "writtenAhead E request u tr" and "loose t"
  shows "track E [] t tr"
proof -
  from assms(1) obtain pre p st v mid post cu where
    tr: "tr = pre @ ASaveStatus p # mid @ ACreateUpdate u # post" and pre: "list_all noCreate pre"
    and post: "afterCreation E (pre @ ASaveStatus p # mid) u post"
    and mid: "list_all (\<lambda>a. \<exists>n. a = ARemoveUpdateFinalizer n) mid"
    and p: "PatchStatus (en_A E) pre st p = Inr v" "sa_CurrentUpdate p = Some cu" "cu_Name cu = om_Name (u_Meta u)"
    unfolding writtenAhead_def by blast
  have "track E pre t' (ASaveStatus p # mid @ ACreateUpdate u # post)" if "loose t'" for t'
    using track_created [OF post]
    by (simp add: track_save [OF that acked_once [OF p(1)] p(2)] p(3) track_quiet [OF mid] del: track.simps(2))
  then show ?thesis unfolding tr by (intro track_loose [OF assms(2) pre]) simp
qed

lemma track_free: "track E [] Free (oc_Trace (Reconcile E ns nm))"
proof (cases "list_all noCreate (oc_Trace (Reconcile E ns nm))")
  case True
  then show ?thesis by (simp add: track_noCreate)
next
  case False
  then obtain u where "ACreateUpdate u \<in> set (oc_Trace (Reconcile E ns nm))"
    by (auto simp: list_all_iff elim: createsUpdate.elims)
  then show ?thesis
    using update_created_write_ahead [OF condition_api_axioms] track_ahead [of _ u] by fastforce
qed

lemma track_held:
  assumes "\<And>st. GetStack (en_A E) [] ns nm = Inr st \<Longrightarrow> st_CurrentUpdate (s_Status st) = Some cu"
    and "\<And>tr u. GetUpdate (en_A E) tr ns (cu_Name cu) = Inr u \<Longrightarrow> \<not> finished u"
  shows "track E [] (Held (Some cu)) (oc_Trace (Reconcile E ns nm))"
proof -
  let ?H = "Held (Some cu)"
  have first: "list_all (\<lambda>a. \<exists>st. a = AUpdateStack st) (rs_trace s) \<and> rs_namespace s = ns
      \<and> st_CurrentUpdate (statusOf s) = Some cu \<and> rs_toBeFinalized s = None"
    if "fetchPhase E ns nm = Inr s" for s
    using that assms(1)
    by (auto simp: fetchPhase_def Let_def dest!: update_keeps split: sum.splits prod.splits if_splits)
  have start: "track E d ?H (tr @ rest)" if "list_all (\<lambda>a. \<exists>st. a = AUpdateStack st) tr" "\<And>d. track E d ?H rest" for d tr rest
    using that by (induction tr arbitrary: d) auto
  have prefix: "track E [] ?H tr" if "list_all (\<lambda>a. \<exists>st. a = AUpdateStack st) tr" for tr
    using start [OF that, of "[]"] by simp
  have fetched: "rs_namespace s1 = ns \<and> st_CurrentUpdate (statusOf s1) = Some cu \<and> rs_toBeFinalized s1 = None
      \<and> list_all (\<lambda>a. \<exists>st. a = AUpdateStack st) (rs_trace s1)"
    if "fetchPhase E ns nm = Inr s" "sessionPhase E s = Inr s1" for s s1
    using first [OF that(1)] that(2) by (auto simp: sessionPhase_def bindE_Inr_iff)
  have stop: False if "fetchPhase E ns nm = Inr s" "sessionPhase E s = Inr s1" "absorbPhase E s1 = Inr s2" for s s1 s2
    using fetched [OF that(1,2)] that(3) assms(2)
    by (auto simp: absorbPhase_def finished_def statusOfSlot_def true_iff find_first Let_def split: sum.splits if_splits)
  show ?thesis
  proof (cases rule: Reconcile_cases [of E ns nm])
    case fetch
    have "list_all (\<lambda>a. \<exists>st. a = AUpdateStack st) (oc_Trace o')" if "fetchPhase E ns nm = Inl o'" for o'
      using that by (auto simp: fetchPhase_def Let_def split: sum.splits prod.splits if_splits)
    then show ?thesis using fetch prefix by blast
  next
    case (session s)
    then show ?thesis using first [OF session(1)] session_Inl [OF session(2)] prefix by simp
  next
    case (absorb s s1)
    note f = fetched [OF absorb(1,2)]
    then have "oc_Trace o' = rs_trace s1 \<or> (\<exists>p. oc_Trace o' = rs_trace s1 @ [ASaveStatus p] \<and> sa_CurrentUpdate p = Some cu)"
      if "absorbPhase E s1 = Inl o'" for o'
      using that assms(2) waitForUpdate_trace [of s1 E] waitForUpdate_trace [of "s1\<lparr>rs_sess := z\<rparr>" E for z]
      by (auto simp: absorbPhase_def finished_def statusOfSlot_def true_iff find_first Let_def split: sum.splits if_splits)
    from this [OF absorb(3)] show ?thesis using f start prefix by auto
  next
    case (early s s1 s2)
    then show ?thesis using stop by blast
  next
    case (drive s s1 s2)
    then show ?thesis using stop by blast
  qed
qed

end

section \<open>The system\<close>

text \<open>
  What is stored: the current update of the stack's status and the updates made for the stack, by
  name. The reconcile that is running, if one is: its environment, what it has done, and what it
  is about to do. Two histories: the names under which an update ever existed, and those of updates
  that exist though the API server reported their creation as failed or their deletion was not
  carried out.
\<close>

record ('u, 'm) system =
  sy_current :: "CurrentStackUpdate option"
  sy_updates :: "string \<Rightarrow> Update option"
  sy_handler :: "(('u, 'm) env \<times> trace \<times> trace) option"
  sy_seen :: "string set"
  sy_lost :: "string set"

text \<open>What a write of the handler does to the store.\<close>

inductive effect :: "('u, 'm) env \<Rightarrow> trace \<Rightarrow> Action \<Rightarrow> ('u, 'm) system \<Rightarrow> ('u, 'm) system \<Rightarrow> bool"
  for E past where
  saved: "effect E past (ASaveStatus p) s (s\<lparr>sy_current := sa_CurrentUpdate p\<rparr>)"
| unsaved: "\<not> acked E past p \<Longrightarrow> effect E past (ASaveStatus p) s s"
| made: "CreateUpdate (en_A E) past u = Inr v \<Longrightarrow> n = om_Name (u_Meta u) \<Longrightarrow>
    effect E past (ACreateUpdate u) s (s\<lparr>sy_updates := (sy_updates s)(n \<mapsto> v), sy_seen := insert n (sy_seen s)\<rparr>)"
| refused: "CreateUpdate (en_A E) past u = Inl e \<Longrightarrow> effect E past (ACreateUpdate u) s s"
| made_unheard: "CreateUpdate (en_A E) past u = Inl e \<Longrightarrow> n = om_Name (u_Meta u) \<Longrightarrow>
    effect E past (ACreateUpdate u) s (s\<lparr>sy_updates := (sy_updates s)(n \<mapsto> v), sy_seen := insert n (sy_seen s),
      sy_lost := insert n (sy_lost s)\<rparr>)"
| removed: "effect E past (ADeleteUpdate n) s (s\<lparr>sy_updates := (sy_updates s)(n := None)\<rparr>)"
| not_removed: "effect E past (ADeleteUpdate n) s (s\<lparr>sy_lost := insert n (sy_lost s)\<rparr>)"
| elsewhere: "(\<And>p. a \<noteq> ASaveStatus p) \<Longrightarrow> (\<And>u. a \<noteq> ACreateUpdate u) \<Longrightarrow> (\<And>n. a \<noteq> ADeleteUpdate n) \<Longrightarrow> effect E past a s s"

inductive_cases effectE:
  "effect E past (ASaveStatus p) s t" "effect E past (ACreateUpdate u) s t" "effect E past (ADeleteUpdate n) s t"

text \<open>
  What the handler may read: the stack with its stored current update, which no one else writes, and
  from the cache an update that existed at some time and is complete only if the stored one is
  complete or gone.
\<close>

definition readsFrom :: "('u, 'm) system \<Rightarrow> ('u, 'm) env \<Rightarrow> string \<Rightarrow> string \<Rightarrow> bool" where
  "readsFrom s E ns nm \<longleftrightarrow>
     (\<forall>st. GetStack (en_A E) [] ns nm = Inr st \<longrightarrow> st_CurrentUpdate (s_Status st) = sy_current s)
     \<and> (\<forall>tr n u. GetUpdate (en_A E) tr ns n = Inr u \<longrightarrow> n \<in> sy_seen s
          \<and> (finished u \<longrightarrow> (case sy_updates s n of None \<Rightarrow> True | Some v \<Rightarrow> finished v)))"

text \<open>
  The steps: a reconcile of the stack reads and starts, makes its next write, or ends, with its work
  done or not; a reconcile of an update does any part of what it does; anything of an update but
  its status is changed; an update goes.
\<close>

inductive systemStep :: "string \<Rightarrow> string \<Rightarrow> ('u, 'm) system \<Rightarrow> ('u, 'm) system \<Rightarrow> bool" for ns nm where
  starts: "\<lbrakk>sy_handler s = None; stack_server E; readsFrom s E ns nm\<rbrakk>
    \<Longrightarrow> systemStep ns nm s (s\<lparr>sy_handler := Some (E, [], oc_Trace (Reconcile E ns nm))\<rparr>)"
| writes: "\<lbrakk>sy_handler s = Some (E, past, a # rest); effect E past a s t\<rbrakk>
    \<Longrightarrow> systemStep ns nm s (t\<lparr>sy_handler := Some (E, past @ [a], rest)\<rparr>)"
| ends: "systemStep ns nm s (s\<lparr>sy_handler := None\<rparr>)"
| progresses: "\<lbrakk>sy_updates s n = Some u; update_server F; uo_Trace (UpdateReconcile F (Inr u)) = tr @ rest; persist u tr v\<rbrakk>
    \<Longrightarrow> systemStep ns nm s (s\<lparr>sy_updates := (sy_updates s)(n \<mapsto> v)\<rparr>)"
| changes: "\<lbrakk>sy_updates s n = Some u; u_Status v = u_Status u\<rbrakk>
    \<Longrightarrow> systemStep ns nm s (s\<lparr>sy_updates := (sy_updates s)(n \<mapsto> v)\<rparr>)"
| goes: "systemStep ns nm s (s\<lparr>sy_updates := (sy_updates s)(n := None)\<rparr>)"

definition newSystem :: "('u, 'm) system" where
  "newSystem = \<lparr>sy_current = None, sy_updates = Map.empty, sy_handler = None, sy_seen = {}, sy_lost = {}\<rparr>"

section \<open>One update at a time\<close>



text \<open>The updates that are not complete, and what a turn says about them.\<close>

definition outstanding :: "('u, 'm) system \<Rightarrow> string set" where
  "outstanding s = {n. \<exists>u. sy_updates s n = Some u \<and> \<not> finished u}"

definition currentName :: "('u, 'm) system \<Rightarrow> string option" where
  "currentName s = map_option cu_Name (sy_current s)"

fun standsAt :: "turn \<Rightarrow> ('u, 'm) system \<Rightarrow> bool" where
  "standsAt (Held c) s \<longleftrightarrow> sy_current s = c \<and> (\<forall>n\<in>outstanding s - sy_lost s. currentName s = Some n)"
| "standsAt Free s \<longleftrightarrow> outstanding s \<subseteq> sy_lost s"
| "standsAt (Named n) s \<longleftrightarrow> outstanding s \<subseteq> sy_lost s \<and> currentName s = Some n"
| "standsAt (Made n) s \<longleftrightarrow> outstanding s \<subseteq> insert n (sy_lost s) \<and> currentName s = Some n"

definition onlyCurrent :: "('u, 'm) system \<Rightarrow> bool" where
  "onlyCurrent s \<longleftrightarrow> (\<forall>n\<in>outstanding s - sy_lost s. currentName s = Some n)"





lemma outstanding_frame [simp]:
  "outstanding (s\<lparr>sy_current := c\<rparr>) = outstanding s" "outstanding (s\<lparr>sy_handler := h\<rparr>) = outstanding s"
  "outstanding (s\<lparr>sy_seen := a\<rparr>) = outstanding s" "outstanding (s\<lparr>sy_lost := l\<rparr>) = outstanding s"
  by (simp_all add: outstanding_def)

lemma standsAt_handler [simp]: "standsAt t (s\<lparr>sy_handler := h\<rparr>) = standsAt t s" "onlyCurrent (s\<lparr>sy_handler := h\<rparr>) = onlyCurrent s"
  by (cases t) (simp_all add: currentName_def onlyCurrent_def)







text \<open>A reconcile whose writes all go through, up to some point.\<close>

fun noRemoval :: "Action \<Rightarrow> bool" where
  "noRemoval (ADeleteUpdate n) \<longleftrightarrow> False"
| "noRemoval a \<longleftrightarrow> True"

lemma run_through:
  assumes "sy_handler s = Some (E, past, tr @ rest)"
  shows "\<exists>t. (systemStep ns nm)\<^sup>*\<^sup>* s t \<and> sy_handler t = Some (E, past @ tr, rest) \<and> sy_lost t = sy_lost s
    \<and> (list_all noCreate tr \<longrightarrow> sy_seen t = sy_seen s)
    \<and> (list_all noCreate tr \<and> list_all noRemoval tr \<longrightarrow> sy_updates t = sy_updates s)"
  using assms
proof (induction tr arbitrary: past s)
  case Nil
  then show ?case by (intro exI [of _ s]) simp
next
  case (Cons a tr)
  have "\<exists>s'. effect E past a s s' \<and> sy_lost s' = sy_lost s \<and> (noCreate a \<longrightarrow> sy_seen s' = sy_seen s)
      \<and> (noCreate a \<and> noRemoval a \<longrightarrow> sy_updates s' = sy_updates s)"
  proof (cases a)
    case (ACreateUpdate u)
    show ?thesis
    proof (cases "CreateUpdate (en_A E) past u")
      case (Inl e)
      then show ?thesis unfolding ACreateUpdate by (intro exI [of _ s]) (simp add: effect.refused)
    next
      case (Inr v)
      from effect.made [OF this refl, of s] show ?thesis
        unfolding ACreateUpdate by (intro exI conjI) (assumption, simp_all)
    qed
  qed (fastforce intro: effect.saved effect.removed effect.elsewhere)+
  then obtain s' where s': "effect E past a s s'" "sy_lost s' = sy_lost s" "noCreate a \<longrightarrow> sy_seen s' = sy_seen s"
      "noCreate a \<and> noRemoval a \<longrightarrow> sy_updates s' = sy_updates s" by blast
  let ?s' = "s'\<lparr>sy_handler := Some (E, past @ [a], tr @ rest)\<rparr>"
  have "systemStep ns nm s ?s'" using Cons.prems s'(1) by (intro writes) simp_all
  moreover obtain t where "(systemStep ns nm)\<^sup>*\<^sup>* ?s' t" "sy_handler t = Some (E, (past @ [a]) @ tr, rest)"
      "sy_lost t = sy_lost s'" "list_all noCreate tr \<longrightarrow> sy_seen t = sy_seen s'"
      "list_all noCreate tr \<and> list_all noRemoval tr \<longrightarrow> sy_updates t = sy_updates s'"
    using Cons.IH [of ?s' "past @ [a]"] by auto
  ultimately show ?case
    using s' by (intro exI [of _ t]) (auto intro: converse_rtranclp_into_rtranclp)
qed

text \<open>A stack that is reconciled for the first time: its update is announced, and made.\<close>

lemma example_ahead:
  obtains pre p mid u post cu where
    "oc_Trace (Reconcile (exampleEnv newStack) ''default'' ''app'') = pre @ ASaveStatus p # mid @ ACreateUpdate u # post"
    "list_all noCreate pre" "sa_CurrentUpdate p = Some cu" "cu_Name cu = om_Name (u_Meta u)" "\<not> finished u"
proof -
  let ?tr = "oc_Trace (Reconcile (exampleEnv newStack) ''default'' ''app'')"
  from example_creates obtain u where u: "ACreateUpdate u \<in> set ?tr"
    by (auto simp: list_ex_iff elim!: createsUpdate.elims)
  have "list_all (\<lambda>a. case a of ACreateUpdate u \<Rightarrow> ust_Conditions (u_Status u) = [] | _ \<Rightarrow> True) ?tr" by code_simp
  with u have "\<not> finished u" by (auto simp: list_all_iff finished_def statusOfSlot_def refFind_def)
  with update_created_write_ahead [OF _ u] docConditions.condition_api_axioms that show thesis
    unfolding writtenAhead_def by fastforce
qed

lemma example_start:
  "systemStep ''default'' ''app'' newSystem
     (newSystem\<lparr>sy_handler := Some (exampleEnv newStack, [], oc_Trace (Reconcile (exampleEnv newStack) ''default'' ''app''))\<rparr>)"
  by (rule starts)
     (simp_all add: newSystem_def readsFrom_def exampleStackServer.stack_server_axioms newStack_def exampleStack_def emptyStackStatus_def)

lemma first_reconcile:
  "(systemStep ''default'' ''app'')\<^sup>*\<^sup>*
     (newSystem\<lparr>sy_handler := Some (exampleEnv newStack, [], oc_Trace (Reconcile (exampleEnv newStack) ''default'' ''app''))\<rparr>) t
   \<Longrightarrow> (systemStep ''default'' ''app'')\<^sup>*\<^sup>* newSystem t"
  by (rule converse_rtranclp_into_rtranclp) (rule example_start)


section \<open>An interrupted creation\<close>

lemma stuck_step:
  assumes "systemStep ns nm s s'" and "sy_current s = Some cu" and "cu_Name cu \<notin> sy_seen s"
    and "\<forall>E past rest. sy_handler s = Some (E, past, rest) \<longrightarrow> track E past (Held (Some cu)) rest"
  shows "sy_current s' = Some cu \<and> sy_seen s' = sy_seen s
    \<and> (\<forall>E past rest. sy_handler s' = Some (E, past, rest) \<longrightarrow> track E past (Held (Some cu)) rest)"
  using assms
proof (induction rule: systemStep.induct)
  case (starts s E)
  then have "track E [] (Held (Some cu)) (oc_Trace (Reconcile E ns nm))"
    by (intro stack_server.track_held) (auto simp: readsFrom_def)
  then show ?case using starts by simp
next
  case (writes s E past a rest s')
  then have "track E past (Held (Some cu)) (a # rest)" by blast
  then obtain m: "moveOn E past (Held (Some cu)) a = Some (Held (Some cu))" and r: "track E (past @ [a]) (Held (Some cu)) rest"
    by (cases a) (auto split: if_splits)
  have "sy_current s' = Some cu \<and> sy_seen s' = sy_seen s"
    using writes.hyps(2) m writes.prems(1) by (cases a) (auto elim!: effectE elim: effect.cases split: if_splits)
  with r show ?case by simp
qed simp_all

text \<open>C5: A creation that is interrupted leaves the stack waiting for ever. When the process stops between the
  save of the status that names the next update and the creation of that update, then from there on,
  whatever reconciles of the stack there are, the status keeps naming an update that never existed and no
  update is made: neither the stack's changes nor its deletion are acted upon.
\<close>

lemma interrupted_creation_stuck:
  assumes "(systemStep ns nm)\<^sup>*\<^sup>* s s'" and "sy_handler s = None"
    and "sy_current s = Some cu" and "cu_Name cu \<notin> sy_seen s"
  shows "sy_current s' = Some cu \<and> sy_seen s' = sy_seen s"
proof -
  have "sy_current s' = Some cu \<and> sy_seen s' = sy_seen s
      \<and> (\<forall>E past rest. sy_handler s' = Some (E, past, rest) \<longrightarrow> track E past (Held (Some cu)) rest)"
    using assms
  proof (induction rule: rtranclp_induct)
    case (step t t')
    then show ?case using stuck_step [OF step.hyps(2), of cu] by simp
  qed simp
  then show ?thesis by simp
qed

lemma interrupted_creation_stuck_witness:
  "\<exists>(s :: (unit, unit) system) cu. (systemStep ''default'' ''app'')\<^sup>*\<^sup>* newSystem s
    \<and> (\<forall>s'. (systemStep ''default'' ''app'')\<^sup>*\<^sup>* s s' \<longrightarrow> sy_current s' = Some cu \<and> sy_seen s' = {})"
proof -
  obtain pre p mid u post cu where
    tr: "oc_Trace (Reconcile (exampleEnv newStack) ''default'' ''app'') = pre @ ASaveStatus p # mid @ ACreateUpdate u # post"
    and pre: "list_all noCreate pre" and p: "sa_CurrentUpdate p = Some cu" by (rule example_ahead) auto
  obtain t :: "(unit, unit) system" where t: "(systemStep ''default'' ''app'')\<^sup>*\<^sup>* newSystem t"
    "sy_handler t = Some (exampleEnv newStack, pre, ASaveStatus p # mid @ ACreateUpdate u # post)" "sy_seen t = {}"
    using run_through [of "newSystem\<lparr>sy_handler := Some (exampleEnv newStack, [], pre @ ASaveStatus p # mid @ ACreateUpdate u # post)\<rparr>"
        "exampleEnv newStack" "[]" pre "ASaveStatus p # mid @ ACreateUpdate u # post" "''default''" "''app''"]
      first_reconcile pre by (auto simp: tr newSystem_def)
  let ?s = "t\<lparr>sy_current := Some cu, sy_handler := None\<rparr>"
  have "systemStep ''default'' ''app'' t ((t\<lparr>sy_current := Some cu\<rparr>)\<lparr>sy_handler :=
      Some (exampleEnv newStack, pre @ [ASaveStatus p], mid @ ACreateUpdate u # post)\<rparr>)" (is "systemStep _ _ _ ?r")
    using saved [of "exampleEnv newStack" pre p t] p by (intro writes [OF t(2)]) simp
  then have r: "(systemStep ''default'' ''app'')\<^sup>*\<^sup>* newSystem ?r" by (rule rtranclp.rtrancl_into_rtrancl [OF t(1)])
  have "systemStep ''default'' ''app'' ?r ?s" using ends [of "''default''" "''app''" ?r] by simp
  then have "(systemStep ''default'' ''app'')\<^sup>*\<^sup>* newSystem ?s" by (rule rtranclp.rtrancl_into_rtrancl [OF r])
  then show ?thesis
    using interrupted_creation_stuck [of "''default''" "''app''" ?s _ cu] t(3) by (intro exI [of _ ?s] exI [of _ cu]) auto
qed

section \<open>A stale read\<close>

text \<open>
  The status is saved by a forced server-side apply without the version that was read, so nothing
  rejects a save that rests on an old copy of the stack. A reconcile that is served one from
  the cache makes a second update next to the first.
\<close>

lemma creation_run:
  assumes "sy_handler s = Some (E, [], pre @ ACreateUpdate u # post)" and "CreateUpdate (en_A E) pre u = Inr v"
    and "list_all noCreate pre" and "list_all noRemoval pre"
  shows "\<exists>t. (systemStep ns nm)\<^sup>*\<^sup>* s t \<and> sy_updates t = (sy_updates s)(om_Name (u_Meta u) \<mapsto> v)
    \<and> sy_lost t = sy_lost s \<and> sy_handler t = None"
proof -
  obtain t where t: "(systemStep ns nm)\<^sup>*\<^sup>* s t" "sy_handler t = Some (E, pre, ACreateUpdate u # post)"
    "sy_lost t = sy_lost s" "sy_updates t = sy_updates s"
    using run_through [OF assms(1), of ns nm] assms(3,4) by auto
  let ?t = "t\<lparr>sy_updates := (sy_updates t)(om_Name (u_Meta u) \<mapsto> v), sy_seen := insert (om_Name (u_Meta u)) (sy_seen t)\<rparr>"
  let ?r = "?t\<lparr>sy_handler := Some (E, pre @ [ACreateUpdate u], post)\<rparr>"
  have "systemStep ns nm t ?r" by (rule writes [OF t(2)]) (rule made [OF assms(2) refl])
  moreover have "systemStep ns nm ?r (?r\<lparr>sy_handler := None\<rparr>)" by (rule ends)
  ultimately have "(systemStep ns nm)\<^sup>*\<^sup>* s (?r\<lparr>sy_handler := None\<rparr>)"
    using t(1) by (meson rtranclp.rtrancl_into_rtrancl)
  with t(3,4) show ?thesis by (intro exI [of _ "?r\<lparr>sy_handler := None\<rparr>"]) simp
qed

text \<open>The same stack at two times.\<close>

definition atTime :: "time \<Rightarrow> (unit, unit) env" where
  "atTime now = (exampleEnv newStack)\<lparr>en_A := (exampleCluster newStack)\<lparr>Now := (\<lambda>tr i. now)\<rparr>\<rparr>"

definition createsFirst :: "string \<Rightarrow> trace \<Rightarrow> bool" where
  "createsFirst n tr \<longleftrightarrow> list_all noRemoval (takeWhile noCreate tr)
     \<and> (case dropWhile noCreate tr of
          ACreateUpdate u # post \<Rightarrow> om_Name (u_Meta u) = n \<and> ust_Conditions (u_Status u) = []
        | _ \<Rightarrow> False)"

lemma createsFirstE:
  assumes "createsFirst n tr"
  obtains pre u post where "tr = pre @ ACreateUpdate u # post" "list_all noCreate pre" "list_all noRemoval pre"
    "om_Name (u_Meta u) = n" "\<not> finished u"
proof -
  from assms obtain u post where d: "dropWhile noCreate tr = ACreateUpdate u # post" "om_Name (u_Meta u) = n"
      "ust_Conditions (u_Status u) = []"
    by (auto simp: createsFirst_def split: list.splits Action.splits)
  show thesis
  proof (rule that)
    show "tr = takeWhile noCreate tr @ ACreateUpdate u # post" using takeWhile_dropWhile_id [of noCreate tr] d(1) by simp
    show "list_all noCreate (takeWhile noCreate tr)" by (auto simp: list_all_iff dest: set_takeWhileD)
    show "list_all noRemoval (takeWhile noCreate tr)" using assms by (simp add: createsFirst_def)
  qed (use d in \<open>simp_all add: finished_def statusOfSlot_def refFind_def\<close>)
qed

lemma atTime_creates:
  "createsFirst ''app-0'' (oc_Trace (Reconcile (atTime unixEpoch) ''default'' ''app''))"
  "createsFirst ''app-1'' (oc_Trace (Reconcile (atTime (unixEpoch + 1000000)) ''default'' ''app''))"
  by code_simp+

lemma atTime_server: "stack_server (atTime now)"
  by (rule stack_server.intro)
     (auto simp: docSlice.condition_slice_axioms stack_server_axioms_def exampleCluster_def atTime_def exampleEnv_def)

lemma atTime_run:
  assumes "createsFirst n (oc_Trace (Reconcile (atTime now) ''default'' ''app''))"
  shows "\<exists>t u. (systemStep ''default'' ''app'')\<^sup>*\<^sup>*
      (s\<lparr>sy_handler := Some (atTime now, [], oc_Trace (Reconcile (atTime now) ''default'' ''app''))\<rparr>) t
    \<and> sy_updates t = (sy_updates s)(n \<mapsto> u) \<and> \<not> finished u \<and> sy_lost t = sy_lost s \<and> sy_handler t = None"
proof -
  obtain pre u post where tr: "oc_Trace (Reconcile (atTime now) ''default'' ''app'') = pre @ ACreateUpdate u # post"
      "list_all noCreate pre" "list_all noRemoval pre" "om_Name (u_Meta u) = n" "\<not> finished u"
    using assms by (rule createsFirstE)
  have "CreateUpdate (en_A (atTime now)) pre u = Inr u" by (simp add: atTime_def exampleCluster_def)
  from creation_run [OF _ this tr(2,3), of "s\<lparr>sy_handler := Some (atTime now, [], pre @ ACreateUpdate u # post)\<rparr>" post
      "''default''" "''app''"] tr(4,5)
  show ?thesis unfolding tr(1) by auto
qed

lemma stale_read_overlaps:
  "\<exists>(s :: (unit, unit) system) E t m n. (systemStep ''default'' ''app'')\<^sup>*\<^sup>* newSystem s \<and> sy_handler s = None
    \<and> stack_server E \<and> readsFrom (s\<lparr>sy_current := None\<rparr>) E ''default'' ''app''
    \<and> (systemStep ''default'' ''app'')\<^sup>*\<^sup>* (s\<lparr>sy_handler := Some (E, [], oc_Trace (Reconcile E ''default'' ''app''))\<rparr>) t
    \<and> m \<noteq> n \<and> {m, n} \<subseteq> outstanding t - sy_lost t"
proof -
  let ?s0 = "newSystem :: (unit, unit) system" and ?E = "atTime unixEpoch" and ?F = "atTime (unixEpoch + 1000000)"
  have reads: "readsFrom s (atTime now) ''default'' ''app''" if "sy_current s = None" for s :: "(unit, unit) system" and now
    using that by (simp add: readsFrom_def atTime_def newStack_def exampleStack_def emptyStackStatus_def exampleCluster_def)
  obtain s u where s: "(systemStep ''default'' ''app'')\<^sup>*\<^sup>*
        (newSystem\<lparr>sy_handler := Some (?E, [], oc_Trace (Reconcile ?E ''default'' ''app''))\<rparr>) s"
      "sy_updates s = (sy_updates ?s0)(''app-0'' \<mapsto> u)" "\<not> finished u" "sy_lost s = sy_lost ?s0" "sy_handler s = None"
    using atTime_run [OF atTime_creates(1), of newSystem] by (elim exE conjE) (rule that)
  have first: "(systemStep ''default'' ''app'')\<^sup>*\<^sup>* newSystem s"
    by (rule converse_rtranclp_into_rtranclp [OF starts s(1)]) (simp_all add: newSystem_def atTime_server reads)
  obtain t v where t: "(systemStep ''default'' ''app'')\<^sup>*\<^sup>*
        (s\<lparr>sy_handler := Some (?F, [], oc_Trace (Reconcile ?F ''default'' ''app''))\<rparr>) t"
      "sy_updates t = (sy_updates s)(''app-1'' \<mapsto> v)" "\<not> finished v" "sy_lost t = sy_lost s"
    using atTime_run [OF atTime_creates(2), of s] by (elim exE conjE) (rule that)
  have "{''app-0'', ''app-1''} \<subseteq> outstanding t - sy_lost t"
    using s(2-4) t(2-4) by (simp add: outstanding_def newSystem_def)
  then show ?thesis
    using first s(5) t(1) atTime_server [of "unixEpoch + 1000000"] reads [of "s\<lparr>sy_current := None\<rparr>"]
    by (intro exI [of _ s] exI [of _ ?F] exI [of _ t] exI [of _ "''app-0''"] exI [of _ "''app-1''"]) (simp add: newSystem_def)
qed

end
