(* ===== verification/UpdateProperties.thy ===== *)
theory UpdateProperties
  imports UpdateActions
begin

text \<open>
  The properties of the update controller with their witnesses: at most one operation per Update,
  the refinement of the abstract update, what a response stream leaves behind, the time to live,
  the transition times, the secrecy of stack outputs and the wake-ups.
\<close>

section \<open>Operations\<close>

text \<open>C11: The operation an Update asks for is carried out at most once. Whatever other writers do to the
  object besides its status, however its reconciles end, whether a status write that failed
  arrived or not, and wherever the process is stopped, over all reconciles of the Update at most
  one Pulumi operation is accepted by the agent.
\<close>

lemma operation_at_most_once:
  assumes "updateLife u n"
  shows "n \<le> 1"
  using updateLife_invariant [OF assms] by simp

lemma example_ready:
  "requestFor (u_Spec exampleRun) = Some (CallUp \<lparr>ur_Parallel = None, ur_Message = None, ur_ExpectNoChanges = None,
     ur_Replace = [], ur_Target = [], ur_TargetDependents = None, ur_Refresh = None, ur_ContinueOnError = None\<rparr>)"
  "\<not> guardedConds (ust_Conditions (u_Status exampleRun))"
  "om_DeletionTimestamp (u_Meta exampleRun) = None" "\<not> isOrphaned docLib exampleRun"
  "autoWorkspaceReady docLib (Some exampleWorkspace)" "us_StackName (u_Spec exampleRun) = ''dev''"
  by (simp_all add: requestFor_def exampleRun_def exampleWorkspace_def emptyUpdateSpec_def emptyUpdateStatus_def
        guardedConds_def statusOfSlot_def refFind_def emptyMeta_def isOrphaned_def docLib_def refHasController_def
        autoWorkspaceReady_def refIsTrue_def WorkspaceReady_def emptyWorkspaceStatus_def mkCondition_def)

lemma exampleUEnv_simps [simp]:
  "ue_L (exampleUEnv recv) = docLib" "ue_Patch (exampleUEnv recv) tr u p = Inr (u\<lparr>u_Status := appliedStatus p\<rparr>)"
  "ue_GetWorkspace (exampleUEnv recv) tr ns n = Inr exampleWorkspace" "ue_Connect (exampleUEnv recv) tr w = None"
  "ue_SelectStack (exampleUEnv recv) tr n = None" "ue_Start (exampleUEnv recv) tr r = Inr recv"
  "ue_Now (exampleUEnv recv) tr i = 1000" "ue_CreateSecret (exampleUEnv recv) tr sec = None"
  "ue_Delete (exampleUEnv recv) tr u = None" "ue_StatusSucceeded (exampleUEnv recv) = ''succeeded''"
  by (simp_all add: exampleUEnv_def)

lemmas example_begins = exampleServer.Reconcile_begins [of exampleRun _ exampleWorkspace, simplified, OF example_ready(2-5,1)]

lemma operation_at_most_once_witness: "\<exists>v. updateLife v 1 \<and> (1::nat) \<le> 1"
proof -
  obtain p r rest where tr: "uo_Trace (UpdateReconcile (exampleUEnv exampleRecv) (Inr exampleRun))
      = [UPatchStatus p True, USelectStack ''dev'' True, UCall r True] @ rest"
    using example_begins [of exampleRecv] by (auto simp: example_ready)
  let ?tr = "[UPatchStatus p True, USelectStack ''dev'' True, UCall r True]"
  obtain v where "persist exampleRun ?tr v" using persist_total by blast
  then have "updateLife v (0 + operationsBegun ?tr)"
    by (rule life_reconciled [OF life_created exampleServer.update_server_axioms tr])
  then have life: "updateLife v 1" by (simp add: operationsBegun_def)
  from operation_at_most_once [OF life] life show ?thesis by blast
qed

text \<open>C15: An Update that is due gets under way. Owned, live, not yet begun, with a ready workspace and an
  agent that answers, its reconcile first saves a status that says Progressing, then selects the
  stack, and then calls the operation of the Update's type with the fields of its specification. The
  status patches are accepted, and nobody edits the specification while the handler runs: the
  answers show the specification and the namespace that were sent, with other metadata (the
  resource version, the managed fields) as the server has it.
\<close>

lemma operation_begins:
  assumes "update_server E"
    and "\<not> guardedConds (ust_Conditions (u_Status obj))"
    and "om_DeletionTimestamp (u_Meta obj) = None" and "\<not> isOrphaned (ue_L E) obj"
    and "\<And>tr u p. \<exists>v. ue_Patch E tr u p = Inr v \<and> om_Namespace (u_Meta v) = om_Namespace (u_Meta u) \<and> u_Spec v = u_Spec u"
    and "\<And>tr. ue_GetWorkspace E tr (om_Namespace (u_Meta obj)) (us_WorkspaceName (u_Spec obj)) = Inr w"
    and "autoWorkspaceReady (ue_L E) (Some w)" and "\<And>tr. ue_Connect E tr w = None"
    and "\<And>tr n. ue_SelectStack E tr n = None"
    and "requestFor (u_Spec obj) = Some req" and "\<And>tr. \<exists>recv. ue_Start E tr req = Inr recv"
  shows "\<exists>p rest. uo_Trace (UpdateReconcile E (Inr obj))
           = UPatchStatus p True # USelectStack (us_StackName (u_Spec obj)) True # UCall req True # rest
         \<and> statusOfSlot (ust_Conditions (appliedStatus p)) SProgressing = Some ConditionTrue"
  by (rule update_server.Reconcile_begins [OF assms])

lemma operation_begins_witness:
  "\<exists>p r rest. uo_Trace (UpdateReconcile (exampleUEnv exampleRecv) (Inr exampleRun))
      = UPatchStatus p True # USelectStack ''dev'' True # UCall (CallUp r) True # rest
    \<and> statusOfSlot (ust_Conditions (appliedStatus p)) SProgressing = Some ConditionTrue"
  using operation_begins [OF exampleServer.update_server_axioms example_ready(2,3), of exampleRecv exampleWorkspace]
    example_ready by (simp; blast)

section \<open>The response stream\<close>

text \<open>What ends the reading of a stream: its end, an error, or a message with a result.\<close>

fun decisive :: "received \<Rightarrow> bool" where
  "decisive (RecvMsg m) = (GetResult m \<noteq> None)"
| "decisive _ = True"

lemma recvLoop_step: "recvLoop recv i = (if decisive (recv i) then Some (recv i) else recvLoop recv (Suc i))"
  by (subst recvLoop.simps) (auto split: received.split)

lemma recvLoop_finds:
  assumes "decisive (recv n)" and "i \<le> n" and "\<And>j. i \<le> j \<Longrightarrow> j < n \<Longrightarrow> \<not> decisive (recv j)"
  shows "recvLoop recv i = Some (recv n)"
  using assms
proof (induction "n - i" arbitrary: i)
  case 0
  then have "i = n" by simp
  with 0 show ?case by (subst recvLoop_step) simp
next
  case (Suc m)
  then have i: "i < n" by simp
  have "recvLoop recv (Suc i) = Some (recv n)" using Suc by (intro Suc.hyps(1)) auto
  with Suc.prems(3) [of i] i show ?case by (subst recvLoop_step) simp
qed

lemma recvLoop_found:
  assumes ret: "recvLoop recv i = Some r"
  shows "\<exists>n\<ge>i. recv n = r \<and> decisive r \<and> (\<forall>j. i \<le> j \<and> j < n \<longrightarrow> \<not> decisive (recv j))"
proof (rule recvLoop.raw_induct [where P = "\<lambda>recv i r. \<exists>n\<ge>i. recv n = r \<and> decisive r
    \<and> (\<forall>j. i \<le> j \<and> j < n \<longrightarrow> \<not> decisive (recv j))", OF _ ret])
  fix loop :: "(nat \<Rightarrow> received) \<Rightarrow> nat \<Rightarrow> received option" and recv i r
  assume IH: "\<And>recv i r. loop recv i = Some r
        \<Longrightarrow> \<exists>n\<ge>i. recv n = r \<and> decisive r \<and> (\<forall>j. i \<le> j \<and> j < n \<longrightarrow> \<not> decisive (recv j))"
    and eq: "(case recv i of RecvMsg m \<Rightarrow> if GetResult m = None then loop recv (Suc i) else Some (RecvMsg m)
              | other \<Rightarrow> Some other) = Some r"
  show "\<exists>n\<ge>i. recv n = r \<and> decisive r \<and> (\<forall>j. i \<le> j \<and> j < n \<longrightarrow> \<not> decisive (recv j))"
  proof (cases "decisive (recv i)")
    case True
    with eq have "r = recv i" by (auto split: received.splits)
    with True show ?thesis by (intro exI [of _ i]) auto
  next
    case False
    then obtain m where "recv i = RecvMsg m" "GetResult m = None" by (cases "recv i") auto
    with eq have "loop recv (Suc i) = Some r" by simp
    from IH [OF this] obtain n where n: "Suc i \<le> n" "recv n = r" "decisive r"
      "\<forall>j. Suc i \<le> j \<and> j < n \<longrightarrow> \<not> decisive (recv j)" by blast
    have "\<not> decisive (recv j)" if "i \<le> j" "j < n" for j
      using that False n(4) by (cases "j = i") auto
    with n show ?thesis by (intro exI [of _ n]) auto
  qed
qed

text \<open>C21: The response stream is read up to its first decisive message, and reading comes back exactly
  when there is one: a stream of progress messages without end is waited on for ever.
\<close>

lemma stream_read_to_result:
  "recvLoop recv 0 = r \<longleftrightarrow>
     (case r of
        Some x \<Rightarrow> \<exists>n. recv n = x \<and> decisive x \<and> (\<forall>j<n. \<not> decisive (recv j))
      | None \<Rightarrow> \<forall>n. \<not> decisive (recv n))"
proof -
  have some: "recvLoop recv 0 = Some x \<longleftrightarrow> (\<exists>n. recv n = x \<and> decisive x \<and> (\<forall>j<n. \<not> decisive (recv j)))" for x
    using recvLoop_found [of recv 0 x] recvLoop_finds [of recv _ 0] by auto
  have "\<exists>n. decisive (recv n) \<and> (\<forall>j<n. \<not> decisive (recv j))" if "decisive (recv m)" for m
    using exists_least_iff [of "\<lambda>n. decisive (recv n)"] that by blast
  then have none: "recvLoop recv 0 = None \<longleftrightarrow> (\<forall>n. \<not> decisive (recv n))"
    using some by (metis not_Some_eq)
  show ?thesis using some none by (cases r) simp_all
qed

lemma stream_read_to_result_witness:
  "recvLoop (\<lambda>i. if i < 3 then RecvMsg (UpStream None) else RecvEOF) 0 = Some RecvEOF
    \<and> recvLoop (\<lambda>i. RecvMsg (UpStream None)) 0 = None"
  unfolding stream_read_to_result by (auto intro!: exI [of _ 3])

text \<open>Whether the update failed, by its result.\<close>

definition failedStatus :: "uenv \<Rightarrow> result \<Rightarrow> ConditionStatus" where
  "failedStatus E res = (case res_Summary res of
     Some sm \<Rightarrow> if sm_Result sm = ue_StatusSucceeded E then ConditionFalse else ConditionTrue
   | None \<Rightarrow> ConditionFalse)"

definition statusNow :: "lib \<Rightarrow> slot \<Rightarrow> UState \<Rightarrow> ConditionStatus" where
  "statusNow L k s = c_Status (deref L k s)"

context update_server
begin

lemma Result_value:
  assumes "recvLoop recv 0 = Some x" and "Result E recv s = Some (res, t)"
  shows "(case x of
      RecvEOF \<Rightarrow> res = Inl (Errorf ''didn't receive a result'') \<and> t = s
    | RecvErr err \<Rightarrow> res = Inl (Errorf (rpcErrorText err)) \<and> t = setStatusBlockFromGRPCErr err s
    | RecvMsg m \<Rightarrow> res = Inr (the (GetResult m))
        \<and> t = onResult E (ue_Now E (uv_trace s) 0) (commonPart (the (GetResult m))) s)"
  using assms by (auto simp: Result_def Let_def split: received.split)

end

context update_server
begin

lemma statusNow_mark [simp]:
  assumes "sessOk s"
  shows "statusNow L j (mark k st r s) = (if j = k then st else statusNow L j s)"
    and "statusNow L j (markMsg k st r s) = (if j = k then st else statusNow L j s)"
  using mark_effect [OF assms] by (simp_all add: statusNow_def)

lemma statusNow_mapStatus [simp]:
  assumes "\<And>st. ust_Conditions (f st) = ust_Conditions st"
  shows "statusNow L j (mapStatus f s) = statusNow L j s"
  by (simp add: statusNow_def sessOk_conditions_kept assms)

lemma onResult_status:
  assumes "sessOk s"
  shows "statusNow L SProgressing (onResult E t res s) = ConditionFalse"
    and "statusNow L SComplete (onResult E t res s) = ConditionTrue"
    and "statusNow L SFailed (onResult E t res s) = failedStatus E res"
  unfolding onResult_def Let_def failedStatus_def
  using assms by (auto simp: sessOk_conditions_kept mark_effect split: option.split)

lemma setStatusBlock_status:
  assumes "sessOk s"
  shows "statusNow L SProgressing (setStatusBlockFromGRPCErr e s) = ConditionFalse"
    and "statusNow L SComplete (setStatusBlockFromGRPCErr e s) = ConditionTrue"
    and "statusNow L SFailed (setStatusBlockFromGRPCErr e s)
          = (case e of StatusError _ _ _ _ \<Rightarrow> ConditionTrue | PlainError _ \<Rightarrow> statusNow L SFailed s)"
  unfolding setStatusBlockFromGRPCErr_def Let_def
  using assms
  by (auto simp: sessOk_conditions_kept mark_effect split: rpcError.split list.split detail.split)

lemma Result_status:
  assumes ok: "sessOk s" and x: "recvLoop recv 0 = Some x" and run: "Result E recv s = Some (res, t)"
  shows "case x of
      RecvEOF \<Rightarrow> t = s
    | RecvErr e \<Rightarrow> statusNow L SProgressing t = ConditionFalse \<and> statusNow L SComplete t = ConditionTrue
        \<and> statusNow L SFailed t
            = (case e of StatusError _ _ _ _ \<Rightarrow> ConditionTrue | PlainError _ \<Rightarrow> statusNow L SFailed s)
    | RecvMsg m \<Rightarrow> statusNow L SProgressing t = ConditionFalse \<and> statusNow L SComplete t = ConditionTrue
        \<and> statusNow L SFailed t = failedStatus E (commonPart (the (GetResult m)))"
  using Result_value [OF x run] onResult_status [OF ok] setStatusBlock_status [OF ok]
  by (cases x) auto

end

section \<open>Completed updates\<close>

lemma time_sub_sign: "time_sub a b \<le> 0 \<longleftrightarrow> a \<le> b"
  by (auto simp: time_sub_def maxDuration_def minDuration_def)

lemma deref_complete_initial:
  assumes "condition_slice L" and "refFind (ust_Conditions (u_Status obj)) UpdateConditionTypeComplete = Some c"
  shows "deref L SComplete (initialState L obj) = c"
  using assms condition_slice.deref_initial [OF assms(1), of SComplete obj] by simp

context update_server
begin

lemma complete_handler:
  assumes "refFind (ust_Conditions (u_Status obj)) UpdateConditionTypeComplete = Some c" and "c_Status c = ConditionTrue"
  shows "UpdateReconcile E (Inr obj) = completedPhase E (initialState L obj)"
  using assms by (simp add: UpdateReconcile_unfold Let_def deref_complete_initial condition_slice_axioms)

text \<open>The deletion of the object, in full.\<close>

lemma deletion_iff:
  "(\<exists>ack. UDeleteObject ack \<in> set (uo_Trace (UpdateReconcile E (Inr obj)))) \<longleftrightarrow>
     (\<exists>c ttl. refFind (ust_Conditions (u_Status obj)) UpdateConditionTypeComplete = Some c
        \<and> c_Status c = ConditionTrue \<and> om_DeletionTimestamp (u_Meta obj) = None
        \<and> us_TtlAfterCompleted (u_Spec obj) = Some ttl \<and> c_LastTransitionTime c + ttl \<le> ue_Now E [] 0)"
proof (cases "statusOfSlot (ust_Conditions (u_Status obj)) SComplete = Some ConditionTrue")
  case False
  then have "\<nexists>c. refFind (ust_Conditions (u_Status obj)) UpdateConditionTypeComplete = Some c \<and> c_Status c = ConditionTrue"
    by (auto simp: statusOfSlot_def)
  with not_complete_kept [OF False] show ?thesis by blast
next
  case True
  then obtain c where c: "refFind (ust_Conditions (u_Status obj)) UpdateConditionTypeComplete = Some c"
    "c_Status c = ConditionTrue" by (auto simp: statusOfSlot_def)
  have d: "deref L SComplete (initialState L obj) = c"
    by (rule deref_complete_initial [OF condition_slice_axioms c(1)])
  have i: "uv_obj (initialState L obj) = obj" "uv_trace (initialState L obj) = []"
    by (simp_all add: initialState_def)
  show ?thesis unfolding complete_handler [OF c]
    by (auto simp: completedPhase_def d i Let_def uleave_def time_sub_sign c split: option.split)
qed

lemma retained:
  assumes "refFind (ust_Conditions (u_Status obj)) UpdateConditionTypeComplete = Some c" and "c_Status c = ConditionTrue"
    and "om_DeletionTimestamp (u_Meta obj) = None" and "us_TtlAfterCompleted (u_Spec obj) = Some ttl"
    and "ue_Now E [] 0 < c_LastTransitionTime c + ttl"
  shows "\<exists>d > 0. UpdateReconcile E (Inr obj) = \<lparr>uo_Return = Some (d, None), uo_Trace = []\<rparr>"
proof -
  have d: "deref L SComplete (initialState L obj) = c"
    by (rule deref_complete_initial [OF condition_slice_axioms assms(1)])
  have i: "uv_obj (initialState L obj) = obj" "uv_trace (initialState L obj) = []"
    by (simp_all add: initialState_def)
  have "\<not> time_sub (c_LastTransitionTime c + ttl) (ue_Now E [] 0) \<le> 0" using assms(5) by (simp add: time_sub_sign)
  then show ?thesis
    unfolding complete_handler [OF assms(1,2)] completedPhase_def
    by (simp add: d i assms Let_def uleave_def)
qed

text \<open>An update found progressing.\<close>

lemma Reconcile_aborts:
  assumes p: "statusOfSlot (ust_Conditions (u_Status obj)) SProgressing = Some ConditionTrue"
    and c: "statusOfSlot (ust_Conditions (u_Status obj)) SComplete \<noteq> Some ConditionTrue"
  shows "\<exists>p ack. uo_Trace (UpdateReconcile E (Inr obj)) = [UPatchStatus p ack]
    \<and> statusOfSlot (ust_Conditions (appliedStatus p)) SComplete = Some ConditionTrue
    \<and> statusOfSlot (ust_Conditions (appliedStatus p)) SFailed = Some ConditionTrue
    \<and> statusOfSlot (ust_Conditions (appliedStatus p)) SProgressing = Some ConditionFalse
    \<and> map_option c_Reason (refFind (ust_Conditions (appliedStatus p)) UpdateConditionTypeFailed) = Some ''Aborted''"
proof -
  let ?s = "markFailed ''Aborted'' (initialState L obj)"
  have run: "UpdateReconcile E (Inr obj) = leaveUpdating E 0 ?s"
    using p c by (simp add: UpdateReconcile_unfold Let_def status_initial)
  note ok0 = sessOk_initial [of obj]
  have ok: "sessOk ?s" by (rule marking_ok(2) [OF ok0])
  obtain r t where u: "updateStatus E ?s = (r, t)" by (cases "updateStatus E ?s")
  have tr0: "uv_trace ?s = []" by (simp add: initialState_def)
  from updateStatus_effect(3) [OF ok u] obtain p where tr: "uv_trace t = [UPatchStatus p (r = None)]"
    and k: "\<And>k. map_option core (refFind (ust_Conditions (appliedStatus p)) (slotType k)) = Some (core (deref L k ?s))"
    unfolding tr0 by auto
  have st: "statusOfSlot (ust_Conditions (appliedStatus p)) k = Some (c_Status (deref L k ?s))" for k
    using k [of k] by (auto simp: statusOfSlot_def dest: core_status)
  have vals: "c_Status (deref L SComplete ?s) = ConditionTrue" "c_Status (deref L SFailed ?s) = ConditionTrue"
    "c_Status (deref L SProgressing ?s) = ConditionFalse" "c_Reason (deref L SFailed ?s) = ''Aborted''"
    using ok0 by (simp_all add: markFailed_def mark_effect)
  have "map_option c_Reason (refFind (ust_Conditions (appliedStatus p)) UpdateConditionTypeFailed) = Some ''Aborted''"
    using k [of SFailed] vals(4) by (auto simp: core_def)
  moreover have "uo_Trace (leaveUpdating E 0 ?s) = [UPatchStatus p (r = None)]"
    by (simp add: leaveUpdating_def u uleave_def tr)
  ultimately show ?thesis unfolding run using st vals by auto
qed

end

section \<open>The secret of the outputs\<close>

lemma secretKeyChar_ascii: "secretKeyChar c \<Longrightarrow> of_char c < (128::nat)"
  by (auto simp: secretKeyChar_def byteIn_def Let_def)

lemma sanitize_chars: "list_all secretKeyChar (sanitizeFrom n s)"
  by (induction n s rule: sanitizeFrom.induct) (simp_all add: secretKeyChar_def)

lemma secretKey_ascii: "isAscii (secretKey s)"
  using sanitize_chars [of 0 s] secretKeyChar_ascii by (auto simp: isAscii_def secretKey_def list_all_iff)

lemma sanitize_id: "list_all secretKeyChar s \<Longrightarrow> sanitizeFrom 0 s = s"
  by (induction s) simp_all

lemma map_of_mapPut [simp]: "map_of (mapPut k v m) = (map_of m)(k \<mapsto> v)"
proof -
  have "map_of (filter (\<lambda>(k', _). k' \<noteq> k) m) x = (if x = k then None else map_of m x)" for x
    by (induction m) auto
  then show ?thesis by (auto simp: mapPut_def fun_eq_iff)
qed

lemma fold_addOutput:
  fixes outs :: "OutputValue gomap"
  shows "set (snd (fold addOutput outs acc)) = set (snd acc) \<union> {secretKey n | n v. (n, v) \<in> set outs \<and> ov_Secret v}"
    and "map_of (fst (fold addOutput outs acc)) k = Some x
          \<Longrightarrow> map_of (fst acc) k = Some x \<or> (\<exists>n v. (n, v) \<in> set outs \<and> secretKey n = k \<and> ov_Value v = x)"
    and "dom (map_of (fst (fold addOutput outs acc))) = dom (map_of (fst acc)) \<union> secretKey ` fst ` set outs"
proof -
  show "set (snd (fold addOutput outs acc)) = set (snd acc) \<union> {secretKey n | n v. (n, v) \<in> set outs \<and> ov_Secret v}"
    by (induction outs arbitrary: acc) (force simp: addOutput_def Let_def)+
  show "map_of (fst (fold addOutput outs acc)) k = Some x
          \<Longrightarrow> map_of (fst acc) k = Some x \<or> (\<exists>n v. (n, v) \<in> set outs \<and> secretKey n = k \<and> ov_Value v = x)"
  proof (induction outs arbitrary: acc)
    case (Cons a outs)
    from Cons.IH [of "addOutput a acc"] Cons.prems show ?case
      by (cases a) (auto simp: addOutput_def Let_def split: if_splits)
  qed simp
  show "dom (map_of (fst (fold addOutput outs acc))) = dom (map_of (fst acc)) \<union> secretKey ` fst ` set outs"
    by (induction outs arbitrary: acc) (auto simp: addOutput_def Let_def)
qed

lemma addOutput_keys:
  "list_all (list_all secretKeyChar) (map fst (fst acc))
    \<Longrightarrow> list_all (list_all secretKeyChar) (map fst (fst (addOutput a acc)))"
  using sanitize_chars [of 0 "fst a"]
  by (auto simp: addOutput_def Let_def mapPut_def secretKey_def list_all_iff)

lemma fold_keys:
  "list_all (list_all secretKeyChar) (map fst (fst acc))
    \<Longrightarrow> list_all (list_all secretKeyChar) (map fst (fst (fold addOutput outs acc)))"
proof (induction outs arbitrary: acc)
  case (Cons a outs)
  from Cons.IH [OF addOutput_keys [OF Cons.prems]] show ?case by simp
qed simp

text \<open>What the stack controller reads back from the secret.\<close>

definition readSecret :: "OutputsSecret \<Rightarrow> OutputSecret" where
  "readSecret sec = \<lparr>os_Annotations = om_Annotations (sec_Meta sec), os_Data = sec_Data sec\<rparr>"

lemma outputsToSecret_fields:
  "sec_Data (outputsToSecret L owner outs) = fst (fold addOutput outs ([], []))"
  "map_of (om_Annotations (sec_Meta (outputsToSecret L owner outs))) SecretOutputsAnnotation
    = Some (JsonMarshalStrings L (sort (snd (fold addOutput outs ([], [])))))"
  by (simp_all add: outputsToSecret_def Let_def split: prod.split)

lemma published_outputs:
  fixes L :: lib and owner :: Update and outs :: "OutputValue gomap"
  assumes J: "json_api L"
  defines "sec \<equiv> outputsToSecret L owner outs"
  obtains pub where "stackOutputs L (readSecret sec) = Inr pub"
    and "\<And>k. map_of pub k = (case map_of (sec_Data sec) k of None \<Rightarrow> None
          | Some v \<Rightarrow> Some (if \<exists>n v. (n, v) \<in> set outs \<and> ov_Secret v \<and> secretKey n = k then secretMask else v))"
proof -
  let ?xs = "sort (snd (fold addOutput outs ([], [])))"
  have xs: "set ?xs = {secretKey n | n v. (n, v) \<in> set outs \<and> ov_Secret v}"
    using fold_addOutput(1) [of outs "([], [])"] by simp
  have "list_all isAscii ?xs" using xs secretKey_ascii by (auto simp: list_all_iff)
  then have json: "JsonUnmarshalStrings L (JsonMarshalStrings L ?xs) = Inr ?xs"
    by (rule json_api.strings_roundtrip [OF J])
  have ann: "map_of (os_Annotations (readSecret sec)) SecretOutputsAnnotation = Some (JsonMarshalStrings L ?xs)"
    by (simp add: readSecret_def sec_def outputsToSecret_fields)
  obtain pub where pub: "stackOutputs L (readSecret sec) = Inr pub"
    by (simp add: stackOutputs_def ann json)
  show thesis
  proof (rule that [OF pub])
    fix k
    have "(\<exists>a xs. map_of (os_Annotations (readSecret sec)) SecretOutputsAnnotation = Some a
            \<and> JsonUnmarshalStrings L a = Inr xs \<and> k \<in> set xs)
        \<longleftrightarrow> (\<exists>n v. (n, v) \<in> set outs \<and> ov_Secret v \<and> secretKey n = k)"
      unfolding ann using json xs by auto
    then show "map_of pub k = (case map_of (sec_Data sec) k of None \<Rightarrow> None
          | Some v \<Rightarrow> Some (if \<exists>n v. (n, v) \<in> set outs \<and> ov_Secret v \<and> secretKey n = k then secretMask else v))"
      using stackOutputs_lookup(2) [OF pub, of k] by (simp add: readSecret_def split: option.split)
  qed
qed

text \<open>C16: The values of secret stack outputs do not reach the stack's status. The secret that the
  update controller writes has only permitted keys; read back by the stack controller, every key of
  a secret output is published as the mask, whatever output shares the key after sanitizing, and
  every other published value is the value of an output that is not secret.
\<close>

lemma secret_outputs_not_published:
  assumes "json_api L"
  shows "\<exists>pub. stackOutputs L (readSecret (outputsToSecret L owner outs)) = Inr pub
    \<and> list_all (list_all secretKeyChar) (map fst (sec_Data (outputsToSecret L owner outs)))
    \<and> (\<forall>n v. (n, v) \<in> set outs \<longrightarrow> map_of pub (secretKey n) \<noteq> None)
    \<and> (\<forall>n v. (n, v) \<in> set outs \<and> ov_Secret v \<longrightarrow> map_of pub (secretKey n) = Some secretMask)
    \<and> (\<forall>k x. map_of pub k = Some x \<and> x \<noteq> secretMask
          \<longrightarrow> (\<exists>n v. (n, v) \<in> set outs \<and> secretKey n = k \<and> ov_Value v = x \<and> \<not> ov_Secret v))"
proof -
  let ?sec = "outputsToSecret L owner outs"
  obtain pub where pub: "stackOutputs L (readSecret ?sec) = Inr pub"
    and look: "\<And>k. map_of pub k = (case map_of (sec_Data ?sec) k of None \<Rightarrow> None
          | Some v \<Rightarrow> Some (if \<exists>n v. (n, v) \<in> set outs \<and> ov_Secret v \<and> secretKey n = k then secretMask else v))"
    by (rule published_outputs [OF assms, of owner outs]) (rule that)
  have dom: "map_of (sec_Data ?sec) (secretKey n) \<noteq> None" if "(n, v) \<in> set outs" for n v
    using fold_addOutput(3) [of outs "([], [])"] that by (force simp: outputsToSecret_fields)
  have val: "\<exists>n v. (n, v) \<in> set outs \<and> secretKey n = k \<and> ov_Value v = x" if "map_of (sec_Data ?sec) k = Some x" for k x
    using fold_addOutput(2) [of outs "([], [])" k x] that by (simp add: outputsToSecret_fields)
  have keys: "list_all (list_all secretKeyChar) (map fst (sec_Data ?sec))"
    unfolding outputsToSecret_fields by (rule fold_keys) simp
  have present: "map_of pub (secretKey n) \<noteq> None" if "(n, v) \<in> set outs" for n v
    using look [of "secretKey n"] dom [OF that] by (auto split: option.splits)
  have masked: "map_of pub (secretKey n) = Some secretMask" if "(n, v) \<in> set outs" "ov_Secret v" for n v
    using look [of "secretKey n"] dom [OF that(1)] that by (auto split: option.splits)
  have rest: "\<exists>n v. (n, v) \<in> set outs \<and> secretKey n = k \<and> ov_Value v = x \<and> \<not> ov_Secret v"
    if pk: "map_of pub k = Some x" and nm: "x \<noteq> secretMask" for k x
  proof -
    let ?sh = "\<exists>n v. (n, v) \<in> set outs \<and> ov_Secret v \<and> secretKey n = k"
    obtain v where v: "map_of (sec_Data ?sec) k = Some v"
      using look [of k] pk by (cases "map_of (sec_Data ?sec) k") auto
    have eq: "x = (if ?sh then secretMask else v)" using look [of k] pk v by simp
    have no: "\<not> ?sh" using eq nm by metis
    have "x = v" using eq no by simp
    with val [OF v] no show ?thesis by blast
  qed
  show ?thesis
    by (intro exI [of _ pub] conjI pub keys) (use present masked rest in blast)+
qed

definition exampleOutputs :: "OutputValue gomap" where
  "exampleOutputs = [(''a'', \<lparr>ov_Value = ''1'', ov_Secret = True\<rparr>), (''c'', \<lparr>ov_Value = ''2'', ov_Secret = False\<rparr>)]"

lemma secret_outputs_not_published_witness:
  "\<exists>pub. stackOutputs docLib (readSecret (outputsToSecret docLib exampleUpdate exampleOutputs)) = Inr pub
     \<and> map_of pub (secretKey ''a'') = Some secretMask"
  using secret_outputs_not_published [OF docJson.json_api_axioms, of exampleUpdate exampleOutputs]
  by (auto simp: exampleOutputs_def)

text \<open>C23: Once an Update has the three conditions, no later reconcile changes a transition time: every
  status the handler writes carries the transition times it found. (The handler changes the
  conditions through pointers into the object, so the helper that would stamp a change of status
  compares a condition with itself.) An update that was once put off therefore completes with the
  time of its first status, and its time to live is counted from there.
\<close>

lemma transition_times_frozen:
  assumes "update_server E"
    and "\<And>k. refFind (ust_Conditions (u_Status obj)) (slotType k) = Some (C k)"
    and "UPatchStatus p ack \<in> set (uo_Trace (UpdateReconcile E (Inr obj)))"
  shows "map_option c_LastTransitionTime (refFind (ust_Conditions (appliedStatus p)) (slotType k))
    = Some (c_LastTransitionTime (C k))"
  by (rule update_server.transition_times_kept [OF assms])

text \<open>An update that was put off at time 5, and its reconcile at time 1000.\<close>

definition waitingCondition :: "slot \<Rightarrow> Condition" where
  "waitingCondition k = (mkCondition (slotType k) ConditionFalse ''Progressing'' [])\<lparr>c_LastTransitionTime := 5\<rparr>"

definition waitingRun :: Update where
  "waitingRun = exampleRun\<lparr>u_Status := emptyUpdateStatus
     \<lparr>ust_Conditions := map waitingCondition [SProgressing, SFailed, SComplete]\<rparr>\<rparr>"

lemma waitingRun_conditions: "refFind (ust_Conditions (u_Status waitingRun)) (slotType k) = Some (waitingCondition k)"
  by (cases k) (simp_all add: waitingRun_def refFind_def waitingCondition_def update_condition_types)

lemma waitingRun_same:
  "u_Spec waitingRun = u_Spec exampleRun" "u_Meta waitingRun = u_Meta exampleRun"
  "isOrphaned docLib waitingRun = isOrphaned docLib exampleRun"
  by (simp_all add: waitingRun_def isOrphaned_def)

lemma waitingRun_ready: "\<not> guardedConds (ust_Conditions (u_Status waitingRun))"
  using waitingRun_conditions [of SComplete] waitingRun_conditions [of SProgressing]
  by (simp add: guardedConds_def statusOfSlot_def waitingCondition_def)

lemma transition_times_frozen_witness:
  "\<exists>p. UPatchStatus p True \<in> set (uo_Trace (UpdateReconcile (exampleUEnv exampleRecv) (Inr waitingRun)))
    \<and> statusOfSlot (ust_Conditions (appliedStatus p)) SProgressing = Some ConditionTrue
    \<and> map_option c_LastTransitionTime (refFind (ust_Conditions (appliedStatus p)) (slotType SProgressing)) = Some 5"
proof -
  obtain p rest where tr: "uo_Trace (UpdateReconcile (exampleUEnv exampleRecv) (Inr waitingRun)) = UPatchStatus p True # rest"
    and st: "statusOfSlot (ust_Conditions (appliedStatus p)) SProgressing = Some ConditionTrue"
    using exampleServer.Reconcile_begins [of waitingRun exampleRecv exampleWorkspace] waitingRun_ready example_ready
    by (simp add: waitingRun_same; blast)
  have "UPatchStatus p True \<in> set (uo_Trace (UpdateReconcile (exampleUEnv exampleRecv) (Inr waitingRun)))"
    by (simp add: tr)
  from transition_times_frozen [OF exampleServer.update_server_axioms waitingRun_conditions this, of SProgressing] this st
  show ?thesis by (intro exI [of _ p]) (simp add: waitingCondition_def)
qed

text \<open>The handler deletes the object exactly when the update is complete, is not being deleted
  already, has a time to live, and that time has passed since the transition time of its Complete
  condition; before that it asks to be called again after a positive delay and does nothing.
\<close>

lemma completed_update_deleted:
  assumes "update_server E"
  shows "((\<exists>ack. UDeleteObject ack \<in> set (uo_Trace (UpdateReconcile E (Inr obj)))) \<longleftrightarrow>
       (\<exists>c ttl. refFind (ust_Conditions (u_Status obj)) UpdateConditionTypeComplete = Some c
          \<and> c_Status c = ConditionTrue \<and> om_DeletionTimestamp (u_Meta obj) = None
          \<and> us_TtlAfterCompleted (u_Spec obj) = Some ttl \<and> c_LastTransitionTime c + ttl \<le> ue_Now E [] 0))
    \<and> (\<forall>c ttl. refFind (ust_Conditions (u_Status obj)) UpdateConditionTypeComplete = Some c
          \<and> c_Status c = ConditionTrue \<and> om_DeletionTimestamp (u_Meta obj) = None
          \<and> us_TtlAfterCompleted (u_Spec obj) = Some ttl \<and> ue_Now E [] 0 < c_LastTransitionTime c + ttl
        \<longrightarrow> (\<exists>d > 0. UpdateReconcile E (Inr obj) = \<lparr>uo_Return = Some (d, None), uo_Trace = []\<rparr>))"
  using update_server.deletion_iff [OF assms] update_server.retained [OF assms] by blast

definition completeRun :: "time \<Rightarrow> Update" where
  "completeRun t = exampleRun\<lparr>u_Status := emptyUpdateStatus\<lparr>ust_Conditions :=
     [(mkCondition UpdateConditionTypeComplete ConditionTrue ''Updated'' [])\<lparr>c_LastTransitionTime := t\<rparr>]\<rparr>\<rparr>"

lemma completed_update_deleted_witness:
  "(\<exists>ack. UDeleteObject ack \<in> set (uo_Trace (UpdateReconcile (exampleUEnv exampleRecv) (Inr (completeRun 900)))))
    \<and> (\<exists>d > 0. UpdateReconcile (exampleUEnv exampleRecv) (Inr (completeRun 990)) = \<lparr>uo_Return = Some (d, None), uo_Trace = []\<rparr>)"
proof -
  note now = exampleUEnv_simps(7)
  have vals: "refFind (ust_Conditions (u_Status (completeRun t))) UpdateConditionTypeComplete
      = Some ((mkCondition UpdateConditionTypeComplete ConditionTrue ''Updated'' [])\<lparr>c_LastTransitionTime := t\<rparr>)"
    "om_DeletionTimestamp (u_Meta (completeRun t)) = None"
    "us_TtlAfterCompleted (u_Spec (completeRun t)) = Some 60" for t
    by (simp_all add: completeRun_def refFind_def mkCondition_def exampleRun_def emptyMeta_def emptyUpdateSpec_def)
  show ?thesis
    using completed_update_deleted [OF exampleServer.update_server_axioms, of exampleRecv "completeRun 900"]
      completed_update_deleted [OF exampleServer.update_server_axioms, of exampleRecv "completeRun 990"]
    by (simp add: vals mkCondition_def)
qed

text \<open>An update found progressing, whose reconcile was cut short, is not run again: the handler
  writes one status, which says complete, failed and no longer progressing, with reason Aborted,
  and does nothing else.
\<close>

lemma interrupted_update_aborted:
  assumes "update_server E"
    and "statusOfSlot (ust_Conditions (u_Status obj)) SProgressing = Some ConditionTrue"
    and "statusOfSlot (ust_Conditions (u_Status obj)) SComplete \<noteq> Some ConditionTrue"
  shows "\<exists>p ack. uo_Trace (UpdateReconcile E (Inr obj)) = [UPatchStatus p ack]
    \<and> statusOfSlot (ust_Conditions (appliedStatus p)) SComplete = Some ConditionTrue
    \<and> statusOfSlot (ust_Conditions (appliedStatus p)) SFailed = Some ConditionTrue
    \<and> statusOfSlot (ust_Conditions (appliedStatus p)) SProgressing = Some ConditionFalse
    \<and> map_option c_Reason (refFind (ust_Conditions (appliedStatus p)) UpdateConditionTypeFailed) = Some ''Aborted''"
  by (rule update_server.Reconcile_aborts [OF assms])

lemma interrupted_update_aborted_witness:
  "\<exists>p ack. uo_Trace (UpdateReconcile (exampleUEnv exampleRecv)
      (Inr (exampleRun\<lparr>u_Status := emptyUpdateStatus
         \<lparr>ust_Conditions := [mkCondition UpdateConditionTypeProgressing ConditionTrue ''Progressing'' []]\<rparr>\<rparr>)))
    = [UPatchStatus p ack]"
proof -
  let ?u = "exampleRun\<lparr>u_Status := emptyUpdateStatus
         \<lparr>ust_Conditions := [mkCondition UpdateConditionTypeProgressing ConditionTrue ''Progressing'' []]\<rparr>\<rparr>"
  have "statusOfSlot (ust_Conditions (u_Status ?u)) SProgressing = Some ConditionTrue"
    "statusOfSlot (ust_Conditions (u_Status ?u)) SComplete \<noteq> Some ConditionTrue"
    by (simp_all add: statusOfSlot_def refFind_def update_condition_types)
  from interrupted_update_aborted [OF exampleServer.update_server_axioms this] show ?thesis by blast
qed

section \<open>The phases of an update\<close>

text \<open>
  The four phases by the statuses of the conditions Progressing, Failed and Complete: waiting, running,
  succeeded, failed.
\<close>

definition legalPhases :: "(ConditionStatus \<times> ConditionStatus \<times> ConditionStatus) set" where
  "legalPhases = {(ConditionFalse, ConditionFalse, ConditionFalse), (ConditionTrue, ConditionFalse, ConditionFalse),
     (ConditionFalse, ConditionFalse, ConditionTrue), (ConditionFalse, ConditionTrue, ConditionTrue)}"

definition phaseOf :: "Condition list \<Rightarrow> (ConditionStatus \<times> ConditionStatus \<times> ConditionStatus) option" where
  "phaseOf cs = (case (statusOfSlot cs SProgressing, statusOfSlot cs SFailed, statusOfSlot cs SComplete) of
     (Some p, Some f, Some c) \<Rightarrow> Some (p, f, c) | _ \<Rightarrow> None)"

definition phaseNow :: "lib \<Rightarrow> UState \<Rightarrow> ConditionStatus \<times> ConditionStatus \<times> ConditionStatus" where
  "phaseNow L s = (statusNow L SProgressing s, statusNow L SFailed s, statusNow L SComplete s)"

context condition_slice
begin

lemma true_slot: "IsStatusConditionTrue L cs (slotType k) \<longleftrightarrow> statusOfSlot cs k = Some ConditionTrue"
  using true_iff find_first by (auto simp: statusOfSlot_def)

lemmas true_slots = true_slot [of _ SComplete, simplified] true_slot [of _ SFailed, simplified]

end

context update_server
begin

lemma phaseNow_simps [simp]:
  "phaseNow L (uact a s) = phaseNow L s"
  "(\<And>st. ust_Conditions (f st) = ust_Conditions st) \<Longrightarrow> phaseNow L (mapStatus f s) = phaseNow L s"
  by (simp add: phaseNow_def statusNow_def) (simp add: phaseNow_def)

lemma updateStatus_phase:
  assumes "sessOk s" and "updateStatus E s = (err, t)"
  shows "phaseNow L t = phaseNow L s"
    and "\<exists>p. uv_trace t = uv_trace s @ [UPatchStatus p (err = None)] \<and> phaseOf (ust_Conditions (appliedStatus p)) = Some (phaseNow L s)"
proof -
  show "phaseNow L t = phaseNow L s"
    using core_status [OF updateStatus_effect(2) [OF assms]] by (simp add: phaseNow_def statusNow_def)
  from updateStatus_effect(3) [OF assms] obtain p where p: "uv_trace t = uv_trace s @ [UPatchStatus p (err = None)]"
    and c: "\<And>k. map_option core (refFind (ust_Conditions (appliedStatus p)) (slotType k)) = Some (core (deref L k s))" by blast
  have "statusOfSlot (ust_Conditions (appliedStatus p)) k = Some (statusNow L k s)" for k
    using c [of k] by (auto simp: statusOfSlot_def statusNow_def dest: core_status)
  then have "phaseOf (ust_Conditions (appliedStatus p)) = Some (phaseNow L s)" by (simp add: phaseOf_def phaseNow_def)
  with p show "\<exists>p. uv_trace t = uv_trace s @ [UPatchStatus p (err = None)] \<and> phaseOf (ust_Conditions (appliedStatus p)) = Some (phaseNow L s)"
    by blast
qed

end

fun phased :: "UAction \<Rightarrow> bool" where
  "phased (UPatchStatus p ack) \<longleftrightarrow> (\<exists>ph\<in>legalPhases. phaseOf (ust_Conditions (appliedStatus p)) = Some ph)"
| "phased _ \<longleftrightarrow> True"

sublocale update_server < phases: handler_invariant E "\<lambda>_. True" "\<lambda>s. phaseNow (ue_L E) s \<in> legalPhases" phased
proof unfold_locales
  show "phaseNow L (markRunning s) \<in> legalPhases" "phaseNow L (markFailed r s) \<in> legalPhases"
    "phaseNow L (markWaiting r s) \<in> legalPhases" if "sessOk s" for s r
    using that by (simp_all add: phaseNow_def legalPhases_def markRunning_def markFailed_def markWaiting_def mark_effect)
  show "phaseNow L (onResult E now res s) \<in> legalPhases" if "sessOk s" for s now res
    using onResult_status [OF that] by (simp add: phaseNow_def legalPhases_def failedStatus_def split: option.split)
  show "phaseNow L (setStatusBlockFromGRPCErr e s) \<in> legalPhases" if "sessOk s" "phaseNow L s \<in> legalPhases" for s e
    using setStatusBlock_status [OF that(1)] that(2)
    by (cases e) (auto simp: phaseNow_def legalPhases_def)
  show "phaseNow L s \<in> legalPhases \<Longrightarrow> (\<And>st. ust_Conditions (f st) = ust_Conditions st)
      \<Longrightarrow> phaseNow L (mapStatus f s) \<in> legalPhases" for s f by simp
  show "phaseNow L s \<in> legalPhases \<Longrightarrow> phaseNow L (uact a s) \<in> legalPhases" for s a by simp
  show "plainAction a \<Longrightarrow> phased a" for a by (cases a) simp_all
  fix s err t
  assume ok: "sessOk s" and legal: "phaseNow L s \<in> legalPhases" and run: "updateStatus E s = (err, t)"
  show "phaseNow L t \<in> legalPhases
      \<and> (\<exists>p. uv_trace t = uv_trace s @ [UPatchStatus p (err = None)] \<and> phased (UPatchStatus p (err = None)))"
    using updateStatus_phase [OF ok run] legal by auto
qed

context update_server
begin

lemma status_phased:
  "UPatchStatus p ack \<in> set (uo_Trace (UpdateReconcile E (Inr obj)))
    \<Longrightarrow> \<exists>ph\<in>legalPhases. phaseOf (ust_Conditions (appliedStatus p)) = Some ph"
  by (drule phases.every_patch [OF TrueI]) simp

end

text \<open>C22: Every status that the update controller writes is of one of four phases: whatever conditions the
  object came with, all three of Progressing, Failed and Complete are there, and an update is waiting,
  running, succeeded or failed, so that none is complete and progressing, or failed and not complete.
\<close>

lemma update_status_phased:
  assumes "update_server E" and "UPatchStatus p ack \<in> set (uo_Trace (UpdateReconcile E (Inr obj)))"
  shows "\<exists>ph\<in>legalPhases. phaseOf (ust_Conditions (appliedStatus p)) = Some ph"
  by (rule update_server.status_phased [OF assms])

definition progressingRun :: Update where
  "progressingRun = exampleRun\<lparr>u_Status := emptyUpdateStatus
     \<lparr>ust_Conditions := [mkCondition UpdateConditionTypeProgressing ConditionTrue ''Progressing'' []]\<rparr>\<rparr>"

lemma update_status_phased_witness:
  "\<exists>p ack. UPatchStatus p ack \<in> set (uo_Trace (UpdateReconcile (exampleUEnv exampleRecv) (Inr progressingRun)))
    \<and> (\<exists>ph\<in>legalPhases. phaseOf (ust_Conditions (appliedStatus p)) = Some ph)"
proof -
  have "statusOfSlot (ust_Conditions (u_Status progressingRun)) SProgressing = Some ConditionTrue"
    "statusOfSlot (ust_Conditions (u_Status progressingRun)) SComplete \<noteq> Some ConditionTrue"
    by (simp_all add: progressingRun_def statusOfSlot_def refFind_def update_condition_types)
  from exampleServer.Reconcile_aborts [OF this, of exampleRecv] obtain p ack where
    "uo_Trace (UpdateReconcile (exampleUEnv exampleRecv) (Inr progressingRun)) = [UPatchStatus p ack]" by blast
  then have "UPatchStatus p ack \<in> set (uo_Trace (UpdateReconcile (exampleUEnv exampleRecv) (Inr progressingRun)))" by simp
  with update_status_phased [OF exampleServer.update_server_axioms this] show ?thesis by blast
qed

section \<open>What a stream leaves behind\<close>

text \<open>C20: What the stream's deciding message leaves in the session: a result completes the update, and
  fails it exactly when it has a summary whose outcome is not success; an error completes it, and
  fails it when it is a gRPC status; a stream that ends without a result leaves it progressing.
\<close>

lemma stream_outcome:
  assumes "update_server E" and "sessOk s"
    and "recvLoop recv 0 = Some x" and "Result E recv s = Some (res, t)"
  shows "case x of
      RecvEOF \<Rightarrow> t = s \<and> (\<exists>e. res = Inl e)
    | RecvErr e \<Rightarrow> statusNow (ue_L E) SProgressing t = ConditionFalse \<and> statusNow (ue_L E) SComplete t = ConditionTrue
        \<and> statusNow (ue_L E) SFailed t
            = (case e of StatusError _ _ _ _ \<Rightarrow> ConditionTrue | PlainError _ \<Rightarrow> statusNow (ue_L E) SFailed s)
        \<and> (\<exists>e. res = Inl e)
    | RecvMsg m \<Rightarrow> statusNow (ue_L E) SProgressing t = ConditionFalse \<and> statusNow (ue_L E) SComplete t = ConditionTrue
        \<and> statusNow (ue_L E) SFailed t = failedStatus E (commonPart (the (GetResult m)))
        \<and> res = Inr (the (GetResult m))"
  using update_server.Result_status [OF assms] update_server.Result_value [OF assms(1,3,4)]
  by (cases x) auto

lemma stream_outcome_witness:
  "\<exists>res t. Result (exampleUEnv exampleRecv) exampleRecv (initialState docLib exampleRun) = Some (res, t)
    \<and> statusNow docLib SComplete t = ConditionTrue \<and> statusNow docLib SFailed t = ConditionFalse"
proof -
  have loop: "recvLoop exampleRecv 0 = Some (exampleRecv 1)"
    by (rule recvLoop_finds) (auto simp: exampleRecv_def)
  then obtain res t where run: "Result (exampleUEnv exampleRecv) exampleRecv (initialState docLib exampleRun) = Some (res, t)"
    by (auto simp: Result_def Let_def intro: prod.exhaust)
  from stream_outcome [OF exampleServer.update_server_axioms docSlice.sessOk_initial loop run] run
  show ?thesis
    by (auto simp: exampleRecv_def failedStatus_def exampleResult_def)
qed

section \<open>One step of the abstract update\<close>

text \<open>
  The abstract update is guarded or not, and begins an operation at most when it is not, after which
  it is guarded for good.
\<close>

inductive abstractStep :: "bool \<Rightarrow> nat \<Rightarrow> bool \<Rightarrow> bool" where
  abs_stay: "abstractStep g 0 g"
| abs_try: "abstractStep False 0 g"
| abs_begin: "abstractStep False 1 True"

text \<open>C14: A reconcile, stopped anywhere and with any of its unacknowledged writes lost, refines one step
  of the abstract update: what the store then holds and the number of operations begun are those
  of a step, so a guarded update stays guarded and nothing is begun for it.
\<close>

lemma reconcile_refines_abstract:
  assumes "update_server E" and "uo_Trace (UpdateReconcile E (Inr u)) = tr @ rest" and "persist u tr v"
  shows "abstractStep (guardedConds (ust_Conditions (u_Status u))) (operationsBegun tr)
           (guardedConds (ust_Conditions (u_Status v)))"
proof (cases "guardedConds (ust_Conditions (u_Status u))")
  case True
  have "checked False True (tr @ rest)" using update_server.checked_guarded [OF assms(1) True] assms(2) by simp
  from persist_checked [OF assms(3) this] True show ?thesis by (simp add: abs_stay)
next
  case False
  have "checked False False (tr @ rest)"
    using update_server.checked_Reconcile [OF assms(1), of "Inr u"] assms(2) by simp
  from persist_checked [OF assms(3) this] have "operationsBegun tr = 0
      \<or> operationsBegun tr = 1 \<and> guardedConds (ust_Conditions (u_Status v))" by auto
  with False show ?thesis by (auto intro: abs_try abs_begin [simplified])
qed

lemma reconcile_refines_abstract_witness:
  "\<exists>tr v. persist exampleRun tr v \<and> operationsBegun tr = 1
     \<and> abstractStep False 1 (guardedConds (ust_Conditions (u_Status v)))"
proof -
  obtain p r rest where tr: "uo_Trace (UpdateReconcile (exampleUEnv exampleRecv) (Inr exampleRun))
      = [UPatchStatus p True, USelectStack ''dev'' True, UCall r True] @ rest"
    using example_begins [of exampleRecv] by (auto simp: example_ready)
  obtain v where v: "persist exampleRun [UPatchStatus p True, USelectStack ''dev'' True, UCall r True] v"
    using persist_total by blast
  have "operationsBegun [UPatchStatus p True, USelectStack ''dev'' True, UCall r True] = 1"
    by (simp add: operationsBegun_def)
  with reconcile_refines_abstract [OF exampleServer.update_server_axioms tr v] v example_ready(2)
  show ?thesis by (simp; blast)
qed

section \<open>Wake-ups\<close>

interpretation autoWorkspaceWatch: edge_trigger
  "\<lambda>w. autoWorkspaceReady L (Some w)" "autoWorkspaceReadyPredicate_Create L" "autoWorkspaceReadyPredicate_Update L"
  for L
  by unfold_locales (auto simp: autoWorkspaceReadyPredicate_Create_def autoWorkspaceReadyPredicate_Update_def)

text \<open>An event of a workspace enqueues exactly the updates of its namespace that name it, are not
  complete and are not being reconciled at the moment.
\<close>

lemma workspace_event_requeues:
  assumes "\<And>ns nm. listUpdates ns nm = Inr (filter (\<lambda>u. om_Namespace (u_Meta u) = ns \<and> nm \<in> set (indexUpdateByWorkspace L u)) us)"
  shows "key \<in> set (mapWorkspaceToUpdate listUpdates active w) \<longleftrightarrow>
    key \<notin> set active \<and> (\<exists>u \<in> set us. key = updateKey u \<and> om_Namespace (u_Meta u) = om_Namespace w
       \<and> us_WorkspaceName (u_Spec u) = om_Name w
       \<and> \<not> IsStatusConditionTrue L (ust_Conditions (u_Status u)) UpdateConditionTypeComplete)"
  by (auto simp: mapWorkspaceToUpdate_def assms indexUpdateByWorkspace_def)

lemma workspace_event_requeues_witness:
  "set (mapWorkspaceToUpdate (\<lambda>ns nm. Inr (filter (\<lambda>u. om_Namespace (u_Meta u) = ns
      \<and> nm \<in> set (indexUpdateByWorkspace docLib u)) [exampleRun, completeRun 0])) []
      (w_Meta exampleWorkspace)) = {(''default'', ''up'')}"
  unfolding set_eq_iff workspace_event_requeues [OF refl, where us = "[exampleRun, completeRun 0]"]
  by (auto simp: updateKey_def exampleRun_def completeRun_def exampleWorkspace_def emptyMeta_def
      emptyUpdateSpec_def emptyUpdateStatus_def docLib_def refIsTrue_def refFind_def)

end
