(* ===== verification/AgentConfig.thy ===== *)
theory AgentConfig
  imports UpdateController
begin

text \<open>
  The configuration items of a workspace on their way to the Pulumi CLI: the operator's marshalling
  (operator/internal/controller/auto/utils.go), its test for structured values
  (workspace_controller.go), and the agent's two ways to hand them to the CLI, with paths or as one
  JSON document (agent/pkg/server/server.go). The JSON and protobuf codecs, the parser of
  configuration keys and the agent's environment and file system are arguments.
\<close>

section \<open>The packages\<close>

text \<open>
  What \<^verbatim>\<open>structpb.Value.AsInterface\<close> gives: a string, nil, or another value (object, array,
  number, boolean). A protobuf value is of type 'j, a decoded Go value of type 'i.
\<close>

datatype goValue = GoString string | GoNil | GoOther

record ('j, 'i) codecs =
  jl_ProtoUnmarshal :: "JSON \<Rightarrow> goerr + 'j"
  jl_AsInterface :: "'j \<Rightarrow> goValue"
  jl_SprintOther :: "'j \<Rightarrow> string"
  jl_ProtoMarshal :: "'j \<Rightarrow> goerr + JSON"
  jl_JsonUnmarshal :: "JSON \<Rightarrow> goerr + 'i"
  jl_JsonMarshal :: "'i \<Rightarrow> goerr + JSON"

text \<open>A configuration key is a namespace and a name.\<close>

record agentlib =
  al_TokenDelimiter :: string
  al_ParseKey :: "string \<Rightarrow> goerr + (string \<times> string)"
  al_KeyString :: "string \<times> string \<Rightarrow> string"
  al_CodeString :: "statusCode \<Rightarrow> string"
  al_LookupEnv :: "string \<Rightarrow> string option"
  al_ReadFile :: "string \<Rightarrow> goerr + string"

section \<open>Errors and strings\<close>

definition InvalidArgument :: statusCode where "InvalidArgument = OtherCode 3"
definition NotFoundCode :: statusCode where "NotFoundCode = OtherCode 5"
definition FailedPrecondition :: statusCode where "FailedPrecondition = OtherCode 9"
definition AbortedCode :: statusCode where "AbortedCode = OtherCode 10"
definition UnknownCode :: statusCode where "UnknownCode = OtherCode 2"

text \<open>\<^verbatim>\<open>status.Error\<close>, and \<^verbatim>\<open>fmt.Errorf("...: %w", err)\<close> around a gRPC status.\<close>

definition statusErr :: "agentlib \<Rightarrow> statusCode \<Rightarrow> string \<Rightarrow> rpcError" where
  "statusErr A c msg = StatusError (''rpc error: code = '' @ al_CodeString A c @ '' desc = '' @ msg) c msg []"

fun wrapErr :: "string \<Rightarrow> rpcError \<Rightarrow> rpcError" where
  "wrapErr p (PlainError t) = PlainError (p @ '': '' @ t)"
| "wrapErr p (StatusError t c m ds) = StatusError (p @ '': '' @ t) c (p @ '': '' @ t) ds"

definition plainErr :: "string \<Rightarrow> goerr \<Rightarrow> rpcError" where
  "plainErr p e = PlainError (p @ '': '' @ errorText e)"

definition hasSuffix :: "string \<Rightarrow> string \<Rightarrow> bool" where
  "hasSuffix s p \<longleftrightarrow> hasPrefix (rev s) (rev p)"

fun containsText :: "string \<Rightarrow> string \<Rightarrow> bool" where
  "containsText [] p = (p = [])"
| "containsText (c # cs) p = (hasPrefix (c # cs) p \<or> containsText cs p)"

section \<open>Marshalling in the operator\<close>

datatype pbSource = PbEnv string | PbPath string | PbNone

datatype 'j pbPayload = PbValue 'j | PbValueFrom pbSource "bool option"

record 'j pbConfigItem =
  pc_Key :: string
  pc_Path :: "bool option"
  pc_V :: "'j pbPayload option"
  pc_Secret :: "bool option"

definition marshalValueFrom :: "ConfigValueFrom \<Rightarrow> 'j pbPayload" where
  "marshalValueFrom vf = PbValueFrom
     (if cvf_Env vf \<noteq> [] then PbEnv (cvf_Env vf) else if cvf_Path vf \<noteq> [] then PbPath (cvf_Path vf) else PbNone)
     (cvf_JSON vf)"

definition isStructured :: "goValue \<Rightarrow> bool" where
  "isStructured v \<longleftrightarrow> v = GoOther"

definition marshalConfigItem :: "('j, 'i) codecs \<Rightarrow> ConfigItem \<Rightarrow> goerr + 'j pbConfigItem" where
  "marshalConfigItem J item = (
     let v = \<lparr>pc_Key = ci_Key item, pc_Path = ci_Path item, pc_V = None, pc_Secret = ci_Secret item\<rparr>
     in bindE (case ci_Value item of
                 None \<Rightarrow> Inr v
               | Some raw \<Rightarrow>
                   (case jl_ProtoUnmarshal J raw of
                      Inl e \<Rightarrow> Inl (Wrapf ''failed to unmarshal config value'' e)
                    | Inr pbValue \<Rightarrow>
                        (if ci_Path item = Some True \<and> isStructured (jl_AsInterface J pbValue)
                         then Inl (Errorf (''path=true is incompatible with structured values (objects, arrays, etc.) for key ''
                                           @ goQuote (ci_Key item)))
                         else Inr (v\<lparr>pc_V := Some (PbValue pbValue)\<rparr>))))
          (\<lambda>v. Inr (case ci_ValueFrom item of
                      None \<Rightarrow> v
                    | Some vf \<Rightarrow> v\<lparr>pc_V := Some (marshalValueFrom vf)\<rparr>)))"

text \<open>
  \<^verbatim>\<open>hasJsonConfigInWorkspace\<close>: whether the configuration needs a Pulumi CLI that takes JSON. It
  looks at the first byte of a value's text.
\<close>

definition quoteByte :: char where "quoteByte = CHR 0x22"

definition needsJson :: "ConfigItem \<Rightarrow> bool" where
  "needsJson item \<longleftrightarrow>
     (case ci_Value item of Some (c # _) \<Rightarrow> c \<noteq> quoteByte | _ \<Rightarrow> False)
     \<or> (case ci_ValueFrom item of Some vf \<Rightarrow> cvf_JSON vf = Some True | None \<Rightarrow> False)"

definition hasJsonConfigInWorkspace :: "WorkspaceStack list \<Rightarrow> bool" where
  "hasJsonConfigInWorkspace stacks \<longleftrightarrow> list_ex (\<lambda>stack. list_ex needsJson (wst_Config stack)) stacks"

section \<open>Unmarshalling in the agent\<close>

definition hasJsonValue :: "('j, 'i) codecs \<Rightarrow> 'j pbConfigItem \<Rightarrow> bool" where
  "hasJsonValue J item =
     (case pc_V item of
        Some (PbValue v) \<Rightarrow> (case jl_AsInterface J v of GoString _ \<Rightarrow> False | GoNil \<Rightarrow> False | GoOther \<Rightarrow> True)
      | Some (PbValueFrom _ json) \<Rightarrow> json = Some True
      | None \<Rightarrow> False)"

record ConfigValue =
  cv_Value :: string
  cv_Secret :: bool

text \<open>The value a reference stands for, from the agent's environment or a file.\<close>

definition readSource :: "agentlib \<Rightarrow> pbSource \<Rightarrow> rpcError + string" where
  "readSource A src =
     (case src of
        PbEnv e \<Rightarrow> (case al_LookupEnv A e of
                      None \<Rightarrow> Inl (statusErr A InvalidArgument (''missing value for environment variable: '' @ e))
                    | Some d \<Rightarrow> Inr d)
      | PbPath p \<Rightarrow> (case al_ReadFile A p of
                      Inl _ \<Rightarrow> Inl (statusErr A InvalidArgument (''unreadable path: '' @ p))
                    | Inr d \<Rightarrow> Inr d)
      | PbNone \<Rightarrow> Inl (statusErr A InvalidArgument ''invalid config value''))"

text \<open>\<^verbatim>\<open>fmt.Sprintf("%v", value)\<close>.\<close>

definition sprintV :: "('j, 'i) codecs \<Rightarrow> 'j \<Rightarrow> string" where
  "sprintV J v = (case jl_AsInterface J v of GoString s \<Rightarrow> s | GoNil \<Rightarrow> ''<nil>'' | GoOther \<Rightarrow> jl_SprintOther J v)"

definition unmarshalConfigItem :: "('j, 'i) codecs \<Rightarrow> agentlib \<Rightarrow> 'j pbConfigItem \<Rightarrow> rpcError + ConfigValue" where
  "unmarshalConfigItem J A item = (
     let secret = (pc_Secret item = Some True)
     in case pc_V item of
          Some (PbValue v) \<Rightarrow> Inr \<lparr>cv_Value = sprintV J v, cv_Secret = secret\<rparr>
        | Some (PbValueFrom src _) \<Rightarrow> bindE (readSource A src) (\<lambda>d. Inr \<lparr>cv_Value = d, cv_Secret = secret\<rparr>)
        | None \<Rightarrow> Inl (statusErr A InvalidArgument ''invalid config value''))"

text \<open>The key with its namespace, the project's unless it names one.\<close>

definition parseItemKey :: "agentlib \<Rightarrow> string \<Rightarrow> string \<Rightarrow> rpcError + (string \<times> string)" where
  "parseItemKey A project key = (
     let key = (if containsText key (al_TokenDelimiter A) then key else project @ '':'' @ key)
     in case al_ParseKey A key of
          Inl e \<Rightarrow> Inl (plainErr (''parsing '' @ goQuote key @ '' key'') e)
        | Inr k \<Rightarrow> Inr k)"

text \<open>A key that is not a path is escaped as \<^verbatim>\<open>["name"]\<close>, unless it is already.\<close>

definition escapeKey :: "bool \<Rightarrow> string \<times> string \<Rightarrow> string \<times> string" where
  "escapeKey path k =
     (if \<not> path \<and> (\<not> hasPrefix (snd k) [CHR ''['', quoteByte] \<or> \<not> hasSuffix (snd k) [quoteByte, CHR '']''])
      then (fst k, ''['' @ goQuote (snd k) @ '']'') else k)"

definition configBodyPath ::
  "('j, 'i) codecs \<Rightarrow> agentlib \<Rightarrow> string \<Rightarrow> 'j pbConfigItem \<Rightarrow> ConfigValue gomap \<Rightarrow> rpcError + ConfigValue gomap" where
  "configBodyPath J A project item out =
     (if hasJsonValue J item then Inl (PlainError ''config contains JSON values'')
      else bindE (mapErr (wrapErr (''unmarshalling '' @ goQuote (pc_Key item) @ '' config'')) (unmarshalConfigItem J A item))
        (\<lambda>v. bindE (parseItemKey A project (pc_Key item))
          (\<lambda>k. Inr (mapPut (al_KeyString A (escapeKey (pc_Path item = Some True) k)) v out))))"

definition unmarshalConfigItems ::
  "('j, 'i) codecs \<Rightarrow> agentlib \<Rightarrow> string \<Rightarrow> 'j pbConfigItem list \<Rightarrow> rpcError + ConfigValue gomap" where
  "unmarshalConfigItems J A project items = foldE (configBodyPath J A project) items []"

record 'i ConfigValueJSON =
  cvj_Value :: "string option"
  cvj_ObjectValue :: "'i option"
  cvj_Secret :: bool

text \<open>A structured value is kept as its compact JSON text and as the decoded value.\<close>

definition structuredValue ::
  "('j, 'i) codecs \<Rightarrow> string \<Rightarrow> bool \<Rightarrow> 'j \<Rightarrow> rpcError + 'i ConfigValueJSON" where
  "structuredValue J key secret v =
     bindE (mapErr (plainErr (''marshaling '' @ goQuote key @ '' value to JSON'')) (jl_ProtoMarshal J v))
       (\<lambda>bytes. bindE (mapErr (plainErr (''unmarshaling '' @ goQuote key @ '' protojson'')) (jl_JsonUnmarshal J bytes))
         (\<lambda>obj. bindE (mapErr (plainErr (''re-marshaling '' @ goQuote key @ '' value'')) (jl_JsonMarshal J obj))
           (\<lambda>text. Inr \<lparr>cvj_Value = Some text, cvj_ObjectValue = Some obj, cvj_Secret = secret\<rparr>)))"

definition jsonValueOf ::
  "('j, 'i) codecs \<Rightarrow> agentlib \<Rightarrow> 'j pbConfigItem \<Rightarrow> rpcError + 'i ConfigValueJSON" where
  "jsonValueOf J A item = (
     let secret = (pc_Secret item = Some True)
     in case pc_V item of
          Some (PbValue v) \<Rightarrow>
            (case jl_AsInterface J v of
               GoString s \<Rightarrow> Inr \<lparr>cvj_Value = Some s, cvj_ObjectValue = None, cvj_Secret = secret\<rparr>
             | _ \<Rightarrow> structuredValue J (pc_Key item) secret v)
        | Some (PbValueFrom src json) \<Rightarrow>
            bindE (readSource A src)
              (\<lambda>d. if json = Some True
                   then bindE (mapErr (plainErr (''parsing '' @ goQuote (pc_Key item) @ '' as JSON'')) (jl_JsonUnmarshal J d))
                          (\<lambda>obj. Inr \<lparr>cvj_Value = Some d, cvj_ObjectValue = Some obj, cvj_Secret = secret\<rparr>)
                   else Inr \<lparr>cvj_Value = Some d, cvj_ObjectValue = None, cvj_Secret = secret\<rparr>)
        | None \<Rightarrow> Inl (statusErr A InvalidArgument ''invalid config value''))"

definition configBodyJson ::
  "('j, 'i) codecs \<Rightarrow> agentlib \<Rightarrow> string \<Rightarrow> 'j pbConfigItem \<Rightarrow> 'i ConfigValueJSON gomap
    \<Rightarrow> rpcError + 'i ConfigValueJSON gomap" where
  "configBodyJson J A project item out =
     (if pc_Path item = Some True \<and> hasJsonValue J item
      then Inl (statusErr A InvalidArgument
             (''config item '' @ goQuote (pc_Key item) @ '': path=true is incompatible with JSON values''))
      else bindE (parseItemKey A project (pc_Key item))
        (\<lambda>k. bindE (jsonValueOf J A item)
          (\<lambda>v. Inr (mapPut (al_KeyString A k) v out))))"

definition unmarshalConfigItemsJson ::
  "('j, 'i) codecs \<Rightarrow> agentlib \<Rightarrow> string \<Rightarrow> 'j pbConfigItem list \<Rightarrow> rpcError + 'i ConfigValueJSON gomap" where
  "unmarshalConfigItemsJson J A project items = foldE (configBodyJson J A project) items []"

text \<open>
  \<^verbatim>\<open>SetAllConfig\<close>: what the agent hands to the CLI, the JSON document when any item is
  structured, the map of paths otherwise.
\<close>

datatype 'i configCall = SetConfigJson "'i ConfigValueJSON gomap" | SetConfigPaths "ConfigValue gomap"

definition planConfig ::
  "('j, 'i) codecs \<Rightarrow> agentlib \<Rightarrow> string \<Rightarrow> 'j pbConfigItem list \<Rightarrow> rpcError + 'i configCall" where
  "planConfig J A project items =
     (if list_ex (hasJsonValue J) items
      then bindE (mapErr (wrapErr ''config items'') (unmarshalConfigItemsJson J A project items)) (\<lambda>m. Inr (SetConfigJson m))
      else bindE (mapErr (wrapErr ''config items'') (unmarshalConfigItems J A project items)) (\<lambda>m. Inr (SetConfigPaths m)))"

section \<open>What reaches the CLI\<close>

text \<open>
  The documented behaviour of the JSON decoder that the first-byte test relies on: the empty text
  is no value, and a text that begins with a quote is a string.
\<close>

locale json_text =
  fixes J :: "('j, 'i) codecs"
  assumes empty_text: "jl_ProtoUnmarshal J [] \<noteq> Inr v"
    and quoted_text: "jl_ProtoUnmarshal J (quoteByte # cs) = Inr v \<Longrightarrow> \<exists>s. jl_AsInterface J v = GoString s"
begin

lemma structured_needs_json:
  assumes "marshalConfigItem J item = Inr pc" and "hasJsonValue J pc"
  shows "needsJson item"
proof (cases "ci_ValueFrom item")
  case (Some vf)
  with assms show ?thesis
    by (auto simp: marshalConfigItem_def Let_def bindE_Inr_iff hasJsonValue_def marshalValueFrom_def needsJson_def)
next
  case None
  have other: "x = GoOther \<longleftrightarrow> (\<forall>s. x \<noteq> GoString s) \<and> x \<noteq> GoNil" for x by (cases x) simp_all
  obtain raw v where raw: "ci_Value item = Some raw" "jl_ProtoUnmarshal J raw = Inr v" "jl_AsInterface J v = GoOther"
    using assms None
    by (auto simp: marshalConfigItem_def Let_def bindE_Inr_iff hasJsonValue_def other
          split: option.splits sum.splits if_splits goValue.splits)
  obtain c cs where "raw = c # cs" using raw(2) empty_text by (cases raw) auto
  moreover have "c \<noteq> quoteByte" using quoted_text [of cs v] raw calculation by auto
  ultimately show ?thesis using raw by (simp add: needsJson_def)
qed

end

text \<open>A reference codec: texts are their own values, a quoted one a string.\<close>

definition textCodecs :: "(JSON, JSON) codecs" where
  "textCodecs = \<lparr>jl_ProtoUnmarshal = (\<lambda>t. if t = [] then Inl (Errorf ''syntax error'') else Inr t),
     jl_AsInterface = (\<lambda>t. if t \<noteq> [] \<and> hd t = quoteByte then GoString (butlast (tl t)) else if t = ''null'' then GoNil else GoOther),
     jl_SprintOther = id, jl_ProtoMarshal = Inr, jl_JsonUnmarshal = Inr, jl_JsonMarshal = Inr\<rparr>"

interpretation textJson: json_text textCodecs
  by unfold_locales (auto simp: textCodecs_def)

text \<open>The version gate covers every use of the JSON call. When the agent, given the items the
  operator marshalled for a stack, plans the call that only newer CLIs have, then the operator's
  test on the workspace had found that it needs one.\<close>

lemma json_config_gated:
  assumes "json_text J" and "stack \<in> set stacks"
    and "list_all2 (\<lambda>item pc. marshalConfigItem J item = Inr pc) (wst_Config stack) items"
    and "planConfig J A project items = Inr (SetConfigJson m)"
  shows "hasJsonConfigInWorkspace stacks"
proof -
  from assms(4) have "list_ex (hasJsonValue J) items"
    by (auto simp: planConfig_def bindE_Inr_iff split: if_splits)
  then obtain pc where "pc \<in> set items" "hasJsonValue J pc" by (auto simp: list_ex_iff)
  moreover then obtain item where "item \<in> set (wst_Config stack)" "marshalConfigItem J item = Inr pc"
    using assms(3) by (auto simp: list_all2_iff in_set_conv_nth set_zip) (metis)
  ultimately show ?thesis
    using json_text.structured_needs_json [OF assms(1)] assms(2)
    by (auto simp: hasJsonConfigInWorkspace_def list_ex_iff)
qed

definition exampleAgent :: agentlib where
  "exampleAgent = \<lparr>al_TokenDelimiter = '':'', al_ParseKey = (\<lambda>k. Inr (''p'', k)), al_KeyString = snd,
     al_CodeString = (\<lambda>_. ''code''), al_LookupEnv = (\<lambda>_. Some ''v''), al_ReadFile = (\<lambda>_. Inr ''f'')\<rparr>"

definition exampleItem :: "JSON \<Rightarrow> ConfigItem" where
  "exampleItem t = \<lparr>ci_Key = ''k'', ci_Path = None, ci_Value = Some t, ci_ValueFrom = None, ci_Secret = Some True\<rparr>"

definition exampleWorkspaceStack :: WorkspaceStack where
  "exampleWorkspaceStack = \<lparr>wst_Name = ''dev'', wst_Create = None, wst_SecretsProvider = None,
     wst_Config = [exampleItem ''{}''], wst_Environment = []\<rparr>"

lemma json_config_gated_witness: "hasJsonConfigInWorkspace [exampleWorkspaceStack]"
proof -
  let ?pc = "\<lparr>pc_Key = ''k'', pc_Path = None, pc_V = Some (PbValue ''{}''), pc_Secret = Some True\<rparr>"
  have pc: "marshalConfigItem textCodecs (exampleItem ''{}'') = Inr ?pc"
    by (simp add: marshalConfigItem_def exampleItem_def textCodecs_def)
  have plan: "\<exists>m. planConfig textCodecs exampleAgent ''p'' [?pc] = Inr (SetConfigJson m)"
    by (simp add: planConfig_def hasJsonValue_def textCodecs_def quoteByte_def unmarshalConfigItemsJson_def
        configBodyJson_def parseItemKey_def exampleAgent_def jsonValueOf_def structuredValue_def Let_def)
  show ?thesis
    using plan json_config_gated [OF textJson.json_text_axioms, of exampleWorkspaceStack "[exampleWorkspaceStack]" "[?pc]"] pc
    by (auto simp: exampleWorkspaceStack_def)
qed

text \<open>The two ways to the CLI agree on simple values. For an item that is not structured, and
  not null, the path map and the JSON document fail together, with the same error but for its
  prefix, or carry the same text with the same secret flag.\<close>

lemma config_modes_agree:
  assumes "\<not> hasJsonValue J item" and "\<And>v. pc_V item = Some (PbValue v) \<Longrightarrow> jl_AsInterface J v \<noteq> GoNil"
  shows "jsonValueOf J A item = mapOk (\<lambda>v. \<lparr>cvj_Value = Some (cv_Value v), cvj_ObjectValue = None, cvj_Secret = cv_Secret v\<rparr>)
     (unmarshalConfigItem J A item)"
  using assms
  by (auto simp: jsonValueOf_def unmarshalConfigItem_def hasJsonValue_def sprintV_def Let_def bindE_def
        split: option.splits pbPayload.splits goValue.splits sum.splits)

lemma config_modes_agree_witness:
  "jsonValueOf textCodecs exampleAgent \<lparr>pc_Key = ''k'', pc_Path = None, pc_V = Some (PbValueFrom (PbEnv ''E'') None), pc_Secret = Some True\<rparr>
    = Inr \<lparr>cvj_Value = Some ''v'', cvj_ObjectValue = None, cvj_Secret = True\<rparr>"
  by (subst config_modes_agree) (simp_all add: hasJsonValue_def unmarshalConfigItem_def readSource_def exampleAgent_def Let_def)

end
