(* ===== verification/WorkspacePod.thy ===== *)
theory WorkspacePod
  imports AgentConfig
begin

text \<open>
  What the workspace controller makes of a Workspace (operator/internal/controller/auto/
  workspace_controller.go): the defaults of the webhook package, the source specification, the
  service and the stateful set with its containers. The environment of the operator's process, the
  hash of the source and the strategic merge of the user's pod template are arguments.
\<close>

section \<open>Packages\<close>

type_synonym podData = string

text \<open>
  Kubernetes' pod template, with the fields the code sets. \<^verbatim>\<open>ps_Rest\<close> of its pod
  specification is what the user's template may add.
\<close>

record PodSecurityContext =
  psc_SeccompProfile :: "string option"
  psc_RunAsNonRoot :: "bool option"
  psc_RunAsUser :: "int option"
  psc_RunAsGroup :: "int option"

record PodTemplateSpec =
  pts_Labels :: "string gomap"
  pts_Annotations :: "string gomap"
  pts_ServiceAccountName :: string
  pts_SecurityContext :: "PodSecurityContext option"
  pts_TerminationGracePeriodSeconds :: "int option"
  pts_Spec :: PodSpec

record sourceGit =
  src_URL :: string
  src_Ref :: string
  src_Dir :: string
  src_Shallow :: bool
  src_SSHPrivateKey :: "SecretKeySelector option"
  src_Username :: "SecretKeySelector option"
  src_Password :: "SecretKeySelector option"
  src_Token :: "SecretKeySelector option"
  src_GitHubApp :: "GitHubAppAuth option"

record sourceSpec =
  so_Generation :: int
  so_ForceRequest :: string
  so_Git :: "sourceGit option"
  so_Flux :: "FluxSource option"
  so_Local :: "LocalSource option"
  so_ProjectInfo :: "ProjectInfoSource option"

text \<open>The strategic merge: JSON maps of type 'm.\<close>

record 'm podlib =
  wl_Getenv :: "string \<Rightarrow> string"
  wl_Version :: string
  wl_QuantityIsZero :: "string \<Rightarrow> bool"
  wl_Hash :: "sourceSpec \<Rightarrow> string"
  wl_MarshalTemplate :: "PodTemplateSpec \<Rightarrow> goerr + 'm"
  wl_MarshalPatch :: "EmbeddedPodTemplateSpec \<Rightarrow> goerr + 'm"
  wl_SetElementOrder :: "string list \<Rightarrow> 'm \<Rightarrow> 'm"
  wl_PatchMeta :: "goerr option"
  wl_StrategicMerge :: "'m \<Rightarrow> 'm \<Rightarrow> goerr + 'm"
  wl_UnmarshalTemplate :: "'m \<Rightarrow> goerr + PodTemplateSpec"

section \<open>Defaults\<close>

definition SecurityProfileBaselineDefaultImage :: string where
  "SecurityProfileBaselineDefaultImage = ''pulumi/pulumi:latest''"
definition SecurityProfileRestrictedDefaultImage :: string where
  "SecurityProfileRestrictedDefaultImage = ''pulumi/pulumi:latest-nonroot''"

definition defaultRequest :: "'m podlib \<Rightarrow> string \<Rightarrow> string \<Rightarrow> string gomap \<Rightarrow> string gomap" where
  "defaultRequest W res q reqs =
     (if (case map_of reqs res of None \<Rightarrow> True | Some v \<Rightarrow> wl_QuantityIsZero W v) then mapPut res q reqs else reqs)"

definition applyDefaults :: "'m podlib \<Rightarrow> Workspace \<Rightarrow> Workspace" where
  "applyDefaults W w = (
     let sp = w_Spec w;
         sp = (if ws_SecurityProfile sp = SecurityProfileUnset
               then sp\<lparr>ws_SecurityProfile := SecurityProfileRestricted\<rparr> else sp);
         sp = (if ws_Image sp = []
               then (case ws_SecurityProfile sp of
                       SecurityProfileRestricted \<Rightarrow> sp\<lparr>ws_Image := SecurityProfileRestrictedDefaultImage\<rparr>
                     | SecurityProfileBaseline \<Rightarrow> sp\<lparr>ws_Image := SecurityProfileBaselineDefaultImage\<rparr>
                     | _ \<Rightarrow> sp)
               else sp);
         reqs = (case rq_Requests (ws_Resources sp) of None \<Rightarrow> [] | Some r \<Rightarrow> r);
         reqs = defaultRequest W ''memory'' ''64Mi'' reqs;
         reqs = defaultRequest W ''cpu'' ''100m'' reqs
     in w\<lparr>w_Spec := sp\<lparr>ws_Resources := (ws_Resources sp)\<lparr>rq_Requests := Some reqs\<rparr>\<rparr>\<rparr>)"

section \<open>Names and labels\<close>

definition nameForStatefulSet :: "Workspace \<Rightarrow> string" where
  "nameForStatefulSet w = om_Name (w_Meta w) @ ''-workspace''"

definition nameForService :: "Workspace \<Rightarrow> string" where
  "nameForService w = om_Name (w_Meta w) @ ''-workspace''"

definition fqdnForService :: "Workspace \<Rightarrow> string" where
  "fqdnForService w = nameForService w @ ''.'' @ om_Namespace (w_Meta w)"

definition WorkspaceNameLabel :: string where "WorkspaceNameLabel = ''auto.pulumi.com/workspace-name''"
definition WorkspaceComponent :: string where "WorkspaceComponent = ''workspace''"

definition labelsForStatefulSet :: "Workspace \<Rightarrow> string gomap" where
  "labelsForStatefulSet w = [(ComponentLabelAuto, WorkspaceComponent), (WorkspaceNameLabel, om_Name (w_Meta w))]"

definition audienceForWorkspace :: "Workspace \<Rightarrow> string" where
  "audienceForWorkspace w = om_Name (w_Meta w) @ ''.'' @ om_Namespace (w_Meta w)"

text \<open>
  \<^verbatim>\<open>strings.EqualFold\<close> against an ASCII word: letters without their case; the only other
  characters that fold to an ASCII letter are the long s (bytes C5 BF) and the Kelvin sign
  (E2 84 AA).
\<close>

definition lowerByte :: "char \<Rightarrow> char" where
  "lowerByte c = (if byteIn 65 90 c then char_of (of_char c + 32 :: nat) else c)"

fun foldCase :: "string \<Rightarrow> string" where
  "foldCase (a # b # c # cs) =
     (if a = CHR 0xC5 \<and> b = CHR 0xBF then CHR ''s'' # foldCase (c # cs)
      else if a = CHR 0xE2 \<and> b = CHR 0x84 \<and> c = CHR 0xAA then CHR ''k'' # foldCase cs
      else lowerByte a # foldCase (b # c # cs))"
| "foldCase [a, b] = (if a = CHR 0xC5 \<and> b = CHR 0xBF then ''s'' else [lowerByte a, lowerByte b])"
| "foldCase [a] = [lowerByte a]"
| "foldCase [] = []"

definition equalFold :: "string \<Rightarrow> string \<Rightarrow> bool" where
  "equalFold s t \<longleftrightarrow> foldCase s = foldCase t"

definition agentImage :: "'m podlib \<Rightarrow> string \<times> string" where
  "agentImage W = (
     let img = (if wl_Getenv W ''AGENT_IMAGE'' = []
                  then ''pulumi/pulumi-kubernetes-operator:'' @ wl_Version W else wl_Getenv W ''AGENT_IMAGE'');
         policy = wl_Getenv W ''AGENT_IMAGE_PULL_POLICY''
     in (img,
         if equalFold policy ''Always'' then ''Always''
         else if equalFold policy ''Never'' then ''Never''
         else ''IfNotPresent''))"

section \<open>The source\<close>

definition newSourceSpec :: "Workspace \<Rightarrow> sourceSpec" where
  "newSourceSpec w = (let sp = w_Spec w in
     \<lparr>so_Generation = om_Generation (w_Meta w), so_ForceRequest = [],
      so_Git = map_option (\<lambda>g. (let auth = (\<lambda>f. case gs_Auth g of None \<Rightarrow> None | Some a \<Rightarrow> f a) in
         \<lparr>src_URL = gs_URL g, src_Ref = gs_Ref g, src_Dir = gs_Dir g, src_Shallow = gs_Shallow g,
          src_SSHPrivateKey = auth ga_SSHPrivateKey, src_Username = auth ga_Username,
          src_Password = auth ga_Password, src_Token = auth ga_Token,
          src_GitHubApp = (case gs_Auth g of None \<Rightarrow> None | Some a \<Rightarrow> ga_GitHubApp a)\<rparr>)) (ws_Git sp),
      so_Flux = map_option (\<lambda>f. \<lparr>fs_Url = fs_Url f, fs_Digest = fs_Digest f, fs_Dir = fs_Dir f\<rparr>) (ws_Flux sp),
      so_Local = map_option (\<lambda>l. \<lparr>ls_Dir = ls_Dir l\<rparr>) (ws_Local sp),
      so_ProjectInfo = map_option (\<lambda>p. \<lparr>pis_Name = pis_Name p, pis_Runtime = pis_Runtime p\<rparr>) (ws_ProjectInfo sp)\<rparr>)"

section \<open>Containers\<close>

definition FetchContainerName :: string where "FetchContainerName = ''fetch''"
definition WorkspacePulumiContainerName :: string where "WorkspacePulumiContainerName = ''pulumi''"
definition WorkspaceShareVolumeName :: string where "WorkspaceShareVolumeName = ''share''"
definition WorkspaceShareMountPath :: string where "WorkspaceShareMountPath = ''/share''"
definition WorkspaceGrpcPort :: int where "WorkspaceGrpcPort = 50051"
definition PodAnnotationInitialized :: string where "PodAnnotationInitialized = ''auto.pulumi.com/initialized''"
definition PodAnnotationRevisionHash :: string where "PodAnnotationRevisionHash = ''auto.pulumi.com/revision-hash''"
definition WorkspacePodTerminationGracePeriodSeconds :: int where "WorkspacePodTerminationGracePeriodSeconds = 10 * 60"

abbreviation shareMount :: VolumeMount where
  "shareMount \<equiv> \<lparr>vm_Name = WorkspaceShareVolumeName, vm_MountPath = WorkspaceShareMountPath\<rparr>"

definition envVal :: "string \<Rightarrow> string \<Rightarrow> EnvVar" where
  "envVal n v = \<lparr>ev_Name = n, ev_Value = v, ev_ValueFrom = None\<rparr>"

definition envFrom :: "string \<Rightarrow> EnvVarSource \<Rightarrow> EnvVar" where
  "envFrom n v = \<lparr>ev_Name = n, ev_Value = [], ev_ValueFrom = Some v\<rparr>"

text \<open>An optional secret reference as an environment variable.\<close>

definition secretEnv :: "string \<Rightarrow> SecretKeySelector option \<Rightarrow> EnvVar list" where
  "secretEnv n sel = (case sel of None \<Rightarrow> [] | Some k \<Rightarrow> [envFrom n (SecretKeyRef k)])"

definition bootstrapContainer :: "string \<Rightarrow> string \<Rightarrow> Container" where
  "bootstrapContainer img pullPolicy = emptyContainer\<lparr>ctr_Name := ''bootstrap'', ctr_Image := img,
     ctr_ImagePullPolicy := pullPolicy, ctr_VolumeMounts := [shareMount],
     ctr_Args := [''cp'', ''/agent'', ''/tini'', ''/share/'']\<rparr>"

definition fetchContainer :: "string \<Rightarrow> string \<Rightarrow> EnvVar list \<Rightarrow> string \<Rightarrow> Container" where
  "fetchContainer img pullPolicy env script = emptyContainer\<lparr>ctr_Name := FetchContainerName, ctr_Image := img,
     ctr_ImagePullPolicy := pullPolicy, ctr_VolumeMounts := [shareMount], ctr_Env := env,
     ctr_Args := [''sh'', ''-c'', script]\<rparr>"

definition newline :: string where "newline = [CHR 0x0A]"
definition tabs2 :: string where "tabs2 = [CHR 0x09, CHR 0x09]"

definition gitScript :: string where
  "gitScript = newline @ ''/share/agent init -t /share/source --git-url \"$GIT_URL\" --git-revision \"$GIT_REVISION\" &&''
     @ newline @ ''ln -s \"/share/source/$GIT_DIR\" /share/workspace'' @ newline @ tabs2"

definition fluxScript :: string where
  "fluxScript = newline @ ''/share/agent init -t /share/source --flux-url \"$FLUX_URL\" --flux-digest \"$FLUX_DIGEST\" &&''
     @ newline @ ''ln -s \"/share/source/$FLUX_DIR\" /share/workspace'' @ newline @ tabs2"

definition localScript :: string where
  "localScript = ''ln -s \"$LOCAL_DIR\" /share/workspace''"

definition projectInfoScript :: string where
  "projectInfoScript = ''/share/agent init -t /share/workspace --project-name \"$PROJECT_NAME\" --project-runtime \"$PROJECT_RUNTIME\"''"

definition gitEnv :: "sourceGit \<Rightarrow> EnvVar list" where
  "gitEnv g = [envVal ''GIT_URL'' (src_URL g), envVal ''GIT_REVISION'' (src_Ref g), envVal ''GIT_DIR'' (src_Dir g)]
     @ (if src_Shallow g then [envVal ''GIT_SHALLOW'' ''true''] else [])
     @ secretEnv ''GIT_SSH_PRIVATE_KEY'' (src_SSHPrivateKey g)
     @ secretEnv ''GIT_USERNAME'' (src_Username g)
     @ secretEnv ''GIT_PASSWORD'' (src_Password g)
     @ secretEnv ''GIT_TOKEN'' (src_Token g)
     @ (case src_GitHubApp g of None \<Rightarrow> []
        | Some app \<Rightarrow> secretEnv ''GIT_GITHUB_APP_ID'' (gha_AppID app)
            @ secretEnv ''GIT_GITHUB_APP_INSTALLATION_ID'' (gha_InstallationID app)
            @ secretEnv ''GIT_GITHUB_APP_PRIVATE_KEY'' (gha_PrivateKey app))"

definition fluxEnv :: "'m podlib \<Rightarrow> FluxSource \<Rightarrow> EnvVar list" where
  "fluxEnv W f = [envVal ''FLUX_URL'' (fs_Url f), envVal ''FLUX_DIGEST'' (fs_Digest f), envVal ''FLUX_DIR'' (fs_Dir f)]
     @ (if wl_Getenv W ''FLUX_MAX_UNTAR_SIZE_BYTES'' \<noteq> []
        then [envVal ''FLUX_MAX_UNTAR_SIZE_BYTES'' (wl_Getenv W ''FLUX_MAX_UNTAR_SIZE_BYTES'')] else [])"

text \<open>One container that fetches for each source that is set, in this order.\<close>

definition fetchContainers :: "'m podlib \<Rightarrow> string \<Rightarrow> string \<Rightarrow> sourceSpec \<Rightarrow> Container list" where
  "fetchContainers W img pullPolicy source =
     (case so_Git source of None \<Rightarrow> [] | Some g \<Rightarrow> [fetchContainer img pullPolicy (gitEnv g) gitScript])
     @ (case so_Flux source of None \<Rightarrow> [] | Some f \<Rightarrow> [fetchContainer img pullPolicy (fluxEnv W f) fluxScript])
     @ (case so_Local source of None \<Rightarrow> [] | Some l \<Rightarrow>
          [fetchContainer img pullPolicy [envVal ''LOCAL_DIR'' (ls_Dir l)] localScript])
     @ (case so_ProjectInfo source of None \<Rightarrow> [] | Some p \<Rightarrow>
          [fetchContainer img pullPolicy
             [envVal ''PROJECT_NAME'' (pis_Name p), envVal ''PROJECT_RUNTIME'' (pis_Runtime p)] projectInfoScript])"

definition pulumiCommand :: "Workspace \<Rightarrow> string list" where
  "pulumiCommand w =
     [''/share/tini'', ''/share/agent'', ''--'', ''serve'', ''--workspace'', ''/share/workspace'', ''--skip-install'',
      ''--env-file'', ''/share/.env'',
      ''--auth-mode'', ''kube'', ''--kube-audience'', audienceForWorkspace w,
      ''--kube-workspace-namespace'', om_Namespace (w_Meta w), ''--kube-workspace-name'', om_Name (w_Meta w)]
     @ (if ws_PulumiLogVerbosity (w_Spec w) \<noteq> 0
        then [''--pulumi-log-level'', showInt (ws_PulumiLogVerbosity (w_Spec w))] else [])"

definition pulumiEnv :: "Workspace \<Rightarrow> EnvVar list" where
  "pulumiEnv w = ws_Env (w_Spec w)
     @ [envFrom ''POD_NAMESPACE'' (FieldRef ''metadata.namespace''),
        envFrom ''POD_SA_NAME'' (FieldRef ''spec.serviceAccountName''),
        envFrom ''AGENT_MEMLIMIT'' (ResourceFieldRef WorkspacePulumiContainerName ''requests.memory'')]"

definition pulumiContainer :: "Workspace \<Rightarrow> Container" where
  "pulumiContainer w = emptyContainer\<lparr>ctr_Name := WorkspacePulumiContainerName, ctr_Image := ws_Image (w_Spec w),
     ctr_ImagePullPolicy := ws_ImagePullPolicy (w_Spec w), ctr_Resources := ws_Resources (w_Spec w),
     ctr_VolumeMounts := [shareMount], ctr_Ports := [(''grpc'', WorkspaceGrpcPort)], ctr_Env := pulumiEnv w,
     ctr_EnvFrom := ws_EnvFrom (w_Spec w), ctr_Command := pulumiCommand w, ctr_WorkingDir := ''/share/workspace''\<rparr>"

section \<open>The stateful set\<close>

record StatefulSetStatus =
  sss_ObservedGeneration :: int
  sss_CurrentRevision :: string
  sss_UpdateRevision :: string
  sss_AvailableReplicas :: int

record StatefulSet =
  sts_Meta :: ObjectMeta
  sts_Selector :: "string gomap"
  sts_ServiceName :: string
  sts_Replicas :: "int option"
  sts_PodManagementPolicy :: string
  sts_Template :: PodTemplateSpec
  sts_Status :: StatefulSetStatus

definition baseTemplate :: "'m podlib \<Rightarrow> Workspace \<Rightarrow> sourceSpec \<Rightarrow> PodTemplateSpec" where
  "baseTemplate W w source = (let (img, pullPolicy) = agentImage W in
     \<lparr>pts_Labels = labelsForStatefulSet w,
      pts_Annotations = [(PodAnnotationRevisionHash, wl_Hash W source)],
      pts_ServiceAccountName = ws_ServiceAccountName (w_Spec w),
      pts_SecurityContext = Some \<lparr>psc_SeccompProfile = Some ''RuntimeDefault'', psc_RunAsNonRoot = None,
        psc_RunAsUser = None, psc_RunAsGroup = None\<rparr>,
      pts_TerminationGracePeriodSeconds = Some WorkspacePodTerminationGracePeriodSeconds,
      pts_Spec = \<lparr>ps_InitContainers = bootstrapContainer img pullPolicy # fetchContainers W img pullPolicy source,
        ps_Containers = [pulumiContainer w],
        ps_Volumes = [\<lparr>v_Name = WorkspaceShareVolumeName, v_Source = EmptyDirVolume\<rparr>], ps_Rest = []\<rparr>\<rparr>)"

text \<open>The restricted profile, on the pod and on a container.\<close>

definition restrictContainer :: "Container \<Rightarrow> Container" where
  "restrictContainer c = (
     let sc = (case ctr_SecurityContext c of
                 None \<Rightarrow> \<lparr>sx_AllowPrivilegeEscalation = None, sx_Capabilities = None, sx_Rest = []\<rparr>
               | Some sc \<Rightarrow> sc)
     in c\<lparr>ctr_SecurityContext := Some (sc\<lparr>sx_AllowPrivilegeEscalation := Some False,
            sx_Capabilities := Some \<lparr>cap_Add = [''NET_BIND_SERVICE''], cap_Drop = [''ALL'']\<rparr>\<rparr>)\<rparr>)"

definition restrictTemplate :: "PodTemplateSpec \<Rightarrow> PodTemplateSpec" where
  "restrictTemplate t = t\<lparr>
     pts_SecurityContext := map_option (\<lambda>sc. sc\<lparr>psc_RunAsNonRoot := Some True, psc_RunAsUser := Some 1000,
       psc_RunAsGroup := Some 1000\<rparr>) (pts_SecurityContext t),
     pts_Spec := (pts_Spec t)\<lparr>ps_InitContainers := map restrictContainer (ps_InitContainers (pts_Spec t)),
       ps_Containers := map restrictContainer (ps_Containers (pts_Spec t))\<rparr>\<rparr>"

text \<open>
  \<^verbatim>\<open>mergePodTemplateSpec\<close>: the patch's specification is read through its pointer without a
  test, a panic when it is not set.
\<close>

definition mergePodTemplateSpec ::
  "'m podlib \<Rightarrow> PodTemplateSpec \<Rightarrow> EmbeddedPodTemplateSpec option \<Rightarrow> goerr + PodTemplateSpec" where
  "mergePodTemplateSpec W base patchOpt =
     (case patchOpt of
        None \<Rightarrow> Inr base
      | Some patch \<Rightarrow>
          bindE (mapErr (Wrapf ''failed to marshal JSON for base'') (wl_MarshalTemplate W base)) (\<lambda>baseData.
          bindE (mapErr (Wrapf ''failed to marshal JSON for pod template'') (wl_MarshalPatch W patch)) (\<lambda>patchData.
          bindE (case ept_Spec patch of
                   None \<Rightarrow> Inl (Panic ''invalid memory address or nil pointer dereference'')
                 | Some sp \<Rightarrow> Inr (map ctr_Name (ps_InitContainers (pts_Spec base)) @ map ctr_Name (ps_InitContainers sp)))
            (\<lambda>order.
          bindE (case wl_PatchMeta W of Some e \<Rightarrow> Inl e | None \<Rightarrow> Inr ()) (\<lambda>_.
          bindE (mapErr (Wrapf ''failed to generate merge patch for pod template'')
                   (wl_StrategicMerge W baseData (wl_SetElementOrder W order patchData))) (\<lambda>mergedData.
          mapErr (Wrapf ''failed to unmarshal merged pod template'') (wl_UnmarshalTemplate W mergedData)))))))"

definition addCommonEnv :: "Container \<Rightarrow> Container" where
  "addCommonEnv c = c\<lparr>ctr_Env := ctr_Env c @ [envVal ''PULUMI_ENV'' ''/share/.env'']\<rparr>"

definition withCommonEnv :: "PodTemplateSpec \<Rightarrow> PodTemplateSpec" where
  "withCommonEnv t = t\<lparr>pts_Spec := (pts_Spec t)\<lparr>ps_Containers := map addCommonEnv (ps_Containers (pts_Spec t)),
     ps_InitContainers := map addCommonEnv (ps_InitContainers (pts_Spec t))\<rparr>\<rparr>"

text \<open>A panic is no error the caller could wrap: it ends the handler as it is.\<close>

fun isPanic :: "goerr \<Rightarrow> bool" where
  "isPanic (Panic s) = True"
| "isPanic _ = False"

definition wrapUnlessPanic :: "string \<Rightarrow> goerr \<Rightarrow> goerr" where
  "wrapUnlessPanic s e = (if isPanic e then e else Wrapf s e)"

definition newStatefulSet :: "'m podlib \<Rightarrow> Workspace \<Rightarrow> sourceSpec \<Rightarrow> goerr + StatefulSet" where
  "newStatefulSet W w source = (
     let labels = labelsForStatefulSet w;
         template = baseTemplate W w source;
         template = (if ws_SecurityProfile (w_Spec w) = SecurityProfileRestricted then restrictTemplate template else template)
     in bindE (case ws_PodTemplate (w_Spec w) of
                 None \<Rightarrow> Inr template
               | Some p \<Rightarrow> mapErr (wrapUnlessPanic ''failed to merge pod template'')
                            (mergePodTemplateSpec W template (Some p)))
          (\<lambda>template. Inr \<lparr>sts_Meta = emptyMeta\<lparr>om_Name := nameForStatefulSet w, om_Namespace := om_Namespace (w_Meta w),
                              om_Labels := labels\<rparr>,
                            sts_Selector = labels, sts_ServiceName = nameForService w, sts_Replicas = Some 1,
                            sts_PodManagementPolicy = ''Parallel'', sts_Template = withCommonEnv template,
                            sts_Status = \<lparr>sss_ObservedGeneration = 0, sss_CurrentRevision = [],
                              sss_UpdateRevision = [], sss_AvailableReplicas = 0\<rparr>\<rparr>))"

section \<open>The service\<close>

record Service =
  svc_Meta :: ObjectMeta
  svc_ClusterIP :: string
  svc_Selector :: "string gomap"
  svc_Ports :: "(string \<times> int) list"

text \<open>\<^verbatim>\<open>labels.Merge\<close>: the second map wins.\<close>

definition mergeLabels :: "string gomap \<Rightarrow> string gomap \<Rightarrow> string gomap" where
  "mergeLabels m1 m2 = fold (\<lambda>(k, v) m. mapPut k v m) m2 m1"

definition newService :: "Workspace \<Rightarrow> Service" where
  "newService w = (
     let systemLabels = labelsForStatefulSet w;
         (serviceLabels, annotations) =
           (case ws_ServiceTemplate (w_Spec w) of
              None \<Rightarrow> (systemLabels, [])
            | Some t \<Rightarrow> (mergeLabels (eom_Labels (est_Metadata t)) systemLabels, eom_Annotations (est_Metadata t)))
     in \<lparr>svc_Meta = emptyMeta\<lparr>om_Name := nameForService w, om_Namespace := om_Namespace (w_Meta w),
           om_Labels := serviceLabels, om_Annotations := annotations\<rparr>,
         svc_ClusterIP = ''None'', svc_Selector = systemLabels, svc_Ports = [(''grpc'', WorkspaceGrpcPort)]\<rparr>)"

end
