(* ===== verification/WorkspaceController.thy ===== *)
theory WorkspaceController
  imports WorkspacePod
begin

text \<open>
  The controller of Workspace objects (operator/internal/controller/auto/workspace_controller.go)
  and the connection to a workspace's agent (connect.go). The API server, the agent and the
  version library are arguments (record \<^verbatim>\<open>wenv\<close>); an answer may depend on what was done
  before, which the state keeps as a trace.
\<close>

section \<open>Connecting\<close>

datatype connectivity = Idle | Connecting | Ready | TransientFailure | Shutdown

text \<open>
  A gRPC connection by its behaviour: the state found at each turn of the loop, and whether the
  wait for another state ended because the deadline passed.
\<close>

record grpcConn =
  gc_State :: "nat \<Rightarrow> connectivity"
  gc_DeadlinePassed :: "nat \<Rightarrow> goerr option"

datatype connAction = ConnConnect | ConnClose

definition connectAddr :: "(string \<Rightarrow> string) \<Rightarrow> Workspace \<Rightarrow> string" where
  "connectAddr getenv w =
     (if getenv ''WORKSPACE_LOCALHOST'' \<noteq> [] then getenv ''WORKSPACE_LOCALHOST''
      else fqdnForService w @ '':'' @ showInt WorkspaceGrpcPort)"

text \<open>The text of a state, \<^verbatim>\<open>state.String()\<close>.\<close>

fun connectivityText :: "connectivity \<Rightarrow> string" where
  "connectivityText Idle = ''IDLE''"
| "connectivityText Connecting = ''CONNECTING''"
| "connectivityText Ready = ''READY''"
| "connectivityText TransientFailure = ''TRANSIENT_FAILURE''"
| "connectivityText Shutdown = ''SHUTDOWN''"

text \<open>The loop, with the actions it took; nothing when it does not return.\<close>

partial_function (option) connectLoop :: "grpcConn \<Rightarrow> nat \<Rightarrow> connAction list \<Rightarrow> (goerr option \<times> connAction list) option" where
  "connectLoop conn i acts =
     (let state = gc_State conn i;
          acts = (if state = Idle then acts @ [ConnConnect] else acts)
      in if state = Ready then Some (None, acts)
         else if state = Shutdown \<or> state = TransientFailure
         then Some (Some (Errorf (''unable to connect to workspace: '' @ connectivityText state)), acts @ [ConnClose])
         else case gc_DeadlinePassed conn i of
                Some e \<Rightarrow> Some (Some e, acts @ [ConnClose])
              | None \<Rightarrow> connectLoop conn (Suc i) acts)"

definition ConnectTo :: "goerr + grpcConn \<Rightarrow> (goerr option \<times> connAction list) option" where
  "ConnectTo newClient =
     (case newClient of
        Inl e \<Rightarrow> Some (Some (Wrapf ''unable to connect to workspace'' e), [])
      | Inr conn \<Rightarrow> connectLoop conn 0 [])"

section \<open>The handler's state\<close>

text \<open>The status patch.\<close>

record WorkspaceStatusApply =
  wa_ObservedGeneration :: int
  wa_Address :: string
  wa_PulumiVersion :: string
  wa_Conditions :: "ConditionApply list"

text \<open>What the handler does to the world, each with whether it was acknowledged, and events.\<close>

datatype 'j WAction =
    WPatchStatus WorkspaceStatusApply bool
  | WApplyService Service bool
  | WApplyStatefulSet StatefulSet bool
  | WDeleteStatefulSet bool
  | WPulumiVersion bool
  | WInstall bool
  | WSelectStack string "bool option" "string option" bool
  | WSetAllConfig "'j pbConfigItem list" bool
  | WAddEnvironments "string list" bool
  | WMarkInitialized string bool
  | WEvent autoEvent string "string list"

type_synonym 'j wtrace = "'j WAction list"

text \<open>The parts of a pod the handler reads.\<close>

record Pod =
  pod_Name :: string
  pod_Labels :: "string gomap"
  pod_Annotations :: "string gomap"

record ('j, 'i, 'm, 'v) wenv =
  we_L :: lib
  we_W :: "'m podlib"
  we_J :: "('j, 'i) codecs"
  we_CodeString :: "statusCode \<Rightarrow> string"
  we_ParseBool :: "string \<Rightarrow> bool option"
  we_ParseTolerant :: "string \<Rightarrow> goerr + 'v"
  we_MustParse :: "string \<Rightarrow> 'v"
  we_LT :: "'v \<Rightarrow> 'v \<Rightarrow> bool"
  we_VersionString :: "'v \<Rightarrow> string"
  we_Patch :: "'j wtrace \<Rightarrow> Workspace \<Rightarrow> WorkspaceStatusApply \<Rightarrow> goerr + Workspace"
  we_ApplyService :: "'j wtrace \<Rightarrow> Service \<Rightarrow> goerr option"
  we_ApplyStatefulSet :: "'j wtrace \<Rightarrow> StatefulSet \<Rightarrow> goerr + StatefulSet"
  we_DeleteStatefulSet :: "'j wtrace \<Rightarrow> StatefulSet \<Rightarrow> goerr option"
  we_GetPod :: "'j wtrace \<Rightarrow> string \<Rightarrow> string \<Rightarrow> goerr + Pod"
  we_Connect :: "'j wtrace \<Rightarrow> Workspace \<Rightarrow> goerr + string"
  we_PulumiVersion :: "'j wtrace \<Rightarrow> rpcError + string"
  we_Install :: "'j wtrace \<Rightarrow> rpcError option"
  we_SelectStack :: "'j wtrace \<Rightarrow> string \<Rightarrow> bool option \<Rightarrow> string option \<Rightarrow> rpcError option"
  we_SetAllConfig :: "'j wtrace \<Rightarrow> 'j pbConfigItem list \<Rightarrow> rpcError option"
  we_AddEnvironments :: "'j wtrace \<Rightarrow> string list \<Rightarrow> rpcError option"
  we_MarkInitialized :: "'j wtrace \<Rightarrow> Pod \<Rightarrow> goerr option"

text \<open>
  The condition \<^verbatim>\<open>ready\<close> is a pointer, into the object's conditions when it was found
  there (see theory UpdateController).
\<close>

record 'j WState =
  wv_obj :: Workspace
  wv_ready :: condPtr
  wv_trace :: "'j wtrace"

record 'j WOutcome =
  wo_Requeue :: bool
  wo_After :: duration
  wo_Err :: "goerr option"
  wo_Trace :: "'j wtrace"

definition wleave :: "duration \<Rightarrow> goerr option \<Rightarrow> 'j WState \<Rightarrow> 'j WOutcome" where
  "wleave after err s = \<lparr>wo_Requeue = False, wo_After = after, wo_Err = err, wo_Trace = wv_trace s\<rparr>"

definition wact :: "'j WAction \<Rightarrow> 'j WState \<Rightarrow> 'j WState" where
  "wact a s = s\<lparr>wv_trace := wv_trace s @ [a]\<rparr>"

definition wstatus :: "(WorkspaceStatus \<Rightarrow> WorkspaceStatus) \<Rightarrow> 'j WState \<Rightarrow> 'j WState" where
  "wstatus f s = s\<lparr>wv_obj := (wv_obj s)\<lparr>w_Status := f (w_Status (wv_obj s))\<rparr>\<rparr>"

definition wconds :: "(Condition list \<Rightarrow> Condition list) \<Rightarrow> 'j WState \<Rightarrow> 'j WState" where
  "wconds f = wstatus (\<lambda>st. st\<lparr>wst_Conditions := f (wst_Conditions st)\<rparr>)"

abbreviation wcondsOf :: "'j WState \<Rightarrow> Condition list" where
  "wcondsOf s \<equiv> wst_Conditions (w_Status (wv_obj s))"

section \<open>The ready condition\<close>

definition freshReady :: Condition where
  "freshReady = mkCondition WorkspaceReady ConditionUnknown [] []"

definition readyCond :: "lib \<Rightarrow> 'j WState \<Rightarrow> Condition" where
  "readyCond L s =
     (case wv_ready s of
        Own c \<Rightarrow> c
      | Shared \<Rightarrow> (case FindStatusCondition L (wcondsOf s) WorkspaceReady of Some c \<Rightarrow> c | None \<Rightarrow> freshReady))"

definition storeReady :: "(Condition \<Rightarrow> Condition) \<Rightarrow> 'j WState \<Rightarrow> 'j WState" where
  "storeReady f s =
     (case wv_ready s of
        Own c \<Rightarrow> s\<lparr>wv_ready := Own (f c)\<rparr>
      | Shared \<Rightarrow> wconds (inPlace WorkspaceReady f) s)"

definition setReady :: "ConditionStatus \<Rightarrow> string \<Rightarrow> string \<Rightarrow> 'j WState \<Rightarrow> 'j WState" where
  "setReady st reason msg = storeReady (\<lambda>c. c\<lparr>c_Status := st, c_Reason := reason, c_Message := msg\<rparr>)"

text \<open>\<^verbatim>\<open>updateStatus\<close>.\<close>

definition workspaceStatusApply :: "Workspace \<Rightarrow> WorkspaceStatusApply" where
  "workspaceStatusApply w = \<lparr>wa_ObservedGeneration = om_Generation (w_Meta w),
     wa_Address = wst_Address (w_Status w), wa_PulumiVersion = wst_PulumiVersion (w_Status w),
     wa_Conditions = map updateConditionToApply (wst_Conditions (w_Status w))\<rparr>"

definition syncReady :: "lib \<Rightarrow> 'j WState \<Rightarrow> 'j WState" where
  "syncReady L s = (
     let gen = om_Generation (w_Meta (wv_obj s));
         s = wstatus (\<lambda>st. st\<lparr>wst_ObservedGeneration := gen\<rparr>) s;
         s = storeReady (\<lambda>c. c\<lparr>c_ObservedGeneration := gen\<rparr>) s
     in wconds (\<lambda>cs. SetStatusCondition L cs (readyCond L s)) s)"

definition saveWorkspace :: "('j, 'i, 'm, 'v) wenv \<Rightarrow> 'j WState \<Rightarrow> goerr option \<times> 'j WState" where
  "saveWorkspace E s = (
     let s = syncReady (we_L E) s;
         patch = workspaceStatusApply (wv_obj s)
     in case we_Patch E (wv_trace s) (wv_obj s) patch of
          Inl e \<Rightarrow> (Some e, wact (WPatchStatus patch False) s)
        | Inr w \<Rightarrow> (None, wact (WPatchStatus patch True) (s\<lparr>wv_obj := w\<rparr>)))"

text \<open>The common exit \<^verbatim>\<open>return ctrl.Result{RequeueAfter: after}, updateStatus()\<close>.\<close>

definition leaveSaving :: "('j, 'i, 'm, 'v) wenv \<Rightarrow> duration \<Rightarrow> 'j WState \<Rightarrow> 'j WOutcome" where
  "leaveSaving E after s = (case saveWorkspace E s of (err, s) \<Rightarrow> wleave after err s)"

text \<open>A save in the middle, whose failure ends the handler.\<close>

definition saveOrLeave :: "('j, 'i, 'm, 'v) wenv \<Rightarrow> 'j WState \<Rightarrow> 'j WOutcome + 'j WState" where
  "saveOrLeave E s = (case saveWorkspace E s of (Some e, s) \<Rightarrow> Inl (wleave 0 (Some e) s) | (None, s) \<Rightarrow> Inr s)"

text \<open>
  Adding the condition Stalled. By then \<^verbatim>\<open>ready\<close> is a condition of its own: the handler
  began its attempt by removing Stalled, and the helper that removes builds a new slice.
\<close>

definition removeStalled :: "lib \<Rightarrow> 'j WState \<Rightarrow> 'j WState" where
  "removeStalled L s = wconds (\<lambda>cs. RemoveStatusCondition L cs WorkspaceStalled) (s\<lparr>wv_ready := Own (readyCond L s)\<rparr>)"

definition setStalled :: "lib \<Rightarrow> string \<Rightarrow> string \<Rightarrow> 'j WState \<Rightarrow> 'j WState" where
  "setStalled L reason msg s =
     wconds (\<lambda>cs. SetStatusCondition L cs
       ((mkCondition WorkspaceStalled ConditionTrue reason msg)\<lparr>c_ObservedGeneration := om_Generation (w_Meta (wv_obj s))\<rparr>)) s"

section \<open>The stateful set and its pod\<close>

definition isStatefulSetReady :: "StatefulSet \<Rightarrow> bool" where
  "isStatefulSetReady ss = (
     if sss_ObservedGeneration (sts_Status ss) \<noteq> om_Generation (sts_Meta ss)
        \<or> sss_UpdateRevision (sts_Status ss) \<noteq> sss_CurrentRevision (sts_Status ss) then False
     else if sss_AvailableReplicas (sts_Status ss) < 1 then False
     else True)"

definition statefulSetReadyPredicate_Create :: "StatefulSet \<Rightarrow> bool" where
  "statefulSetReadyPredicate_Create ss = isStatefulSetReady ss"

definition statefulSetReadyPredicate_Update :: "StatefulSet option \<Rightarrow> StatefulSet option \<Rightarrow> bool" where
  "statefulSetReadyPredicate_Update old new =
     (case (old, new) of
        (Some o1, Some n) \<Rightarrow> isStatefulSetReady o1 \<noteq> isStatefulSetReady n
      | _ \<Rightarrow> False)"

definition IsInvalid :: "goerr \<Rightarrow> bool" where
  "IsInvalid e = (case asApiStatus e of Some a \<Rightarrow> as_Reason a = ReasonInvalid | None \<Rightarrow> False)"

definition servicePhase :: "('j, 'i, 'm, 'v) wenv \<Rightarrow> 'j WState \<Rightarrow> 'j WOutcome + 'j WState" where
  "servicePhase E s = (
     let w = wv_obj s; svc = newService w
     in case SetControllerReference (we_L E) (w_Meta w) (svc_Meta svc) of
          Inl e \<Rightarrow> Inl (wleave 0 (Some e) s)
        | Inr m \<Rightarrow> (let svc = svc\<lparr>svc_Meta := m\<rparr> in
            case we_ApplyService E (wv_trace s) svc of
              Some e \<Rightarrow> Inl (wleave 0 (Some (Wrapf ''failed to apply service'' e)) (wact (WApplyService svc False) s))
            | None \<Rightarrow> Inr (wact (WApplyService svc True) s)))"

text \<open>A stateful set that cannot be updated, of an earlier release, is replaced.\<close>

definition migrate :: "('j, 'i, 'm, 'v) wenv \<Rightarrow> goerr \<Rightarrow> StatefulSet \<Rightarrow> 'j WState \<Rightarrow> 'j WOutcome" where
  "migrate E err ss s =
     (if IsInvalid err
      then (case we_DeleteStatefulSet E (wv_trace s) ss of
              Some e \<Rightarrow> wleave 0 (Some (Wrapf ''failed to delete statefulset'' e)) (wact (WDeleteStatefulSet False) s)
            | None \<Rightarrow> wleave (5 * Second) None
                (wact (WEvent MigratedEvent ''Replaced the workspace statefulset'' []) (wact (WDeleteStatefulSet True) s)))
      else wleave 0 (Some (Wrapf ''failed to apply statefulset'' err)) s)"

definition statefulSetPhase :: "('j, 'i, 'm, 'v) wenv \<Rightarrow> sourceSpec \<Rightarrow> 'j WState \<Rightarrow> 'j WOutcome + StatefulSet \<times> 'j WState" where
  "statefulSetPhase E source s = (
     let w = wv_obj s
     in case bindE (newStatefulSet (we_W E) w source)
               (\<lambda>ss. bindE (SetControllerReference (we_L E) (w_Meta w) (sts_Meta ss)) (\<lambda>m. Inr (ss\<lparr>sts_Meta := m\<rparr>))) of
          Inl e \<Rightarrow> Inl (wleave 0 (Some e) s)
        | Inr ss \<Rightarrow>
            (case we_ApplyStatefulSet E (wv_trace s) ss of
               Inl e \<Rightarrow> Inl (migrate E e ss (wact (WApplyStatefulSet ss False) s))
             | Inr applied \<Rightarrow> Inr (applied, wact (WApplyStatefulSet ss True) s)))"

definition clearAddress :: "'j WState \<Rightarrow> 'j WState" where
  "clearAddress = wstatus (\<lambda>st. st\<lparr>wst_Address := []\<rparr>)"

definition rolloutPhase :: "('j, 'i, 'm, 'v) wenv \<Rightarrow> StatefulSet \<Rightarrow> 'j WState \<Rightarrow> 'j WOutcome + 'j WState" where
  "rolloutPhase E ss s =
     (if sss_ObservedGeneration (sts_Status ss) \<noteq> om_Generation (sts_Meta ss)
         \<or> sss_UpdateRevision (sts_Status ss) \<noteq> sss_CurrentRevision (sts_Status ss)
      then Inl (leaveSaving E 0 (clearAddress (setReady ConditionFalse ''RollingUpdate''
                  ''Waiting for the statefulset to be updated'' s)))
      else if sss_AvailableReplicas (sts_Status ss) < 1
      then Inl (leaveSaving E 0 (clearAddress (setReady ConditionFalse ''WaitingForReplicas''
                  ''Waiting for the workspace pod to be available'' s)))
      else Inr s)"

definition podPhase :: "('j, 'i, 'm, 'v) wenv \<Rightarrow> StatefulSet \<Rightarrow> 'j WState \<Rightarrow> 'j WOutcome + Pod" where
  "podPhase E ss s = (
     let w = wv_obj s; podName = nameForStatefulSet w @ ''-0''
     in case we_GetPod E (wv_trace s) podName (om_Namespace (w_Meta w)) of
          Inl e \<Rightarrow> Inl (wleave 0 (Some (Wrapf ''unable to find the workspace pod'' e)) s)
        | Inr pod \<Rightarrow> (let podRevision = (case map_of (pod_Labels pod) ''controller-revision-hash'' of Some r \<Rightarrow> r | None \<Rightarrow> []) in
            if podRevision \<noteq> sss_CurrentRevision (sts_Status ss)
            then Inl \<lparr>wo_Requeue = True, wo_After = 0, wo_Err = None, wo_Trace = wv_trace s\<rparr>
            else Inr pod))"

definition connectWorkspace :: "('j, 'i, 'm, 'v) wenv \<Rightarrow> 'j WState \<Rightarrow> 'j WOutcome + 'j WState" where
  "connectWorkspace E s =
     (case we_Connect E (wv_trace s) (wv_obj s) of
        Inl e \<Rightarrow> Inl (leaveSaving E (5 * Second) (setReady ConditionFalse ''ConnectionFailed'' (errorText e)
                   (wact (WEvent ConnectionFailureEvent (errorText e) []) s)))
      | Inr target \<Rightarrow> Inr (wstatus (\<lambda>st. st\<lparr>wst_Address := target\<rparr>) s))"

section \<open>Initialization\<close>

text \<open>\<^verbatim>\<open>status.Convert\<close>: an error without a status has the code Unknown and its text.\<close>

fun convertStatus :: "rpcError \<Rightarrow> statusCode \<times> string \<times> detail list" where
  "convertStatus (StatusError text c m ds) = (c, m, ds)"
| "convertStatus (PlainError text) = (UnknownCode, text, [])"

definition versionFailed :: "('j, 'i, 'm, 'v) wenv \<Rightarrow> rpcError \<Rightarrow> 'j WState \<Rightarrow> 'j WOutcome" where
  "versionFailed E err s = (
     let s = wact (WEvent ConnectionFailureEvent (rpcErrorText err) []) s;
         (code, msg, details) = convertStatus err;
         (reason, msg) = (case details of PulumiErrorInfo m r # _ \<Rightarrow> (r, m) | _ \<Rightarrow> (we_CodeString E code, msg))
     in case saveWorkspace E (setReady ConditionFalse reason msg s) of
          (Some e, s) \<Rightarrow> wleave 0 (Some e) s
        | (None, s) \<Rightarrow> wleave 0 (Some (Errorf (rpcErrorText err))) s)"

definition versionPhase :: "('j, 'i, 'm, 'v) wenv \<Rightarrow> 'j WState \<Rightarrow> 'j WOutcome + 'j WState" where
  "versionPhase E s =
     (case we_PulumiVersion E (wv_trace s) of
        Inl err \<Rightarrow> Inl (versionFailed E err (wact (WPulumiVersion False) s))
      | Inr v \<Rightarrow> Inr (wstatus (\<lambda>st. st\<lparr>wst_PulumiVersion := v\<rparr>) (wact (WPulumiVersion True) s)))"

definition ConditionReasonIncompatibleConfiguration :: string where
  "ConditionReasonIncompatibleConfiguration = ''IncompatibleConfiguration''"

text \<open>An attempt that cannot succeed: Stalled is added and Ready says why.\<close>

definition stall :: "('j, 'i, 'm, 'v) wenv \<Rightarrow> string \<Rightarrow> string \<Rightarrow> string \<Rightarrow> 'j WState \<Rightarrow> 'j WOutcome" where
  "stall E reason readyMsg stalledMsg s =
     leaveSaving E 0 (setReady ConditionFalse reason readyMsg (setStalled (we_L E) reason stalledMsg s))"

definition minJsonVersion :: string where "minJsonVersion = ''3.202.0''"

definition jsonGate :: "('j, 'i, 'm, 'v) wenv \<Rightarrow> 'j WState \<Rightarrow> 'j WOutcome + 'j WState" where
  "jsonGate E s =
     (if hasJsonConfigInWorkspace (ws_Stacks (w_Spec (wv_obj s)))
      then (let v = wst_PulumiVersion (w_Status (wv_obj s))
            in case we_ParseTolerant E v of
                 Inl e \<Rightarrow> Inl (stall E ConditionReasonIncompatibleConfiguration
                            (''Failed to parse Pulumi version '' @ goQuote v)
                            (''Failed to parse Pulumi version '' @ goQuote v @ '': '' @ errorText e) s)
               | Inr version \<Rightarrow> (let minVersion = we_MustParse E minJsonVersion in
                   if we_LT E version minVersion
                   then (let msg = ''Pulumi CLI version '' @ v @ '' does not support JSON configuration, require >= v''
                               @ we_VersionString E minVersion
                         in Inl (stall E ConditionReasonIncompatibleConfiguration msg msg
                              (wact (WEvent StackInitializationFailureEvent
                                 ''Pulumi CLI version %s is too old for JSON configuration support, require >= v%s''
                                 [v, we_VersionString E minVersion]) s)))
                   else Inr s))
      else Inr s)"

definition installPhase :: "('j, 'i, 'm, 'v) wenv \<Rightarrow> 'j WState \<Rightarrow> 'j WOutcome + 'j WState" where
  "installPhase E s =
     (if ws_ProjectInfo (w_Spec (wv_obj s)) \<noteq> None then Inr s
      else bindE (saveOrLeave E (setReady ConditionFalse ''Installing''
                    ''Installing packages and plugins required by the program'' s))
        (\<lambda>s. case we_Install E (wv_trace s) of
               Some err \<Rightarrow> Inl (stall E ''InstallationFailed'' (rpcErrorText err) (rpcErrorText err)
                 (wact (WEvent InstallationFailureEvent (rpcErrorText err) []) (wact (WInstall False) s)))
             | None \<Rightarrow> Inr (wact (WInstall True) s)))"

text \<open>One stack: an error is the text of the failed call or of the marshalling.\<close>

definition selectStep :: "('j, 'i, 'm, 'v) wenv \<Rightarrow> WorkspaceStack \<Rightarrow> 'j WState \<Rightarrow> (string \<times> 'j WState) + 'j WState" where
  "selectStep E stack s = (
     let a = WSelectStack (wst_Name stack) (wst_Create stack) (wst_SecretsProvider stack)
     in case we_SelectStack E (wv_trace s) (wst_Name stack) (wst_Create stack) (wst_SecretsProvider stack) of
          Some e \<Rightarrow> Inl (rpcErrorText e, wact (a False) s)
        | None \<Rightarrow> Inr (wact (a True) s))"

definition marshalItems :: "('j, 'i) codecs \<Rightarrow> ConfigItem list \<Rightarrow> goerr + 'j pbConfigItem list" where
  "marshalItems J items =
     foldE (\<lambda>item config. bindE (marshalConfigItem J item) (\<lambda>c. Inr (config @ [c]))) items []"

definition configStep :: "('j, 'i, 'm, 'v) wenv \<Rightarrow> WorkspaceStack \<Rightarrow> 'j WState \<Rightarrow> (string \<times> 'j WState) + 'j WState" where
  "configStep E stack s =
     (if wst_Config stack = [] then Inr s
      else case marshalItems (we_J E) (wst_Config stack) of
             Inl e \<Rightarrow> Inl (errorText e, s)
           | Inr config \<Rightarrow>
               (case we_SetAllConfig E (wv_trace s) config of
                  Some e \<Rightarrow> Inl (rpcErrorText e, wact (WSetAllConfig config False) s)
                | None \<Rightarrow> Inr (wact (WSetAllConfig config True) s)))"

definition environmentStep :: "('j, 'i, 'm, 'v) wenv \<Rightarrow> WorkspaceStack \<Rightarrow> 'j WState \<Rightarrow> (string \<times> 'j WState) + 'j WState" where
  "environmentStep E stack s =
     (if wst_Environment stack = [] then Inr s
      else case we_AddEnvironments E (wv_trace s) (wst_Environment stack) of
             Some e \<Rightarrow> Inl (rpcErrorText e, wact (WAddEnvironments (wst_Environment stack) False) s)
           | None \<Rightarrow> Inr (wact (WAddEnvironments (wst_Environment stack) True) s))"

definition stackSteps :: "('j, 'i, 'm, 'v) wenv \<Rightarrow> WorkspaceStack \<Rightarrow> 'j WState \<Rightarrow> (string \<times> 'j WState) + 'j WState" where
  "stackSteps E stack s = bindE (selectStep E stack s) (\<lambda>s. bindE (configStep E stack s) (environmentStep E stack))"

definition initStack :: "('j, 'i, 'm, 'v) wenv \<Rightarrow> WorkspaceStack \<Rightarrow> 'j WState \<Rightarrow> 'j WOutcome + 'j WState" where
  "initStack E stack s =
     mapErr (\<lambda>(msg, s). stall E ''InitializationFailed'' msg msg
               (wact (WEvent StackInitializationFailureEvent ''Failed to initialize stack %q: %v'' [wst_Name stack, msg]) s))
       (stackSteps E stack s)"

definition stacksPhase :: "('j, 'i, 'm, 'v) wenv \<Rightarrow> 'j WState \<Rightarrow> 'j WOutcome + 'j WState" where
  "stacksPhase E s =
     bindE (saveOrLeave E (setReady ConditionFalse ''Initializing'' ''Initializing and selecting a Pulumi stack'' s))
       (\<lambda>s. foldE (initStack E) (ws_Stacks (w_Spec (wv_obj s))) s)"

definition markPhase :: "('j, 'i, 'm, 'v) wenv \<Rightarrow> Pod \<Rightarrow> 'j WState \<Rightarrow> 'j WOutcome + 'j WState" where
  "markPhase E pod s =
     (case we_MarkInitialized E (wv_trace s) pod of
        Some e \<Rightarrow> Inl (wleave 0 (Some (Wrapf ''failed to mark the pod as initialized'' e))
                    (wact (WMarkInitialized (pod_Name pod) False) s))
      | None \<Rightarrow> Inr (wact (WEvent InitializedEvent ''Initialized workspace pod %q'' [pod_Name pod])
                    (wact (WMarkInitialized (pod_Name pod) True) s)))"

definition podInitialized :: "(string \<Rightarrow> bool option) \<Rightarrow> Pod \<Rightarrow> bool" where
  "podInitialized parseBool pod =
     (case map_of (pod_Annotations pod) PodAnnotationInitialized of
        None \<Rightarrow> False
      | Some v \<Rightarrow> (case parseBool v of Some b \<Rightarrow> b | None \<Rightarrow> False))"

definition checkAndInstall :: "('j, 'i, 'm, 'v) wenv \<Rightarrow> 'j WState \<Rightarrow> 'j WOutcome + 'j WState" where
  "checkAndInstall E s =
     bindE (versionPhase E (removeStalled (we_L E) s)) (\<lambda>s. bindE (jsonGate E s) (installPhase E))"

definition initializePhase :: "('j, 'i, 'm, 'v) wenv \<Rightarrow> Pod \<Rightarrow> 'j WState \<Rightarrow> 'j WOutcome + 'j WState" where
  "initializePhase E pod s =
     (if podInitialized (we_ParseBool E) pod then Inr s
      else bindE (checkAndInstall E s) (\<lambda>s. bindE (stacksPhase E s) (markPhase E pod)))"

section \<open>The handler\<close>

definition initialReady :: "lib \<Rightarrow> Workspace \<Rightarrow> condPtr" where
  "initialReady L w =
     (case FindStatusCondition L (wst_Conditions (w_Status w)) WorkspaceReady of
        Some _ \<Rightarrow> Shared
      | None \<Rightarrow> Own freshReady)"

text \<open>From the service to the connection with the agent of the current pod.\<close>

definition reachAgent :: "('j, 'i, 'm, 'v) wenv \<Rightarrow> 'j WState \<Rightarrow> 'j WOutcome + Pod \<times> 'j WState" where
  "reachAgent E s = (
     let source = newSourceSpec (wv_obj s)
     in bindE (servicePhase E s) (\<lambda>s.
        bindE (statefulSetPhase E source s) (\<lambda>(ss, s).
        bindE (rolloutPhase E ss s) (\<lambda>s.
        bindE (podPhase E ss s) (\<lambda>pod.
        bindE (connectWorkspace E s) (\<lambda>s. Inr (pod, s)))))))"

definition livePhases :: "('j, 'i, 'm, 'v) wenv \<Rightarrow> 'j WState \<Rightarrow> 'j WOutcome + 'j WState" where
  "livePhases E s = bindE (reachAgent E s) (\<lambda>(pod, s). initializePhase E pod s)"

text \<open>The state with which the handler begins, after the defaults.\<close>

definition initialWState :: "('j, 'i, 'm, 'v) wenv \<Rightarrow> Workspace \<Rightarrow> 'j WState" where
  "initialWState E obj = (let w = applyDefaults (we_W E) obj in
     \<lparr>wv_obj = w, wv_ready = initialReady (we_L E) w, wv_trace = []\<rparr>)"

definition WorkspaceReconcile :: "('j, 'i, 'm, 'v) wenv \<Rightarrow> goerr + Workspace \<Rightarrow> 'j WOutcome" where
  "WorkspaceReconcile E got =
     (case got of
        Inl e \<Rightarrow> \<lparr>wo_Requeue = False, wo_After = 0, wo_Err = (if IsNotFound e then None else Some e), wo_Trace = []\<rparr>
      | Inr obj \<Rightarrow>
          (let s = initialWState E obj
           in if om_DeletionTimestamp (w_Meta (wv_obj s)) \<noteq> None
              then leaveSaving E 0 (setReady ConditionFalse ''Deleting'' ''Workspace is being deleted'' s)
              else case livePhases E s of
                     Inl out \<Rightarrow> out
                   | Inr s \<Rightarrow> leaveSaving E 0 (setReady ConditionTrue ''Succeeded'' [] s)))"

end
