(* ===== verification/Watches.thy ===== *)
theory Watches
  imports StackSystem UpdateProperties WorkspaceController
begin

text \<open>
  What wakes the controllers up: the watches that the four \<^verbatim>\<open>SetupWithManager\<close> functions register,
  with their predicates and the mapping of an event to requests. A stack that waits for its update
  is woken when the update is complete; an update that waits for its workspace is woken when the
  workspace is ready, unless it is being reconciled just then: that wake-up is lost.
\<close>

section \<open>Events and the controller runtime\<close>

datatype 'o objectEvent = CreateEvent 'o | UpdateEvent 'o 'o | DeleteEvent 'o | GenericEvent 'o

text \<open>A predicate by its four methods.\<close>

fun onEvent :: "('o \<Rightarrow> bool) \<Rightarrow> ('o \<Rightarrow> 'o \<Rightarrow> bool) \<Rightarrow> bool \<Rightarrow> bool \<Rightarrow> 'o objectEvent \<Rightarrow> bool" where
  "onEvent c u d g (CreateEvent v) = c v"
| "onEvent c u d g (UpdateEvent v w) = u v w"
| "onEvent c u d g (DeleteEvent v) = d"
| "onEvent c u d g (GenericEvent v) = g"

fun subject :: "'o objectEvent \<Rightarrow> 'o" where
  "subject (CreateEvent v) = v"
| "subject (UpdateEvent v w) = w"
| "subject (DeleteEvent v) = v"
| "subject (GenericEvent v) = v"

abbreviation keyOf :: "ObjectMeta \<Rightarrow> namespacedName" where
  "keyOf m \<equiv> (om_Namespace m, om_Name m)"

text \<open>
  The handlers of controller-runtime: the request for the object itself, those of a map function,
  those for the owners of a group and kind (or for the controlling owner only); and its predicate
  on the generation.
\<close>

record runtime =
  rt_ForObject :: "ObjectMeta objectEvent \<Rightarrow> namespacedName list"
  rt_FromMapFunc :: "(ObjectMeta \<Rightarrow> namespacedName list) \<Rightarrow> ObjectMeta objectEvent \<Rightarrow> namespacedName list"
  rt_ForOwner :: "string \<times> string \<Rightarrow> bool \<Rightarrow> ObjectMeta objectEvent \<Rightarrow> namespacedName list"
  rt_GenerationChanged :: "ObjectMeta objectEvent \<Rightarrow> bool"

definition apiGroup :: "string \<Rightarrow> string" where
  "apiGroup apiVersion = (if CHR ''/'' \<in> set apiVersion then takeWhile (\<lambda>c. c \<noteq> CHR ''/'') apiVersion else [])"

locale controller_runtime =
  fixes R :: runtime
  assumes for_object: "keyOf (subject e) \<in> set (rt_ForObject R e)"
    and map_func: "set (f (subject e)) \<subseteq> set (rt_FromMapFunc R f e)"
    and map_func_only: "set (rt_FromMapFunc R f e) \<subseteq> (\<Union>v\<in>set_objectEvent e. set (f v))"
    and for_owner: "\<lbrakk>r \<in> set (om_OwnerReferences (subject e)); apiGroup (or_APIVersion r) = fst gk; or_Kind r = snd gk;
        only \<longrightarrow> or_Controller r = Some True\<rbrakk> \<Longrightarrow> (om_Namespace (subject e), or_Name r) \<in> set (rt_ForOwner R gk only e)"
    and generation: "rt_GenerationChanged R (UpdateEvent m n) \<longleftrightarrow> om_Generation m \<noteq> om_Generation n"
    and created: "rt_GenerationChanged R (CreateEvent m)"

text \<open>A runtime after its documentation, which handles both objects of an update event.\<close>

fun subjects :: "'o objectEvent \<Rightarrow> 'o list" where
  "subjects (UpdateEvent v w) = [v, w]"
| "subjects e = [subject e]"

lemma subject_in [simp]: "subject e \<in> set (subjects e)"
  by (cases e) simp_all

lemma set_subjects: "set (subjects e) = set_objectEvent e"
  by (cases e) auto

definition docRuntime :: runtime where
  "docRuntime = \<lparr>rt_ForObject = (\<lambda>e. [keyOf (subject e)]),
     rt_FromMapFunc = (\<lambda>f e. concat (map f (subjects e))),
     rt_ForOwner = (\<lambda>gk only e. [(om_Namespace m, or_Name r). m \<leftarrow> subjects e, r \<leftarrow> om_OwnerReferences m,
        apiGroup (or_APIVersion r) = fst gk \<and> or_Kind r = snd gk \<and> (only \<longrightarrow> or_Controller r = Some True)]),
     rt_GenerationChanged = onEvent (\<lambda>m. True) (\<lambda>m n. om_Generation m \<noteq> om_Generation n) True True\<rparr>"

interpretation docRuntime: controller_runtime docRuntime
  by unfold_locales (auto simp: docRuntime_def set_subjects [symmetric] intro!: bexI [OF _ subject_in])

section \<open>The stack controller's watches\<close>

definition stackReadyPredicate :: "lib \<Rightarrow> Stack objectEvent \<Rightarrow> bool" where
  "stackReadyPredicate L = onEvent (stackReadyPredicate_Create L) (\<lambda>v w. stackReadyPredicate_Update L (Some v) (Some w))
     readyPredicate_Delete readyPredicate_Generic"

definition workspaceReadyPredicate :: "lib \<Rightarrow> Workspace objectEvent \<Rightarrow> bool" where
  "workspaceReadyPredicate L = onEvent (workspaceReadyPredicate_Create L)
     (\<lambda>v w. workspaceReadyPredicate_Update L (Some v) (Some w)) readyPredicate_Delete readyPredicate_Generic"

definition updateCompletePredicate :: "lib \<Rightarrow> Update objectEvent \<Rightarrow> bool" where
  "updateCompletePredicate L = onEvent (updateCompletePredicate_Create L)
     (\<lambda>v w. updateCompletePredicate_Update L (Some v) (Some w)) readyPredicate_Delete readyPredicate_Generic"

definition finalizerAddedPredicate :: "lib \<Rightarrow> ObjectMeta objectEvent \<Rightarrow> bool" where
  "finalizerAddedPredicate L = onEvent (\<lambda>m. False) (\<lambda>m n. finalizerAddedPredicate_Update L (Some m) (Some n)) False False"

text \<open>The methods that \<^verbatim>\<open>predicate.Funcs\<close> supplies let everything through.\<close>

definition ReconcileRequestedPredicate :: "ObjectMeta objectEvent \<Rightarrow> bool" where
  "ReconcileRequestedPredicate = onEvent (\<lambda>m. True) (\<lambda>m n. ReconcileRequestedPredicate_Update (Some m) (Some n)) True True"

definition SourceRevisionChangePredicate ::
  "('u, 'm) unstructuredlib \<Rightarrow> ('u EventObject \<times> ObjectMeta) objectEvent \<Rightarrow> bool" where
  "SourceRevisionChangePredicate U =
     onEvent (\<lambda>v. True) (\<lambda>v w. SourceRevisionChangePredicate_Update U (fst v) (fst w)) True True"

definition DebugPredicate :: "'o objectEvent \<Rightarrow> bool" where
  "DebugPredicate e = True"

definition stackEventFilter :: "lib \<Rightarrow> runtime \<Rightarrow> ObjectMeta objectEvent \<Rightarrow> bool" where
  "stackEventFilter L R e \<longleftrightarrow>
     (rt_GenerationChanged R e \<and> \<not> finalizerAddedPredicate L e) \<or> ReconcileRequestedPredicate e"

text \<open>The list calls are by the name of an index, a namespace and a value of the index.\<close>

type_synonym stackIndex = "string \<Rightarrow> string \<Rightarrow> string \<Rightarrow> goerr + Stack list"

definition prerequisiteIndexFieldName :: string where "prerequisiteIndexFieldName = ''spec.prerequisites.name''"
definition programRefIndexFieldName :: string where "programRefIndexFieldName = ''.spec.programRef.name''"
definition fluxSourceIndexFieldName :: string where "fluxSourceIndexFieldName = ''.spec.fluxSource.sourceRef''"

definition stackOnStack :: "lib \<Rightarrow> runtime \<Rightarrow> stackIndex \<Rightarrow> Stack objectEvent \<Rightarrow> namespacedName list" where
  "stackOnStack L R list e =
     (let m = map_objectEvent s_Meta e
      in (if stackEventFilter L R m then rt_ForObject R m else [])
         @ (if stackReadyPredicate L e \<and> DebugPredicate e
            then rt_FromMapFunc R (enqueueByIndex (list prerequisiteIndexFieldName) om_Name) m else []))"

definition stackOnProgram ::
  "('u, 'm) unstructuredlib \<Rightarrow> runtime \<Rightarrow> stackIndex \<Rightarrow> ('u EventObject \<times> ObjectMeta) objectEvent \<Rightarrow> namespacedName list" where
  "stackOnProgram U R list e =
     (if SourceRevisionChangePredicate U e \<and> DebugPredicate e
      then rt_FromMapFunc R (enqueueByIndex (list programRefIndexFieldName) om_Name) (map_objectEvent snd e) else [])"

definition stackOnFluxSource ::
  "('u, 'm) unstructuredlib \<Rightarrow> gvklib \<Rightarrow> runtime \<Rightarrow> stackIndex \<Rightarrow> GVK \<Rightarrow> ('u EventObject \<times> ObjectMeta) objectEvent \<Rightarrow> namespacedName list" where
  "stackOnFluxSource U V R list gvk e =
     (if SourceRevisionChangePredicate U e \<and> DebugPredicate e
      then rt_FromMapFunc R (enqueueByIndex (list fluxSourceIndexFieldName) (\<lambda>m. fluxSourceKey V gvk (om_Name m)))
             (map_objectEvent snd e) else [])"

definition stackGroupKind :: "string \<times> string" where "stackGroupKind = (''pulumi.com'', ''Stack'')"

definition stackOnWorkspace :: "lib \<Rightarrow> runtime \<Rightarrow> Workspace objectEvent \<Rightarrow> namespacedName list" where
  "stackOnWorkspace L R e =
     (if workspaceReadyPredicate L e \<and> DebugPredicate e
      then rt_ForOwner R stackGroupKind False (map_objectEvent w_Meta e) else [])"

definition stackOnUpdate :: "lib \<Rightarrow> runtime \<Rightarrow> Update objectEvent \<Rightarrow> namespacedName list" where
  "stackOnUpdate L R e =
     (if updateCompletePredicate L e \<and> DebugPredicate e
      then rt_ForOwner R stackGroupKind False (map_objectEvent u_Meta e) else [])"

section \<open>The other controllers' watches\<close>

definition OwnerReferencesChangedPredicate :: "ObjectMeta objectEvent \<Rightarrow> bool" where
  "OwnerReferencesChangedPredicate =
     onEvent (\<lambda>m. False) (\<lambda>m n. OwnerReferencesChangedPredicate_Update (Some m) (Some n)) False False"

definition updateCompletedPredicate :: "lib \<Rightarrow> Update objectEvent \<Rightarrow> bool" where
  "updateCompletedPredicate L =
     onEvent (\<lambda>u. False) (\<lambda>v w. updateCompletedPredicate_Update L (Some v) (Some w)) False False"

definition autoWorkspaceReadyPredicate :: "lib \<Rightarrow> Workspace objectEvent \<Rightarrow> bool" where
  "autoWorkspaceReadyPredicate L = onEvent (autoWorkspaceReadyPredicate_Create L)
     (\<lambda>v w. autoWorkspaceReadyPredicate_Update L (Some v) (Some w)) True False"

definition updateOnUpdate :: "lib \<Rightarrow> runtime \<Rightarrow> Update objectEvent \<Rightarrow> namespacedName list" where
  "updateOnUpdate L R e =
     (let m = map_objectEvent u_Meta e
      in if rt_GenerationChanged R m \<or> OwnerReferencesChangedPredicate m \<or> updateCompletedPredicate L e
         then rt_ForObject R m else [])"

definition updateOnWorkspace ::
  "lib \<Rightarrow> runtime \<Rightarrow> (string \<Rightarrow> string \<Rightarrow> goerr + Update list) \<Rightarrow> namespacedName list
    \<Rightarrow> Workspace objectEvent \<Rightarrow> namespacedName list" where
  "updateOnWorkspace L R list active e =
     (if autoWorkspaceReadyPredicate L e
      then rt_FromMapFunc R (mapWorkspaceToUpdate list active) (map_objectEvent w_Meta e) else [])"

definition statefulSetReadyPredicate :: "StatefulSet objectEvent \<Rightarrow> bool" where
  "statefulSetReadyPredicate = onEvent statefulSetReadyPredicate_Create
     (\<lambda>v w. statefulSetReadyPredicate_Update (Some v) (Some w)) False False"

definition workspaceOnWorkspace :: "runtime \<Rightarrow> Workspace objectEvent \<Rightarrow> namespacedName list" where
  "workspaceOnWorkspace R e =
     (let m = map_objectEvent w_Meta e
      in if rt_GenerationChanged R m \<and> DebugPredicate e then rt_ForObject R m else [])"

definition workspaceOnStatefulSet :: "runtime \<Rightarrow> StatefulSet objectEvent \<Rightarrow> namespacedName list" where
  "workspaceOnStatefulSet R e =
     (if statefulSetReadyPredicate e \<and> DebugPredicate e
      then rt_ForOwner R (''auto.pulumi.com'', ''Workspace'') True (map_objectEvent sts_Meta e) else [])"

definition programOnProgram :: "runtime \<Rightarrow> ObjectMeta objectEvent \<Rightarrow> namespacedName list" where
  "programOnProgram R m = (if rt_GenerationChanged R m then rt_ForObject R m else [])"

section \<open>Events in a row\<close>

text \<open>The events by which the versions of an object are told.\<close>

definition eventsOf :: "'o list \<Rightarrow> 'o objectEvent list" where
  "eventsOf vs = (case vs of [] \<Rightarrow> [] | v # rest \<Rightarrow> CreateEvent v # map (\<lambda>(a, b). UpdateEvent a b) (zip vs rest))"

lemma length_eventsOf [simp]: "length (eventsOf vs) = length vs"
  by (simp add: eventsOf_def split: list.split)

lemma subject_eventsOf: "i < length vs \<Longrightarrow> subject (eventsOf vs ! i) = vs ! i"
  by (cases i) (auto simp: eventsOf_def split: list.split)

lemma watchEvents_eventsOf:
  "i < length vs \<Longrightarrow> watchEvents c u vs ! i \<longleftrightarrow> onEvent c (\<lambda>v w. u (Some v) (Some w)) d g (eventsOf vs ! i)"
  by (cases vs; cases i) (auto simp: eventsOf_def)

lemma subject_map [simp]: "subject (map_objectEvent f e) = f (subject e)"
  by (cases e) simp_all

section \<open>What wakes a stack\<close>




context controller_runtime
begin

lemma owner_woken:
  assumes "r \<in> set (om_OwnerReferences (u_Meta (subject e)))" and "apiGroup (or_APIVersion r) = fst stackGroupKind"
    and "or_Kind r = snd stackGroupKind" and "updateCompletePredicate L e"
  shows "(om_Namespace (u_Meta (subject e)), or_Name r) \<in> set (stackOnUpdate L R e)"
  using for_owner [of r "map_objectEvent u_Meta e" stackGroupKind False] assms
  by (simp add: stackOnUpdate_def DebugPredicate_def)

end



text \<open>A stack that becomes ready wakes the stacks of its namespace that have it as a prerequisite.\<close>

lemma dependents_woken:
  assumes "controller_runtime R"
    and "\<And>ns n. list prerequisiteIndexFieldName ns n = Inr (filter (\<lambda>d. om_Namespace (s_Meta d) = ns \<and> n \<in> set (prerequisiteIndex d)) stacks)"
    and "d \<in> set stacks" and "om_Namespace (s_Meta d) = om_Namespace (s_Meta st)"
    and "pq \<in> set (sp_Prerequisites (s_Spec d))" and "pq_Name pq = om_Name (s_Meta st)"
    and "stackReadyPredicate L e" and "subject e = st"
  shows "keyOf (s_Meta d) \<in> set (stackOnStack L R list e)"
proof -
  have "om_Name (s_Meta st) \<in> set (prerequisiteIndex d)" using assms(5,6) by (force simp: prerequisiteIndex_def)
  then have "keyOf (s_Meta d) \<in> set (enqueueByIndex (list prerequisiteIndexFieldName) om_Name (subject (map_objectEvent s_Meta e)))"
    using assms(3,4,8) by (auto simp: enqueueByIndex_def assms(2))
  then show ?thesis
    using controller_runtime.map_func [OF assms(1)] assms(7) by (fastforce simp: stackOnStack_def Let_def DebugPredicate_def)
qed

section \<open>What wakes an update\<close>

text \<open>C25: An update that waits for its workspace is woken, unless it is being reconciled. Whatever versions
  of the workspace the watch delivers, if the last one is ready then an event enqueued every update
  of the workspace that is not complete and not in a reconcile, at or after the moment from which
  the workspace stayed ready.
\<close>

lemma update_woken_by_workspace:
  assumes "controller_runtime R"
    and "\<And>ns n. list ns n = Inr (filter (\<lambda>u. om_Namespace (u_Meta u) = ns \<and> n \<in> set (indexUpdateByWorkspace L u)) us)"
    and "u \<in> set us" and "\<not> IsStatusConditionTrue L (ust_Conditions (u_Status u)) UpdateConditionTypeComplete"
    and "updateKey u \<notin> set active"
    and "\<forall>w\<in>set ws. keyOf (w_Meta w) = (om_Namespace (u_Meta u), us_WorkspaceName (u_Spec u))"
    and "ws \<noteq> []" and "autoWorkspaceReady L (Some (last ws))"
  shows "\<exists>i<length ws. updateKey u \<in> set (updateOnWorkspace L R list active (eventsOf ws ! i))
    \<and> (\<forall>j. i \<le> j \<and> j < length ws \<longrightarrow> autoWorkspaceReady L (Some (ws ! j)))"
proof -
  from autoWorkspaceWatch.no_missed_wakeup [OF assms(7,8)] obtain i where i: "i < length ws"
    "watchEvents (autoWorkspaceReadyPredicate_Create L) (autoWorkspaceReadyPredicate_Update L) ws ! i"
    "\<forall>j. i \<le> j \<and> j < length ws \<longrightarrow> autoWorkspaceReady L (Some (ws ! j))" by blast
  have "autoWorkspaceReadyPredicate L (eventsOf ws ! i)"
    using i(2) unfolding autoWorkspaceReadyPredicate_def by (rule iffD1 [OF watchEvents_eventsOf [OF i(1)]])
  moreover have "updateKey u \<in> set (mapWorkspaceToUpdate list active (w_Meta (ws ! i)))"
    unfolding workspace_event_requeues [OF assms(2)] using assms(3-6) i(1) nth_mem [OF i(1)] by auto
  ultimately have "updateKey u \<in> set (updateOnWorkspace L R list active (eventsOf ws ! i))"
    using controller_runtime.map_func [OF assms(1), of "mapWorkspaceToUpdate list active" "map_objectEvent w_Meta (eventsOf ws ! i)"]
      subject_eventsOf [OF i(1)] by (auto simp: updateOnWorkspace_def)
  with i show ?thesis by blast
qed

lemma update_woken_by_workspace_witness:
  "\<exists>i<2. (''default'', ''up'') \<in> set (updateOnWorkspace docLib docRuntime
     (\<lambda>ns n. Inr (filter (\<lambda>u. om_Namespace (u_Meta u) = ns \<and> n \<in> set (indexUpdateByWorkspace docLib u)) [exampleRun])) []
     (eventsOf [exampleWorkspace\<lparr>w_Status := emptyWorkspaceStatus\<rparr>, exampleWorkspace] ! i))"
proof -
  let ?ws = "[exampleWorkspace\<lparr>w_Status := emptyWorkspaceStatus\<rparr>, exampleWorkspace]"
  have run: "updateKey exampleRun = (''default'', ''up'')" "keyOf (w_Meta exampleWorkspace) = (om_Namespace (u_Meta exampleRun), us_WorkspaceName (u_Spec exampleRun))"
    "\<not> IsStatusConditionTrue docLib (ust_Conditions (u_Status exampleRun)) UpdateConditionTypeComplete"
    by (simp_all add: updateKey_def exampleRun_def exampleWorkspace_def emptyMeta_def emptyUpdateSpec_def emptyUpdateStatus_def
        docLib_def refIsTrue_def refFind_def)
  have same: "\<forall>w\<in>set ?ws. keyOf (w_Meta w) = (om_Namespace (u_Meta exampleRun), us_WorkspaceName (u_Spec exampleRun))"
    using run(2) by auto
  have side: "exampleRun \<in> set [exampleRun]" "updateKey exampleRun \<notin> set []" "?ws \<noteq> []" "autoWorkspaceReady docLib (Some (last ?ws))"
    using example_ready(5) by simp_all
  from update_woken_by_workspace [OF docRuntime.controller_runtime_axioms refl side(1) run(3) side(2) same side(3,4)]
  show ?thesis unfolding run(1) by (elim conjE exE) (intro exI conjI, simp_all)
qed

end
