(* ===== verification/WakeupRace.thy ===== *)
theory WakeupRace
  imports Watches
begin

text \<open>
  The race between a reconcile of an update and the watch of its workspace: an event that is handled
  while the update is in a reconcile is dropped, also when the reconcile looked at the workspace
  before the event. The update then waits although its workspace is ready, and nothing wakes it while
  the workspace stays ready, short of an edit of the update or a restart of the operator.
\<close>

section \<open>The steps\<close>

text \<open>
  One update and its workspace: the workspace as the cache has it, the events of it that were not
  handled yet, the work queue, the set of active reconciles, the stored update, and the reconcile
  that is running, with the update it was given and the workspace once it has read it.
\<close>

record wakeup =
  wu_workspace :: Workspace
  wu_events :: "Workspace objectEvent list"
  wu_queue :: "namespacedName set"
  wu_active :: "namespacedName list"
  wu_update :: Update
  wu_running :: "(Update \<times> Workspace option) option"

definition updatesListed :: "lib \<Rightarrow> Update \<Rightarrow> string \<Rightarrow> string \<Rightarrow> goerr + Update list" where
  "updatesListed L u ns n = Inr (filter (\<lambda>v. om_Namespace (u_Meta v) = ns \<and> n \<in> set (indexUpdateByWorkspace L v)) [u])"

text \<open>What the API server stores when the status is patched: with metadata that it rewrites.\<close>

definition stored :: "Update \<Rightarrow> UpdateStatus \<Rightarrow> Update \<Rightarrow> bool" where
  "stored u st v \<longleftrightarrow> (\<exists>rv mf. v = u\<lparr>u_Meta := (u_Meta u)\<lparr>om_ResourceVersion := rv, om_ManagedFields := mf\<rparr>, u_Status := st\<rparr>)"

text \<open>What is stored when the process stops: after any part of the reconcile that is running.\<close>

definition interrupted :: "lib \<Rightarrow> wakeup \<Rightarrow> Update \<Rightarrow> bool" where
  "interrupted L s v \<longleftrightarrow>
     (case wu_running s of
        None \<Rightarrow> v = wu_update s
      | Some (u, seen) \<Rightarrow> (\<exists>F tr rest u'. update_server F \<and> ue_L F = L
          \<and> (\<forall>w. seen = Some w \<longrightarrow> (\<forall>tr ns n. ue_GetWorkspace F tr ns n = Inr w))
          \<and> uo_Trace (UpdateReconcile F (Inr u)) = tr @ rest \<and> persist u tr u'
          \<and> stored (wu_update s) (u_Status u') v))"

text \<open>
  The steps, with who makes them. The workspace changes in any way but its name; the operator
  handles the next event of it, or goes on with a reconcile; somebody else edits the update, all of
  it but the status; the operator is restarted, which loses what it had in memory and brings
  everything there is as created.
\<close>

datatype happening = WorkspaceChanged | OperatorWorked | UpdateEdited | OperatorRestarted

inductive wakeupStep :: "lib \<Rightarrow> runtime \<Rightarrow> happening \<Rightarrow> wakeup \<Rightarrow> wakeup \<Rightarrow> bool" for L R where
  changes: "keyOf (w_Meta w) = keyOf (w_Meta (wu_workspace s)) \<Longrightarrow>
    wakeupStep L R WorkspaceChanged s (s\<lparr>wu_workspace := w, wu_events := wu_events s @ [UpdateEvent (wu_workspace s) w]\<rparr>)"
| notified: "wu_events s = e # rest \<Longrightarrow>
    wakeupStep L R OperatorWorked s (s\<lparr>wu_events := rest,
      wu_queue := wu_queue s \<union> set (updateOnWorkspace L R (updatesListed L (wu_update s)) (wu_active s) e)\<rparr>)"
| begins: "\<lbrakk>wu_running s = None; k = updateKey (wu_update s); k \<in> wu_queue s\<rbrakk> \<Longrightarrow>
    wakeupStep L R OperatorWorked s (s\<lparr>wu_queue := wu_queue s - {k}, wu_active := activeStore k (wu_active s),
      wu_running := Some (wu_update s, None)\<rparr>)"
| reads: "wu_running s = Some (u, None) \<Longrightarrow>
    wakeupStep L R OperatorWorked s (s\<lparr>wu_running := Some (u, Some (wu_workspace s))\<rparr>)"
| returns: "\<lbrakk>wu_running s = Some (u, Some w); update_server F; ue_L F = L; \<forall>tr ns n. ue_GetWorkspace F tr ns n = Inr w;
      uo_Return (UpdateReconcile F (Inr u)) = Some (after, err);
      persist u (uo_Trace (UpdateReconcile F (Inr u))) u'; stored (wu_update s) (u_Status u') v; k = updateKey u\<rbrakk> \<Longrightarrow>
    wakeupStep L R OperatorWorked s (s\<lparr>wu_update := v, wu_active := activeDelete k (wu_active s), wu_running := None,
      wu_queue := wu_queue s \<union> (if 0 < after \<or> err \<noteq> None then {k} else {})
        \<union> set (updateOnUpdate L R (UpdateEvent (wu_update s) v))\<rparr>)"
| edited: "\<lbrakk>keyOf (u_Meta v) = keyOf (u_Meta (wu_update s)); u_Status v = u_Status (wu_update s)\<rbrakk> \<Longrightarrow>
    wakeupStep L R UpdateEdited s (s\<lparr>wu_update := v,
      wu_queue := wu_queue s \<union> set (updateOnUpdate L R (UpdateEvent (wu_update s) v))\<rparr>)"
| restarted: "interrupted L s v \<Longrightarrow>
    wakeupStep L R OperatorRestarted s (s\<lparr>wu_update := v, wu_events := [], wu_active := [], wu_running := None,
      wu_queue := set (updateOnUpdate L R (CreateEvent v))
        \<union> set (updateOnWorkspace L R (updatesListed L v) [] (CreateEvent (wu_workspace s)))\<rparr>)"

inductive_cases restartE: "wakeupStep L R OperatorRestarted s t"

definition happens :: "lib \<Rightarrow> runtime \<Rightarrow> wakeup \<Rightarrow> wakeup \<Rightarrow> bool" where
  "happens L R s t \<longleftrightarrow> (\<exists>h. wakeupStep L R h s t)"

text \<open>The steps of the workspace and of the running operator after which the workspace is ready.\<close>

definition readyStep :: "lib \<Rightarrow> runtime \<Rightarrow> wakeup \<Rightarrow> wakeup \<Rightarrow> bool" where
  "readyStep L R s t \<longleftrightarrow> autoWorkspaceReady L (Some (wu_workspace t))
     \<and> (wakeupStep L R WorkspaceChanged s t \<or> wakeupStep L R OperatorWorked s t)"

section \<open>A lost wake-up\<close>

definition asleep :: "lib \<Rightarrow> wakeup \<Rightarrow> bool" where
  "asleep L s \<longleftrightarrow> wu_running s = None \<and> wu_queue s = {} \<and> autoWorkspaceReady L (Some (wu_workspace s))
     \<and> (\<forall>e\<in>set (wu_events s). \<exists>v w. e = UpdateEvent v w \<and> autoWorkspaceReady L (Some v))"

lemma ready_event_ignored:
  "autoWorkspaceReady L (Some v) \<Longrightarrow> updateOnWorkspace L R list active (UpdateEvent v w) = []"
  by (simp add: updateOnWorkspace_def autoWorkspaceReadyPredicate_def autoWorkspaceReadyPredicate_Update_def)

lemma asleep_step:
  assumes "readyStep L R s t" and "asleep L s"
  shows "asleep L t \<and> wu_update t = wu_update s"
proof -
  from assms(1) obtain h where "wakeupStep L R h s t" "autoWorkspaceReady L (Some (wu_workspace t))"
    "h \<noteq> UpdateEdited" "h \<noteq> OperatorRestarted" by (auto simp: readyStep_def)
  then show ?thesis
    using assms(2)
  proof (induction rule: wakeupStep.induct)
    case (notified s e rest)
    then obtain v w where "e = UpdateEvent v w" "autoWorkspaceReady L (Some v)" by (auto simp: asleep_def)
    with notified show ?case by (auto simp: asleep_def ready_event_ignored)
  qed (auto simp: asleep_def)
qed

lemma asleep_stays:
  assumes "(readyStep L R)\<^sup>*\<^sup>* s t" and "asleep L s"
  shows "asleep L t \<and> wu_update t = wu_update s"
  using assms by (induction rule: rtranclp_induct) (use asleep_step in fastforce)+

text \<open>A reconcile of an update that is due, with a workspace that is not ready.\<close>

context update_server
begin

lemma updateStatus_accepted:
  assumes "\<And>tr u p. \<exists>v. ue_Patch E tr u p = Inr v" and "sessOk s"
  obtains t p where "updateStatus E s = (None, t)" "uv_trace t = uv_trace s @ [UPatchStatus p True]"
    "phaseOf (ust_Conditions (appliedStatus p)) = Some (phaseNow L s)" "sessOk t"
proof -
  obtain r t where run: "updateStatus E s = (r, t)" by (cases "updateStatus E s")
  have "r = None" using run assms(1) by (auto simp: updateStatus_def Let_def split: sum.splits) (metis Inl_Inr_False)
  with updateStatus_phase(2) [OF assms(2) run] updateStatus_effect(1) [OF assms(2) run] run that show thesis by auto
qed

lemma Reconcile_waits:
  assumes "\<not> guardedConds (ust_Conditions (u_Status obj))"
    and "om_DeletionTimestamp (u_Meta obj) = None" and "\<not> isOrphaned L obj"
    and patch: "\<And>tr u p. \<exists>v. ue_Patch E tr u p = Inr v"
    and w: "\<And>tr ns n. ue_GetWorkspace E tr ns n = Inr w" and "\<not> autoWorkspaceReady L (Some w)"
  shows "\<exists>p q. UpdateReconcile E (Inr obj) = \<lparr>uo_Return = Some (0, None), uo_Trace = [UPatchStatus p True, UPatchStatus q True]\<rparr>
    \<and> phaseOf (ust_Conditions (appliedStatus q)) = Some (ConditionFalse, ConditionFalse, ConditionFalse)"
proof -
  let ?s = "initialState L obj"
  have start: "UpdateReconcile E (Inr obj) = startPhase E ?s"
    using assms(1-3) guarding_initial [of obj] by (simp add: UpdateReconcile_unfold Let_def guarding_def)
  obtain t p where t: "updateStatus E (markRunning ?s) = (None, t)" "uv_trace t = uv_trace (markRunning ?s) @ [UPatchStatus p True]"
      "sessOk t"
    using updateStatus_accepted [OF patch marking_ok(3) [OF sessOk_initial]] by metis
  let ?w = "markWaiting ''WorkspaceNotReady'' t"
  obtain v q where v: "updateStatus E ?w = (None, v)" "uv_trace v = uv_trace ?w @ [UPatchStatus q True]"
      "phaseOf (ust_Conditions (appliedStatus q)) = Some (phaseNow L ?w)"
    using updateStatus_accepted [OF patch marking_ok(1) [OF t(3)]] by metis
  have "UpdateReconcile E (Inr obj) = uleave 0 None v"
    unfolding start startPhase_def by (simp add: t(1) w assms(6) leaveUpdating_def v(1))
  moreover have "uv_trace v = [UPatchStatus p True, UPatchStatus q True]"
    using v(2) t(2) by (simp add: markWaiting_def markRunning_def initialState_def)
  moreover have "phaseNow L ?w = (ConditionFalse, ConditionFalse, ConditionFalse)"
    using t(3) by (simp add: phaseNow_def markWaiting_def mark_effect)
  ultimately show ?thesis using v(3) by (auto simp: uleave_def)
qed

end

text \<open>What the watches make of the race: nothing.\<close>

context controller_runtime
begin

lemma active_ignored:
  assumes "updateKey u \<in> set active"
  shows "updateOnWorkspace L R (updatesListed L u) active e = []"
proof -
  have "mapWorkspaceToUpdate (updatesListed L u) active m = []" for m
    using assms by (auto simp: mapWorkspaceToUpdate_def updatesListed_def)
  then have "set (rt_FromMapFunc R (mapWorkspaceToUpdate (updatesListed L u) active) m) = {}" for m
    using map_func_only [of "mapWorkspaceToUpdate (updatesListed L u) active" m] by auto
  then show ?thesis by (simp add: updateOnWorkspace_def)
qed

lemma status_ignored:
  assumes "om_Generation (u_Meta v) = om_Generation (u_Meta u)" "om_OwnerReferences (u_Meta v) = om_OwnerReferences (u_Meta u)"
    and "\<not> IsStatusConditionTrue L (ust_Conditions (u_Status v)) UpdateConditionTypeComplete"
  shows "updateOnUpdate L R (UpdateEvent u v) = []"
  using assms generation [of "u_Meta u" "u_Meta v"]
  by (simp add: updateOnUpdate_def OwnerReferencesChangedPredicate_def OwnerReferencesChangedPredicate_Update_def
      updateCompletedPredicate_def updateCompletedPredicate_Update_def)

text \<open>When the operator starts, every update there is comes as created and is queued.\<close>

lemma restart_wakes: "updateKey u \<in> set (updateOnUpdate L R (CreateEvent u))"
  using for_object [of "CreateEvent (u_Meta u)"] created by (simp add: updateOnUpdate_def updateKey_def)

end

lemma restart_queues:
  assumes "controller_runtime R" and "wakeupStep L R OperatorRestarted s t" and "wu_running s = None"
  shows "updateKey (wu_update s) \<in> wu_queue t"
  using assms(2,3) controller_runtime.restart_wakes [OF assms(1), of "wu_update s" L]
  by (auto elim!: restartE simp: interrupted_def)

text \<open>C26: A wake-up can be lost. For every update that is due and queued while its workspace is not ready,
  and every version of that workspace that is ready, there is a course of events after which the
  workspace is ready, the update is marked as waiting for it, and nothing is queued or to be
  handled: the workspace becomes ready after the reconcile has read it, and its event is handled before
  the reconcile returns. From there on the update is never reconciled again as long as the workspace
  stays ready, the operator runs on, and nobody edits the update, whatever else happens to the
  workspace and the operator does; a restart of the operator, if there is one, queues the update.
\<close>

lemma lost_wakeup:
  assumes R: "controller_runtime R" and F: "update_server F" "ue_L F = L"
    and due: "\<not> guardedConds (ust_Conditions (u_Status u))" "om_DeletionTimestamp (u_Meta u) = None" "\<not> isOrphaned L u"
    and patch: "\<And>tr u p. \<exists>v. ue_Patch F tr u p = Inr v" and got: "\<And>tr ns n. ue_GetWorkspace F tr ns n = Inr w"
    and unready: "\<not> autoWorkspaceReady L (Some w)"
    and ready: "autoWorkspaceReady L (Some w')" "keyOf (w_Meta w') = keyOf (w_Meta w)"
  shows "\<exists>s. (happens L R)\<^sup>*\<^sup>* \<lparr>wu_workspace = w, wu_events = [], wu_queue = {updateKey u}, wu_active = [],
        wu_update = u, wu_running = None\<rparr> s
    \<and> wu_workspace s = w' \<and> wu_events s = [] \<and> wu_queue s = {}
    \<and> phaseOf (ust_Conditions (u_Status (wu_update s))) = Some (ConditionFalse, ConditionFalse, ConditionFalse)
    \<and> u_Meta (wu_update s) = (u_Meta u)\<lparr>om_ResourceVersion := rv, om_ManagedFields := mf\<rparr>
    \<and> (\<forall>s'. (readyStep L R)\<^sup>*\<^sup>* s s' \<longrightarrow> wu_update s' = wu_update s \<and> wu_running s' = None
          \<and> (\<forall>t. wakeupStep L R OperatorRestarted s' t \<longrightarrow> updateKey u \<in> wu_queue t))"
proof -
  let ?k = "updateKey u" and ?saved = "\<lambda>q. u\<lparr>u_Status := appliedStatus q\<rparr>" and ?st = "\<lambda>w es Q A u r. \<lparr>wu_workspace = w, wu_events = es, wu_queue = Q, wu_active = A,
      wu_update = u, wu_running = r\<rparr>"
  from update_server.Reconcile_waits [OF F(1) due(1,2) _ patch got] due(3) unready obtain p q where
    out: "UpdateReconcile F (Inr u) = \<lparr>uo_Return = Some (0, None), uo_Trace = [UPatchStatus p True, UPatchStatus q True]\<rparr>"
    and q: "phaseOf (ust_Conditions (appliedStatus q)) = Some (ConditionFalse, ConditionFalse, ConditionFalse)"
    unfolding F(2) by blast
  define v where "v = u\<lparr>u_Meta := (u_Meta u)\<lparr>om_ResourceVersion := rv, om_ManagedFields := mf\<rparr>, u_Status := appliedStatus q\<rparr>"
  have "persist u [UPatchStatus p True, UPatchStatus q True] (u\<lparr>u_Status := appliedStatus p\<rparr>\<lparr>u_Status := appliedStatus q\<rparr>)"
    by (intro persist.intros)
  then have x: "persist u (uo_Trace (UpdateReconcile F (Inr u))) (?saved q)" unfolding out by simp
  have v: "stored u (u_Status (?saved q)) v" unfolding stored_def v_def by auto
  have "\<not> IsStatusConditionTrue L (ust_Conditions (u_Status v)) UpdateConditionTypeComplete"
    using q condition_slice.true_slots(1) [OF update_server.axioms(1) [OF F(1)]] unfolding F(2)
    by (auto simp: v_def phaseOf_def split: option.splits)
  then have quiet: "updateOnUpdate L R (UpdateEvent u v) = []"
    by (intro controller_runtime.status_ignored [OF R]) (simp_all add: v_def)
  have key: "updateKey v = ?k" by (simp add: v_def updateKey_def)
  note step = happens_def [THEN iffD2, OF exI]
  have "happens L R (?st w [] {?k} [] u None) (?st w [] {} [?k] u (Some (u, None)))"
    using begins [of "?st w [] {?k} [] u None" ?k L R] by (intro step) (simp add: activeStore_def)
  moreover have "happens L R (?st w [] {} [?k] u (Some (u, None))) (?st w [] {} [?k] u (Some (u, Some w)))"
    using reads [of "?st w [] {} [?k] u (Some (u, None))" u L R] by (intro step) simp
  moreover have "happens L R (?st w [] {} [?k] u (Some (u, Some w))) (?st w' [UpdateEvent w w'] {} [?k] u (Some (u, Some w)))"
    using changes [of w' "?st w [] {} [?k] u (Some (u, Some w))" L R] ready(2) by (intro step) simp
  moreover have "happens L R (?st w' [UpdateEvent w w'] {} [?k] u (Some (u, Some w))) (?st w' [] {} [?k] u (Some (u, Some w)))"
    using notified [of "?st w' [UpdateEvent w w'] {} [?k] u (Some (u, Some w))" "UpdateEvent w w'" "[]" L R]
    by (intro step) (simp add: controller_runtime.active_ignored [OF R])
  moreover have "happens L R (?st w' [] {} [?k] u (Some (u, Some w))) (?st w' [] {} [] v None)"
    using returns [of "?st w' [] {} [?k] u (Some (u, Some w))" u w F L 0 None "?saved q" v ?k R] F got x v quiet
    by (intro step) (simp add: out activeDelete_def)
  ultimately have run: "(happens L R)\<^sup>*\<^sup>* (?st w [] {?k} [] u None) (?st w' [] {} [] v None)"
    by (meson converse_rtranclp_into_rtranclp rtranclp.rtrancl_refl)
  have "asleep L (?st w' [] {} [] v None)" using ready(1) by (simp add: asleep_def)
  from asleep_stays [OF _ this] have still: "wu_update s' = v \<and> wu_running s' = None
      \<and> (\<forall>t. wakeupStep L R OperatorRestarted s' t \<longrightarrow> ?k \<in> wu_queue t)"
    if "(readyStep L R)\<^sup>*\<^sup>* (?st w' [] {} [] v None) s'" for s'
    using that restart_queues [OF R, of L s'] key by (fastforce simp: asleep_def)
  show ?thesis
    by (intro exI [of _ "?st w' [] {} [] v None"] conjI run) (use still q in \<open>simp_all add: v_def\<close>)
qed

lemma lost_wakeup_witness:
  "\<exists>s. om_ResourceVersion (w_Meta (wu_workspace s)) = ''2'' \<and> wu_queue s = {}
    \<and> phaseOf (ust_Conditions (u_Status (wu_update s))) = Some (ConditionFalse, ConditionFalse, ConditionFalse)
    \<and> om_ResourceVersion (u_Meta (wu_update s)) = ''3''
    \<and> (\<forall>s'. (readyStep docLib docRuntime)\<^sup>*\<^sup>* s s' \<longrightarrow> wu_running s' = None)"
proof -
  let ?w = "exampleWorkspace\<lparr>w_Status := emptyWorkspaceStatus\<rparr>"
  let ?w' = "exampleWorkspace\<lparr>w_Meta := (w_Meta exampleWorkspace)\<lparr>om_ResourceVersion := ''2''\<rparr>\<rparr>"
  let ?F = "(exampleUEnv exampleRecv)\<lparr>ue_GetWorkspace := (\<lambda>tr ns n. Inr ?w)\<rparr>"
  have F: "update_server ?F"
    by (simp add: update_server_def update_server_axioms_def docSlice.condition_slice_axioms)
  have unready: "\<not> autoWorkspaceReady docLib (Some ?w)"
    by (simp add: autoWorkspaceReady_def emptyWorkspaceStatus_def docLib_def refIsTrue_def refFind_def)
  have ready: "autoWorkspaceReady docLib (Some ?w')" "keyOf (w_Meta ?w') = keyOf (w_Meta ?w)"
    using example_ready(5) by (simp_all add: autoWorkspaceReady_def split: if_splits)
  have env: "ue_L ?F = docLib" "\<exists>v. ue_Patch ?F tr u p = Inr v" "ue_GetWorkspace ?F tr ns n = Inr ?w" for tr u p ns n
    by simp_all
  obtain s where s: "wu_workspace s = ?w'" "wu_queue s = {}"
    "phaseOf (ust_Conditions (u_Status (wu_update s))) = Some (ConditionFalse, ConditionFalse, ConditionFalse)"
    "u_Meta (wu_update s) = (u_Meta exampleRun)\<lparr>om_ResourceVersion := ''3'', om_ManagedFields := []\<rparr>"
    and quiet: "\<forall>s'. (readyStep docLib docRuntime)\<^sup>*\<^sup>* s s' \<longrightarrow> wu_running s' = None"
    using lost_wakeup [OF docRuntime.controller_runtime_axioms F env(1) example_ready(2-4) env(2,3) unready ready, where rv = "''3''" and mf = "[]"] by blast
  have "om_ResourceVersion (w_Meta (wu_workspace s)) = ''2''" "om_ResourceVersion (u_Meta (wu_update s)) = ''3''"
    unfolding s(1,4) by simp_all
  then show ?thesis using s(2,3) quiet by blast
qed

end
