(* ===== verification/AgentServer.thy ===== *)
theory AgentServer
  imports AgentConfig
begin

text \<open>
  The agent's automation service (agent/pkg/server): the message made of an engine's diagnostics
  (diagnostics.go), the structured errors (pulumi_errors.go), the selection of the stack, the
  configuration and installation calls, and the four operations with the options they pass to the
  Automation API and what they send back (server.go). The Automation API, the JSON codecs and
  the operating system are arguments (record \<^verbatim>\<open>aenv\<close>); an answer may depend on the calls made
  before, which the state keeps as a trace.
\<close>

section \<open>Diagnostics\<close>

definition maxDiagnostics :: nat where "maxDiagnostics = 10"
definition maxDiagnosticBytes :: nat where "maxDiagnosticBytes = 32 * 1024"

record boundedLines =
  bl_lines :: "string list"
  bl_size :: nat
  bl_omitted :: nat

definition noLines :: boundedLines where
  "noLines = \<lparr>bl_lines = [], bl_size = 0, bl_omitted = 0\<rparr>"

definition addLine :: "string \<Rightarrow> boundedLines \<Rightarrow> boundedLines" where
  "addLine line b =
     (if length (bl_lines b) \<ge> maxDiagnostics \<or> bl_size b + length line > maxDiagnosticBytes
      then b\<lparr>bl_omitted := bl_omitted b + 1\<rparr>
      else b\<lparr>bl_lines := bl_lines b @ [line], bl_size := bl_size b + length line + 1\<rparr>)"

definition emptyLines :: "boundedLines \<Rightarrow> bool" where
  "emptyLines b \<longleftrightarrow> bl_lines b = [] \<and> bl_omitted b = 0"

record errorDiagnostics =
  ed_errs :: boundedLines
  ed_stderr :: boundedLines

definition noDiagnostics :: errorDiagnostics where
  "noDiagnostics = \<lparr>ed_errs = noLines, ed_stderr = noLines\<rparr>"

text \<open>An engine event, with its diagnostic if it is one.\<close>

record DiagnosticEvent =
  de_Prefix :: string
  de_Message :: string
  de_Severity :: string

record EngineEvent =
  ee_Diagnostic :: "DiagnosticEvent option"
  ee_Rest :: JSON

definition observe :: "(string \<Rightarrow> string) \<Rightarrow> EngineEvent \<Rightarrow> errorDiagnostics \<Rightarrow> errorDiagnostics" where
  "observe trimSpace event d =
     (case ee_Diagnostic event of
        None \<Rightarrow> d
      | Some diag \<Rightarrow>
          (let line = trimSpace (de_Prefix diag @ de_Message diag)
           in if line = [] then d
              else if de_Severity diag = ''error'' then d\<lparr>ed_errs := addLine line (ed_errs d)\<rparr>
              else if de_Severity diag = ''info#err'' then d\<lparr>ed_stderr := addLine line (ed_stderr d)\<rparr>
              else d))"

definition newlineText :: string where "newlineText = [CHR 0x0A]"

definition failureMessage :: "string \<Rightarrow> errorDiagnostics \<Rightarrow> string" where
  "failureMessage operation d = (
     let reported = (if emptyLines (ed_errs d) then ed_stderr d else ed_errs d)
     in if emptyLines reported then operation @ '' failed; see the workspace pod logs''
        else if bl_lines reported = []
        then operation @ '' failed; '' @ showInt (int (bl_omitted reported))
               @ '' diagnostics were too large to report, see the workspace pod logs''
        else if bl_omitted reported > 0
        then operation @ '' failed: '' @ joinWith newlineText (bl_lines reported) @ newlineText @ ''(''
               @ showInt (int (bl_omitted reported)) @ '' further diagnostics; see the workspace pod logs)''
        else operation @ '' failed: '' @ joinWith newlineText (bl_lines reported))"

section \<open>Structured errors\<close>

text \<open>The table, whose entries the loop meets in any order.\<close>

definition knownErrors :: "(string \<times> detail) list" where
  "knownErrors =
     [(''Conflict: Another update is currently in progress'',
       PulumiErrorInfo ''Another update is currently in progress'' ''UpdateConflict''),
      (''invalid access token'',
       PulumiErrorInfo ''Invalid access token used to authenticate with Pulumi Cloud'' ''InvalidAccessToken'')]"

text \<open>\<^verbatim>\<open>st.WithDetails\<close> appends to the details of a status.\<close>

fun withDetail :: "detail \<Rightarrow> rpcError \<Rightarrow> rpcError" where
  "withDetail d (StatusError t c m ds) = StatusError t c m (ds @ [d])"
| "withDetail d (PlainError t) = PlainError t"

fun withPulumiErrorInfo :: "(string \<times> detail) list \<Rightarrow> rpcError \<Rightarrow> string \<Rightarrow> rpcError" where
  "withPulumiErrorInfo [] st err = st"
| "withPulumiErrorInfo ((errString, structured) # table) st err =
     (if \<not> containsText err errString then withPulumiErrorInfo table st err else withDetail structured st)"

section \<open>The Automation API\<close>

record StackSummary =
  ss_Name :: string
  ss_LastUpdate :: string
  ss_UpdateInProgress :: bool
  ss_ResourceCount :: "int option"
  ss_URL :: string

record apiUpdateSummary =
  us_Result :: string
  us_ApiMessage :: string
  us_ApiStartTime :: string
  us_ApiEndTime :: "string option"

record Project =
  pj_Name :: string
  pj_Runtime :: string
  pj_Binary :: "string option"

text \<open>The options of the four operations.\<close>

datatype cliOption =
    UserAgent string | Diff | SuppressProgress | DebugLogging nat | Parallel int | OptMessage string
  | ExpectNoChanges | Replace "string list" | Target "string list" | TargetDependents | OptRefresh
  | ContinueOnError | Remove | RunProgram bool | ProgressStreams | ErrorProgressStreams | EventStreams

text \<open>
  What an operation gives: its outputs only for an update, a summary for all but a preview, and
  the permalink, or an error that is not the one of a missing permalink.
\<close>

record 'o apiResult =
  ar_Outputs :: "('o \<times> bool) gomap"
  ar_Summary :: apiUpdateSummary
  ar_Permalink :: "rpcError + string"

datatype stackCall =
    CliSelect string bool
  | CliInit "string list" "string list" bool
  | CliSetJson string string bool
  | CliSetPaths string "ConfigValue gomap" bool
  | CliAddEnvironments string "string list" bool
  | CliInstall bool
  | CliOperate string request "cliOption list"
  | CliSend streamMessage bool

type_synonym atrace = "stackCall list"

text \<open>
  The operation reports the events its reader got to before the operation was over, and its
  result. A message sent without a result is an event, of which the content is left out. The order
  of the map of known errors and the order of the environment are given. After a success the
  source does not wait for its reader, so an event may overtake the result; the model sends it
  before.
\<close>

record ('j, 'i, 'o) aenv =
  ax_A :: agentlib
  ax_J :: "('j, 'i) codecs"
  ax_UserAgent :: string
  ax_TrimSpace :: "string \<Rightarrow> string"
  ax_Known :: "(string \<times> detail) list"
  ax_MarshalEvent :: "EngineEvent \<Rightarrow> goerr option"
  ax_MarshalOutput :: "'o \<Rightarrow> rpcError + JSON"
  ax_MarshalConfig :: "'i ConfigValueJSON gomap \<Rightarrow> goerr + string"
  ax_WhoAmI :: "rpcError + (string \<times> string list \<times> string)"
  ax_PulumiVersion :: string
  ax_ParseTime :: "string \<Rightarrow> time option"
  ax_Is404 :: "rpcError \<Rightarrow> bool"
  ax_PulumiHome :: string
  ax_EnvVars :: "string gomap"
  ax_Selected :: "atrace \<Rightarrow> rpcError + string option"
  ax_SelectStack :: "atrace \<Rightarrow> string \<Rightarrow> rpcError option"
  ax_RunInit :: "atrace \<Rightarrow> string list \<Rightarrow> string list \<Rightarrow> (rpcError \<times> string) option"
  ax_Info :: "atrace \<Rightarrow> string \<Rightarrow> rpcError + StackSummary"
  ax_Project :: "atrace \<Rightarrow> rpcError + Project"
  ax_SetAllConfigJson :: "atrace \<Rightarrow> string \<Rightarrow> string \<Rightarrow> rpcError option"
  ax_SetAllConfig :: "atrace \<Rightarrow> string \<Rightarrow> ConfigValue gomap \<Rightarrow> rpcError option"
  ax_AddEnvironments :: "atrace \<Rightarrow> string \<Rightarrow> string list \<Rightarrow> rpcError option"
  ax_Install :: "atrace \<Rightarrow> rpcError option"
  ax_Operate :: "atrace \<Rightarrow> string \<Rightarrow> request \<Rightarrow> cliOption list \<Rightarrow> EngineEvent list \<times> (rpcError + 'o apiResult)"
  ax_Send :: "atrace \<Rightarrow> streamMessage \<Rightarrow> rpcError option"

text \<open>The server keeps the stack it selected, by name.\<close>

record AServer =
  as_stack :: "string option"
  as_pulumiLogLevel :: nat
  as_projectInfo :: ProjectInfo
  as_stopping :: bool

record AState =
  av_server :: AServer
  av_trace :: atrace

definition aact :: "stackCall \<Rightarrow> AState \<Rightarrow> AState" where
  "aact c s = s\<lparr>av_trace := av_trace s @ [c]\<rparr>"

definition setStack :: "string option \<Rightarrow> AState \<Rightarrow> AState" where
  "setStack n s = s\<lparr>av_server := (av_server s)\<lparr>as_stack := n\<rparr>\<rparr>"

section \<open>The stack\<close>

text \<open>\<^verbatim>\<open>auto.SelectStack\<close>: it gives the stack of that name.\<close>

definition autoSelect :: "('j, 'i, 'o) aenv \<Rightarrow> string \<Rightarrow> AState \<Rightarrow> (rpcError + string) \<times> AState" where
  "autoSelect E n s =
     (case ax_SelectStack E (av_trace s) n of
        Some e \<Rightarrow> (Inl e, aact (CliSelect n False) s)
      | None \<Rightarrow> (Inr n, aact (CliSelect n True) s))"

definition ensureStack :: "('j, 'i, 'o) aenv \<Rightarrow> AState \<Rightarrow> (rpcError + string) \<times> AState" where
  "ensureStack E s =
     (case ax_Selected E (av_trace s) of
        Inl e \<Rightarrow> (Inl e, s)
      | Inr None \<Rightarrow> (Inl (statusErr (ax_A E) FailedPrecondition ''no stack is selected''), s)
      | Inr (Some n) \<Rightarrow> (if as_stack (av_server s) = Some n then (Inr n, s) else autoSelect E n s))"

definition clearStack :: "AState \<Rightarrow> AState" where
  "clearStack s = setStack None s"

definition initArgs :: "string \<Rightarrow> string \<Rightarrow> string list" where
  "initArgs name provider =
     [''stack'', ''init'', name] @ (if provider \<noteq> [] then [''--secrets-provider'', provider] else [])"

definition initEnv :: "('j, 'i, 'o) aenv \<Rightarrow> string list" where
  "initEnv E = (if ax_PulumiHome E \<noteq> [] then [''PULUMI_HOME='' @ ax_PulumiHome E] else [])
     @ map (\<lambda>(k, v). joinWith ''='' [k, v]) (ax_EnvVars E)"

definition agentInitStack :: "('j, 'i, 'o) aenv \<Rightarrow> string \<Rightarrow> string \<Rightarrow> AState \<Rightarrow> (rpcError + string) \<times> AState" where
  "agentInitStack E name provider s =
     (case ax_RunInit E (av_trace s) (initEnv E) (initArgs name provider) of
        Some (e, stderr) \<Rightarrow> (Inl (PlainError (''failed to create stack: '' @ rpcErrorText e @ '': '' @ stderr)),
                              aact (CliInit (initEnv E) (initArgs name provider) False) s)
      | None \<Rightarrow> autoSelect E name (aact (CliInit (initEnv E) (initArgs name provider) True) s))"

text \<open>The stack of the options of a new server, selected or made.\<close>

definition startStack :: "('j, 'i, 'o) aenv \<Rightarrow> string \<Rightarrow> string \<Rightarrow> AState \<Rightarrow> (rpcError + AState) \<times> atrace" where
  "startStack E name provider s =
     (if name = [] then (Inr s, av_trace s)
      else case autoSelect E name s of
             (Inr n, s) \<Rightarrow> (Inr (setStack (Some n) s), av_trace s)
           | (Inl e, s) \<Rightarrow>
               (if ax_Is404 E e
                then (case agentInitStack E name provider s of
                        (Inr n, s) \<Rightarrow> (Inr (setStack (Some n) s), av_trace s)
                      | (Inl e, s) \<Rightarrow> (Inl (wrapErr ''failed to create stack'' e), av_trace s))
                else (Inl (wrapErr ''failed to select stack'' e), av_trace s)))"

definition NewServer :: "('j, 'i, 'o) aenv \<Rightarrow> string \<Rightarrow> string \<Rightarrow> nat \<Rightarrow> (rpcError + AState) \<times> atrace" where
  "NewServer E name provider logLevel =
     (case startStack E name provider
        \<lparr>av_server = \<lparr>as_stack = None, as_pulumiLogLevel = logLevel,
           as_projectInfo = \<lparr>pi_Name = [], pi_Runtime = []\<rparr>, as_stopping = False\<rparr>, av_trace = []\<rparr> of
        (Inl e, tr) \<Rightarrow> (Inl e, tr)
      | (Inr s, tr) \<Rightarrow>
          (case ax_Project E tr of
             Inl e \<Rightarrow> (Inl (wrapErr ''unable to load project'' e), tr)
           | Inr proj \<Rightarrow> (Inr (s\<lparr>av_server := (av_server s)
                \<lparr>as_projectInfo := \<lparr>pi_Name = pj_Name proj, pi_Runtime = pj_Runtime proj\<rparr>\<rparr>\<rparr>), tr)))"

section \<open>Unary calls\<close>

record pbStackSummary =
  pss_Name :: string
  pss_LastUpdate :: "time option"
  pss_UpdateInProgress :: bool
  pss_ResourceCount :: "int option"
  pss_Url :: "string option"

definition parseTime :: "('j, 'i, 'o) aenv \<Rightarrow> string option \<Rightarrow> time option" where
  "parseTime E s = (case s of None \<Rightarrow> None | Some t \<Rightarrow> ax_ParseTime E t)"

text \<open>The count is converted to 32 bits.\<close>

definition i32 :: "int \<Rightarrow> int" where
  "i32 x = sint (word_of_int x :: 32 word)"

definition marshalStackSummary :: "('j, 'i, 'o) aenv \<Rightarrow> StackSummary \<Rightarrow> pbStackSummary" where
  "marshalStackSummary E info = \<lparr>pss_Name = ss_Name info, pss_LastUpdate = parseTime E (Some (ss_LastUpdate info)),
     pss_UpdateInProgress = ss_UpdateInProgress info, pss_ResourceCount = map_option i32 (ss_ResourceCount info),
     pss_Url = Some (ss_URL info)\<rparr>"

definition SelectStackCall ::
  "('j, 'i, 'o) aenv \<Rightarrow> string \<Rightarrow> bool option \<Rightarrow> string option \<Rightarrow> AState \<Rightarrow> (rpcError + pbStackSummary) \<times> AState" where
  "SelectStackCall E name create provider s =
     (if name = [] then (Inl (statusErr (ax_A E) InvalidArgument ''invalid stack name''), s)
      else case (case autoSelect E name s of
                   (Inr n, s) \<Rightarrow> (Inr n, s)
                 | (Inl e, s) \<Rightarrow>
                     (if ax_Is404 E e
                      then (if create \<noteq> Some True then (Inl (statusErr (ax_A E) NotFoundCode ''stack not found''), s)
                            else agentInitStack E name (case provider of Some p \<Rightarrow> p | None \<Rightarrow> []) s)
                      else (Inl e, s))) of
             (Inl e, s) \<Rightarrow> (Inl e, s)
           | (Inr n, s) \<Rightarrow> (let s = setStack (Some n) s in
               (case ax_Info E (av_trace s) n of
                  Inl e \<Rightarrow> (Inl e, s)
                | Inr info \<Rightarrow> (Inr (marshalStackSummary E info), s))))"

definition InfoCall :: "('j, 'i, 'o) aenv \<Rightarrow> AState \<Rightarrow> (rpcError + pbStackSummary) \<times> AState" where
  "InfoCall E s =
     (case ensureStack E s of
        (Inl e, s) \<Rightarrow> (Inl e, s)
      | (Inr n, s) \<Rightarrow> (case ax_Info E (av_trace s) n of
                         Inl e \<Rightarrow> (Inl e, s)
                       | Inr info \<Rightarrow> (Inr (marshalStackSummary E info), s)))"

definition SetAllConfigCall :: "('j, 'i, 'o) aenv \<Rightarrow> 'j pbConfigItem list \<Rightarrow> AState \<Rightarrow> rpcError option \<times> AState" where
  "SetAllConfigCall E items s =
     (case ensureStack E s of
        (Inl e, s) \<Rightarrow> (Some e, s)
      | (Inr n, s) \<Rightarrow>
          (case ax_Project E (av_trace s) of
             Inl e \<Rightarrow> (Some (wrapErr ''getting project settings'' e), s)
           | Inr p \<Rightarrow>
               (case planConfig (ax_J E) (ax_A E) (pj_Name p) items of
                  Inl e \<Rightarrow> (Some e, s)
                | Inr (SetConfigJson m) \<Rightarrow>
                    (case ax_MarshalConfig E m of
                       Inl e \<Rightarrow> (Some (plainErr ''marshaling config to JSON'' e), s)
                     | Inr text \<Rightarrow> (let r = ax_SetAllConfigJson E (av_trace s) n text
                                    in (r, aact (CliSetJson n text (r = None)) s)))
                | Inr (SetConfigPaths m) \<Rightarrow>
                    (let r = ax_SetAllConfig E (av_trace s) n m in (r, aact (CliSetPaths n m (r = None)) s)))))"

definition AddEnvironmentsCall :: "('j, 'i, 'o) aenv \<Rightarrow> string list \<Rightarrow> AState \<Rightarrow> rpcError option \<times> AState" where
  "AddEnvironmentsCall E es s =
     (case ensureStack E s of
        (Inl e, s) \<Rightarrow> (Some e, s)
      | (Inr n, s) \<Rightarrow> (let r = ax_AddEnvironments E (av_trace s) n es in (r, aact (CliAddEnvironments n es (r = None)) s)))"

definition HasPrebuiltBinary :: "Project option \<Rightarrow> bool" where
  "HasPrebuiltBinary proj =
     (case proj of
        None \<Rightarrow> False
      | Some p \<Rightarrow> (case pj_Binary p of Some binary \<Rightarrow> binary \<noteq> [] | None \<Rightarrow> False))"

definition InstallCall :: "('j, 'i, 'o) aenv \<Rightarrow> AState \<Rightarrow> rpcError option \<times> AState" where
  "InstallCall E s =
     (case ax_Project E (av_trace s) of
        Inl e \<Rightarrow> (Some (statusErr (ax_A E) AbortedCode (''unable to load project: '' @ rpcErrorText e)), s)
      | Inr proj \<Rightarrow>
          (if HasPrebuiltBinary (Some proj) then (None, s)
           else case ax_Install E (av_trace s) of
                  Some e \<Rightarrow> (Some (statusErr (ax_A E) AbortedCode (rpcErrorText e)), aact (CliInstall False) s)
                | None \<Rightarrow> (None, aact (CliInstall True) s)))"

text \<open>Who the CLI is logged in as, and its version.\<close>

definition WhoAmICall :: "('j, 'i, 'o) aenv \<Rightarrow> rpcError + (string \<times> string list \<times> string)" where
  "WhoAmICall E = mapErr (\<lambda>e. withPulumiErrorInfo (ax_Known E)
       (statusErr (ax_A E) UnknownCode (''whoami failed: '' @ rpcErrorText e)) (rpcErrorText e)) (ax_WhoAmI E)"

definition PulumiVersionCall :: "('j, 'i, 'o) aenv \<Rightarrow> rpcError + string" where
  "PulumiVersionCall E = Inr (ax_PulumiVersion E)"

section \<open>Options of the operations\<close>

definition given :: "('a \<Rightarrow> cliOption) \<Rightarrow> 'a option \<Rightarrow> cliOption list" where
  "given f x = (case x of None \<Rightarrow> [] | Some v \<Rightarrow> [f v])"

definition flagged :: "cliOption \<Rightarrow> bool option \<Rightarrow> cliOption list" where
  "flagged opt b = (if b = Some True then [opt] else [])"

definition listed :: "(string list \<Rightarrow> cliOption) \<Rightarrow> string list \<Rightarrow> cliOption list" where
  "listed f xs = (if xs \<noteq> [] then [f xs] else [])"

definition debugOption :: "nat \<Rightarrow> cliOption list" where
  "debugOption level = (if level > 0 then [DebugLogging level] else [])"

definition streams :: "cliOption list" where
  "streams = [ProgressStreams, ErrorProgressStreams, EventStreams]"

definition previewOptions :: "string \<Rightarrow> nat \<Rightarrow> PreviewRequest \<Rightarrow> cliOption list" where
  "previewOptions ua level r = [UserAgent ua, Diff] @ debugOption level
     @ given Parallel (pr_Parallel r) @ flagged ExpectNoChanges (pr_ExpectNoChanges r)
     @ listed Replace (pr_Replace r) @ listed Target (pr_Target r) @ flagged TargetDependents (pr_TargetDependents r)
     @ flagged OptRefresh (pr_Refresh r) @ given OptMessage (pr_Message r) @ streams"

definition refreshOptions :: "string \<Rightarrow> nat \<Rightarrow> RefreshRequest \<Rightarrow> cliOption list" where
  "refreshOptions ua level r = [UserAgent ua] @ debugOption level
     @ given Parallel (rr_Parallel r) @ given OptMessage (rr_Message r) @ flagged ExpectNoChanges (rr_ExpectNoChanges r)
     @ listed Target (rr_Target r) @ flagged (RunProgram True) (rr_RunProgram r) @ streams"

definition upOptions :: "string \<Rightarrow> nat \<Rightarrow> UpRequest \<Rightarrow> cliOption list" where
  "upOptions ua level r = [UserAgent ua, SuppressProgress, Diff] @ debugOption level
     @ given Parallel (ur_Parallel r) @ given OptMessage (ur_Message r) @ flagged ExpectNoChanges (ur_ExpectNoChanges r)
     @ listed Replace (ur_Replace r) @ listed Target (ur_Target r) @ flagged TargetDependents (ur_TargetDependents r)
     @ flagged OptRefresh (ur_Refresh r) @ flagged ContinueOnError (ur_ContinueOnError r) @ streams"

definition destroyOptions :: "string \<Rightarrow> nat \<Rightarrow> DestroyRequest \<Rightarrow> cliOption list" where
  "destroyOptions ua level r = [UserAgent ua] @ debugOption level
     @ given Parallel (dr_Parallel r) @ given OptMessage (dr_Message r) @ listed Target (dr_Target r)
     @ flagged TargetDependents (dr_TargetDependents r) @ flagged OptRefresh (dr_Refresh r)
     @ flagged ContinueOnError (dr_ContinueOnError r) @ flagged Remove (dr_Remove r)
     @ flagged (RunProgram True) (dr_RunProgram r) @ streams"

fun requestOptions :: "string \<Rightarrow> nat \<Rightarrow> request \<Rightarrow> cliOption list" where
  "requestOptions ua level (CallPreview r) = previewOptions ua level r"
| "requestOptions ua level (CallUp r) = upOptions ua level r"
| "requestOptions ua level (CallRefresh r) = refreshOptions ua level r"
| "requestOptions ua level (CallDestroy r) = destroyOptions ua level r"

fun operationName :: "request \<Rightarrow> string" where
  "operationName (CallPreview r) = ''preview''"
| "operationName (CallUp r) = ''up''"
| "operationName (CallRefresh r) = ''refresh''"
| "operationName (CallDestroy r) = ''destroy''"

section \<open>Results\<close>

text \<open>
  A time stamp that is missing, because the text is none or does not parse, is read by the
  receiver as the beginning of 1970.
\<close>

definition stampTime :: "time option \<Rightarrow> time" where
  "stampTime t = (case t of Some t \<Rightarrow> t | None \<Rightarrow> unixEpoch)"

definition marshalUpdateSummary :: "('j, 'i, 'o) aenv \<Rightarrow> apiUpdateSummary \<Rightarrow> UpdateSummary" where
  "marshalUpdateSummary E info = \<lparr>sm_Result = us_Result info, sm_Message = us_ApiMessage info,
     sm_StartTime = stampTime (parseTime E (Some (us_ApiStartTime info))),
     sm_EndTime = stampTime (parseTime E (us_ApiEndTime info))\<rparr>"

definition marshalOutputs :: "('j, 'i, 'o) aenv \<Rightarrow> ('o \<times> bool) gomap \<Rightarrow> rpcError + OutputValue gomap option" where
  "marshalOutputs E outputs =
     (if outputs = [] then Inr None
      else mapOk Some (foldE (\<lambda>(k, v, secret) m. bindE (ax_MarshalOutput E v)
             (\<lambda>value. Inr (mapPut k \<lparr>ov_Value = value, ov_Secret = secret\<rparr> m))) outputs []))"

fun resultOutputs :: "('j, 'i, 'o) aenv \<Rightarrow> request \<Rightarrow> 'o apiResult \<Rightarrow> rpcError + OutputValue gomap option" where
  "resultOutputs E (CallUp r) res = mapErr (wrapErr ''marshaling outputs'') (marshalOutputs E (ar_Outputs res))"
| "resultOutputs E _ res = Inr None"

fun resultMessage :: "request \<Rightarrow> UpdateSummary \<Rightarrow> string \<Rightarrow> ProjectInfo \<Rightarrow> OutputValue gomap option \<Rightarrow> streamMessage" where
  "resultMessage (CallPreview r) sm link info outs =
     PreviewStream (Some \<lparr>res_Summary = None, res_Permalink = link, res_ProjectInfo = Some info\<rparr>)"
| "resultMessage (CallUp r) sm link info outs =
     UpStream (Some (\<lparr>res_Summary = Some sm, res_Permalink = link, res_ProjectInfo = Some info\<rparr>, outs))"
| "resultMessage (CallRefresh r) sm link info outs =
     RefreshStream (Some \<lparr>res_Summary = Some sm, res_Permalink = link, res_ProjectInfo = Some info\<rparr>)"
| "resultMessage (CallDestroy r) sm link info outs =
     DestroyStream (Some \<lparr>res_Summary = Some sm, res_Permalink = link, res_ProjectInfo = Some info\<rparr>)"

section \<open>The operations\<close>

text \<open>
  The reader of the engine's events: each is looked at, and sent unless it cannot be marshalled; a
  send that fails is logged.
\<close>

fun eventMessage :: "request \<Rightarrow> streamMessage" where
  "eventMessage (CallPreview r) = PreviewStream None"
| "eventMessage (CallUp r) = UpStream None"
| "eventMessage (CallRefresh r) = RefreshStream None"
| "eventMessage (CallDestroy r) = DestroyStream None"

definition relayEvent :: "('j, 'i, 'o) aenv \<Rightarrow> request \<Rightarrow> EngineEvent \<Rightarrow> errorDiagnostics \<times> AState \<Rightarrow> errorDiagnostics \<times> AState" where
  "relayEvent E req evt ds = (
     let d = observe (ax_TrimSpace E) evt (fst ds); s = snd ds
     in (d, if ax_MarshalEvent E evt \<noteq> None then s
            else aact (CliSend (eventMessage req) (ax_Send E (av_trace s) (eventMessage req) = None)) s))"

definition relayEvents :: "('j, 'i, 'o) aenv \<Rightarrow> request \<Rightarrow> EngineEvent list \<Rightarrow> AState \<Rightarrow> errorDiagnostics \<times> AState" where
  "relayEvents E req events s = fold (relayEvent E req) events (noDiagnostics, s)"

fun removesStack :: "request \<Rightarrow> bool" where
  "removesStack (CallDestroy r) = (dr_Remove r = Some True)"
| "removesStack _ = False"

text \<open>The end of an operation that succeeded: the result is the last message.\<close>

definition sendResult :: "('j, 'i, 'o) aenv \<Rightarrow> request \<Rightarrow> 'o apiResult \<Rightarrow> AState \<Rightarrow> rpcError option \<times> AState" where
  "sendResult E req res s =
     (case resultOutputs E req res of
        Inl e \<Rightarrow> (Some e, s)
      | Inr outs \<Rightarrow>
          (let s = (if removesStack req \<and> us_Result (ar_Summary res) = ''succeeded'' then clearStack s else s)
           in case ar_Permalink res of
                Inl e \<Rightarrow> (Some e, s)
              | Inr link \<Rightarrow>
                  (let msg = resultMessage req (marshalUpdateSummary E (ar_Summary res)) link (as_projectInfo (av_server s)) outs;
                       sent = ax_Send E (av_trace s) msg
                   in (sent, aact (CliSend msg (sent = None)) s))))"

definition operate :: "('j, 'i, 'o) aenv \<Rightarrow> request \<Rightarrow> AState \<Rightarrow> rpcError option \<times> AState" where
  "operate E req s =
     (case ensureStack E s of
        (Inl e, s) \<Rightarrow> (Some e, s)
      | (Inr n, s) \<Rightarrow>
          (let opts = requestOptions (ax_UserAgent E) (as_pulumiLogLevel (av_server s)) req;
               (events, result) = ax_Operate E (av_trace s) n req opts;
               (diags, s) = relayEvents E req events (aact (CliOperate n req opts) s)
           in case result of
                Inl err \<Rightarrow> (Some (withPulumiErrorInfo (ax_Known E)
                    (statusErr (ax_A E) UnknownCode (failureMessage (operationName req) diags)) (rpcErrorText err)), s)
              | Inr res \<Rightarrow> sendResult E req res s))"

definition PreviewCall :: "('j, 'i, 'o) aenv \<Rightarrow> PreviewRequest \<Rightarrow> AState \<Rightarrow> rpcError option \<times> AState" where
  "PreviewCall E r = operate E (CallPreview r)"
definition RefreshCall :: "('j, 'i, 'o) aenv \<Rightarrow> RefreshRequest \<Rightarrow> AState \<Rightarrow> rpcError option \<times> AState" where
  "RefreshCall E r = operate E (CallRefresh r)"
definition UpCall :: "('j, 'i, 'o) aenv \<Rightarrow> UpRequest \<Rightarrow> AState \<Rightarrow> rpcError option \<times> AState" where
  "UpCall E r = operate E (CallUp r)"
definition DestroyCall :: "('j, 'i, 'o) aenv \<Rightarrow> DestroyRequest \<Rightarrow> AState \<Rightarrow> rpcError option \<times> AState" where
  "DestroyCall E r = operate E (CallDestroy r)"

section \<open>The service\<close>

text \<open>The calls of \<^verbatim>\<open>AutomationService\<close>, and what each does to the state.\<close>

datatype 'j agentCall =
    RpcWhoAmI
  | RpcPulumiVersion
  | RpcInstall
  | RpcSelectStack string "bool option" "string option"
  | RpcInfo
  | RpcSetAllConfig "'j pbConfigItem list"
  | RpcAddEnvironments "string list"
  | RpcOperate request

fun serveCall :: "('j, 'i, 'o) aenv \<Rightarrow> 'j agentCall \<Rightarrow> AState \<Rightarrow> AState" where
  "serveCall E RpcWhoAmI s = s"
| "serveCall E RpcPulumiVersion s = s"
| "serveCall E RpcInstall s = snd (InstallCall E s)"
| "serveCall E (RpcSelectStack n create provider) s = snd (SelectStackCall E n create provider s)"
| "serveCall E RpcInfo s = snd (InfoCall E s)"
| "serveCall E (RpcSetAllConfig items) s = snd (SetAllConfigCall E items s)"
| "serveCall E (RpcAddEnvironments es) s = snd (AddEnvironmentsCall E es s)"
| "serveCall E (RpcOperate (CallPreview r)) s = snd (PreviewCall E r s)"
| "serveCall E (RpcOperate (CallUp r)) s = snd (UpCall E r s)"
| "serveCall E (RpcOperate (CallRefresh r)) s = snd (RefreshCall E r s)"
| "serveCall E (RpcOperate (CallDestroy r)) s = snd (DestroyCall E r s)"

section \<open>Shutting down\<close>

text \<open>
  \<^verbatim>\<open>Cancel\<close>: at the first call every child process that is found is interrupted. A process is
  its number and its parent's.
\<close>

definition CancelServer :: "nat \<Rightarrow> (nat \<times> nat) list \<Rightarrow> (nat \<Rightarrow> bool) \<Rightarrow> AServer \<Rightarrow> AServer \<times> nat list" where
  "CancelServer self procs found srv =
     (if as_stopping srv then (srv, [])
      else (srv\<lparr>as_stopping := True\<rparr>, map fst (filter (\<lambda>(pid, ppid). ppid = self \<and> found pid) procs)))"

end
