(* ===== verification/AgentFacts.thy ===== *)
theory AgentFacts
  imports AgentServer "HOL-Library.Sublist"
begin

text \<open>
  Facts about the agent's automation service: what the accumulators of diagnostics hold, which calls
  of the Automation API each request makes, and what goes out on its stream.
\<close>

section \<open>Diagnostics\<close>

text \<open>The lines that events of a severity report, and what has been observed of them.\<close>

definition reportedLines :: "(string \<Rightarrow> string) \<Rightarrow> string \<Rightarrow> EngineEvent list \<Rightarrow> string list" where
  "reportedLines trimSpace severity events =
     [line \<leftarrow> [trimSpace (de_Prefix d @ de_Message d). d \<leftarrow> List.map_filter ee_Diagnostic events, de_Severity d = severity].
       line \<noteq> []]"

definition diagnosticsOf :: "(string \<Rightarrow> string) \<Rightarrow> EngineEvent list \<Rightarrow> errorDiagnostics" where
  "diagnosticsOf trimSpace events = fold (observe trimSpace) events noDiagnostics"

definition bounded :: "string list \<Rightarrow> boundedLines" where
  "bounded lines = fold addLine lines noLines"

lemma reportedLines_Nil [simp]: "reportedLines f sev [] = []"
  by (simp add: reportedLines_def map_filter_simps)

lemma reportedLines_Cons: "reportedLines f sev (e # es) = reportedLines f sev [e] @ reportedLines f sev es"
  by (simp add: reportedLines_def map_filter_simps split: option.split)

lemma observe_sel:
  "ed_errs (observe f e d) = fold addLine (reportedLines f ''error'' [e]) (ed_errs d)"
  "ed_stderr (observe f e d) = fold addLine (reportedLines f ''info#err'' [e]) (ed_stderr d)"
  by (simp_all add: observe_def reportedLines_def map_filter_simps Let_def split: option.split)

lemma fold_observe:
  "ed_errs (fold (observe f) events d) = fold addLine (reportedLines f ''error'' events) (ed_errs d)"
  "ed_stderr (fold (observe f) events d) = fold addLine (reportedLines f ''info#err'' events) (ed_stderr d)"
proof (induction events arbitrary: d)
  case (Cons e events)
  { case 1 show ?case by (subst reportedLines_Cons) (simp add: Cons.IH observe_sel) }
  { case 2 show ?case by (subst reportedLines_Cons) (simp add: Cons.IH observe_sel) }
qed simp_all

lemma diagnosticsOf_sel [simp]:
  "ed_errs (diagnosticsOf f events) = bounded (reportedLines f ''error'' events)"
  "ed_stderr (diagnosticsOf f events) = bounded (reportedLines f ''info#err'' events)"
  by (simp_all add: diagnosticsOf_def bounded_def fold_observe noDiagnostics_def)

text \<open>The size of lines, each with its separator.\<close>

definition linesSize :: "string list \<Rightarrow> nat" where
  "linesSize lines = sum_list (map (\<lambda>l. length l + 1) lines)"

lemma linesSize_simps [simp]:
  "linesSize [] = 0" "linesSize (l # ls) = length l + 1 + linesSize ls" "linesSize (ls @ ms) = linesSize ls + linesSize ms"
  by (simp_all add: linesSize_def)

lemma length_joinWith: "length (joinWith newlineText ls) = linesSize ls - 1"
  by (induction newlineText ls rule: joinWith.induct) (auto simp: newlineText_def)

text \<open>What an accumulator holds of the lines it was given.\<close>

definition holds :: "string list \<Rightarrow> boundedLines \<Rightarrow> bool" where
  "holds ls b \<longleftrightarrow> subseq (bl_lines b) ls \<and> length (bl_lines b) \<le> maxDiagnostics
     \<and> bl_size b = linesSize (bl_lines b) \<and> bl_size b \<le> maxDiagnosticBytes + 1
     \<and> length (bl_lines b) + bl_omitted b = length ls
     \<and> (length ls \<le> maxDiagnostics \<and> linesSize ls \<le> maxDiagnosticBytes + 1 \<longrightarrow> bl_lines b = ls)"

lemma holds_addLine:
  assumes "holds ls b"
  shows "holds (ls @ [l]) (addLine l b)"
proof (cases "length (bl_lines b) \<ge> maxDiagnostics \<or> bl_size b + length l > maxDiagnosticBytes")
  case True
  with assms show ?thesis by (auto simp: holds_def addLine_def)
next
  case False
  with assms show ?thesis by (auto simp: holds_def addLine_def)
qed

lemma holds_bounded: "holds ls (bounded ls)"
proof (induction ls rule: rev_induct)
  case Nil show ?case by (simp add: holds_def bounded_def noLines_def)
next
  case (snoc l ls) then show ?case by (simp add: bounded_def holds_addLine)
qed

section \<open>What a call does\<close>

lemma aact_simps [simp]:
  "av_trace (aact c s) = av_trace s @ [c]" "av_server (aact c s) = av_server s"
  "av_trace (setStack n s) = av_trace s" "as_stack (av_server (setStack n s)) = n"
  "as_pulumiLogLevel (av_server (setStack n s)) = as_pulumiLogLevel (av_server s)"
  "as_projectInfo (av_server (setStack n s)) = as_projectInfo (av_server s)"
  by (simp_all add: aact_def setStack_def)

text \<open>The stack an action is about, where it acts on one.\<close>

fun stackOf :: "stackCall \<Rightarrow> string option" where
  "stackOf (CliSetJson n text b) = Some n"
| "stackOf (CliSetPaths n m b) = Some n"
| "stackOf (CliAddEnvironments n es b) = Some n"
| "stackOf (CliOperate n r opts) = Some n"
| "stackOf _ = None"

text \<open>
  The service in the abstract: it tries to select stacks, makes one that was not found, remembers
  and forgets selected ones, and acts on those.
\<close>

inductive serviceStep :: "('j, 'i, 'o) aenv \<Rightarrow> (string \<Rightarrow> bool) \<Rightarrow> AState \<Rightarrow> AState \<Rightarrow> bool" for E mayCreate where
  step_select: "b = (ax_SelectStack E (av_trace s) n = None) \<Longrightarrow> serviceStep E mayCreate s (aact (CliSelect n b) s)"
| step_init: "\<lbrakk>ax_SelectStack E (av_trace s) n = Some e; ax_Is404 E e; mayCreate n;
    t = aact (CliSelect n False) s\<rbrakk> \<Longrightarrow> serviceStep E mayCreate s (aact (CliInit env (initArgs n p) b) t)"
| step_hold: "CliSelect n True \<in> set (av_trace s) \<Longrightarrow> serviceStep E mayCreate s (setStack (Some n) s)"
| step_release: "serviceStep E mayCreate s (setStack None s)"
| step_use: "stackOf c = Some n \<Longrightarrow> CliSelect n True \<in> set (av_trace s) \<Longrightarrow> serviceStep E mayCreate s (aact c s)"
| step_install: "serviceStep E mayCreate s (aact (CliInstall b) s)"
| step_send: "serviceStep E mayCreate s (aact (CliSend m b) s)"

abbreviation serviceSteps :: "('j, 'i, 'o) aenv \<Rightarrow> (string \<Rightarrow> bool) \<Rightarrow> AState \<Rightarrow> AState \<Rightarrow> bool" where
  "serviceSteps E mayCreate \<equiv> (serviceStep E mayCreate)\<^sup>*\<^sup>*"

text \<open>The stack that is remembered has been selected, and so has every stack that is acted on.\<close>

definition held :: "AState \<Rightarrow> bool" where
  "held s \<longleftrightarrow> (\<forall>n. as_stack (av_server s) = Some n \<longrightarrow> CliSelect n True \<in> set (av_trace s))"

definition allowedAfter :: "('j, 'i, 'o) aenv \<Rightarrow> (string \<Rightarrow> bool) \<Rightarrow> atrace \<Rightarrow> stackCall \<Rightarrow> bool" where
  "allowedAfter E mayCreate p c \<longleftrightarrow>
     (\<forall>n. stackOf c = Some n \<longrightarrow> CliSelect n True \<in> set p)
     \<and> (\<forall>env args b. c = CliInit env args b \<longrightarrow>
          (\<exists>n provider p' e. args = initArgs n provider \<and> mayCreate n \<and> p = p' @ [CliSelect n False]
             \<and> ax_SelectStack E p' n = Some e \<and> ax_Is404 E e))"

definition ordered :: "('j, 'i, 'o) aenv \<Rightarrow> (string \<Rightarrow> bool) \<Rightarrow> atrace \<Rightarrow> bool" where
  "ordered E mayCreate tr \<longleftrightarrow> (\<forall>p c q. tr = p @ c # q \<longrightarrow> allowedAfter E mayCreate p c)"

lemma ordered_Nil [simp]: "ordered E C []"
  by (simp add: ordered_def)

lemma ordered_snoc: "ordered E C (tr @ [c]) \<longleftrightarrow> ordered E C tr \<and> allowedAfter E C tr c"
proof
  assume o: "ordered E C (tr @ [c])"
  have "allowedAfter E C p d" if "tr = p @ d # q" for p d q
    using o that unfolding ordered_def by (metis append.assoc append_Cons)
  with o show "ordered E C tr \<and> allowedAfter E C tr c" unfolding ordered_def by blast
next
  assume o: "ordered E C tr \<and> allowedAfter E C tr c"
  have "allowedAfter E C p d" if "tr @ [c] = p @ d # q" for p d q
    using that o by (cases q rule: rev_cases) (auto simp: ordered_def)
  then show "ordered E C (tr @ [c])" unfolding ordered_def by blast
qed

lemma ordered_init:
  assumes "ordered E C tr" and "ax_SelectStack E tr n = Some e" "ax_Is404 E e" "C n"
  shows "ordered E C ((tr @ [CliSelect n False]) @ [CliInit env (initArgs n p) b])"
  unfolding ordered_snoc allowedAfter_def using assms by auto

lemma serviceStep_invariant:
  assumes "serviceStep E C s t" and "held s" and "ordered E C (av_trace s)"
  shows "held t \<and> ordered E C (av_trace t)"
  using assms
proof (induction rule: serviceStep.induct)
  case (step_init s n e t env p b)
  then show ?case using ordered_init [of E C "av_trace s" n e env p b] by (simp add: held_def)
qed (auto simp: held_def ordered_snoc allowedAfter_def)

lemma serviceSteps_invariant:
  assumes "serviceSteps E C s t" and "held s" and "ordered E C (av_trace s)"
  shows "held t \<and> ordered E C (av_trace t)"
  using assms by (induction rule: rtranclp_induct) (auto dest: serviceStep_invariant)

text \<open>Who a call lets stacks be made for.\<close>

fun mayMake :: "'j agentCall \<Rightarrow> string \<Rightarrow> bool" where
  "mayMake (RpcSelectStack n create p) m \<longleftrightarrow> m = n \<and> create = Some True"
| "mayMake _ m \<longleftrightarrow> False"

lemma ensureStack_cases:
  assumes "ensureStack E s = (r, t)"
  obtains (refused) e where "r = Inl e" "t = s"
    | (unselectable) e n where "r = Inl e" "t = aact (CliSelect n False) s" "ax_SelectStack E (av_trace s) n = Some e"
    | (kept) n where "r = Inr n" "t = s" "as_stack (av_server s) = Some n" "ax_Selected E (av_trace s) = Inr (Some n)"
    | (selected) n where "r = Inr n" "t = aact (CliSelect n True) s" "ax_SelectStack E (av_trace s) n = None"
        "ax_Selected E (av_trace s) = Inr (Some n)"
  using assms
  by (auto simp: ensureStack_def autoSelect_def split: sum.splits option.splits if_splits)

lemma ensureStack_steps:
  assumes "ensureStack E s = (r, t)" and "held s"
  shows "serviceSteps E C s t \<and> held t \<and> (\<forall>n. r = Inr n \<longrightarrow> CliSelect n True \<in> set (av_trace t))"
  using assms(1)
proof (cases rule: ensureStack_cases)
  case (unselectable e n)
  then have "serviceStep E C s t" by (simp add: step_select)
  with unselectable assms(2) show ?thesis by (auto simp: held_def)
next
  case (selected n)
  then have "serviceStep E C s t" by (simp add: step_select)
  with selected assms(2) show ?thesis by (auto simp: held_def)
qed (use assms(2) in \<open>auto simp: held_def\<close>)

lemma step_use_last:
  assumes "serviceSteps E C s t" and "stackOf c = Some n" and "CliSelect n True \<in> set (av_trace t)"
  shows "serviceSteps E C s (aact c t)"
  using assms by (meson rtranclp.rtrancl_into_rtrancl step_use)

lemma agentInitStack_steps:
  assumes "serviceSteps E C s u" and "ax_SelectStack E (av_trace u) n = Some e" "ax_Is404 E e" "C n"
    and "agentInitStack E n p (aact (CliSelect n False) u) = (r, t)"
  shows "serviceSteps E C s t \<and> (\<forall>m. r = Inr m \<longrightarrow> m = n \<and> CliSelect n True \<in> set (av_trace t))"
proof -
  let ?i = "\<lambda>b. aact (CliInit (initEnv E) (initArgs n p) b) (aact (CliSelect n False) u)"
  have i: "serviceSteps E C s (?i b)" for b
    using assms(1) step_init [of E u n e C] assms(2-4) by (meson rtranclp.rtrancl_into_rtrancl)
  have "serviceSteps E C s (aact (CliSelect n b) (?i True))" if "b = (ax_SelectStack E (av_trace (?i True)) n = None)" for b
    using i [of True] step_select [OF that] by (meson rtranclp.rtrancl_into_rtrancl)
  with i assms(5) show ?thesis
    by (auto simp: agentInitStack_def autoSelect_def split: option.splits)
qed

lemma relayEvents_effect:
  "fst (relayEvents E req events s) = diagnosticsOf (ax_TrimSpace E) events
   \<and> av_server (snd (relayEvents E req events s)) = av_server s
   \<and> (\<exists>bs. av_trace (snd (relayEvents E req events s)) = av_trace s @ map (CliSend (eventMessage req)) bs)"
proof -
  have "fst (fold (relayEvent E req) events ds) = fold (observe (ax_TrimSpace E)) events (fst ds)
     \<and> av_server (snd (fold (relayEvent E req) events ds)) = av_server (snd ds)
     \<and> (\<exists>bs. av_trace (snd (fold (relayEvent E req) events ds)) = av_trace (snd ds) @ map (CliSend (eventMessage req)) bs)" for ds
  proof (induction events arbitrary: ds)
    case Nil show ?case by (auto intro: exI [of _ "[]"])
  next
    case (Cons e events)
    obtain ds' bs where ds': "relayEvent E req e ds = ds'" and "fst ds' = observe (ax_TrimSpace E) e (fst ds)"
      "av_server (snd ds') = av_server (snd ds)" "av_trace (snd ds') = av_trace (snd ds) @ map (CliSend (eventMessage req)) bs"
      by (cases "ax_MarshalEvent E e")
         (force simp: relayEvent_def Let_def intro: that [of _ "[]"] that [of _ "[b]" for b])+
    with Cons.IH [of ds'] show ?case
      by (auto simp: map_append [symmetric] simp del: map_append)
  qed
  from this [of "(noDiagnostics, s)"] show ?thesis by (simp add: relayEvents_def diagnosticsOf_def)
qed

lemma relayEvent_steps: "serviceSteps E C (snd ds) (snd (relayEvent E req e ds))"
  by (auto simp: relayEvent_def Let_def intro: step_send)

lemma relayEvents_steps: "serviceSteps E C s (snd (relayEvents E req events s))"
proof -
  have "serviceSteps E C (snd ds) (snd (fold (relayEvent E req) events ds))" for ds
  proof (induction events arbitrary: ds)
    case (Cons e events)
    from rtranclp_trans [OF relayEvent_steps Cons.IH] show ?case by simp
  qed simp
  from this [of "(noDiagnostics, s)"] show ?thesis by (simp add: relayEvents_def)
qed

lemma steps_snoc: "serviceSteps E C s t \<Longrightarrow> serviceStep E C t u \<Longrightarrow> serviceSteps E C s u"
  by (rule rtranclp.rtrancl_into_rtrancl)

lemma sendResult_steps: "serviceSteps E C s (snd (sendResult E req res s))"
proof -
  define u where "u = (if removesStack req \<and> us_Result (ar_Summary res) = ''succeeded'' then clearStack s else s)"
  have u: "serviceSteps E C s u" by (auto simp: u_def clearStack_def intro: step_release)
  have "snd (sendResult E req res s) = s \<or> snd (sendResult E req res s) = u
      \<or> (\<exists>m b. snd (sendResult E req res s) = aact (CliSend m b) u)"
    unfolding sendResult_def Let_def u_def [symmetric] by (simp split: sum.split) blast
  with u show ?thesis by (auto intro: steps_snoc [OF _ step_send])
qed

lemma operate_steps:
  assumes "held s"
  shows "serviceSteps E C s (snd (operate E req s))"
proof -
  obtain r u where u: "ensureStack E s = (r, u)" by fastforce
  note start = ensureStack_steps [OF u assms, of C]
  show ?thesis
  proof (cases r)
    case (Inl e)
    with start u show ?thesis by (simp add: operate_def)
  next
    case (Inr n)
    define opts where "opts = requestOptions (ax_UserAgent E) (as_pulumiLogLevel (av_server u)) req"
    obtain events result where x: "ax_Operate E (av_trace u) n req opts = (events, result)" by fastforce
    define v where "v = snd (relayEvents E req events (aact (CliOperate n req opts) u))"
    have "serviceSteps E C s (aact (CliOperate n req opts) u)"
      using start Inr by (intro step_use_last) auto
    then have v: "serviceSteps E C s v"
      unfolding v_def using relayEvents_steps by (rule rtranclp_trans)
    have "snd (operate E req s) = v \<or> (\<exists>res. snd (operate E req s) = snd (sendResult E req res v))"
      using u Inr x by (auto simp: operate_def opts_def v_def Let_def split: sum.split prod.split)
    with v rtranclp_trans [OF v sendResult_steps] show ?thesis by auto
  qed
qed

lemma SelectStackCall_steps:
  assumes "held s"
  shows "serviceSteps E (mayMake (RpcSelectStack n create p :: 'j agentCall)) s (snd (SelectStackCall E n create p s))"
proof -
  let ?C = "mayMake (RpcSelectStack n create p :: 'j agentCall)"
  define chosen where "chosen = (case autoSelect E n s of
                   (Inr n, s) \<Rightarrow> (Inr n, s)
                 | (Inl e, s) \<Rightarrow>
                     (if ax_Is404 E e
                      then (if create \<noteq> Some True then (Inl (statusErr (ax_A E) NotFoundCode ''stack not found''), s)
                            else agentInitStack E n (case p of Some p \<Rightarrow> p | None \<Rightarrow> []) s)
                      else (Inl e, s)))"
  obtain r t where t: "chosen = (r, t)" by fastforce
  have sel: "serviceSteps E ?C s (aact (CliSelect n b) s)" if "b = (ax_SelectStack E (av_trace s) n = None)" for b
    using step_select [OF that] by blast
  have found: "serviceSteps E ?C s t \<and> (\<forall>m. r = Inr m \<longrightarrow> CliSelect m True \<in> set (av_trace t))"
  proof (cases "ax_SelectStack E (av_trace s) n")
    case None
    with t sel [of True] show ?thesis by (auto simp: chosen_def autoSelect_def)
  next
    case (Some e)
    show ?thesis
    proof (cases "ax_Is404 E e \<and> create = Some True")
      case True
      with t Some agentInitStack_steps [of E ?C s s n e "case p of Some p \<Rightarrow> p | None \<Rightarrow> []" r t] show ?thesis
        by (auto simp: chosen_def autoSelect_def)
    next
      case False
      with t Some sel [of False] show ?thesis by (auto simp: chosen_def autoSelect_def split: if_splits)
    qed
  qed
  have "snd (SelectStackCall E n create p s) = s \<or> (\<exists>e. r = Inl e) \<and> snd (SelectStackCall E n create p s) = t
      \<or> (\<exists>m. r = Inr m \<and> snd (SelectStackCall E n create p s) = setStack (Some m) t)"
    using t unfolding SelectStackCall_def chosen_def [symmetric]
    by (cases r) (simp_all add: Let_def split: sum.split)
  with found show ?thesis by (auto intro: steps_snoc [OF _ step_hold])
qed

lemma serveCall_steps:
  assumes "held s"
  shows "serviceSteps E (mayMake c) s (serveCall E c s)"
proof (cases c)
  case (RpcOperate req)
  with operate_steps [OF assms] show ?thesis
    by (cases req) (simp_all add: PreviewCall_def UpCall_def RefreshCall_def DestroyCall_def)
next
  case (RpcSelectStack n create p)
  with SelectStackCall_steps [OF assms] show ?thesis by simp
next
  case RpcInstall
  then show ?thesis by (auto simp: InstallCall_def split: sum.split option.split intro: step_install)
next
  case RpcInfo
  obtain r u where u: "ensureStack E s = (r, u)" by fastforce
  with RpcInfo ensureStack_steps [OF u assms] show ?thesis
    by (auto simp: InfoCall_def split: sum.split)
next
  case (RpcSetAllConfig items)
  obtain r u where u: "ensureStack E s = (r, u)" by fastforce
  with RpcSetAllConfig ensureStack_steps [OF u assms, of "mayMake c"] show ?thesis
    by (auto simp: SetAllConfigCall_def Let_def split: sum.split configCall.split intro: step_use_last)
next
  case (RpcAddEnvironments es)
  obtain r u where u: "ensureStack E s = (r, u)" by fastforce
  with RpcAddEnvironments ensureStack_steps [OF u assms, of "mayMake c"] show ?thesis
    by (auto simp: AddEnvironmentsCall_def Let_def split: sum.split intro: step_use_last)
qed simp_all

end
