(* ===== verification/AgentProperties.thy ===== *)
theory AgentProperties
  imports AgentFacts UpdateProperties
begin

text \<open>
  The properties of the agent's automation service with their witnesses: the order of its calls of
  the Pulumi CLI, the message made of an engine's diagnostics, and what the update controller makes
  of the stream the service sends.
\<close>

section \<open>Sessions\<close>

text \<open>A server that started, and the calls it was sent since.\<close>

inductive agentReach :: "('j, 'i, 'o) aenv \<Rightarrow> string \<Rightarrow> string \<Rightarrow> nat \<Rightarrow> 'j agentCall list \<Rightarrow> AState \<Rightarrow> bool"
  for E name provider level where
  reach_start: "NewServer E name provider level = (Inr s, tr) \<Longrightarrow> agentReach E name provider level [] s"
| reach_call: "agentReach E name provider level cs s \<Longrightarrow> agentReach E name provider level (cs @ [c]) (serveCall E c s)"

definition asked :: "string \<Rightarrow> 'j agentCall list \<Rightarrow> string \<Rightarrow> bool" where
  "asked name cs n \<longleftrightarrow> n = name \<or> (\<exists>p. RpcSelectStack n (Some True) p \<in> set cs)"

lemma asked_snoc: "asked name cs n \<Longrightarrow> asked name (cs @ [c]) n" "mayMake c n \<Longrightarrow> asked name (cs @ [c]) n"
  by (cases c; auto simp: asked_def)+

lemma serviceSteps_mono:
  assumes "serviceSteps E C s t" and "\<And>n. C n \<Longrightarrow> D n"
  shows "serviceSteps E D s t"
proof -
  have "serviceStep E C \<le> serviceStep E D"
    using assms(2) by (auto elim!: serviceStep.cases intro: serviceStep.intros)
  with assms(1) show ?thesis by (meson rtranclp_mono predicate2D)
qed

lemma ordered_mono:
  assumes "ordered E C tr" and "\<And>n. C n \<Longrightarrow> D n"
  shows "ordered E D tr"
proof -
  have "allowedAfter E D p c" if "allowedAfter E C p c" for p c
    using that assms(2) unfolding allowedAfter_def by metis
  with assms(1) show ?thesis unfolding ordered_def by blast
qed

lemma startStack_steps:
  assumes "startStack E name provider u = (Inr v, tr)"
  shows "serviceSteps E (\<lambda>n. n = name) u v"
proof (cases "name = []")
  case True
  with assms show ?thesis by (simp add: startStack_def)
next
  case False
  show ?thesis
  proof (cases "ax_SelectStack E (av_trace u) name")
    case None
    have "serviceSteps E (\<lambda>n. n = name) u (aact (CliSelect name True) u)"
      using step_select [of True E u name] None by auto
    with None False assms show ?thesis
      by (auto simp: startStack_def autoSelect_def intro: steps_snoc [OF _ step_hold])
  next
    case (Some e)
    then obtain n t where t: "ax_Is404 E e" "agentInitStack E name provider (aact (CliSelect name False) u) = (Inr n, t)"
      "v = setStack (Some n) t"
      using False assms by (auto simp: startStack_def autoSelect_def split: if_splits sum.splits prod.splits)
    from agentInitStack_steps [OF rtranclp.rtrancl_refl Some t(1) _ t(2), of "\<lambda>n. n = name"] t(3)
    show ?thesis by (auto intro: steps_snoc [OF _ step_hold])
  qed
qed

lemma NewServer_invariant:
  assumes "NewServer E name provider level = (Inr s, tr)"
  shows "held s \<and> ordered E (\<lambda>n. n = name) (av_trace s)"
proof -
  define u where "u = \<lparr>av_server = \<lparr>as_stack = None, as_pulumiLogLevel = level,
      as_projectInfo = \<lparr>pi_Name = [], pi_Runtime = []\<rparr>, as_stopping = False\<rparr>, av_trace = []\<rparr>"
  obtain v info where v: "startStack E name provider u = (Inr v, tr)"
    and s: "s = v\<lparr>av_server := (av_server v)\<lparr>as_projectInfo := info\<rparr>\<rparr>"
    using assms by (auto simp: NewServer_def u_def [symmetric] split: sum.splits prod.splits)
  from serviceSteps_invariant [OF startStack_steps [OF v]] have "held v \<and> ordered E (\<lambda>n. n = name) (av_trace v)"
    by (simp add: u_def held_def)
  then show ?thesis by (simp add: s held_def)
qed

lemma agentReach_invariant:
  assumes "agentReach E name provider level cs s"
  shows "held s \<and> ordered E (asked name cs) (av_trace s)"
  using assms
proof (induction rule: agentReach.induct)
  case (reach_start s tr)
  from NewServer_invariant [OF this] show ?case by (auto elim: ordered_mono simp: asked_def)
next
  case (reach_call cs s c)
  have "ordered E (asked name (cs @ [c])) (av_trace s)"
    by (rule ordered_mono [of E "asked name cs"]) (use reach_call.IH asked_snoc(1) in auto)
  moreover have "serviceSteps E (asked name (cs @ [c])) s (serveCall E c s)"
    by (rule serviceSteps_mono [of E "mayMake c"]) (use reach_call.IH asked_snoc(2) serveCall_steps in auto)
  ultimately show ?case using serviceSteps_invariant reach_call.IH by blast
qed

text \<open>C17: Whatever calls a server is sent, it acts on a stack (sets its configuration or environments, or
  runs an operation) only after the Pulumi CLI selected that stack, and it makes a stack only for
  the name it was started with or a request that says to create it, right after the CLI answered
  that there is none.
\<close>

lemma agent_calls_ordered:
  assumes "agentReach E name provider level cs s" and "av_trace s = before @ c # rest"
  shows "(case stackOf c of Some n \<Rightarrow> CliSelect n True \<in> set before | None \<Rightarrow> True)
    \<and> (case c of
         CliInit env args ok \<Rightarrow> \<exists>n p tr e. args = initArgs n p \<and> asked name cs n
           \<and> before = tr @ [CliSelect n False] \<and> ax_SelectStack E tr n = Some e \<and> ax_Is404 E e
       | _ \<Rightarrow> True)"
proof -
  from agentReach_invariant [OF assms(1)] assms(2) have "allowedAfter E (asked name cs) before c"
    by (simp add: ordered_def)
  then show ?thesis by (auto simp: allowedAfter_def split: option.split stackCall.split)
qed

text \<open>
  An environment for the witnesses: a CLI that knows no stack until it has made it, and an engine
  whose operations report two diagnostics and end as given.
\<close>

definition exampleAEnv :: "rpcError + JSON apiResult \<Rightarrow> (JSON, JSON, JSON) aenv" where
  "exampleAEnv outcome = \<lparr>ax_A = exampleAgent, ax_J = textCodecs, ax_UserAgent = ''agent'', ax_TrimSpace = id,
     ax_Known = knownErrors, ax_MarshalEvent = (\<lambda>_. None), ax_MarshalOutput = Inr, ax_MarshalConfig = (\<lambda>_. Inr ''{}''),
     ax_WhoAmI = Inr (''u'', [], ''url''), ax_PulumiVersion = ''v3'', ax_ParseTime = (\<lambda>_. Some 0),
     ax_Is404 = (\<lambda>_. True), ax_PulumiHome = [], ax_EnvVars = [],
     ax_Selected = (\<lambda>tr. Inr (if CliSelect ''dev'' True \<in> set tr then Some ''dev'' else None)),
     ax_SelectStack = (\<lambda>tr n. if CliInit [] (initArgs n []) True \<in> set tr then None else Some (PlainError ''no stack'')),
     ax_RunInit = (\<lambda>_ _ _. None),
     ax_Info = (\<lambda>_ n. Inr \<lparr>ss_Name = n, ss_LastUpdate = [], ss_UpdateInProgress = False, ss_ResourceCount = None, ss_URL = []\<rparr>),
     ax_Project = (\<lambda>_. Inr \<lparr>pj_Name = ''p'', pj_Runtime = ''go'', pj_Binary = None\<rparr>),
     ax_SetAllConfigJson = (\<lambda>_ _ _. None), ax_SetAllConfig = (\<lambda>_ _ _. None), ax_AddEnvironments = (\<lambda>_ _ _. None),
     ax_Install = (\<lambda>_. None),
     ax_Operate = (\<lambda>_ _ _ _. ([\<lparr>ee_Diagnostic = Some \<lparr>de_Prefix = [], de_Message = ''bad'', de_Severity = ''error''\<rparr>, ee_Rest = []\<rparr>,
         \<lparr>ee_Diagnostic = None, ee_Rest = []\<rparr>], outcome)),
     ax_Send = (\<lambda>_ _. None)\<rparr>"

definition exampleStart :: AState where
  "exampleStart = \<lparr>av_server = \<lparr>as_stack = Some ''dev'', as_pulumiLogLevel = 0,
       as_projectInfo = \<lparr>pi_Name = ''p'', pi_Runtime = ''go''\<rparr>, as_stopping = False\<rparr>,
     av_trace = [CliSelect ''dev'' False, CliInit [] (initArgs ''dev'' []) True, CliSelect ''dev'' True]\<rparr>"

lemma example_started: "NewServer (exampleAEnv outcome) ''dev'' [] 0 = (Inr exampleStart, av_trace exampleStart)"
  by (simp add: NewServer_def startStack_def autoSelect_def agentInitStack_def exampleAEnv_def exampleStart_def
      aact_def setStack_def initEnv_def)

definition exampleRefresh :: RefreshRequest where
  "exampleRefresh = \<lparr>rr_Parallel = None, rr_Message = None, rr_ExpectNoChanges = None, rr_Target = [], rr_RunProgram = None\<rparr>"

lemma agent_calls_ordered_witness:
  "\<exists>before opts rest. CliSelect ''dev'' True \<in> set (before :: atrace)
     \<and> av_trace (serveCall (exampleAEnv (Inl (PlainError ''e''))) (RpcOperate (CallRefresh exampleRefresh)) exampleStart)
         = before @ CliOperate ''dev'' (CallRefresh exampleRefresh) opts # rest"
proof -
  let ?E = "exampleAEnv (Inl (PlainError ''e''))" and ?c = "RpcOperate (CallRefresh exampleRefresh) :: JSON agentCall"
  have "agentReach ?E ''dev'' [] 0 ([] @ [?c]) (serveCall ?E ?c exampleStart)"
    by (rule reach_call [OF reach_start [OF example_started]])
  moreover obtain opts rest where tr: "av_trace (serveCall ?E ?c exampleStart)
      = av_trace exampleStart @ CliOperate ''dev'' (CallRefresh exampleRefresh) opts # rest"
    by (simp add: RefreshCall_def operate_def ensureStack_def Let_def exampleAEnv_def exampleStart_def relayEvents_def
        relayEvent_def aact_def)
  ultimately have "CliSelect ''dev'' True \<in> set (av_trace exampleStart)"
    using agent_calls_ordered by fastforce
  with tr show ?thesis by blast
qed

section \<open>Failure messages\<close>

text \<open>The lines a failure is explained with.\<close>

definition failureLines :: "(string \<Rightarrow> string) \<Rightarrow> EngineEvent list \<Rightarrow> string list" where
  "failureLines f events = (if reportedLines f ''error'' events = [] then reportedLines f ''info#err'' events
     else reportedLines f ''error'' events)"

text \<open>C36: The message of a failed operation is made of the diagnostics the engine raised as errors, or if there
  are none of those relayed from standard error: at most ten of them and 32 KiB, each whole and in
  order, with the number of the others. It leaves none out exactly when they fit.
\<close>

lemma failure_message_bounded:
  "\<exists>kept. subseq kept (failureLines f events)
    \<and> length kept \<le> 10 \<and> length (joinWith newlineText kept) \<le> 32 * 1024
    \<and> (kept = failureLines f events \<longleftrightarrow> length (failureLines f events) \<le> 10 \<and> length (joinWith newlineText (failureLines f events)) \<le> 32 * 1024)
    \<and> failureMessage op (diagnosticsOf f events) = op @ '' failed''
        @ (if failureLines f events = [] then ''; see the workspace pod logs''
           else if kept = [] then ''; '' @ showInt (int (length (failureLines f events)))
                @ '' diagnostics were too large to report, see the workspace pod logs''
           else '': '' @ joinWith newlineText kept
                @ (if kept = failureLines f events then []
                   else newlineText @ ''('' @ showInt (int (length (failureLines f events) - length kept))
                        @ '' further diagnostics; see the workspace pod logs)''))"
proof -
  define b where "b = bounded (failureLines f events)"
  have h: "holds (failureLines f events) b" unfolding b_def by (rule holds_bounded)
  have kept: "bl_lines b = failureLines f events \<longleftrightarrow> bl_omitted b = 0"
    using h by (auto simp: holds_def dest: subseq_same_length)
  have none: "emptyLines (bounded ls) \<longleftrightarrow> ls = []" for ls
    using holds_bounded [of ls] by (auto simp: holds_def emptyLines_def)
  have msg: "failureMessage op (diagnosticsOf f events) = (
      if failureLines f events = [] then op @ '' failed; see the workspace pod logs''
      else if bl_lines b = []
      then op @ '' failed; '' @ showInt (int (bl_omitted b)) @ '' diagnostics were too large to report, see the workspace pod logs''
      else if bl_omitted b > 0
      then op @ '' failed: '' @ joinWith newlineText (bl_lines b) @ newlineText @ ''('' @ showInt (int (bl_omitted b))
           @ '' further diagnostics; see the workspace pod logs)''
      else op @ '' failed: '' @ joinWith newlineText (bl_lines b))"
    by (simp add: failureMessage_def none b_def failureLines_def Let_def)
  have fits: "bl_lines b = failureLines f events \<longleftrightarrow> length (failureLines f events) \<le> 10
      \<and> length (joinWith newlineText (failureLines f events)) \<le> 32 * 1024"
    using h by (auto simp: holds_def length_joinWith maxDiagnostics_def maxDiagnosticBytes_def)
  have omitted: "bl_omitted b = length (failureLines f events) - length (bl_lines b)"
    using h unfolding holds_def by linarith
  have more: "0 < length (failureLines f events) - length (bl_lines b) \<longleftrightarrow> bl_lines b \<noteq> failureLines f events"
    unfolding omitted [symmetric] kept by simp
  have "linesSize (bl_lines b) - 1 \<le> 32 * 1024" using h by (auto simp: holds_def maxDiagnosticBytes_def)
  then have bound: "length (joinWith newlineText (bl_lines b)) \<le> 32 * 1024" by (simp only: length_joinWith)
  show ?thesis
  proof (intro exI [of _ "bl_lines b"] conjI)
    show "subseq (bl_lines b) (failureLines f events)" "length (bl_lines b) \<le> 10"
      using h by (simp_all add: holds_def maxDiagnostics_def)
  qed (rule bound fits | unfold msg omitted more, simp)+
qed

section \<open>What the operator makes of an operation\<close>

text \<open>
  The messages the service sent, and the stream its client reads: those messages, then the end of
  the stream or the status the handler returned, an error that is not a status being given the code
  for unknown errors.
\<close>

fun sentMessage :: "stackCall \<Rightarrow> streamMessage list" where
  "sentMessage (CliSend m True) = [m]"
| "sentMessage _ = []"

definition delivered :: "atrace \<Rightarrow> streamMessage list" where
  "delivered tr = concat (map sentMessage tr)"

fun onTheWire :: "rpcError option \<Rightarrow> received \<Rightarrow> bool" where
  "onTheWire None r \<longleftrightarrow> r = RecvEOF"
| "onTheWire (Some (StatusError text c msg ds)) r \<longleftrightarrow> (\<exists>text'. r = RecvErr (StatusError text' c msg ds))"
| "onTheWire (Some (PlainError text)) r \<longleftrightarrow> (\<exists>text'. r = RecvErr (StatusError text' UnknownCode text []))"

definition carries :: "(nat \<Rightarrow> received) \<Rightarrow> streamMessage list \<Rightarrow> rpcError option \<Rightarrow> bool" where
  "carries recv ms verdict \<longleftrightarrow>
     (\<forall>i<length ms. recv i = RecvMsg (ms ! i)) \<and> onTheWire verdict (recv (length ms))"

lemma delivered_simps [simp]:
  "delivered [] = []" "delivered (c # tr) = sentMessage c @ delivered tr" "delivered (tr @ tr') = delivered tr @ delivered tr'"
  by (simp_all add: delivered_def)

lemma delivered_events: "\<exists>k. delivered (map (CliSend m) bs) = replicate k m"
proof (induction bs)
  case (Cons b bs)
  then obtain k where "delivered (map (CliSend m) bs) = replicate k m" by blast
  then have "delivered (map (CliSend m) (b # bs)) = replicate (if b then Suc k else k) m" by (cases b) simp_all
  then show ?case by blast
qed simp

lemma GetResult_event [simp]: "GetResult (eventMessage req) = None"
  by (cases req) simp_all

lemma carries_result:
  assumes "carries recv (replicate k (eventMessage req) @ [m]) verdict" and "GetResult m \<noteq> None"
  shows "recvLoop recv 0 = Some (RecvMsg m)"
proof -
  have at: "recv k = RecvMsg m" "\<And>j. j < k \<Longrightarrow> recv j = RecvMsg (eventMessage req)"
    using assms(1) by (force simp: carries_def nth_append)+
  from recvLoop_finds [of recv k 0] at assms(2) show ?thesis by simp
qed

lemma carries_error:
  assumes "carries recv (replicate k (eventMessage req)) (Some err)"
  shows "\<exists>e. recvLoop recv 0 = Some (RecvErr e) \<and> onTheWire (Some err) (RecvErr e)"
proof -
  have wire: "onTheWire (Some err) (recv k)" and before: "\<And>j. j < k \<Longrightarrow> recv j = RecvMsg (eventMessage req)"
    using assms by (simp_all add: carries_def)
  obtain e where e: "recv k = RecvErr e" using wire by (cases err) auto
  from recvLoop_finds [of recv k 0] e before have "recvLoop recv 0 = Some (RecvErr e)" by simp
  with wire e show ?thesis by auto
qed

text \<open>How an operation goes, once there is a stack: the events, and what the handler ends with.\<close>

lemma operate_outcome:
  fixes E :: "('j, 'i, 'o) aenv" and s :: AState and req :: request
  defines "opts \<equiv> requestOptions (ax_UserAgent E) (as_pulumiLogLevel (av_server s)) req"
  assumes "ensureStack E s = (Inr n, u)" and "ax_Operate E (av_trace u) n req opts = (events, result)"
  shows "\<exists>bs v. av_trace v = av_trace u @ CliOperate n req opts # map (CliSend (eventMessage req)) bs \<and> av_server v = av_server s
    \<and> operate E req s = (case result of
        Inl err \<Rightarrow> (Some (withPulumiErrorInfo (ax_Known E) (statusErr (ax_A E) UnknownCode
            (failureMessage (operationName req) (diagnosticsOf (ax_TrimSpace E) events))) (rpcErrorText err)), v)
      | Inr res \<Rightarrow> sendResult E req res v)"
proof -
  have srv: "av_server u = av_server s" using assms(2) by (cases rule: ensureStack_cases) simp_all
  let ?w = "aact (CliOperate n req opts) u"
  from relayEvents_effect [of E req events ?w] obtain bs
    where "fst (relayEvents E req events ?w) = diagnosticsOf (ax_TrimSpace E) events"
      "av_server (snd (relayEvents E req events ?w)) = av_server s"
      "av_trace (snd (relayEvents E req events ?w)) = av_trace ?w @ map (CliSend (eventMessage req)) bs"
    using srv by auto
  with assms srv show ?thesis
    by (intro exI [of _ bs] exI [of _ "snd (relayEvents E req events ?w)"])
       (auto simp: operate_def opts_def split: prod.split sum.split)
qed

lemma ensureStack_silent:
  assumes "ensureStack E s = (r, u)"
  shows "\<exists>sel. av_trace u = av_trace s @ sel \<and> delivered sel = []"
  using assms by (cases rule: ensureStack_cases) (auto intro: exI [of _ "[CliSelect n b]" for n b])

lemma sendResult_success:
  assumes "sendResult E req res s = (None, t)"
  obtains outs link where "resultOutputs E req res = Inr outs" "ar_Permalink res = Inr link"
    "av_trace t = av_trace s @ [CliSend (resultMessage req (marshalUpdateSummary E (ar_Summary res)) link
        (as_projectInfo (av_server s)) outs) True]"
    "removesStack req \<and> us_Result (ar_Summary res) = ''succeeded'' \<longrightarrow> as_stack (av_server t) = None"
  using assms by (auto simp: sendResult_def clearStack_def Let_def split: sum.splits if_splits)

fun outputsOf :: "opResult \<Rightarrow> OutputValue gomap option" where
  "outputsOf (UpResult r outs) = outs"
| "outputsOf (AnyResult r) = None"

fun isPreview :: "request \<Rightarrow> bool" where
  "isPreview (CallPreview r) = True"
| "isPreview _ = False"

lemma GetResult_resultMessage:
  assumes "resultOutputs E req res = Inr outs"
  shows "\<exists>r. GetResult (resultMessage req sm link info outs) = Some r \<and> outputsOf r = outs
    \<and> res_Permalink (commonPart r) = link \<and> res_ProjectInfo (commonPart r) = Some info
    \<and> res_Summary (commonPart r) = (if isPreview req then None else Some sm)"
  using assms by (cases req) auto

text \<open>When the agent's handler of an operation succeeds, then an operation of the Pulumi CLI on the selected
  stack gave a result, and the update controller, reading the stream, takes the update for complete,
  as failed exactly when the CLI's summary does not say that it succeeded (a preview has none), and
  gets the outputs the CLI reported.
\<close>

lemma agent_result:
  assumes "update_server U" and "sessOk us" and "operate E req s = (None, t)"
    and "carries recv (delivered (drop (length (av_trace s)) (av_trace t))) None"
  shows "\<exists>n u events res r ut. ensureStack E s = (Inr n, u)
    \<and> ax_Operate E (av_trace u) n req (requestOptions (ax_UserAgent E) (as_pulumiLogLevel (av_server s)) req) = (events, Inr res)
    \<and> Result U recv us = Some (Inr r, ut) \<and> resultOutputs E req res = Inr (outputsOf r)
    \<and> statusNow (ue_L U) SProgressing ut = ConditionFalse \<and> statusNow (ue_L U) SComplete ut = ConditionTrue
    \<and> statusNow (ue_L U) SFailed ut
        = (if isPreview req \<or> us_Result (ar_Summary res) = ue_StatusSucceeded U then ConditionFalse else ConditionTrue)"
proof -
  let ?opts = "requestOptions (ax_UserAgent E) (as_pulumiLogLevel (av_server s)) req"
  obtain n u where u: "ensureStack E s = (Inr n, u)"
    using assms(3) by (auto simp: operate_def split: prod.splits sum.splits)
  obtain events result where x: "ax_Operate E (av_trace u) n req ?opts = (events, result)" by fastforce
  from operate_outcome [OF u x] obtain bs v where
    v: "av_trace v = av_trace u @ CliOperate n req ?opts # map (CliSend (eventMessage req)) bs" "av_server v = av_server s"
    and op: "operate E req s = (case result of
        Inl err \<Rightarrow> (Some (withPulumiErrorInfo (ax_Known E) (statusErr (ax_A E) UnknownCode
            (failureMessage (operationName req) (diagnosticsOf (ax_TrimSpace E) events))) (rpcErrorText err)), v)
      | Inr res \<Rightarrow> sendResult E req res v)" by blast
  obtain res where res: "result = Inr res" "sendResult E req res v = (None, t)"
    using op assms(3) by (cases result) auto
  from res(2) obtain outs link m where outs: "resultOutputs E req res = Inr outs"
    and m: "m = resultMessage req (marshalUpdateSummary E (ar_Summary res)) link (as_projectInfo (av_server s)) outs"
    and t: "av_trace t = av_trace v @ [CliSend m True]"
    using v(2) by (elim sendResult_success) simp
  obtain r where r: "GetResult m = Some r" "outputsOf r = outs"
      "res_Summary (commonPart r) = (if isPreview req then None else Some (marshalUpdateSummary E (ar_Summary res)))"
    using GetResult_resultMessage [OF outs] m by blast
  obtain sel k where sel: "av_trace u = av_trace s @ sel" "delivered sel = []"
    and k: "delivered (map (CliSend (eventMessage req)) bs) = replicate k (eventMessage req)"
    using ensureStack_silent [OF u] delivered_events by metis
  from assms(4) have "carries recv (replicate k (eventMessage req) @ [m]) None"
    by (simp add: t v(1) sel k)
  from carries_result [OF this] r(1) have x0: "recvLoop recv 0 = Some (RecvMsg m)" by simp
  then obtain ut where ut: "Result U recv us = Some (Inr r, ut)"
    using r(1) by (auto simp: Result_def Let_def)
  with update_server.Result_status [OF assms(1,2) x0] r u x res(1) outs show ?thesis
    by (auto simp: failedStatus_def marshalUpdateSummary_def)
qed

text \<open>The entry of the table of known errors that the text of an error matches first.\<close>

definition knownError :: "(string \<times> detail) list \<Rightarrow> string \<Rightarrow> detail option" where
  "knownError table text = map_option snd (find (\<lambda>(snippet, d). containsText text snippet) table)"

text \<open>What the known errors that a text matches are reported as.\<close>

definition knownReports :: "string \<Rightarrow> (string \<times> string) set" where
  "knownReports text = set [(m, reason). (snippet, PulumiErrorInfo m reason) \<leftarrow> knownErrors, containsText text snippet]"

lemma knownError_reports:
  assumes "set table = set knownErrors"
  shows "case knownError table text of
      Some d \<Rightarrow> \<exists>m reason. d = PulumiErrorInfo m reason \<and> (m, reason) \<in> knownReports text
    | None \<Rightarrow> knownReports text = {}"
proof (cases "find (\<lambda>(snippet, d). containsText text snippet) table")
  case None
  then have "\<forall>x\<in>set knownErrors. \<not> containsText text (fst x)"
    unfolding assms [symmetric] by (auto simp: find_None_iff)
  with None show ?thesis by (auto simp: knownError_def knownReports_def)
next
  case (Some x)
  then have "x \<in> set knownErrors" "containsText text (fst x)" using assms by (auto simp: find_Some_iff in_set_conv_nth)
  with Some show ?thesis by (auto simp: knownError_def knownReports_def knownErrors_def)
qed

lemma withPulumiErrorInfo_details:
  "withPulumiErrorInfo table (statusErr A c msg) text
     = StatusError (rpcErrorText (statusErr A c msg)) c msg (case knownError table text of None \<Rightarrow> [] | Some d \<Rightarrow> [d])"
  by (induction table) (auto simp: statusErr_def knownError_def)

lemma marks_message [simp]:
  "ust_Message (u_Status (uv_obj (mark k st r s))) = ust_Message (u_Status (uv_obj s))"
  "ust_Message (u_Status (uv_obj (markMsg k st r s))) = ust_Message (u_Status (uv_obj s))"
  by (simp_all add: mark_def markMsg_def store_def mapStatus_def split: condPtr.split)

lemma mapStatus_message [simp]: "ust_Message (u_Status (uv_obj (mapStatus f s))) = ust_Message (f (u_Status (uv_obj s)))"
  by (simp add: mapStatus_def)

context update_server
begin

lemma setStatusBlock_details:
  assumes "sessOk s"
  shows "ust_Message (u_Status (uv_obj (setStatusBlockFromGRPCErr (StatusError text c msg ds) s)))
      = (case ds of PulumiErrorInfo m reason # _ \<Rightarrow> m | _ \<Rightarrow> msg)"
    and "c_Reason (deref L SFailed (setStatusBlockFromGRPCErr (StatusError text c msg ds) s))
      = (case ds of PulumiErrorInfo m reason # _ \<Rightarrow> reason | _ \<Rightarrow> ''Unknown'')"
  unfolding setStatusBlockFromGRPCErr_def Let_def
  using assms
  by (auto simp: sessOk_conditions_kept mark_effect split: list.split detail.split)

end

text \<open>C19: When the Pulumi CLI fails an operation, the update controller, reading the stream, marks the update
  complete and failed. Its message is the one made of the engine's diagnostics, with the reason
  Unknown, unless the CLI's error matches known ones: then message and reason are those of one of
  these.
\<close>

lemma agent_failure_reaches_update:
  assumes "update_server U" and "sessOk us" and "set (ax_Known E) = set knownErrors" and "ensureStack E s = (Inr n, u)"
    and "ax_Operate E (av_trace u) n req (requestOptions (ax_UserAgent E) (as_pulumiLogLevel (av_server s)) req) = (events, Inl err)"
    and "operate E req s = (verdict, t)" and "carries recv (delivered (drop (length (av_trace s)) (av_trace t))) verdict"
  shows "\<exists>e ut. Result U recv us = Some (Inl e, ut) \<and> statusNow (ue_L U) SProgressing ut = ConditionFalse
    \<and> statusNow (ue_L U) SComplete ut = ConditionTrue \<and> statusNow (ue_L U) SFailed ut = ConditionTrue
    \<and> (ust_Message (u_Status (uv_obj ut)), c_Reason (deref (ue_L U) SFailed ut))
      \<in> (if knownReports (rpcErrorText err) = {}
          then {(failureMessage (operationName req) (diagnosticsOf (ax_TrimSpace E) events), ''Unknown'')}
          else knownReports (rpcErrorText err))"
proof -
  let ?opts = "requestOptions (ax_UserAgent E) (as_pulumiLogLevel (av_server s)) req"
  let ?msg = "failureMessage (operationName req) (diagnosticsOf (ax_TrimSpace E) events)"
  let ?ds = "case knownError (ax_Known E) (rpcErrorText err) of None \<Rightarrow> [] | Some d \<Rightarrow> [d]"
  from operate_outcome [OF assms(4,5)] assms(6) obtain bs rendered where
    t: "av_trace t = av_trace u @ CliOperate n req ?opts # map (CliSend (eventMessage req)) bs"
    and verdict: "verdict = Some (StatusError rendered UnknownCode ?msg ?ds)"
    by (auto simp: withPulumiErrorInfo_details)
  obtain sel k where sel: "av_trace u = av_trace s @ sel" "delivered sel = []"
    and k: "delivered (map (CliSend (eventMessage req)) bs) = replicate k (eventMessage req)"
    using ensureStack_silent [OF assms(4)] delivered_events by metis
  from assms(7) have "carries recv (replicate k (eventMessage req)) verdict" by (simp add: t sel k)
  from carries_error [OF this [unfolded verdict]] obtain rendered'
    where x: "recvLoop recv 0 = Some (RecvErr (StatusError rendered' UnknownCode ?msg ?ds))" by auto
  then obtain e where run: "Result U recv us
      = Some (Inl e, setStatusBlockFromGRPCErr (StatusError rendered' UnknownCode ?msg ?ds) us)"
    by (auto simp: Result_def Let_def)
  have "(case ?ds of PulumiErrorInfo m reason # _ \<Rightarrow> m | _ \<Rightarrow> ?msg, case ?ds of PulumiErrorInfo m reason # _ \<Rightarrow> reason | _ \<Rightarrow> ''Unknown'')
      \<in> (if knownReports (rpcErrorText err) = {} then {(?msg, ''Unknown'')} else knownReports (rpcErrorText err))"
    using knownError_reports [OF assms(3), of "rpcErrorText err"] by (auto split: option.splits)
  with update_server.Result_status [OF assms(1,2) x run] run update_server.setStatusBlock_details [OF assms(1,2)]
  show ?thesis by simp
qed

text \<open>A stream that carries what was sent, for the witnesses.\<close>

definition streamOf :: "streamMessage list \<Rightarrow> rpcError option \<Rightarrow> nat \<Rightarrow> received" where
  "streamOf ms verdict i = (if i < length ms then RecvMsg (ms ! i)
     else case verdict of None \<Rightarrow> RecvEOF
       | Some (StatusError t c m ds) \<Rightarrow> RecvErr (StatusError t c m ds)
       | Some (PlainError t) \<Rightarrow> RecvErr (StatusError t UnknownCode t []))"

lemma streamOf_carries: "carries (streamOf ms verdict) ms verdict"
  by (auto simp: carries_def streamOf_def split: option.split rpcError.split)

definition exampleSummary :: apiUpdateSummary where
  "exampleSummary = \<lparr>us_Result = ''succeeded'', us_ApiMessage = [], us_ApiStartTime = [], us_ApiEndTime = None\<rparr>"

definition exampleGood :: "JSON apiResult" where
  "exampleGood = \<lparr>ar_Outputs = [], ar_Summary = exampleSummary, ar_Permalink = Inr ''link''\<rparr>"

lemma example_stack: "ensureStack (exampleAEnv outcome) exampleStart = (Inr ''dev'', exampleStart)"
  by (simp add: ensureStack_def exampleAEnv_def exampleStart_def)

lemma example_run: "snd (ax_Operate (exampleAEnv outcome) tr n req opts) = outcome"
  by (simp add: exampleAEnv_def)

lemma hasPrefix_step:
  "hasPrefix s []" "\<not> hasPrefix [] (c # cs)" "hasPrefix (d # ds) (c # cs) \<longleftrightarrow> d = c \<and> hasPrefix ds cs"
  by (simp_all add: hasPrefix_def)

lemma agent_failure_reaches_update_witness:
  "\<exists>recv e ut. Result (exampleUEnv exampleRecv) recv (initialState docLib exampleRun) = Some (Inl e, ut)
      \<and> c_Reason (deref docLib SFailed ut) = ''InvalidAccessToken''"
proof -
  let ?E = "exampleAEnv (Inl (PlainError ''invalid access token''))" and ?r = "CallRefresh exampleRefresh"
  obtain events where op: "ax_Operate ?E (av_trace exampleStart) ''dev'' ?r
      (requestOptions (ax_UserAgent ?E) (as_pulumiLogLevel (av_server exampleStart)) ?r)
      = (events, Inl (PlainError ''invalid access token''))"
    using example_run by (metis prod.collapse)
  have match: "knownReports ''invalid access token'' = {(''Invalid access token used to authenticate with Pulumi Cloud'', ''InvalidAccessToken'')}"
  proof -
    have "containsText ''invalid access token'' ''invalid access token''"
      "\<not> containsText ''invalid access token'' ''Conflict: Another update is currently in progress''"
      by (simp_all add: hasPrefix_step)
    then show ?thesis by (simp add: knownReports_def knownErrors_def)
  qed
  obtain verdict t where run: "operate ?E ?r exampleStart = (verdict, t)" by fastforce
  have known: "set (ax_Known ?E) = set knownErrors" by (simp add: exampleAEnv_def)
  from agent_failure_reaches_update [OF exampleServer.update_server_axioms [of exampleRecv]
      docSlice.sessOk_initial [of exampleRun] known example_stack op run streamOf_carries]
  obtain e ut where "Result (exampleUEnv exampleRecv) (streamOf (delivered (drop (length (av_trace exampleStart)) (av_trace t))) verdict)
      (initialState docLib exampleRun) = Some (Inl e, ut)" "c_Reason (deref docLib SFailed ut) = ''InvalidAccessToken''"
    by (auto simp: match)
  then show ?thesis by blast
qed

end
