(* ===== verification/OutcomePath.thy ===== *)
theory OutcomePath
  imports AgentProperties ReconcileFacts
begin

text \<open>
  The outcome of an operation on its way from the Pulumi CLI to the status of the Stack: the agent's
  stream, the status that the update controller saves last, and what the stack controller takes from
  the Update.
\<close>

section \<open>The last status of an operation\<close>


section \<open>What the stack takes from its update\<close>


section \<open>From the CLI to the stack\<close>


section \<open>An example\<close>






end
