(* ===== verification/WorkspaceFacts.thy ===== *)
theory WorkspaceFacts
  imports WorkspaceController UpdateFacts
begin

text \<open>
  Proofs about the workspace controller (theory WorkspaceController): its pointer to the ready
  condition, what the status writes of a reconcile say, the shape of the trace of each phase, and
  the calls of a complete initialization. Theory WorkspaceProperties draws the conclusions.
\<close>

section \<open>Contracts\<close>

text \<open>
  A status patch is answered with the object, whose conditions are those sent. Everything else of the
  answer is as it then is: the handler goes on with it, also where the specification has been edited.
\<close>

locale workspace_server = condition_slice "we_L E" for E :: "('j, 'i, 'm, 'v) wenv" +
  assumes patch_conditions:
      "we_Patch E tr w p = Inr v \<Longrightarrow> wst_Conditions (w_Status v) = map appliedCondition (wa_Conditions p)"

text \<open>
  What the answers show of the stacks: lists of stacks out of a set, if what was sent had such stacks.
  With one list in the set, nobody edits the stacks while the handler runs.
\<close>

definition stacksAmong :: "('j, 'i, 'm, 'v) wenv \<Rightarrow> WorkspaceStack list set \<Rightarrow> bool" where
  "stacksAmong E S \<longleftrightarrow> (\<forall>tr w p v. we_Patch E tr w p = Inr v \<and> ws_Stacks (w_Spec w) \<in> S \<longrightarrow> ws_Stacks (w_Spec v) \<in> S)"

text \<open>Stacks that an answer to a status patch of the trace showed.\<close>

definition stacksAnswered :: "('j, 'i, 'm, 'v) wenv \<Rightarrow> 'j WAction list \<Rightarrow> WorkspaceStack list \<Rightarrow> bool" where
  "stacksAnswered E tr stacks \<longleftrightarrow> (\<exists>pre w p v post. tr = pre @ WPatchStatus p True # post
     \<and> we_Patch E pre w p = Inr v \<and> stacks = ws_Stacks (w_Spec v))"

lemma stacksAnswered_append: "stacksAnswered E tr stacks \<Longrightarrow> stacksAnswered E (tr @ tr') stacks"
  unfolding stacksAnswered_def by fastforce

section \<open>The ready condition\<close>

definition readyOk :: "'j WState \<Rightarrow> bool" where
  "readyOk s \<longleftrightarrow> (case wv_ready s of
      Own c \<Rightarrow> c_Type c = WorkspaceReady
    | Shared \<Rightarrow> refFind (wcondsOf s) WorkspaceReady \<noteq> None)"

text \<open>The status of a condition in a patch.\<close>

definition patchCond :: "string \<Rightarrow> WorkspaceStatusApply \<Rightarrow> ConditionStatus option" where
  "patchCond ty p = map_option c_Status (refFind (map appliedCondition (wa_Conditions p)) ty)"

lemma workspace_types [simp]: "WorkspaceReady \<noteq> WorkspaceStalled" "WorkspaceStalled \<noteq> WorkspaceReady"
  by (simp_all add: WorkspaceReady_def WorkspaceStalled_def)

lemma wact_view [simp]:
  "wv_trace (wact a s) = wv_trace s @ [a]" "wv_obj (wact a s) = wv_obj s" "wv_ready (wact a s) = wv_ready s"
  "readyCond L (wact a s) = readyCond L s" "readyOk (wact a s) = readyOk s"
  by (simp_all add: wact_def readyCond_def readyOk_def cong: condPtr.case_cong)

lemma wstatus_view [simp]:
  "wv_trace (wstatus f s) = wv_trace s" "wv_ready (wstatus f s) = wv_ready s"
  "w_Meta (wv_obj (wstatus f s)) = w_Meta (wv_obj s)" "w_Spec (wv_obj (wstatus f s)) = w_Spec (wv_obj s)"
  "w_Status (wv_obj (wstatus f s)) = f (w_Status (wv_obj s))"
  by (simp_all add: wstatus_def)

lemma wconds_view [simp]:
  "wv_trace (wconds f s) = wv_trace s" "wv_ready (wconds f s) = wv_ready s"
  "w_Meta (wv_obj (wconds f s)) = w_Meta (wv_obj s)" "w_Spec (wv_obj (wconds f s)) = w_Spec (wv_obj s)"
  "wcondsOf (wconds f s) = f (wcondsOf s)"
  by (simp_all add: wconds_def)

lemma wstatus_conditions_kept:
  assumes "\<And>st. wst_Conditions (f st) = wst_Conditions st"
  shows "readyOk (wstatus f s) = readyOk s" and "readyCond L (wstatus f s) = readyCond L s"
  by (simp_all add: readyOk_def readyCond_def assms cong: condPtr.case_cong)

lemma storeReady_view [simp]:
  "wv_trace (storeReady f s) = wv_trace s" "w_Meta (wv_obj (storeReady f s)) = w_Meta (wv_obj s)"
  "w_Spec (wv_obj (storeReady f s)) = w_Spec (wv_obj s)"
  by (simp_all add: storeReady_def split: condPtr.split)

lemma storeReady_other:
  "\<lbrakk>\<And>c. c_Type (f c) = c_Type c; ty \<noteq> WorkspaceReady\<rbrakk> \<Longrightarrow> refFind (wcondsOf (storeReady f s)) ty = refFind (wcondsOf s) ty"
  by (simp add: storeReady_def refFind_inPlace split: condPtr.split)

lemma setReady_view [simp]:
  "wv_trace (setReady st r m s) = wv_trace s" "w_Meta (wv_obj (setReady st r m s)) = w_Meta (wv_obj s)"
  "w_Spec (wv_obj (setReady st r m s)) = w_Spec (wv_obj s)"
  "refFind (wcondsOf (setReady st r m s)) WorkspaceStalled = refFind (wcondsOf s) WorkspaceStalled"
  by (simp_all add: setReady_def storeReady_other)

lemma clearAddress_view [simp]:
  "wv_trace (clearAddress s) = wv_trace s" "readyOk (clearAddress s) = readyOk s"
  "readyCond L (clearAddress s) = readyCond L s"
  "refFind (wcondsOf (clearAddress s)) ty = refFind (wcondsOf s) ty"
  by (simp_all add: clearAddress_def wstatus_conditions_kept)

section \<open>What an action may be\<close>

text \<open>
  A calm action: an acknowledged call to the agent, a status that is not ready, or anything that
  is no business of the initialization. Configurations set must come from the given stacks.
\<close>

fun calm :: "('j, 'i) codecs \<Rightarrow> WorkspaceStack list \<Rightarrow> 'j WAction \<Rightarrow> bool" where
  "calm J stacks (WPatchStatus p ack) = (patchCond WorkspaceReady p = Some ConditionFalse)"
| "calm J stacks (WMarkInitialized n ack) = False"
| "calm J stacks (WInstall ack) = ack"
| "calm J stacks (WSelectStack n c sp ack) = ack"
| "calm J stacks (WSetAllConfig items ack) =
     (ack \<and> (\<exists>stack\<in>set stacks. marshalItems J (wst_Config stack) = Inr items))"
| "calm J stacks (WAddEnvironments es ack) = ack"
| "calm J stacks _ = True"

text \<open>A call of the initialization that failed.\<close>

fun failedCall :: "'j WAction \<Rightarrow> bool" where
  "failedCall (WInstall ack) = (\<not> ack)"
| "failedCall (WSelectStack n c sp ack) = (\<not> ack)"
| "failedCall (WSetAllConfig items ack) = (\<not> ack)"
| "failedCall (WAddEnvironments es ack) = (\<not> ack)"
| "failedCall _ = False"

fun fromStacks :: "('j, 'i) codecs \<Rightarrow> WorkspaceStack list \<Rightarrow> 'j WAction \<Rightarrow> bool" where
  "fromStacks J stacks (WSetAllConfig items ack) = (\<exists>stack\<in>set stacks. marshalItems J (wst_Config stack) = Inr items)"
| "fromStacks J stacks _ = True"

text \<open>
  How the handler leaves before the pod is marked: with an error or to be called again, or after
  saving that the workspace is not ready; after a failed call it saves that it is stalled.
\<close>

definition unready :: "WorkspaceStatusApply \<Rightarrow> bool" where
  "unready p \<longleftrightarrow> patchCond WorkspaceReady p = Some ConditionFalse"

definition stalledPatch :: "WorkspaceStatusApply \<Rightarrow> bool" where
  "stalledPatch p \<longleftrightarrow> unready p \<and> patchCond WorkspaceStalled p = Some ConditionTrue"

definition savedLast :: "'j WOutcome \<Rightarrow> 'j WAction list \<Rightarrow> bool" where
  "savedLast oc rest \<longleftrightarrow> \<not> wo_Requeue oc \<and> (\<exists>p. rest = [WPatchStatus p (wo_Err oc = None)] \<and> unready p)"

definition stalledLast :: "('j, 'i) codecs \<Rightarrow> WorkspaceStack list \<Rightarrow> 'j WOutcome \<Rightarrow> 'j WAction list \<Rightarrow> bool" where
  "stalledLast J stacks oc rest \<longleftrightarrow> \<not> wo_Requeue oc \<and> wo_After oc = 0
     \<and> (\<exists>a e f as p. rest = [a, WEvent e f as, WPatchStatus p (wo_Err oc = None)]
           \<and> failedCall a \<and> fromStacks J stacks a \<and> stalledPatch p)"

definition comesBack :: "'j WOutcome \<Rightarrow> bool" where
  "comesBack oc \<longleftrightarrow> wo_Err oc \<noteq> None \<or> wo_Requeue oc \<or> 0 < wo_After oc"

definition orderly :: "('j, 'i) codecs \<Rightarrow> WorkspaceStack list \<Rightarrow> 'j WOutcome \<Rightarrow> 'j WAction list \<Rightarrow> bool" where
  "orderly J stacks oc tr \<longleftrightarrow> (\<exists>pre rest. tr = pre @ rest \<and> list_all (calm J stacks) pre
     \<and> (rest = [] \<and> comesBack oc \<or> savedLast oc rest \<or> stalledLast J stacks oc rest))"

definition runs :: "('j, 'i) codecs \<Rightarrow> WorkspaceStack list \<Rightarrow> 'j WState \<Rightarrow> 'j WOutcome + 'j WState \<Rightarrow> bool" where
  "runs J stacks s m \<longleftrightarrow>
     (case m of
        Inl oc \<Rightarrow> (\<exists>tr. wo_Trace oc = wv_trace s @ tr \<and> orderly J stacks oc tr)
      | Inr t \<Rightarrow> (\<exists>tr. wv_trace t = wv_trace s @ tr \<and> list_all (calm J stacks) tr \<and> readyOk t))"

lemma calm_mono: "set xs \<subseteq> set ys \<Longrightarrow> calm J xs a \<Longrightarrow> calm J ys a"
  by (cases a) auto

lemma fromStacks_mono: "set xs \<subseteq> set ys \<Longrightarrow> fromStacks J xs a \<Longrightarrow> fromStacks J ys a"
  by (cases a) auto

lemma stalledLast_mono: "set xs \<subseteq> set ys \<Longrightarrow> stalledLast J xs oc rest \<Longrightarrow> stalledLast J ys oc rest"
  unfolding stalledLast_def using fromStacks_mono by blast

lemma orderly_mono: "set xs \<subseteq> set ys \<Longrightarrow> orderly J xs oc tr \<Longrightarrow> orderly J ys oc tr"
  unfolding orderly_def
  by (elim exE, intro exI, elim conjE, intro conjI, assumption, erule list.pred_mono_strong)
     (auto intro: calm_mono stalledLast_mono)

lemma orderly_member: "orderly J stacks oc tr \<Longrightarrow> a \<in> set tr \<Longrightarrow> calm J stacks a \<or> failedCall a \<and> fromStacks J stacks a"
  by (auto simp: orderly_def savedLast_def stalledLast_def stalledPatch_def unready_def list_all_iff)

lemma orderly_append:
  assumes "list_all (calm J stacks) pre" and "orderly J stacks oc tr"
  shows "orderly J stacks oc (pre @ tr)"
proof -
  from assms(2) obtain a b where "tr = a @ b" "list_all (calm J stacks) a"
    "b = [] \<and> comesBack oc \<or> savedLast oc b \<or> stalledLast J stacks oc b" by (auto simp: orderly_def)
  with assms(1) show ?thesis unfolding orderly_def by (intro exI [of _ "pre @ a"] exI [of _ b]) simp
qed

lemma orderly_comesBack: "comesBack oc \<Longrightarrow> list_all (calm J stacks) tr \<Longrightarrow> orderly J stacks oc tr"
  unfolding orderly_def by (intro exI [of _ tr] exI [of _ "[]"]) simp

lemma orderly_saved: "savedLast oc rest \<Longrightarrow> orderly J stacks oc rest"
  unfolding orderly_def by (intro exI [of _ "[]"] exI [of _ rest]) simp

lemma orderly_stalled: "stalledLast J stacks oc rest \<Longrightarrow> orderly J stacks oc rest"
  unfolding orderly_def by (intro exI [of _ "[]"] exI [of _ rest]) simp

lemma runs_bind:
  assumes "runs J stacks s m" and "\<And>t. m = Inr t \<Longrightarrow> readyOk t \<Longrightarrow> runs J stacks t (f t)"
  shows "runs J stacks s (bindE m f)"
proof (cases m)
  case (Inl oc)
  with assms(1) show ?thesis by (simp add: runs_def)
next
  case (Inr t)
  with assms(1) obtain tr where tr: "wv_trace t = wv_trace s @ tr" "list_all (calm J stacks) tr" "readyOk t"
    by (auto simp: runs_def)
  from assms(2) [OF Inr tr(3)] tr show ?thesis
    by (auto simp: Inr runs_def orderly_append split: sum.splits)
qed

lemma runs_stay: "readyOk s \<Longrightarrow> runs J stacks s (Inr s)"
  by (simp add: runs_def)

text \<open>A step that only acts, and exits after it.\<close>

lemma runs_from:
  assumes "runs J stacks t m" and "wv_trace t = wv_trace s @ tr" and "list_all (calm J stacks) tr"
  shows "runs J stacks s m"
  using assms by (auto simp: runs_def orderly_append split: sum.splits)

lemma runs_leave:
  assumes "wv_trace t = wv_trace s @ tr" and "list_all (calm J stacks) tr" and "err \<noteq> None \<or> 0 < after"
  shows "runs J stacks s (Inl (wleave after err t))"
  using assms by (auto simp: runs_def wleave_def comesBack_def intro!: orderly_comesBack)

lemma runs_mono: "set xs \<subseteq> set ys \<Longrightarrow> runs J xs s m \<Longrightarrow> runs J ys s m"
  by (auto simp: runs_def list_all_iff split: sum.splits intro: orderly_mono calm_mono)

lemma runs_bind_pair:
  assumes "runs J stacks s (mapOk snd m)"
    and "\<And>x t. m = Inr (x, t) \<Longrightarrow> readyOk t \<Longrightarrow> runs J stacks t (f x t)"
  shows "runs J stacks s (bindE m (\<lambda>(x, t). f x t))"
proof -
  have "runs J stacks s (bindE (mapOk snd m) (\<lambda>t. bindE m (\<lambda>(x, _). f x t)))"
  proof (rule runs_bind [OF assms(1)])
    fix t assume "mapOk snd m = Inr t" and t: "readyOk t"
    then obtain x where "m = Inr (x, t)" by (cases m) auto
    with assms(2) t show "runs J stacks t (bindE m (\<lambda>(x, _). f x t))" by simp
  qed
  then show ?thesis by (cases m) (auto split: prod.splits)
qed

lemma runs_bind_value:
  assumes "\<And>oc. m = Inl oc \<Longrightarrow> runs J stacks s (Inl oc)" and "\<And>x. m = Inr x \<Longrightarrow> runs J stacks s (f x)"
  shows "runs J stacks s (bindE m f)"
  using assms by (cases m) simp_all

section \<open>The status writes\<close>

lemma setReady_commutes:
  "refFind (wcondsOf (setStalled L r m s)) ty = refFind (SetStatusCondition L (wcondsOf s)
     ((mkCondition WorkspaceStalled ConditionTrue r m)\<lparr>c_ObservedGeneration := om_Generation (w_Meta (wv_obj s))\<rparr>)) ty"
  "wv_trace (setStalled L r m s) = wv_trace s"
  "wv_ready (setStalled L r m s) = wv_ready s"
  by (simp_all add: setStalled_def)

context workspace_server
begin

lemma readyCond_type: "readyOk s \<Longrightarrow> c_Type (readyCond (we_L E) s) = WorkspaceReady"
  by (auto simp: readyOk_def readyCond_def find_first refFind_type split: condPtr.splits option.splits)

lemma store_ready:
  assumes "readyOk s" and "\<And>c. c_Type (f c) = c_Type c"
  shows "readyOk (storeReady f s)" and "readyCond (we_L E) (storeReady f s) = f (readyCond (we_L E) s)"
  using assms by (auto simp: readyOk_def readyCond_def storeReady_def find_first refFind_inPlace split: condPtr.splits)

lemma setReady_effect:
  assumes "readyOk s"
  shows "readyOk (setReady st r m s)" and "c_Status (readyCond (we_L E) (setReady st r m s)) = st"
  using assms by (simp_all add: setReady_def store_ready)

text \<open>Writing a condition of a type into the conditions of the object.\<close>

lemma find_written:
  "map_option c_Status (refFind (SetStatusCondition (we_L E) cs c) ty)
    = (if ty = c_Type c then Some (c_Status c) else map_option c_Status (refFind cs ty))"
proof (cases "ty = c_Type c")
  case True
  obtain t where "FindStatusCondition (we_L E) (SetStatusCondition (we_L E) cs c) (c_Type c) = Some (c\<lparr>c_LastTransitionTime := t\<rparr>)"
    using find_set_same by blast
  with True show ?thesis by (simp add: find_first)
next
  case False
  then show ?thesis using find_set_other [of ty c cs] by (simp add: find_first)
qed

lemma readyOk_wconds:
  assumes "readyOk s" and "\<And>cs. refFind cs WorkspaceReady \<noteq> None \<Longrightarrow> refFind (f cs) WorkspaceReady \<noteq> None"
  shows "readyOk (wconds f s)"
  using assms(1) assms(2) [of "wcondsOf s"] by (auto simp: readyOk_def split: condPtr.splits)

lemma find_kept: "refFind cs ty \<noteq> None \<Longrightarrow> refFind (SetStatusCondition (we_L E) cs c) ty \<noteq> None"
  using find_written [of cs c ty] by (auto split: if_splits)

lemma setStalled_effect:
  assumes "readyOk s"
  shows "readyOk (setStalled (we_L E) r m s)"
    and "map_option c_Status (refFind (wcondsOf (setStalled (we_L E) r m s)) WorkspaceStalled) = Some ConditionTrue"
proof -
  show "readyOk (setStalled (we_L E) r m s)"
    unfolding setStalled_def by (rule readyOk_wconds [OF assms find_kept])
  show "map_option c_Status (refFind (wcondsOf (setStalled (we_L E) r m s)) WorkspaceStalled) = Some ConditionTrue"
    by (simp only: setReady_commutes find_written) simp
qed

lemma removeStalled_effect:
  assumes "readyOk s"
  shows "readyOk (removeStalled (we_L E) s)" and "wv_trace (removeStalled (we_L E) s) = wv_trace s"
  using readyCond_type [OF assms] by (simp_all add: removeStalled_def readyOk_def)

lemma syncReady_effect:
  assumes ok: "readyOk s" and t0: "t = syncReady (we_L E) s"
  shows "readyOk t" and "wv_trace t = wv_trace s"
    and "map_option c_Status (refFind (wcondsOf t) WorkspaceReady) = Some (c_Status (readyCond (we_L E) s))"
    and "map_option c_Status (refFind (wcondsOf t) WorkspaceStalled) = map_option c_Status (refFind (wcondsOf s) WorkspaceStalled)"
proof -
  define s1 where "s1 = wstatus (\<lambda>st. st\<lparr>wst_ObservedGeneration := om_Generation (w_Meta (wv_obj s))\<rparr>) s"
  define s2 where "s2 = storeReady (\<lambda>c. c\<lparr>c_ObservedGeneration := om_Generation (w_Meta (wv_obj s))\<rparr>) s1"
  have t: "t = wconds (\<lambda>cs. SetStatusCondition (we_L E) cs (readyCond (we_L E) s2)) s2"
    by (simp add: t0 syncReady_def Let_def s1_def s2_def)
  have ok1: "readyOk s1" and r1: "readyCond (we_L E) s1 = readyCond (we_L E) s"
    using ok by (simp_all add: s1_def wstatus_conditions_kept)
  have ok2: "readyOk s2" and r2: "c_Status (readyCond (we_L E) s2) = c_Status (readyCond (we_L E) s)"
    unfolding s2_def using ok1 by (simp_all add: store_ready r1)
  show "readyOk t" unfolding t by (rule readyOk_wconds [OF ok2 find_kept])
  show "wv_trace t = wv_trace s" by (simp add: t s2_def s1_def)
  show "map_option c_Status (refFind (wcondsOf t) WorkspaceReady) = Some (c_Status (readyCond (we_L E) s))"
    by (simp add: t find_written readyCond_type [OF ok2] r2)
  have "refFind (wcondsOf s2) WorkspaceStalled = refFind (wcondsOf s) WorkspaceStalled"
    by (simp add: s2_def storeReady_other s1_def)
  then show "map_option c_Status (refFind (wcondsOf t) WorkspaceStalled) = map_option c_Status (refFind (wcondsOf s) WorkspaceStalled)"
    by (simp add: t find_written readyCond_type [OF ok2])
qed

lemma patchCond_apply [simp]: "patchCond ty (workspaceStatusApply w) = map_option c_Status (refFind (wst_Conditions (w_Status w)) ty)"
  by (simp add: patchCond_def workspaceStatusApply_def o_def)

lemma saveWorkspace_effect:
  assumes ok: "readyOk s" and run: "saveWorkspace E s = (err, t)"
  obtains p where "readyOk t" and "wv_trace t = wv_trace s @ [WPatchStatus p (err = None)]"
    and "patchCond WorkspaceReady p = Some (c_Status (readyCond (we_L E) s))"
    and "patchCond WorkspaceStalled p = map_option c_Status (refFind (wcondsOf s) WorkspaceStalled)"
proof -
  define u where "u = syncReady (we_L E) s"
  note e = syncReady_effect [OF ok u_def]
  define p where "p = workspaceStatusApply (wv_obj u)"
  have pr: "patchCond WorkspaceReady p = Some (c_Status (readyCond (we_L E) s))"
    and ps: "patchCond WorkspaceStalled p = map_option c_Status (refFind (wcondsOf s) WorkspaceStalled)"
    using e(3,4) by (simp_all add: p_def)
  show ?thesis
  proof (cases "we_Patch E (wv_trace u) (wv_obj u) p")
    case (Inl x)
    then have "err = Some x" "t = wact (WPatchStatus p False) u"
      using run by (simp_all add: saveWorkspace_def Let_def flip: u_def p_def)
    then show ?thesis using that [of p] e pr ps by simp
  next
    case (Inr v)
    then have t: "err = None" "t = wact (WPatchStatus p True) (u\<lparr>wv_obj := v\<rparr>)"
      using run by (simp_all add: saveWorkspace_def Let_def flip: u_def p_def)
    have "wst_Conditions (w_Status v) = wcondsOf u"
      using patch_conditions [OF Inr] by (simp add: p_def workspaceStatusApply_def o_def)
    then have "readyOk t" using e(1) by (simp add: t readyOk_def cong: condPtr.case_cong)
    then show ?thesis using that [of p] e(2) pr ps by (simp add: t)
  qed
qed

lemma runs_leaveSaving:
  assumes ok: "readyOk s" and "c_Status (readyCond (we_L E) s) = ConditionFalse"
  shows "runs J stacks s (Inl (leaveSaving E after s))"
proof -
  obtain err t where run: "saveWorkspace E s = (err, t)" by (cases "saveWorkspace E s")
  obtain p where "wv_trace t = wv_trace s @ [WPatchStatus p (err = None)]" "unready p"
    using saveWorkspace_effect [OF ok run] assms(2) unready_def by metis
  then show ?thesis
    by (simp add: runs_def leaveSaving_def run) (auto simp: wleave_def savedLast_def intro: orderly_saved)
qed

lemma runs_saveOrLeave:
  assumes ok: "readyOk s" and "c_Status (readyCond (we_L E) s) = ConditionFalse"
  shows "runs J stacks s (saveOrLeave E s)"
proof -
  obtain err t where run: "saveWorkspace E s = (err, t)" by (cases "saveWorkspace E s")
  obtain p where t: "readyOk t" "wv_trace t = wv_trace s @ [WPatchStatus p (err = None)]"
      "patchCond WorkspaceReady p = Some ConditionFalse"
    using saveWorkspace_effect [OF ok run] assms(2) by metis
  show ?thesis
  proof (cases err)
    case None
    with t run show ?thesis by (simp add: saveOrLeave_def runs_def)
  next
    case (Some e)
    have "runs J stacks s (Inl (wleave 0 err t))" by (rule runs_leave [OF t(2)]) (simp_all add: t Some)
    with Some run show ?thesis by (simp add: saveOrLeave_def)
  qed
qed

end

section \<open>The phases\<close>

text \<open>The calls to the agent that prepare a pod.\<close>

fun isAgentCall :: "'j WAction \<Rightarrow> bool" where
  "isAgentCall (WPulumiVersion ack) = True"
| "isAgentCall (WInstall ack) = True"
| "isAgentCall (WSelectStack n c sp ack) = True"
| "isAgentCall (WSetAllConfig items ack) = True"
| "isAgentCall (WAddEnvironments es ack) = True"
| "isAgentCall _ = False"

definition agentCalls :: "'j WAction list \<Rightarrow> 'j WAction list" where
  "agentCalls tr = filter isAgentCall tr"

lemma agentCalls_simps [simp]:
  "agentCalls [] = []" "agentCalls (a # tr) = (if isAgentCall a then a # agentCalls tr else agentCalls tr)"
  "agentCalls (tr @ tr') = agentCalls tr @ agentCalls tr'"
  by (simp_all add: agentCalls_def)

text \<open>What holds when the agent was reached.\<close>

definition revisionOf :: "Pod \<Rightarrow> string" where
  "revisionOf pod = (case map_of (pod_Labels pod) ''controller-revision-hash'' of Some r \<Rightarrow> r | None \<Rightarrow> [])"

definition reached :: "('j, 'i, 'm, 'v) wenv \<Rightarrow> 'j WAction list \<Rightarrow> Pod \<Rightarrow> bool" where
  "reached e tr pod \<longleftrightarrow> (\<exists>pre1 sts ss pre2 n ns. WApplyStatefulSet sts True \<in> set tr
     \<and> we_ApplyStatefulSet e pre1 sts = Inr ss \<and> isStatefulSetReady ss
     \<and> we_GetPod e pre2 n ns = Inr pod \<and> revisionOf pod = sss_CurrentRevision (sts_Status ss))"

context workspace_server
begin

lemma runs_stall:
  assumes "readyOk s"
  shows "runs J stacks s (Inl (stall E r m m' s))"
proof -
  have "runs J stacks (setReady ConditionFalse r m (setStalled (we_L E) r m' s)) (Inl (stall E r m m' s))"
    unfolding stall_def by (rule runs_leaveSaving) (simp_all add: setReady_effect setStalled_effect assms)
  then show ?thesis by (rule runs_from [where tr = "[]"]) (simp_all add: setReady_commutes)
qed

lemma runs_stall_failed:
  assumes ok: "readyOk s" and "failedCall a" and "fromStacks J stacks a"
  shows "runs J stacks s (Inl (stall E r m m' (wact (WEvent e f as) (wact a s))))"
proof -
  let ?u = "setStalled (we_L E) r m' (wact (WEvent e f as) (wact a s))"
  let ?t = "setReady ConditionFalse r m ?u"
  have okw: "readyOk (wact (WEvent e f as) (wact a s))" using ok by simp
  have okt: "readyOk ?t" by (rule setReady_effect(1) [OF setStalled_effect(1) [OF okw]])
  obtain err t where run: "saveWorkspace E ?t = (err, t)" by (cases "saveWorkspace E ?t")
  obtain p where p: "wv_trace t = wv_trace ?t @ [WPatchStatus p (err = None)]"
      "patchCond WorkspaceReady p = Some (c_Status (readyCond (we_L E) ?t))"
      "patchCond WorkspaceStalled p = map_option c_Status (refFind (wcondsOf ?t) WorkspaceStalled)"
    using saveWorkspace_effect [OF okt run] by metis
  have "stalledPatch p"
    using p(2,3) setReady_effect(2) [OF setStalled_effect(1) [OF okw]] setStalled_effect(2) [OF okw]
    by (simp add: stalledPatch_def unready_def)
  moreover have tr: "wv_trace t = wv_trace s @ [a, WEvent e f as, WPatchStatus p (err = None)]"
    by (simp add: p(1) setReady_commutes)
  ultimately have "stalledLast J stacks (wleave 0 err t) [a, WEvent e f as, WPatchStatus p (err = None)]"
    using assms(2,3) unfolding stalledLast_def wleave_def by auto
  then show ?thesis
    using tr by (auto simp: runs_def stall_def leaveSaving_def run wleave_def intro: orderly_stalled)
qed

lemma runs_service: "readyOk s \<Longrightarrow> runs J stacks s (servicePhase E s)"
  unfolding servicePhase_def Let_def
  by (auto intro: runs_leave [where tr = "[]"] runs_leave [where tr = "[WApplyService svc False]" for svc]
        simp: runs_def [of _ _ _ "Inr _"] split: sum.split option.split)

lemma runs_migrate: "runs J stacks s (Inl (migrate E e ss s))"
  unfolding migrate_def
  by (auto intro: runs_leave [where tr = "[]"] runs_leave [where tr = "[WDeleteStatefulSet False]"]
        runs_leave [where tr = "[WDeleteStatefulSet True, WEvent a b c]" for a b c]
        simp: Second_def split: option.split)

lemma runs_statefulSet: "readyOk s \<Longrightarrow> runs J stacks s (mapOk snd (statefulSetPhase E source s))"
  unfolding statefulSetPhase_def Let_def
  by (auto intro: runs_leave [where tr = "[]"] runs_from [where tr = "[WApplyStatefulSet ss False]" for ss]
        runs_migrate simp: runs_def [of _ _ _ "Inr _"] split: sum.split)

lemma runs_rollout:
  assumes "readyOk s"
  shows "runs J stacks s (rolloutPhase E ss s)"
proof -
  have "runs J stacks s (Inl (leaveSaving E after (clearAddress (setReady ConditionFalse r m s))))" for after r m
    by (rule runs_from [where tr = "[]"], rule runs_leaveSaving)
       (simp_all add: setReady_effect assms)
  then show ?thesis using assms by (simp add: rolloutPhase_def runs_stay)
qed

lemma runs_pod: "podPhase E ss s = Inl oc \<Longrightarrow> runs J stacks s (Inl oc)"
  unfolding podPhase_def Let_def
  by (auto intro: runs_leave [where tr = "[]"] split: sum.splits if_splits)
     (simp_all add: runs_def orderly_comesBack comesBack_def)

lemma runs_connect:
  assumes "readyOk s"
  shows "runs J stacks s (connectWorkspace E s)"
proof -
  have "runs J stacks s (Inl (leaveSaving E after (setReady ConditionFalse r m (wact (WEvent e f as) s))))" for after r m e f as
    by (rule runs_from [where tr = "[WEvent e f as]"], rule runs_leaveSaving) (simp_all add: setReady_effect assms)
  moreover have "runs J stacks s (Inr (wstatus (\<lambda>st. st\<lparr>wst_Address := x\<rparr>) s))" for x
    using assms by (simp add: runs_def wstatus_conditions_kept)
  ultimately show ?thesis by (simp add: connectWorkspace_def split: sum.split)
qed

lemma runs_reachAgent:
  assumes "readyOk s"
  shows "runs J stacks s (mapOk snd (reachAgent E s))"
  unfolding reachAgent_def Let_def mapOk_bindE
proof (rule runs_bind [OF runs_service [OF assms]])
  fix t :: "'j WState" assume t: "readyOk t"
  show "runs J stacks t (bindE (statefulSetPhase E (newSourceSpec (wv_obj s)) t)
      (\<lambda>x. mapOk snd (case x of (ss, s) \<Rightarrow> bindE (rolloutPhase E ss s) (\<lambda>s. bindE (podPhase E ss s)
         (\<lambda>pod. bindE (connectWorkspace E s) (\<lambda>s. Inr (pod, s)))))))"
    unfolding prod.case_distrib [of "mapOk snd"] mapOk_bindE mapOk_simps snd_conv
    by (rule runs_bind_pair [OF runs_statefulSet [OF t]], rule runs_bind [OF runs_rollout], assumption,
        rule runs_bind_value, erule runs_pod, rule runs_bind [OF runs_connect], assumption, erule runs_stay)
qed

lemma reachAgent_Inr:
  assumes "readyOk s" and "reachAgent E s = Inr (pod, t)"
  shows "readyOk t" and "w_Spec (wv_obj t) = w_Spec (wv_obj s)" and "reached E (wv_trace t) pod"
    and "\<exists>tr. wv_trace t = wv_trace s @ tr \<and> list_all (calm J []) tr \<and> agentCalls tr = []"
proof -
  from runs_reachAgent [OF assms(1), of J "[]"] assms(2)
  obtain tr where tr: "wv_trace t = wv_trace s @ tr" "list_all (calm J []) tr" "readyOk t"
    by (auto simp: runs_def)
  then show "readyOk t" by simp
  show "w_Spec (wv_obj t) = w_Spec (wv_obj s)"
    using assms(2)
    by (auto simp: reachAgent_def bindE_Inr_iff rolloutPhase_def Let_def statefulSetPhase_def servicePhase_def
          connectWorkspace_def split: if_splits sum.splits option.splits)
  from assms(2) show "reached E (wv_trace t) pod"
    by (auto simp: reachAgent_def bindE_Inr_iff rolloutPhase_def podPhase_def Let_def statefulSetPhase_def
          connectWorkspace_def reached_def isStatefulSetReady_def revisionOf_def
          split: if_splits sum.splits option.splits) (metis | blast)+
  have "agentCalls (wv_trace t) = agentCalls (wv_trace s)"
    using assms(2)
    by (auto simp: reachAgent_def bindE_Inr_iff rolloutPhase_def Let_def statefulSetPhase_def servicePhase_def
          connectWorkspace_def split: if_splits sum.splits option.splits)
  with tr show "\<exists>tr. wv_trace t = wv_trace s @ tr \<and> list_all (calm J []) tr \<and> agentCalls tr = []"
    by auto
qed

end

section \<open>A complete initialization\<close>

text \<open>The calls a stack takes, and those of a whole workspace.\<close>

definition stackCalls :: "('j, 'i) codecs \<Rightarrow> WorkspaceStack \<Rightarrow> 'j WAction list" where
  "stackCalls J stack =
     WSelectStack (wst_Name stack) (wst_Create stack) (wst_SecretsProvider stack) True
     # (if wst_Config stack = [] then []
        else case marshalItems J (wst_Config stack) of Inr items \<Rightarrow> [WSetAllConfig items True] | Inl _ \<Rightarrow> [])
     @ (if wst_Environment stack = [] then [] else [WAddEnvironments (wst_Environment stack) True])"

definition prepareCalls :: "('j, 'i) codecs \<Rightarrow> Workspace \<Rightarrow> WorkspaceStack list \<Rightarrow> 'j WAction list" where
  "prepareCalls J w stacks =
     [WPulumiVersion True] @ (if ws_ProjectInfo (w_Spec w) = None then [WInstall True] else [])
     @ concat (map (stackCalls J) stacks)"

definition initCalls :: "('j, 'i) codecs \<Rightarrow> Workspace \<Rightarrow> 'j WAction list" where
  "initCalls J w = prepareCalls J w (ws_Stacks (w_Spec w))"

lemma reached_append: "reached e tr pod \<Longrightarrow> reached e (tr @ tr') pod"
  unfolding reached_def set_append Un_iff by blast

text \<open>The installed CLI takes structured configuration.\<close>

definition jsonCapable :: "('j, 'i, 'm, 'v) wenv \<Rightarrow> bool" where
  "jsonCapable e \<longleftrightarrow> (\<exists>tr v version. we_PulumiVersion e tr = Inr v \<and> we_ParseTolerant e v = Inr version
     \<and> \<not> we_LT e version (we_MustParse e minJsonVersion))"

lemma marshalItems_all:
  "marshalItems J cfg = Inr items \<Longrightarrow> list_all2 (\<lambda>item pc. marshalConfigItem J item = Inr pc) cfg items"
proof -
  have "foldE (\<lambda>item config. bindE (marshalConfigItem J item) (\<lambda>c. Inr (config @ [c]))) cfg acc = Inr items
      \<Longrightarrow> \<exists>new. items = acc @ new \<and> list_all2 (\<lambda>item pc. marshalConfigItem J item = Inr pc) cfg new" for acc
  proof (induction cfg arbitrary: acc)
    case (Cons item cfg)
    then obtain c where c: "marshalConfigItem J item = Inr c"
      and "foldE (\<lambda>item config. bindE (marshalConfigItem J item) (\<lambda>c. Inr (config @ [c]))) cfg (acc @ [c]) = Inr items"
      by (auto simp: bindE_Inr_iff)
    then obtain new where "items = (acc @ [c]) @ new" "list_all2 (\<lambda>item pc. marshalConfigItem J item = Inr pc) cfg new"
      using Cons.IH by blast
    with c show ?case by (intro exI [of _ "c # new"]) simp
  qed simp
  then show "marshalItems J cfg = Inr items \<Longrightarrow> list_all2 (\<lambda>item pc. marshalConfigItem J item = Inr pc) cfg items"
    unfolding marshalItems_def by fastforce
qed

lemma mapErr_bindE: "mapErr h (bindE m f) = bindE (mapErr h m) (\<lambda>x. mapErr h (f x))"
  by (cases m) simp_all

lemma runs_foldE:
  assumes "readyOk s" and "\<And>a t. a \<in> set as \<Longrightarrow> readyOk t \<Longrightarrow> runs J stacks t (f a t)"
  shows "runs J stacks s (foldE f as s)"
  using assms
proof (induction as arbitrary: s)
  case Nil
  then show ?case by (simp add: runs_stay)
next
  case (Cons a as)
  show ?case unfolding foldE.simps
    by (rule runs_bind [OF Cons.prems(2)]) (auto intro: Cons.IH simp: Cons.prems)
qed

context workspace_server
begin

lemma saveOrLeave_Inr:
  assumes "saveOrLeave E s = Inr t"
  shows "agentCalls (wv_trace t) = agentCalls (wv_trace s)"
    and "stacksAnswered E (wv_trace t) (ws_Stacks (w_Spec (wv_obj t)))"
    and "stacksAmong E S \<Longrightarrow> ws_Stacks (w_Spec (wv_obj s)) \<in> S \<Longrightarrow> ws_Stacks (w_Spec (wv_obj t)) \<in> S"
proof -
  let ?u = "syncReady (we_L E) s"
  have sync: "wv_trace ?u = wv_trace s" "w_Spec (wv_obj ?u) = w_Spec (wv_obj s)"
    by (simp_all add: syncReady_def Let_def)
  obtain p v where v: "we_Patch E (wv_trace s) (wv_obj ?u) p = Inr v" "wv_trace t = wv_trace s @ [WPatchStatus p True]" "wv_obj t = v"
    using assms sync by (auto simp: saveOrLeave_def saveWorkspace_def Let_def split: sum.splits)
  then show "agentCalls (wv_trace t) = agentCalls (wv_trace s)" by simp
  show "stacksAnswered E (wv_trace t) (ws_Stacks (w_Spec (wv_obj t)))"
    unfolding stacksAnswered_def using v by blast
  show "stacksAmong E S \<Longrightarrow> ws_Stacks (w_Spec (wv_obj s)) \<in> S \<Longrightarrow> ws_Stacks (w_Spec (wv_obj t)) \<in> S"
    using v sync unfolding stacksAmong_def by metis
qed

lemma versionFailed_form:
  obtains reason msg where "versionFailed E err s =
    (case saveWorkspace E (setReady ConditionFalse reason msg (wact (WEvent ConnectionFailureEvent (rpcErrorText err) []) s)) of
      (Some e, s) \<Rightarrow> wleave 0 (Some e) s | (None, s) \<Rightarrow> wleave 0 (Some (Errorf (rpcErrorText err))) s)"
proof -
  obtain code msg0 details where cs: "convertStatus err = (code, msg0, details)" by (cases "convertStatus err")
  obtain reason msg where "(case details of PulumiErrorInfo m r # _ \<Rightarrow> (r, m) | _ \<Rightarrow> (we_CodeString E code, msg0)) = (reason, msg)"
    by (cases "case details of PulumiErrorInfo m r # _ \<Rightarrow> (r, m) | _ \<Rightarrow> (we_CodeString E code, msg0)")
  then show thesis by (intro that [of reason msg]) (simp add: versionFailed_def Let_def cs)
qed

lemma runs_version:
  assumes "readyOk s"
  shows "runs J stacks s (versionPhase E s)"
proof -
  have "runs J stacks s (Inl (versionFailed E err (wact (WPulumiVersion False) s)))" for err
  proof -
    obtain reason msg where vf: "versionFailed E err (wact (WPulumiVersion False) s) =
        (case saveWorkspace E (setReady ConditionFalse reason msg
             (wact (WEvent ConnectionFailureEvent (rpcErrorText err) []) (wact (WPulumiVersion False) s))) of
          (Some e, s) \<Rightarrow> wleave 0 (Some e) s | (None, s) \<Rightarrow> wleave 0 (Some (Errorf (rpcErrorText err))) s)"
      by (rule versionFailed_form)
    let ?t = "setReady ConditionFalse reason msg
             (wact (WEvent ConnectionFailureEvent (rpcErrorText err) []) (wact (WPulumiVersion False) s))"
    have ok: "readyOk ?t" and st: "c_Status (readyCond (we_L E) ?t) = ConditionFalse"
      using assms by (simp_all add: setReady_effect)
    obtain e u where run: "saveWorkspace E ?t = (e, u)" by (cases "saveWorkspace E ?t")
    obtain p where p: "wv_trace u = wv_trace ?t @ [WPatchStatus p (e = None)]" "patchCond WorkspaceReady p = Some ConditionFalse"
      using saveWorkspace_effect [OF ok run] st by metis
    have "runs J stacks s (Inl (wleave 0 (Some x) u))" for x
      by (rule runs_leave [where tr = "[WPulumiVersion False, WEvent ConnectionFailureEvent (rpcErrorText err) [], WPatchStatus p (e = None)]"])
         (simp_all add: p)
    then show ?thesis unfolding vf run by (simp split: option.split)
  qed
  moreover have "runs J stacks s (Inr (wstatus (\<lambda>st. st\<lparr>wst_PulumiVersion := v\<rparr>) (wact (WPulumiVersion True) s)))" for v
    using assms by (simp add: runs_def wstatus_conditions_kept)
  ultimately show ?thesis by (simp add: versionPhase_def split: sum.split)
qed

lemma runs_jsonGate:
  assumes "readyOk s"
  shows "runs J stacks s (jsonGate E s)"
proof -
  have "runs J stacks s (Inl (stall E r m m' (wact (WEvent e f as) s)))" for r m m' e f as
    by (rule runs_from [where tr = "[WEvent e f as]"], rule runs_stall) (simp_all add: assms)
  then show ?thesis using assms by (simp add: jsonGate_def Let_def runs_stay runs_stall split: sum.split)
qed

lemma runs_install:
  assumes ok: "readyOk s"
  shows "runs J stacks s (installPhase E s)"
proof -
  let ?s = "setReady ConditionFalse ''Installing'' ''Installing packages and plugins required by the program'' s"
  have "runs J stacks s (saveOrLeave E ?s)"
    by (rule runs_from [where tr = "[]"], rule runs_saveOrLeave) (simp_all add: setReady_effect ok)
  then show ?thesis
    unfolding installPhase_def using ok
    by (auto intro!: runs_stay runs_bind runs_stall_failed split: option.split) (simp add: runs_def)
qed

lemma runs_checkAndInstall:
  assumes "readyOk s"
  shows "runs J stacks s (checkAndInstall E s)"
  unfolding checkAndInstall_def
  by (rule runs_from [where tr = "[]"], rule runs_bind, rule runs_version, rule removeStalled_effect(1) [OF assms],
      rule runs_bind, rule runs_jsonGate, assumption, erule runs_install)
     (simp_all add: removeStalled_effect assms)

lemma checkAndInstall_Inr:
  assumes "checkAndInstall E s = Inr t"
  shows "agentCalls (wv_trace t) = agentCalls (wv_trace s) @ WPulumiVersion True
           # (if ws_ProjectInfo (w_Spec (wv_obj s)) = None then [WInstall True] else [])"
    and "hasJsonConfigInWorkspace (ws_Stacks (w_Spec (wv_obj s))) \<Longrightarrow> jsonCapable E"
    and "stacksAmong E S \<Longrightarrow> ws_Stacks (w_Spec (wv_obj s)) \<in> S \<Longrightarrow> ws_Stacks (w_Spec (wv_obj t)) \<in> S"
proof -
  let ?u = "removeStalled (we_L E) s"
  obtain v where v: "we_PulumiVersion E (wv_trace ?u) = Inr v"
    and g: "jsonGate E (wstatus (\<lambda>st. st\<lparr>wst_PulumiVersion := v\<rparr>) (wact (WPulumiVersion True) ?u))
        = Inr (wstatus (\<lambda>st. st\<lparr>wst_PulumiVersion := v\<rparr>) (wact (WPulumiVersion True) ?u))"
    and i: "installPhase E (wstatus (\<lambda>st. st\<lparr>wst_PulumiVersion := v\<rparr>) (wact (WPulumiVersion True) ?u)) = Inr t"
    using assms
    by (auto simp: checkAndInstall_def bindE_Inr_iff versionPhase_def jsonGate_def Let_def split: sum.splits if_splits)
  have u: "wv_trace ?u = wv_trace s" "w_Spec (wv_obj ?u) = w_Spec (wv_obj s)"
    by (simp_all add: removeStalled_def)
  show "agentCalls (wv_trace t) = agentCalls (wv_trace s) @ WPulumiVersion True
           # (if ws_ProjectInfo (w_Spec (wv_obj s)) = None then [WInstall True] else [])"
    using i by (auto simp: installPhase_def bindE_Inr_iff u saveOrLeave_Inr(1) split: if_splits option.splits)
  show "hasJsonConfigInWorkspace (ws_Stacks (w_Spec (wv_obj s))) \<Longrightarrow> jsonCapable E"
    using g v by (auto simp: jsonGate_def u Let_def jsonCapable_def split: sum.splits if_splits)
  show "stacksAmong E S \<Longrightarrow> ws_Stacks (w_Spec (wv_obj s)) \<in> S \<Longrightarrow> ws_Stacks (w_Spec (wv_obj t)) \<in> S"
    using i by (auto simp: installPhase_def bindE_Inr_iff u dest: saveOrLeave_Inr(3) split: if_splits option.splits)
qed

lemma runs_initStack:
  assumes ok: "readyOk s" and mem: "stack \<in> set stacks"
  shows "runs (we_J E) stacks s (initStack E stack s)"
proof -
  have select: "runs (we_J E) stacks t (mapErr (\<lambda>(msg, s). stall E ''InitializationFailed'' msg msg
      (wact (WEvent e f (as msg)) s)) (selectStep E stack t))" if "readyOk t" for t e f as
    using that unfolding selectStep_def Let_def
    by (auto intro: runs_stall_failed simp: runs_def [of _ _ _ "Inr _"] split: option.split)
  have config: "runs (we_J E) stacks t (mapErr (\<lambda>(msg, s). stall E ''InitializationFailed'' msg msg
      (wact (WEvent e f (as msg)) s)) (configStep E stack t))" if t: "readyOk t" for t e f as
  proof -
    have "runs (we_J E) stacks t (Inl (stall E r m m' (wact (WEvent e f xs) t)))" for r m m' xs
      by (rule runs_from [where tr = "[WEvent e f xs]"], rule runs_stall) (simp_all add: t)
    then show ?thesis using t mem unfolding configStep_def
      by (auto intro!: runs_stall_failed runs_stay simp: runs_def [of _ _ _ "Inr (wact _ _)"] split: option.split sum.split)
  qed
  have env: "runs (we_J E) stacks t (mapErr (\<lambda>(msg, s). stall E ''InitializationFailed'' msg msg
      (wact (WEvent e f (as msg)) s)) (environmentStep E stack t))" if "readyOk t" for t e f as
    using that unfolding environmentStep_def
    by (auto intro: runs_stall_failed runs_stay simp: runs_def [of _ _ _ "Inr (wact _ _)"] split: option.split)
  show ?thesis unfolding initStack_def stackSteps_def mapErr_bindE
    by (rule runs_bind [OF select [OF ok]], rule runs_bind [OF config], assumption, erule env)
qed

lemma steps_Inr:
  "selectStep E stack s = Inr t \<Longrightarrow> t = wact (WSelectStack (wst_Name stack) (wst_Create stack) (wst_SecretsProvider stack) True) s"
  "configStep E stack s = Inr t \<Longrightarrow> wv_obj t = wv_obj s \<and> agentCalls (wv_trace t) = agentCalls (wv_trace s)
     @ (if wst_Config stack = [] then []
        else case marshalItems (we_J E) (wst_Config stack) of Inr items \<Rightarrow> [WSetAllConfig items True] | Inl _ \<Rightarrow> [])"
  "environmentStep E stack s = Inr t \<Longrightarrow> wv_obj t = wv_obj s \<and> agentCalls (wv_trace t) = agentCalls (wv_trace s)
     @ (if wst_Environment stack = [] then [] else [WAddEnvironments (wst_Environment stack) True])"
  by (auto simp: selectStep_def configStep_def environmentStep_def Let_def split: if_splits option.splits sum.splits)

lemma initStack_Inr:
  assumes "initStack E stack s = Inr t"
  shows "agentCalls (wv_trace t) = agentCalls (wv_trace s) @ stackCalls (we_J E) stack" and "wv_obj t = wv_obj s"
proof -
  obtain u v where u: "selectStep E stack s = Inr u" and v: "configStep E stack u = Inr v" and t: "environmentStep E stack v = Inr t"
    using assms by (auto simp: initStack_def stackSteps_def bindE_Inr_iff)
  show "agentCalls (wv_trace t) = agentCalls (wv_trace s) @ stackCalls (we_J E) stack" and "wv_obj t = wv_obj s"
    using steps_Inr(1) [OF u] steps_Inr(2) [OF v] steps_Inr(3) [OF t] by (simp_all add: stackCalls_def)
qed

lemma initStacks_grow: "foldE (initStack E) stacks s = Inr t \<Longrightarrow> \<exists>tr. wv_trace t = wv_trace s @ tr"
proof (induction stacks arbitrary: s)
  case (Cons stack stacks)
  then obtain u where u: "initStack E stack s = Inr u" "foldE (initStack E) stacks u = Inr t" by (auto simp: bindE_Inr_iff)
  from u(1) have "\<exists>tr. wv_trace u = wv_trace s @ tr"
    by (auto simp: initStack_def stackSteps_def bindE_Inr_iff selectStep_def configStep_def environmentStep_def Let_def
        split: if_splits option.splits sum.splits)
  with Cons.IH [OF u(2)] show ?case by auto
qed simp

lemma initStacks_Inr:
  assumes "foldE (initStack E) stacks s = Inr t"
  shows "agentCalls (wv_trace t) = agentCalls (wv_trace s) @ concat (map (stackCalls (we_J E)) stacks)"
  using assms by (induction stacks arbitrary: s) (auto simp: bindE_Inr_iff initStack_Inr)

text \<open>
  The stacks are those of the object as the status patch before them answered it: the reconcile of the
  stacks goes as if the workspace had had them from the start.
\<close>

lemma stacks_cases:
  assumes ok: "readyOk s"
  obtains stacks where "runs (we_J E) stacks s (stacksPhase E s)"
    and "\<And>S. stacksAmong E S \<Longrightarrow> ws_Stacks (w_Spec (wv_obj s)) \<in> S \<Longrightarrow> stacks \<in> S"
    and "\<And>t. stacksPhase E s = Inr t \<Longrightarrow> stacksAnswered E (wv_trace t) stacks
      \<and> agentCalls (wv_trace t) = agentCalls (wv_trace s) @ concat (map (stackCalls (we_J E)) stacks)"
proof -
  let ?s = "setReady ConditionFalse ''Initializing'' ''Initializing and selecting a Pulumi stack'' s"
  have "runs (we_J E) stacks ?s (saveOrLeave E ?s)" for stacks
    by (rule runs_saveOrLeave) (simp_all add: setReady_effect ok)
  then have save: "runs (we_J E) stacks s (saveOrLeave E ?s)" for stacks by (rule runs_from [where tr = "[]"]) simp_all
  show thesis
  proof (cases "saveOrLeave E ?s")
    case (Inl out)
    then show thesis using save by (intro that [of "ws_Stacks (w_Spec (wv_obj s))"]) (simp_all add: stacksPhase_def)
  next
    case (Inr u)
    let ?stacks = "ws_Stacks (w_Spec (wv_obj u))"
    note saved = saveOrLeave_Inr [OF Inr]
    have "runs (we_J E) ?stacks s (stacksPhase E s)"
      unfolding stacksPhase_def using Inr
      by (intro runs_bind [OF save]) (auto intro!: runs_foldE runs_initStack)
    moreover have "stacksAmong E S \<Longrightarrow> ws_Stacks (w_Spec (wv_obj s)) \<in> S \<Longrightarrow> ?stacks \<in> S" for S
      using saved(3) by simp
    moreover have "stacksAnswered E (wv_trace t) ?stacks \<and> agentCalls (wv_trace t)
        = agentCalls (wv_trace s) @ concat (map (stackCalls (we_J E)) ?stacks)" if "stacksPhase E s = Inr t" for t
    proof -
      have t: "foldE (initStack E) ?stacks u = Inr t" using that Inr by (simp add: stacksPhase_def)
      obtain tr where "wv_trace t = wv_trace u @ tr" using initStacks_grow [OF t] by blast
      then show ?thesis using saved(1,2) initStacks_Inr [OF t] by (simp add: stacksAnswered_append)
    qed
    ultimately show thesis by (rule that)
  qed
qed

section \<open>The course of a reconcile\<close>

lemma readyOk_initial: "readyOk (initialWState E obj)"
  by (auto simp: readyOk_def initialWState_def Let_def initialReady_def find_first freshReady_def split: option.split)

lemma leave_ready:
  assumes "readyOk s"
  shows "\<exists>p err. leaveSaving E 0 (setReady ConditionTrue r m s)
     = \<lparr>wo_Requeue = False, wo_After = 0, wo_Err = err, wo_Trace = wv_trace s @ [WPatchStatus p (err = None)]\<rparr>
     \<and> patchCond WorkspaceReady p = Some ConditionTrue"
proof -
  let ?s = "setReady ConditionTrue r m s"
  have ok: "readyOk ?s" and st: "c_Status (readyCond (we_L E) ?s) = ConditionTrue" using assms by (simp_all add: setReady_effect)
  obtain err t where run: "saveWorkspace E ?s = (err, t)" by (cases "saveWorkspace E ?s")
  from saveWorkspace_effect [OF ok run] st show ?thesis
    by (auto simp: leaveSaving_def run wleave_def)
qed

text \<open>How the preparation of a pod that is not marked can end.\<close>

lemma initialize_cases:
  fixes t :: "'j WState" and pod
  defines "m \<equiv> initializePhase E pod t" and "fetched \<equiv> ws_Stacks (w_Spec (wv_obj t))"
  assumes ok: "readyOk t" and not_marked: "\<not> podInitialized (we_ParseBool E) pod"
  obtains
    (check) out tr where "m = Inl out" and "wo_Trace out = wv_trace t @ tr" and "orderly (we_J E) [] out tr"
  | (failing) out tr stacks where "m = Inl out" and "wo_Trace out = wv_trace t @ tr" and "orderly (we_J E) stacks out tr"
      and "hasJsonConfigInWorkspace fetched \<Longrightarrow> jsonCapable E"
      and "\<And>S. stacksAmong E S \<Longrightarrow> fetched \<in> S \<Longrightarrow> stacks \<in> S"
  | (prepared) v tr stacks where "m = markPhase E pod v" and "wv_trace v = wv_trace t @ tr" and "readyOk v"
      and "list_all (calm (we_J E) stacks) tr"
      and "agentCalls (wv_trace v) = agentCalls (wv_trace t) @ prepareCalls (we_J E) (wv_obj t) stacks"
      and "hasJsonConfigInWorkspace fetched \<Longrightarrow> jsonCapable E"
      and "\<And>S. stacksAmong E S \<Longrightarrow> fetched \<in> S \<Longrightarrow> stacks \<in> S" and "stacksAnswered E (wv_trace v) stacks"
proof -
  have m: "m = bindE (checkAndInstall E t) (\<lambda>s. bindE (stacksPhase E s) (markPhase E pod))"
    using not_marked by (simp add: m_def initializePhase_def)
  show ?thesis
  proof (cases "checkAndInstall E t")
    case (Inl out)
    with runs_checkAndInstall [OF ok, of "we_J E" "[]"] show ?thesis by (auto simp: m runs_def intro: check)
  next
    case u: (Inr u)
    note checked = checkAndInstall_Inr [OF u]
    obtain tr where tr: "wv_trace u = wv_trace t @ tr" "list_all (calm (we_J E) []) tr" "readyOk u"
      using runs_checkAndInstall [OF ok, of "we_J E" "[]"] u by (auto simp: runs_def)
    obtain stacks where st: "runs (we_J E) stacks u (stacksPhase E u)"
      and among: "\<And>S. stacksAmong E S \<Longrightarrow> ws_Stacks (w_Spec (wv_obj u)) \<in> S \<Longrightarrow> stacks \<in> S"
      and done': "\<And>v. stacksPhase E u = Inr v \<Longrightarrow> stacksAnswered E (wv_trace v) stacks
        \<and> agentCalls (wv_trace v) = agentCalls (wv_trace u) @ concat (map (stackCalls (we_J E)) stacks)"
      using stacks_cases [OF tr(3)] by blast
    have lift: "list_all (calm (we_J E) stacks) tr"
      using tr(2) by (auto simp: list_all_iff intro: calm_mono [of "[]"])
    have kept: "stacksAmong E S \<Longrightarrow> fetched \<in> S \<Longrightarrow> stacks \<in> S" for S
      using checked(3) among by (simp add: fetched_def)
    show ?thesis
    proof (cases "stacksPhase E u")
      case (Inl out)
      then obtain tr' where "wo_Trace out = wv_trace u @ tr'" "orderly (we_J E) stacks out tr'"
        using st by (auto simp: runs_def)
      then show ?thesis using Inl u tr(1) checked(2) orderly_append [OF lift] kept
        by (intro failing [of out "tr @ tr'" stacks]) (simp_all add: m fetched_def)
    next
      case v: (Inr v)
      obtain tr' where "wv_trace v = wv_trace u @ tr'" "list_all (calm (we_J E) stacks) tr'" "readyOk v"
        using st v by (auto simp: runs_def)
      then show ?thesis using u v tr(1) lift checked(1,2) done' [OF v] kept
        by (intro prepared [of v "tr @ tr'" stacks]) (simp_all add: m fetched_def prepareCalls_def)
    qed
  qed
qed

text \<open>The ways a reconcile of an object that is not being deleted can go.\<close>

lemma Workspace_cases:
  fixes obj
  defines "w \<equiv> applyDefaults (we_W E) obj" and "oc \<equiv> WorkspaceReconcile E (Inr obj)"
  assumes live: "om_DeletionTimestamp (w_Meta w) = None"
  obtains
    (early) "orderly (we_J E) [] oc (wo_Trace oc)"
  | (initialized) pod pre p ack where "wo_Trace oc = pre @ [WPatchStatus p ack]" and "reached E pre pod"
      and "podInitialized (we_ParseBool E) pod" and "list_all (calm (we_J E) []) pre"
      and "patchCond WorkspaceReady p = Some ConditionTrue" and "ack = (wo_Err oc = None)" and "agentCalls pre = []"
      and "\<not> wo_Requeue oc" and "wo_After oc = 0"
  | (failing) stacks where "orderly (we_J E) stacks oc (wo_Trace oc)"
      and "hasJsonConfigInWorkspace (ws_Stacks (w_Spec w)) \<Longrightarrow> jsonCapable E"
      and "\<And>S. stacksAmong E S \<Longrightarrow> ws_Stacks (w_Spec w) \<in> S \<Longrightarrow> stacks \<in> S"
  | (unmarked) pre n pod stacks where "wo_Trace oc = pre @ [WMarkInitialized n False]"
      and "agentCalls pre = prepareCalls (we_J E) w stacks"
      and "list_all (calm (we_J E) stacks) pre" and "wo_Err oc \<noteq> None"
      and "hasJsonConfigInWorkspace (ws_Stacks (w_Spec w)) \<Longrightarrow> jsonCapable E"
      and "reached E pre pod"
      and "\<And>S. stacksAmong E S \<Longrightarrow> ws_Stacks (w_Spec w) \<in> S \<Longrightarrow> stacks \<in> S" and "stacksAnswered E pre stacks"
  | (marked) pod pre n e f as p ack stacks
    where "wo_Trace oc = pre @ [WMarkInitialized n True, WEvent e f as, WPatchStatus p ack]"
      and "agentCalls pre = prepareCalls (we_J E) w stacks" and "list_all (calm (we_J E) stacks) pre"
      and "reached E pre pod" and "patchCond WorkspaceReady p = Some ConditionTrue" and "ack = (wo_Err oc = None)"
      and "hasJsonConfigInWorkspace (ws_Stacks (w_Spec w)) \<Longrightarrow> jsonCapable E"
      and "\<not> wo_Requeue oc" and "wo_After oc = 0"
      and "\<And>S. stacksAmong E S \<Longrightarrow> ws_Stacks (w_Spec w) \<in> S \<Longrightarrow> stacks \<in> S" and "stacksAnswered E pre stacks"
proof -
  let ?s = "initialWState E obj"
  note ok = readyOk_initial [of obj]
  have init: "wv_trace ?s = []" "wv_obj ?s = w" by (simp_all add: initialWState_def Let_def w_def)
  have oc: "oc = (case livePhases E ?s of Inl out \<Rightarrow> out | Inr s \<Rightarrow> leaveSaving E 0 (setReady ConditionTrue ''Succeeded'' [] s))"
    using live by (simp add: oc_def WorkspaceReconcile_def init)
  show ?thesis
  proof (cases "reachAgent E ?s")
    case (Inl out)
    with runs_reachAgent [OF ok, of "we_J E" "[]"] show ?thesis
      by (intro early) (simp add: runs_def init oc livePhases_def)
  next
    case (Inr r)
    obtain pod t where r: "r = (pod, t)" by (cases r)
    note reach = reachAgent_Inr [OF ok Inr [unfolded r]]
    have tr: "list_all (calm (we_J E) xs) (wv_trace t)" "agentCalls (wv_trace t) = []" for xs
      using reach(4) [of "we_J E"] by (auto simp: init list_all_iff intro: calm_mono [of "[]"])
    have src: "w_Spec (wv_obj t) = w_Spec w" "prepareCalls (we_J E) (wv_obj t) xs = prepareCalls (we_J E) w xs" for xs
      using reach(2) by (simp_all add: init prepareCalls_def)
    have phase: "livePhases E ?s = initializePhase E pod t" using Inr r by (simp add: livePhases_def)
    show ?thesis
    proof (cases "podInitialized (we_ParseBool E) pod")
      case True
      then have "oc = leaveSaving E 0 (setReady ConditionTrue ''Succeeded'' [] t)"
        by (simp add: oc phase initializePhase_def)
      then show ?thesis using leave_ready [OF reach(1), of "''Succeeded''" "[]"] True tr reach(3)
        by (elim exE conjE) (rule initialized, simp_all)
    next
      case False
      from reach(1) False show ?thesis
      proof (cases rule: initialize_cases)
        case check
        then show ?thesis using orderly_append [OF tr(1)] by (intro early) (simp add: oc phase)
      next
        case (failing out tr' stacks)
        then show ?thesis using orderly_append [OF tr(1)] src
          by (intro that(3) [of stacks]) (simp_all add: oc phase)
      next
        case (prepared v tr' stacks)
        have calm_v: "list_all (calm (we_J E) stacks) (wv_trace v)" using prepared tr by simp
        have reached_v: "reached E (wv_trace v) pod" using reached_append [OF reach(3)] prepared(2) by simp
        show ?thesis
        proof (cases "we_MarkInitialized E (wv_trace v) pod")
          case None
          let ?v = "wact (WEvent InitializedEvent ''Initialized workspace pod %q'' [pod_Name pod]) (wact (WMarkInitialized (pod_Name pod) True) v)"
          from None have left: "oc = leaveSaving E 0 (setReady ConditionTrue ''Succeeded'' [] ?v)"
            by (simp add: oc phase prepared(1) markPhase_def)
          have "readyOk ?v" using prepared(3) by simp
          from leave_ready [OF this, of "''Succeeded''" "[]"] left prepared calm_v reached_v tr src show ?thesis
            by (elim exE conjE) (rule marked [where stacks = stacks], simp_all)
        next
          case (Some e)
          then show ?thesis using prepared calm_v reached_v tr src
            by (intro unmarked [of "wv_trace v" _ stacks pod]) (simp_all add: oc phase markPhase_def wleave_def)
        qed
      qed
    qed
  qed
qed

text \<open>An object that is being deleted is marked so, and nothing else is done.\<close>

lemma Workspace_deleting:
  assumes "om_DeletionTimestamp (w_Meta (applyDefaults (we_W E) obj)) \<noteq> None"
  shows "orderly (we_J E) [] (WorkspaceReconcile E (Inr obj)) (wo_Trace (WorkspaceReconcile E (Inr obj)))"
proof -
  let ?s = "initialWState E obj"
  have init: "wv_trace ?s = []" "wv_obj ?s = applyDefaults (we_W E) obj" by (simp_all add: initialWState_def Let_def)
  have "runs (we_J E) [] ?s (Inl (leaveSaving E 0 (setReady ConditionFalse ''Deleting'' ''Workspace is being deleted'' ?s)))"
    by (rule runs_from [where tr = "[]"], rule runs_leaveSaving) (simp_all add: setReady_effect readyOk_initial)
  then show ?thesis using assms by (simp add: WorkspaceReconcile_def init runs_def)
qed

text \<open>A status saying ready is written last, for the pod of a stateful set that is rolled out.\<close>

lemma ready_write:
  assumes "WPatchStatus p ack \<in> set (wo_Trace (WorkspaceReconcile E (Inr obj)))" and ready: "patchCond WorkspaceReady p = Some ConditionTrue"
  shows "\<exists>pod. reached E (wo_Trace (WorkspaceReconcile E (Inr obj))) pod \<and> (podInitialized (we_ParseBool E) pod
     \<or> (\<exists>n. WMarkInitialized n True \<in> set (wo_Trace (WorkspaceReconcile E (Inr obj)))))"
proof -
  have calm: "orderly (we_J E) xs oc tr \<Longrightarrow> WPatchStatus p ack \<notin> set tr"
    "list_all (calm (we_J E) xs) tr \<Longrightarrow> WPatchStatus p ack \<notin> set tr" for xs oc tr
    using ready by (auto dest!: orderly_member simp: list_all_iff)
  show ?thesis
  proof (cases "om_DeletionTimestamp (w_Meta (applyDefaults (we_W E) obj))")
    case (Some t)
    then show ?thesis using Workspace_deleting [of obj] assms(1) calm by blast
  next
    case None
    then show ?thesis
    proof (cases rule: Workspace_cases)
      case early
      then show ?thesis using assms(1) calm by blast
    next
      case (initialized pod pre)
      then show ?thesis using reached_append by (intro exI [of _ pod]) auto
    next
      case failing
      then show ?thesis using assms(1) calm by blast
    next
      case (unmarked pre n)
      then show ?thesis using assms(1) calm by auto
    next
      case (marked pod pre)
      then show ?thesis using reached_append by (intro exI [of _ pod]) auto
    qed
  qed
qed

text \<open>The pod is marked after exactly the calls that prepare the workspace.\<close>

lemma mark_write:
  assumes "WMarkInitialized n ack \<in> set (wo_Trace (WorkspaceReconcile E (Inr obj)))"
  shows "\<exists>pre post stacks. wo_Trace (WorkspaceReconcile E (Inr obj)) = pre @ WMarkInitialized n ack # post
     \<and> agentCalls pre = prepareCalls (we_J E) (applyDefaults (we_W E) obj) stacks \<and> agentCalls post = []
     \<and> stacksAnswered E pre stacks
     \<and> (\<forall>S. stacksAmong E S \<and> ws_Stacks (w_Spec (applyDefaults (we_W E) obj)) \<in> S \<longrightarrow> stacks \<in> S)
     \<and> (hasJsonConfigInWorkspace (ws_Stacks (w_Spec (applyDefaults (we_W E) obj))) \<longrightarrow> jsonCapable E)"
proof -
  have calm: "orderly (we_J E) xs oc tr \<Longrightarrow> WMarkInitialized n ack \<notin> set tr"
    "list_all (calm (we_J E) xs) tr \<Longrightarrow> WMarkInitialized n ack \<notin> set tr" for xs oc tr
    by (auto dest!: orderly_member simp: list_all_iff)
  show ?thesis
  proof (cases "om_DeletionTimestamp (w_Meta (applyDefaults (we_W E) obj))")
    case (Some t)
    then show ?thesis using Workspace_deleting [of obj] assms(1) calm by blast
  next
    case None
    then show ?thesis
    proof (cases rule: Workspace_cases)
      case early
      then show ?thesis using assms(1) calm by blast
    next
      case (initialized pod pre)
      then show ?thesis using assms(1) calm(2) by auto
    next
      case failing
      then show ?thesis using assms(1) calm by blast
    next
      case (unmarked pre m pod stacks)
      then have "n = m \<and> \<not> ack" using assms(1) calm(2) [OF unmarked(3)] by auto
      with unmarked show ?thesis by (intro exI [of _ pre] exI [of _ "[]"] exI [of _ stacks]) simp
    next
      case (marked pod pre m e f as p pack stacks)
      then have "n = m \<and> ack" using assms(1) calm(2) [OF marked(3)] by auto
      with marked show ?thesis by (intro exI [of _ pre] exI [of _ "[WEvent e f as, WPatchStatus p pack]"] exI [of _ stacks]) simp
    qed
  qed
qed

text \<open>
  A configuration is only sent for a stack the workspace has or an answer showed. The check of the CLI
  before it looked at the stacks the workspace had.
\<close>

lemma config_write:
  fixes obj
  defines "stacks \<equiv> ws_Stacks (w_Spec (applyDefaults (we_W E) obj))"
  assumes sent: "WSetAllConfig items ack \<in> set (wo_Trace (WorkspaceReconcile E (Inr obj)))"
    and among: "stacksAmong E S" "stacks \<in> S"
  shows "(\<exists>xs\<in>S. \<exists>stack\<in>set xs. marshalItems (we_J E) (wst_Config stack) = Inr items)
    \<and> (hasJsonConfigInWorkspace stacks \<longrightarrow> jsonCapable E)"
proof -
  have calm: "orderly (we_J E) xs oc tr \<Longrightarrow> WSetAllConfig items ack \<in> set tr
      \<Longrightarrow> \<exists>stack\<in>set xs. marshalItems (we_J E) (wst_Config stack) = Inr items"
    "list_all (calm (we_J E) xs) tr \<Longrightarrow> WSetAllConfig items ack \<in> set tr
      \<Longrightarrow> \<exists>stack\<in>set xs. marshalItems (we_J E) (wst_Config stack) = Inr items" for xs oc tr
    by (auto dest!: orderly_member simp: list_all_iff)
  show ?thesis
  proof (cases "om_DeletionTimestamp (w_Meta (applyDefaults (we_W E) obj))")
    case (Some t)
    then show ?thesis using calm(1) [OF Workspace_deleting [of obj] sent] by simp
  next
    case None
    then show ?thesis
    proof (cases rule: Workspace_cases)
      case early
      then show ?thesis using calm(1) [OF early sent] by simp
    next
      case (initialized pod pre)
      then show ?thesis using sent calm(2) [OF initialized(4)] by auto
    next
      case (failing xs)
      then show ?thesis using sent calm(1) [OF failing(1)] failing(2,3) among unfolding stacks_def by blast
    next
      case (unmarked pre m pod xs)
      then show ?thesis using sent calm(2) [OF unmarked(3)] unmarked(1,5,7) among unfolding stacks_def by fastforce
    next
      case (marked pod pre m e f as p pack xs)
      then show ?thesis using sent calm(2) [OF marked(3)] marked(1,7,10) among unfolding stacks_def by fastforce
    qed
  qed
qed

text \<open>A failed call is the last before the workspace is saved as stalled.\<close>

lemma orderly_failed:
  assumes "orderly J stacks oc tr" and "a \<in> set tr" and "failedCall a"
  shows "\<exists>pre e f as p. tr = pre @ [a, WEvent e f as, WPatchStatus p (wo_Err oc = None)] \<and> stalledPatch p
     \<and> (\<forall>n ack. WMarkInitialized n ack \<notin> set tr) \<and> \<not> wo_Requeue oc \<and> wo_After oc = 0"
proof -
  have mark: "WMarkInitialized n ack \<notin> set tr" for n ack
    using orderly_member [OF assms(1)] by fastforce
  have other: "\<not> calm J stacks a" using assms(3) by (cases a) auto
  obtain pre rest where tr: "tr = pre @ rest" "list_all (calm J stacks) pre"
      and rest: "rest = [] \<and> comesBack oc \<or> savedLast oc rest \<or> stalledLast J stacks oc rest"
    using assms(1) by (auto simp: orderly_def)
  have mem: "a \<in> set rest" using assms(2) tr other by (auto simp: list_all_iff)
  then have "stalledLast J stacks oc rest" using rest assms(3) by (auto simp: savedLast_def)
  then obtain b e f as p where b: "rest = [b, WEvent e f as, WPatchStatus p (wo_Err oc = None)]" "stalledPatch p"
      "\<not> wo_Requeue oc" "wo_After oc = 0" by (auto simp: stalledLast_def)
  then have "a = b" using mem assms(3) by auto
  then show ?thesis using b tr(1) mark by (intro exI [of _ pre] exI [of _ e] exI [of _ f] exI [of _ as] exI [of _ p]) simp
qed

lemma failure_ends:
  fixes obj
  defines "oc \<equiv> WorkspaceReconcile E (Inr obj)"
  assumes "a \<in> set (wo_Trace oc)" and failed: "failedCall a"
  shows "\<exists>pre e f as p. wo_Trace oc = pre @ [a, WEvent e f as, WPatchStatus p (wo_Err oc = None)] \<and> stalledPatch p
     \<and> (\<forall>n ack. WMarkInitialized n ack \<notin> set (wo_Trace oc)) \<and> \<not> wo_Requeue oc \<and> wo_After oc = 0"
proof -
  have calm: "list_all (calm (we_J E) xs) tr \<Longrightarrow> a \<notin> set tr" for xs tr
    using failed by (cases a) (auto simp: list_all_iff)
  show ?thesis
  proof (cases "om_DeletionTimestamp (w_Meta (applyDefaults (we_W E) obj))")
    case (Some t)
    then show ?thesis unfolding oc_def using assms(2) failed Workspace_deleting [of obj] by (intro orderly_failed) (simp_all add: oc_def)
  next
    case None
    then show ?thesis
    proof (cases rule: Workspace_cases)
      case early
      then show ?thesis unfolding oc_def using assms(2) failed by (intro orderly_failed) (simp_all add: oc_def)
    next
      case (initialized pod pre)
      then show ?thesis using assms(2) calm(1) [OF initialized(4)] failed by (auto simp: oc_def)
    next
      case failing
      then show ?thesis unfolding oc_def using assms(2) failed by (intro orderly_failed) (simp_all add: oc_def)
    next
      case (unmarked pre m)
      then show ?thesis using assms(2) calm [OF unmarked(3)] failed by (auto simp: oc_def)
    next
      case (marked pod pre m)
      then show ?thesis using assms(2) calm [OF marked(3)] failed by (auto simp: oc_def)
    qed
  qed
qed

text \<open>A reconcile that is not called again has saved a decided status.\<close>

lemma orderly_quiet:
  "\<lbrakk>orderly J stacks oc tr; \<not> comesBack oc\<rbrakk> \<Longrightarrow> \<exists>pre p. tr = pre @ [WPatchStatus p True] \<and> unready p"
  by (auto simp: orderly_def savedLast_def stalledLast_def stalledPatch_def comesBack_def)

lemma quiet_saved:
  fixes obj
  defines "oc \<equiv> WorkspaceReconcile E (Inr obj)"
  assumes quiet: "\<not> comesBack oc"
  shows "\<exists>pre p. wo_Trace oc = pre @ [WPatchStatus p True]
     \<and> patchCond WorkspaceReady p \<in> {Some ConditionTrue, Some ConditionFalse}"
proof (cases "om_DeletionTimestamp (w_Meta (applyDefaults (we_W E) obj))")
  case (Some t)
  then show ?thesis using orderly_quiet [OF Workspace_deleting [of obj]] quiet by (auto simp: oc_def unready_def)
next
  case None
  then show ?thesis
  proof (cases rule: Workspace_cases)
    case early
    then show ?thesis using orderly_quiet [OF early] quiet by (auto simp: oc_def unready_def)
  next
    case failing
    then show ?thesis using orderly_quiet [OF failing(1)] quiet by (auto simp: oc_def unready_def)
  qed (use quiet in \<open>auto simp: oc_def comesBack_def\<close>)
qed

end

end
