(* ===== verification/WorkspaceProperties.thy ===== *)
theory WorkspaceProperties
  imports WorkspaceFacts
begin

text \<open>
  What the workspace controller guarantees: when a workspace is called ready, what the preparation
  of its pod consists of, how failures end, and that a cooperating world makes it ready.
\<close>

section \<open>A world that cooperates\<close>

text \<open>The API server accepts what it is given, and the pod of the present revision can be reached.\<close>

locale pod_reachable = workspace_server E for E :: "('j, 'i, 'm, 'v) wenv" +
  fixes revision :: string
  assumes patch_accepted: "\<exists>v. we_Patch E tr w p = Inr v"
    and owner_set: "\<exists>m. SetControllerReference (we_L E) o1 o2 = Inr m"
    and service_applied: "we_ApplyService E tr svc = None"
    and rolled_out: "\<exists>ss. we_ApplyStatefulSet E tr sts = Inr ss \<and> isStatefulSetReady ss
          \<and> sss_CurrentRevision (sts_Status ss) = revision"
    and pod_found: "\<exists>pod. we_GetPod E tr n ns = Inr pod \<and> revisionOf pod = revision
          \<and> \<not> podInitialized (we_ParseBool E) pod"
    and connected: "\<exists>target. we_Connect E tr w = Inr target"
begin

lemma save_goes_on: "\<exists>t. saveOrLeave E s = Inr t" "\<exists>t. saveWorkspace E s = (None, t)"
  using patch_accepted [of "wv_trace (syncReady (we_L E) s)" "wv_obj (syncReady (we_L E) s)"
      "workspaceStatusApply (wv_obj (syncReady (we_L E) s))"]
  by (auto simp: saveOrLeave_def saveWorkspace_def Let_def)

lemma reach_goes_on:
  assumes "\<exists>ss. newStatefulSet (we_W E) (wv_obj s) (newSourceSpec (wv_obj s)) = Inr ss"
  shows "\<exists>pod t. reachAgent E s = Inr (pod, t) \<and> \<not> podInitialized (we_ParseBool E) pod"
proof -
  obtain ss where ss: "newStatefulSet (we_W E) (wv_obj s) (newSourceSpec (wv_obj s)) = Inr ss" using assms by blast
  obtain m where m: "SetControllerReference (we_L E) (w_Meta (wv_obj s)) (svc_Meta (newService (wv_obj s))) = Inr m"
    using owner_set by blast
  obtain m' where m': "SetControllerReference (we_L E) (w_Meta (wv_obj s)) (sts_Meta ss) = Inr m'" using owner_set by blast
  obtain t where t: "servicePhase E s = Inr t" "wv_obj t = wv_obj s"
    by (simp add: servicePhase_def Let_def m service_applied)
  obtain applied where applied: "we_ApplyStatefulSet E (wv_trace t) (ss\<lparr>sts_Meta := m'\<rparr>) = Inr applied"
      "isStatefulSetReady applied" "sss_CurrentRevision (sts_Status applied) = revision"
    using rolled_out by blast
  obtain u where u: "statefulSetPhase E (newSourceSpec (wv_obj s)) t = Inr (applied, u)"
    by (simp add: statefulSetPhase_def t ss m' applied)
  have r: "rolloutPhase E applied u = Inr u" using applied(2) by (auto simp: rolloutPhase_def isStatefulSetReady_def split: if_splits)
  obtain pod where pod: "we_GetPod E (wv_trace u) (nameForStatefulSet (wv_obj u) @ ''-0'') (om_Namespace (w_Meta (wv_obj u))) = Inr pod"
      "revisionOf pod = revision" "\<not> podInitialized (we_ParseBool E) pod"
    using pod_found by blast
  have p: "podPhase E applied u = Inr pod"
    using pod applied(3) by (simp add: podPhase_def Let_def revisionOf_def)
  obtain target where "we_Connect E (wv_trace u) (wv_obj u) = Inr target" using connected by blast
  then show ?thesis using pod(3) by (simp add: reachAgent_def t u r p connectWorkspace_def)
qed

end

text \<open>The agent does what it is asked, whatever its version is.\<close>

locale agent_obliging = pod_reachable E revision for E :: "('j, 'i, 'm, 'v) wenv" and revision :: string +
  assumes version_answered: "\<exists>v. we_PulumiVersion E tr = Inr v"
    and installs: "we_Install E tr = None"
    and selects: "we_SelectStack E tr n c sp = None"
    and configures: "we_SetAllConfig E tr items = None"
    and adds_environments: "we_AddEnvironments E tr es = None"
    and marks: "we_MarkInitialized E tr pod = None"
begin

lemma plain_goes_on:
  assumes "\<not> hasJsonConfigInWorkspace (ws_Stacks (w_Spec (wv_obj s)))"
  shows "\<exists>t. versionPhase E (removeStalled (we_L E) s) = Inr t \<and> jsonGate E t = Inr t \<and> w_Spec (wv_obj t) = w_Spec (wv_obj s)"
proof -
  obtain v where "we_PulumiVersion E (wv_trace (removeStalled (we_L E) s)) = Inr v" using version_answered by blast
  then show ?thesis using assms by (simp add: versionPhase_def jsonGate_def) (simp add: removeStalled_def)
qed

lemma stack_goes_on:
  assumes "\<exists>items. marshalItems (we_J E) (wst_Config stack) = Inr items"
  shows "\<exists>t. initStack E stack s = Inr t"
  using assms
  by (auto simp: initStack_def stackSteps_def selectStep_def configStep_def environmentStep_def Let_def
        selects configures adds_environments)

lemma stacks_go_on:
  assumes "\<And>stack. stack \<in> set stacks \<Longrightarrow> \<exists>items. marshalItems (we_J E) (wst_Config stack) = Inr items"
  shows "\<exists>t. foldE (initStack E) stacks s = Inr t"
  using assms
proof (induction stacks arbitrary: s)
  case Nil
  then show ?case by simp
next
  case (Cons stack stacks)
  obtain t where "initStack E stack s = Inr t" using stack_goes_on Cons.prems by (meson list.set_intros(1))
  moreover have "\<exists>u. foldE (initStack E) stacks t = Inr u" by (rule Cons.IH) (simp add: Cons.prems)
  ultimately show ?case by simp
qed

lemma preparation_goes_on:
  assumes "stacksAmong E S" and "ws_Stacks (w_Spec (wv_obj s)) \<in> S"
    and config: "\<And>stacks stack. stacks \<in> S \<Longrightarrow> stack \<in> set stacks \<Longrightarrow> \<exists>items. marshalItems (we_J E) (wst_Config stack) = Inr items"
    and "\<not> podInitialized (we_ParseBool E) pod"
    and passes: "\<exists>t. versionPhase E (removeStalled (we_L E) s) = Inr t \<and> jsonGate E t = Inr t \<and> w_Spec (wv_obj t) = w_Spec (wv_obj s)"
  shows "\<exists>t. initializePhase E pod s = Inr t"
proof -
  obtain t where t: "versionPhase E (removeStalled (we_L E) s) = Inr t" "jsonGate E t = Inr t" "w_Spec (wv_obj t) = w_Spec (wv_obj s)"
    using passes by blast
  have "\<exists>u. installPhase E t = Inr u \<and> ws_Stacks (w_Spec (wv_obj u)) \<in> S"
  proof (cases "ws_ProjectInfo (w_Spec (wv_obj t)) = None")
    case True
    obtain u where u: "saveOrLeave E (setReady ConditionFalse ''Installing''
        ''Installing packages and plugins required by the program'' t) = Inr u" using save_goes_on by blast
    with True saveOrLeave_Inr(3) [OF u assms(1)] assms(2) t(3) show ?thesis by (simp add: installPhase_def installs)
  qed (use assms(2) t(3) in \<open>simp add: installPhase_def\<close>)
  then obtain u where u: "installPhase E t = Inr u" "ws_Stacks (w_Spec (wv_obj u)) \<in> S" by blast
  obtain v where v: "saveOrLeave E (setReady ConditionFalse ''Initializing'' ''Initializing and selecting a Pulumi stack'' u) = Inr v"
    using save_goes_on by blast
  have "ws_Stacks (w_Spec (wv_obj v)) \<in> S" using saveOrLeave_Inr(3) [OF v assms(1)] u(2) by simp
  then obtain x where "foldE (initStack E) (ws_Stacks (w_Spec (wv_obj v))) v = Inr x"
    using stacks_go_on [of "ws_Stacks (w_Spec (wv_obj v))" v] config by auto
  then show ?thesis using assms(4) t u v
    by (simp add: initializePhase_def checkAndInstall_def stacksPhase_def markPhase_def marks)
qed

lemma runs_to_the_end:
  fixes obj
  defines "w \<equiv> applyDefaults (we_W E) obj"
  assumes live: "om_DeletionTimestamp (w_Meta w) = None"
    and template: "\<exists>ss. newStatefulSet (we_W E) w (newSourceSpec w) = Inr ss"
    and among: "stacksAmong E S" "ws_Stacks (w_Spec w) \<in> S"
    and config: "\<And>stacks stack. stacks \<in> S \<Longrightarrow> stack \<in> set stacks \<Longrightarrow> \<exists>items. marshalItems (we_J E) (wst_Config stack) = Inr items"
    and passes: "\<And>s. w_Spec (wv_obj s) = w_Spec w \<Longrightarrow> \<exists>t. versionPhase E (removeStalled (we_L E) s) = Inr t \<and> jsonGate E t = Inr t
          \<and> w_Spec (wv_obj t) = w_Spec (wv_obj s)"
  obtains pod t u where "initializePhase E pod t = Inr u" and "\<not> podInitialized (we_ParseBool E) pod" and "readyOk u"
    and "WorkspaceReconcile E (Inr obj) = leaveSaving E 0 (setReady ConditionTrue ''Succeeded'' [] u)"
proof -
  let ?s = "initialWState E obj"
  have init: "wv_obj ?s = w" by (simp add: initialWState_def Let_def w_def)
  obtain pod t where t: "reachAgent E ?s = Inr (pod, t)" "\<not> podInitialized (we_ParseBool E) pod"
    using reach_goes_on [of ?s] template by (auto simp: init)
  note reach = reachAgent_Inr [OF readyOk_initial t(1)]
  have same: "w_Spec (wv_obj t) = w_Spec w" using reach(2) by (simp add: init)
  then have "ws_Stacks (w_Spec (wv_obj t)) \<in> S" using among(2) by simp
  from preparation_goes_on [OF among(1) this _ t(2) passes [OF same]] config
  obtain u where u: "initializePhase E pod t = Inr u" by blast
  have ready: "readyOk u"
  proof (rule initialize_cases [OF reach(1) t(2)])
    fix v tr assume "initializePhase E pod t = markPhase E pod v" and "readyOk v"
    with u show "readyOk u" by (auto simp: markPhase_def split: option.splits)
  qed (simp_all add: u)
  have "WorkspaceReconcile E (Inr obj) = leaveSaving E 0 (setReady ConditionTrue ''Succeeded'' [] u)"
    using live t(1) u by (simp add: WorkspaceReconcile_def init livePhases_def)
  with u t(2) ready show thesis by (rule that)
qed

lemma ends_ready:
  assumes "readyOk u" and "WorkspaceReconcile E (Inr obj) = leaveSaving E 0 (setReady ConditionTrue ''Succeeded'' [] u)"
  shows "wo_Err (WorkspaceReconcile E (Inr obj)) = None
    \<and> (\<exists>pre p. wo_Trace (WorkspaceReconcile E (Inr obj)) = pre @ [WPatchStatus p True] \<and> patchCond WorkspaceReady p = Some ConditionTrue)"
proof -
  obtain x where "saveWorkspace E (setReady ConditionTrue ''Succeeded'' [] u) = (None, x)" using save_goes_on by blast
  then have "wo_Err (leaveSaving E 0 (setReady ConditionTrue ''Succeeded'' [] u)) = None"
    by (simp add: leaveSaving_def wleave_def)
  with assms(2) show ?thesis using leave_ready [OF assms(1), of "''Succeeded''" "[]"] by auto
qed

text \<open>Stacks that appear while the handler runs are prepared without a look at their configuration.\<close>

lemma edited_stacks_prepared:
  fixes obj
  defines "w \<equiv> applyDefaults (we_W E) obj" and "oc \<equiv> WorkspaceReconcile E (Inr obj)"
  assumes live: "om_DeletionTimestamp (w_Meta w) = None"
    and template: "\<exists>ss. newStatefulSet (we_W E) w (newSourceSpec w) = Inr ss"
    and plain: "\<not> hasJsonConfigInWorkspace (ws_Stacks (w_Spec w))"
    and shown: "\<And>tr x p v. we_Patch E tr x p = Inr v \<Longrightarrow> ws_Stacks (w_Spec v) = stacks"
    and config: "\<And>xs stack. xs \<in> {ws_Stacks (w_Spec w), stacks} \<Longrightarrow> stack \<in> set xs
        \<Longrightarrow> \<exists>items. marshalItems (we_J E) (wst_Config stack) = Inr items"
    and fresh: "\<And>tr n ns pod. we_GetPod E tr n ns = Inr pod \<Longrightarrow> \<not> podInitialized (we_ParseBool E) pod"
  shows "\<exists>pre post. wo_Trace oc = pre @ post \<and> agentCalls pre = prepareCalls (we_J E) w stacks"
proof -
  have among: "stacksAmong E {ws_Stacks (w_Spec w), stacks}" using shown by (auto simp: stacksAmong_def)
  have passes: "\<exists>t. versionPhase E (removeStalled (we_L E) s) = Inr t \<and> jsonGate E t = Inr t \<and> w_Spec (wv_obj t) = w_Spec (wv_obj s)"
    if "w_Spec (wv_obj s) = w_Spec w" for s
    using plain_goes_on [of s] plain that by simp
  obtain pod t u where "readyOk u" "WorkspaceReconcile E (Inr obj) = leaveSaving E 0 (setReady ConditionTrue ''Succeeded'' [] u)"
    by (rule runs_to_the_end [of obj "{ws_Stacks (w_Spec w), stacks}", folded w_def, OF live template among])
       (simp, rule config, assumption+, erule passes, blast)
  then obtain p where p: "WPatchStatus p True \<in> set (wo_Trace oc)" "patchCond WorkspaceReady p = Some ConditionTrue"
    using ends_ready [of u obj] unfolding oc_def by (metis in_set_conv_decomp)
  then obtain n where n: "WMarkInitialized n True \<in> set (wo_Trace oc)"
    using ready_write [of p True obj] fresh by (auto simp: oc_def reached_def)
  obtain pre post xs where pre: "wo_Trace oc = pre @ WMarkInitialized n True # post" "agentCalls pre = prepareCalls (we_J E) w xs"
      "stacksAnswered E pre xs"
    using mark_write [of n True obj] n unfolding oc_def w_def by blast
  then have "xs = stacks" using shown by (auto simp: stacksAnswered_def)
  with pre show ?thesis by blast
qed

end

text \<open>The agent tells the version of a CLI that takes structured configuration.\<close>

locale agent_reachable = pod_reachable E revision for E :: "('j, 'i, 'm, 'v) wenv" and revision :: string +
  assumes version_told: "\<exists>v version. we_PulumiVersion E tr = Inr v \<and> we_ParseTolerant E v = Inr version
          \<and> \<not> we_LT E version (we_MustParse E minJsonVersion)"
begin

lemma version_goes_on:
  "\<exists>t. versionPhase E (removeStalled (we_L E) s) = Inr t \<and> jsonGate E t = Inr t \<and> w_Spec (wv_obj t) = w_Spec (wv_obj s)"
proof -
  obtain v version where "we_PulumiVersion E (wv_trace (removeStalled (we_L E) s)) = Inr v"
      "we_ParseTolerant E v = Inr version" "\<not> we_LT E version (we_MustParse E minJsonVersion)"
    using version_told by blast
  then show ?thesis by (simp add: versionPhase_def jsonGate_def) (simp add: removeStalled_def)
qed

end

locale agent_willing = agent_reachable E revision + agent_obliging E revision
  for E :: "('j, 'i, 'm, 'v) wenv" and revision :: string
begin

lemmas goes_to_the_end = runs_to_the_end [OF _ _ _ _ _ version_goes_on]

lemma becomes_ready:
  fixes obj
  defines "w \<equiv> applyDefaults (we_W E) obj" and "oc \<equiv> WorkspaceReconcile E (Inr obj)"
  assumes live: "om_DeletionTimestamp (w_Meta w) = None"
    and template: "\<exists>ss. newStatefulSet (we_W E) w (newSourceSpec w) = Inr ss"
    and among: "stacksAmong E S" "ws_Stacks (w_Spec w) \<in> S"
    and config: "\<And>stacks stack. stacks \<in> S \<Longrightarrow> stack \<in> set stacks \<Longrightarrow> \<exists>items. marshalItems (we_J E) (wst_Config stack) = Inr items"
  shows "wo_Err oc = None \<and> (\<exists>pre p. wo_Trace oc = pre @ [WPatchStatus p True] \<and> patchCond WorkspaceReady p = Some ConditionTrue)"
proof -
  obtain pod t u where "readyOk u" "oc = leaveSaving E 0 (setReady ConditionTrue ''Succeeded'' [] u)"
    by (rule goes_to_the_end [of obj S, folded w_def oc_def, OF live template among]) (erule (1) config, rule that)
  then show ?thesis unfolding oc_def by (rule ends_ready)
qed

end

section \<open>An example world\<close>

definition emptyTemplate :: PodTemplateSpec where
  "emptyTemplate = \<lparr>pts_Labels = [], pts_Annotations = [], pts_ServiceAccountName = [], pts_SecurityContext = None,
     pts_TerminationGracePeriodSeconds = None,
     pts_Spec = \<lparr>ps_InitContainers = [], ps_Containers = [], ps_Volumes = [], ps_Rest = []\<rparr>\<rparr>"

definition examplePodlib :: "PodTemplateSpec podlib" where
  "examplePodlib = \<lparr>wl_Getenv = (\<lambda>_. []), wl_Version = ''v2'', wl_QuantityIsZero = (\<lambda>q. q = ''0''), wl_Hash = (\<lambda>_. ''h''),
     wl_MarshalTemplate = Inr, wl_MarshalPatch = (\<lambda>p. Inr emptyTemplate), wl_SetElementOrder = (\<lambda>_. id),
     wl_PatchMeta = None, wl_StrategicMerge = (\<lambda>b p. Inr b), wl_UnmarshalTemplate = Inr\<rparr>"

definition rolledOut :: StatefulSetStatus where
  "rolledOut = \<lparr>sss_ObservedGeneration = 0, sss_CurrentRevision = ''rev'', sss_UpdateRevision = ''rev'',
     sss_AvailableReplicas = 1\<rparr>"

definition examplePod :: "string \<Rightarrow> Pod" where
  "examplePod n = \<lparr>pod_Name = n, pod_Labels = [(''controller-revision-hash'', ''rev'')], pod_Annotations = []\<rparr>"

text \<open>The answer to the installation is given.\<close>

definition exampleWEnv :: "rpcError option \<Rightarrow> (JSON, JSON, PodTemplateSpec, nat) wenv" where
  "exampleWEnv install = \<lparr>we_L = docLib, we_W = examplePodlib, we_J = textCodecs, we_CodeString = (\<lambda>_. ''code''),
     we_ParseBool = (\<lambda>t. if t = ''true'' then Some True else None),
     we_ParseTolerant = (\<lambda>v. Inr (if v = minJsonVersion then 1 else 0)), we_MustParse = (\<lambda>_. 1), we_LT = (<),
     we_VersionString = (\<lambda>_. minJsonVersion),
     we_Patch = (\<lambda>tr w p. Inr (w\<lparr>w_Status := (w_Status w)\<lparr>wst_Conditions := map appliedCondition (wa_Conditions p)\<rparr>\<rparr>)),
     we_ApplyService = (\<lambda>tr svc. None),
     we_ApplyStatefulSet = (\<lambda>tr sts. Inr (sts\<lparr>sts_Meta := emptyMeta, sts_Status := rolledOut\<rparr>)),
     we_DeleteStatefulSet = (\<lambda>tr sts. None), we_GetPod = (\<lambda>tr n ns. Inr (examplePod n)),
     we_Connect = (\<lambda>tr w. Inr ''ws-workspace.default:50051''), we_PulumiVersion = (\<lambda>tr. Inr minJsonVersion),
     we_Install = (\<lambda>tr. install), we_SelectStack = (\<lambda>tr n c sp. None), we_SetAllConfig = (\<lambda>tr items. None),
     we_AddEnvironments = (\<lambda>tr es. None), we_MarkInitialized = (\<lambda>tr pod. None)\<rparr>"

lemma example_stacks: "stacksAmong (exampleWEnv install) S"
  by (auto simp: stacksAmong_def exampleWEnv_def)

lemma exampleWEnv_simps [simp]:
  "we_L (exampleWEnv i) = docLib" "we_W (exampleWEnv i) = examplePodlib" "we_J (exampleWEnv i) = textCodecs"
  "we_Install (exampleWEnv i) tr = i"
  by (simp_all add: exampleWEnv_def)

interpretation exampleReachable: agent_reachable "exampleWEnv install" "''rev''"
  for install
proof (simp add: agent_reachable_def pod_reachable_def workspace_server_def docSlice.condition_slice_axioms, intro conjI)
  show "workspace_server_axioms (exampleWEnv install)"
    by unfold_locales (auto simp: exampleWEnv_def)
  show "pod_reachable_axioms (exampleWEnv install) ''rev''" "agent_reachable_axioms (exampleWEnv install)"
    by (unfold_locales;
       auto simp: exampleWEnv_def docLib_def refOwner_def isStatefulSetReady_def rolledOut_def emptyMeta_def
          examplePod_def revisionOf_def podInitialized_def minJsonVersion_def)+
qed

interpretation exampleWilling: agent_willing "exampleWEnv None" "''rev''"
  by unfold_locales (simp_all add: exampleWEnv_def)

definition preparedWorkspace :: Workspace where
  "preparedWorkspace = exampleWorkspace\<lparr>w_Spec := emptyWorkspaceSpec\<lparr>ws_Stacks := [exampleWorkspaceStack]\<rparr>\<rparr>"

lemma applyDefaults_kept [simp]:
  "w_Meta (applyDefaults W w) = w_Meta w" "ws_Stacks (w_Spec (applyDefaults W w)) = ws_Stacks (w_Spec w)"
  "ws_ProjectInfo (w_Spec (applyDefaults W w)) = ws_ProjectInfo (w_Spec w)"
  "ws_PodTemplate (w_Spec (applyDefaults W w)) = ws_PodTemplate (w_Spec w)"
  by (simp_all add: applyDefaults_def Let_def split: SecurityProfile.split)

lemma initCalls_defaults [simp]: "initCalls J (applyDefaults W w) = initCalls J w"
  "prepareCalls J (applyDefaults W w) stacks = prepareCalls J w stacks"
  by (simp_all add: initCalls_def prepareCalls_def)

lemma newStatefulSet_plain:
  "ws_PodTemplate (w_Spec w) = None \<Longrightarrow> \<exists>ss. newStatefulSet W w source = Inr ss"
  by (simp add: newStatefulSet_def Let_def)

lemma prepared_simps:
  "om_DeletionTimestamp (w_Meta preparedWorkspace) = None" "ws_Stacks (w_Spec preparedWorkspace) = [exampleWorkspaceStack]"
  "ws_PodTemplate (w_Spec preparedWorkspace) = None" "ws_ProjectInfo (w_Spec preparedWorkspace) = None"
  by (simp_all add: preparedWorkspace_def exampleWorkspace_def emptyMeta_def emptyWorkspaceSpec_def)

lemma prepared_items: "\<exists>items. marshalItems textCodecs (wst_Config exampleWorkspaceStack) = Inr items \<and> list_ex (hasJsonValue textCodecs) items"
  by (simp add: marshalItems_def exampleWorkspaceStack_def exampleItem_def marshalConfigItem_def textCodecs_def hasJsonValue_def
      quoteByte_def)

text \<open>Its pod is prepared and the workspace becomes ready.\<close>

lemma prepared_run:
  "wo_Err (WorkspaceReconcile (exampleWEnv None) (Inr preparedWorkspace)) = None"
  "\<exists>p. WPatchStatus p True \<in> set (wo_Trace (WorkspaceReconcile (exampleWEnv None) (Inr preparedWorkspace)))
     \<and> patchCond WorkspaceReady p = Some ConditionTrue"
proof -
  have "\<exists>ss. newStatefulSet examplePodlib (applyDefaults examplePodlib preparedWorkspace)
      (newSourceSpec (applyDefaults examplePodlib preparedWorkspace)) = Inr ss"
    by (rule newStatefulSet_plain) (simp add: prepared_simps)
  then show "wo_Err (WorkspaceReconcile (exampleWEnv None) (Inr preparedWorkspace)) = None"
    "\<exists>p. WPatchStatus p True \<in> set (wo_Trace (WorkspaceReconcile (exampleWEnv None) (Inr preparedWorkspace)))
     \<and> patchCond WorkspaceReady p = Some ConditionTrue"
    using exampleWilling.becomes_ready [of preparedWorkspace "{[exampleWorkspaceStack]}"] prepared_items example_stacks
    by (force simp: prepared_simps)+
qed

section \<open>Readiness\<close>

text \<open>C27: A workspace is called ready only when its pod is. When the handler writes a status whose Ready
  condition is true, it has applied the stateful set, the API server's answer said that it is
  rolled out with a replica available, the pod it found is of that revision, and the pod was
  marked as initialized, before or by this reconcile.\<close>

lemma ready_only_when_initialized:
  assumes "workspace_server E" and "WPatchStatus p ack \<in> set (wo_Trace (WorkspaceReconcile E (Inr obj)))"
    and "patchCond WorkspaceReady p = Some ConditionTrue"
  shows "\<exists>pre1 sts ss pre2 n ns pod. WApplyStatefulSet sts True \<in> set (wo_Trace (WorkspaceReconcile E (Inr obj)))
     \<and> we_ApplyStatefulSet E pre1 sts = Inr ss \<and> isStatefulSetReady ss
     \<and> we_GetPod E pre2 n ns = Inr pod \<and> revisionOf pod = sss_CurrentRevision (sts_Status ss)
     \<and> (podInitialized (we_ParseBool E) pod
        \<or> (\<exists>m. WMarkInitialized m True \<in> set (wo_Trace (WorkspaceReconcile E (Inr obj)))))"
  using workspace_server.ready_write [OF assms] unfolding reached_def by blast

lemma ready_only_when_initialized_witness:
  "\<exists>sts. WApplyStatefulSet sts True \<in> set (wo_Trace (WorkspaceReconcile (exampleWEnv None) (Inr preparedWorkspace)))"
  using prepared_run(2) ready_only_when_initialized [OF exampleReachable.workspace_server_axioms] by blast

text \<open>C28: A pod is marked as initialized after exactly the calls that prepare it. When the handler tries
  to mark the pod, it has asked for the version of the CLI, has installed the program's
  packages (unless the workspace has no program), and for each stack, in order, has selected it,
  set its configuration if there is any and added its environments if there are any; each of these
  calls was acknowledged, there was no other call to the agent, and none follows. The stacks are those
  that the answer to one of its own status patches showed, since the handler goes on with what is
  answered: where nobody edits the stacks while it runs, they are those of the workspace it fetched.
\<close>

lemma initialization_complete:
  assumes "workspace_server E" and "WMarkInitialized n ack \<in> set (wo_Trace (WorkspaceReconcile E (Inr obj)))"
  shows "\<exists>pre post stacks. wo_Trace (WorkspaceReconcile E (Inr obj)) = pre @ WMarkInitialized n ack # post
     \<and> agentCalls pre = prepareCalls (we_J E) obj stacks \<and> agentCalls post = []
     \<and> stacksAnswered E pre stacks
     \<and> (stacksAmong E {ws_Stacks (w_Spec obj)} \<longrightarrow> stacks = ws_Stacks (w_Spec obj))"
proof -
  obtain pre post stacks where "wo_Trace (WorkspaceReconcile E (Inr obj)) = pre @ WMarkInitialized n ack # post"
    "agentCalls pre = prepareCalls (we_J E) obj stacks" "agentCalls post = []" "stacksAnswered E pre stacks"
    "\<forall>S. stacksAmong E S \<and> ws_Stacks (w_Spec obj) \<in> S \<longrightarrow> stacks \<in> S"
    using workspace_server.mark_write [OF assms] by auto
  then show ?thesis by (intro exI [of _ pre] exI [of _ post] exI [of _ stacks]) auto
qed

lemma example_marked:
  "\<exists>n. WMarkInitialized n True \<in> set (wo_Trace (WorkspaceReconcile (exampleWEnv None) (Inr preparedWorkspace)))"
proof -
  have "\<not> podInitialized (we_ParseBool (exampleWEnv None)) pod" if "reached (exampleWEnv None) tr pod" for tr pod
    using that by (auto simp: reached_def exampleWEnv_def examplePod_def podInitialized_def)
  then show ?thesis using prepared_run(2) exampleReachable.ready_write by blast
qed

lemma initialization_complete_witness:
  "WInstall True \<in> set (wo_Trace (WorkspaceReconcile (exampleWEnv None) (Inr preparedWorkspace)))"
proof -
  obtain n where n: "WMarkInitialized n True \<in> set (wo_Trace (WorkspaceReconcile (exampleWEnv None) (Inr preparedWorkspace)))"
    using example_marked by blast
  obtain pre post stacks where tr: "wo_Trace (WorkspaceReconcile (exampleWEnv None) (Inr preparedWorkspace)) = pre @ WMarkInitialized n True # post"
    and "agentCalls pre = prepareCalls textCodecs preparedWorkspace stacks"
    using initialization_complete [OF exampleReachable.workspace_server_axioms n] by auto
  then have "WInstall True \<in> set (agentCalls pre)" by (simp add: prepareCalls_def prepared_simps)
  then show ?thesis by (simp add: tr agentCalls_def)
qed

text \<open>A configuration with structured values, and the call the agent makes for it.\<close>

definition structuredItems :: "JSON pbConfigItem list" where
  "structuredItems = [\<lparr>pc_Key = ''k'', pc_Path = None, pc_V = Some (PbValue ''{}''), pc_Secret = Some True\<rparr>]"

lemma structured_marshalled: "marshalItems textCodecs (wst_Config exampleWorkspaceStack) = Inr structuredItems"
  by (simp add: marshalItems_def exampleWorkspaceStack_def exampleItem_def marshalConfigItem_def textCodecs_def structuredItems_def)

lemma structured_planned: "\<exists>m. planConfig textCodecs exampleAgent ''p'' structuredItems = Inr (SetConfigJson m)"
  by (simp add: structuredItems_def planConfig_def hasJsonValue_def textCodecs_def quoteByte_def unmarshalConfigItemsJson_def
      configBodyJson_def parseItemKey_def exampleAgent_def jsonValueOf_def structuredValue_def Let_def)

lemma structured_prepared: "WSetAllConfig structuredItems True \<in> set (prepareCalls textCodecs w [exampleWorkspaceStack])"
  by (simp add: prepareCalls_def stackCalls_def structured_marshalled) (simp add: exampleWorkspaceStack_def)

text \<open>C29: Structured configuration does not reach a CLI that cannot take it, as long as nobody edits the
  stacks of the workspace while it is being prepared. When the handler sends the agent
  a configuration for which the agent would make the call that only newer CLIs have, the agent
  had told the version of its CLI and that version is not below the required one. (An edit in the
  middle gets past the check: see below.)
\<close>

lemma structured_config_needs_version:
  assumes "workspace_server E" and "stacksAmong E {ws_Stacks (w_Spec obj)}" and "json_text (we_J E)"
    and "WSetAllConfig items ack \<in> set (wo_Trace (WorkspaceReconcile E (Inr obj)))"
    and "planConfig (we_J E) A project items = Inr (SetConfigJson m)"
  shows "\<exists>tr v version. we_PulumiVersion E tr = Inr v \<and> we_ParseTolerant E v = Inr version
     \<and> \<not> we_LT E version (we_MustParse E minJsonVersion)"
proof -
  obtain stack where stack: "stack \<in> set (ws_Stacks (w_Spec obj))" "marshalItems (we_J E) (wst_Config stack) = Inr items"
    using workspace_server.config_write [OF assms(1,4,2)] by auto
  have "hasJsonConfigInWorkspace (ws_Stacks (w_Spec obj))"
    by (rule json_config_gated [OF assms(3) stack(1) marshalItems_all [OF stack(2)] assms(5)])
  then show ?thesis using workspace_server.config_write [OF assms(1,4,2)] by (simp add: jsonCapable_def)
qed

lemma structured_config_needs_version_witness:
  "\<exists>items ack. WSetAllConfig items ack \<in> set (wo_Trace (WorkspaceReconcile (exampleWEnv None) (Inr preparedWorkspace)))
     \<and> (\<exists>tr v version. we_PulumiVersion (exampleWEnv None) tr = Inr v \<and> we_ParseTolerant (exampleWEnv None) v = Inr version
          \<and> \<not> we_LT (exampleWEnv None) version (we_MustParse (exampleWEnv None) minJsonVersion))"
proof -
  have among: "stacksAmong (exampleWEnv None) {[exampleWorkspaceStack]}" by (rule example_stacks)
  obtain n pre post stacks where tr: "wo_Trace (WorkspaceReconcile (exampleWEnv None) (Inr preparedWorkspace)) = pre @ WMarkInitialized n True # post"
    and calls: "agentCalls pre = prepareCalls textCodecs preparedWorkspace stacks" and "stacks \<in> {[exampleWorkspaceStack]}"
    using example_marked exampleReachable.mark_write [of _ True None preparedWorkspace] among by (simp add: prepared_simps) blast
  then have "WSetAllConfig structuredItems True \<in> set (agentCalls pre)"
    using structured_prepared by (simp add: calls)
  then have sent: "WSetAllConfig structuredItems True \<in> set (wo_Trace (WorkspaceReconcile (exampleWEnv None) (Inr preparedWorkspace)))"
    by (simp add: agentCalls_def tr)
  have codecs: "json_text (we_J (exampleWEnv None))" by (simp add: textJson.json_text_axioms)
  obtain m where "planConfig (we_J (exampleWEnv None)) exampleAgent ''p'' structuredItems = Inr (SetConfigJson m)"
    using structured_planned by auto
  from structured_config_needs_version [OF exampleReachable.workspace_server_axioms _ codecs sent this] among sent
  show ?thesis by (simp add: prepared_simps) blast
qed

text \<open>
  The check of the version looks at the stacks the workspace had; what is sent is that of the stacks an
  answer showed. Here the stack with structured configuration is added while the handler prepares the pod
  of a workspace without stacks, and its CLI is older than required.
\<close>

definition oldCliEnv :: "(JSON, JSON, PodTemplateSpec, nat) wenv" where
  "oldCliEnv = (exampleWEnv None)\<lparr>we_ParseTolerant := (\<lambda>v. Inr 0),
     we_Patch := (\<lambda>tr w p. Inr (w\<lparr>w_Spec := (w_Spec w)\<lparr>ws_Stacks := [exampleWorkspaceStack]\<rparr>,
        w_Status := (w_Status w)\<lparr>wst_Conditions := map appliedCondition (wa_Conditions p)\<rparr>\<rparr>))\<rparr>"

interpretation oldCli: agent_obliging oldCliEnv "''rev''"
proof (simp add: agent_obliging_def pod_reachable_def workspace_server_def, intro conjI)
  show "condition_slice (we_L oldCliEnv)" by (simp add: oldCliEnv_def docSlice.condition_slice_axioms)
  show "workspace_server_axioms oldCliEnv" "pod_reachable_axioms oldCliEnv ''rev''" "agent_obliging_axioms oldCliEnv"
    by (unfold_locales;
       auto simp: oldCliEnv_def exampleWEnv_def docLib_def refOwner_def isStatefulSetReady_def rolledOut_def emptyMeta_def
          examplePod_def revisionOf_def podInitialized_def)+
qed

lemma edited_config_reaches_old_cli:
  "\<not> jsonCapable oldCliEnv
   \<and> WSetAllConfig structuredItems True
       \<in> set (wo_Trace (WorkspaceReconcile oldCliEnv (Inr (preparedWorkspace\<lparr>w_Spec := emptyWorkspaceSpec\<rparr>))))
   \<and> (\<exists>m. planConfig (we_J oldCliEnv) exampleAgent ''p'' structuredItems = Inr (SetConfigJson m))"
proof (intro conjI)
  let ?w = "preparedWorkspace\<lparr>w_Spec := emptyWorkspaceSpec\<rparr>"
  have env: "we_W oldCliEnv = examplePodlib" "we_J oldCliEnv = textCodecs"
    by (simp_all add: oldCliEnv_def)
  show "\<not> jsonCapable oldCliEnv" by (simp add: jsonCapable_def oldCliEnv_def exampleWEnv_def)
  show "\<exists>m. planConfig (we_J oldCliEnv) exampleAgent ''p'' structuredItems = Inr (SetConfigJson m)"
    using structured_planned by (simp add: env)
  have spec: "om_DeletionTimestamp (w_Meta ?w) = None" "ws_Stacks (w_Spec ?w) = []" "ws_PodTemplate (w_Spec ?w) = None"
    by (simp_all add: preparedWorkspace_def exampleWorkspace_def emptyMeta_def emptyWorkspaceSpec_def)
  have "\<exists>ss. newStatefulSet examplePodlib (applyDefaults examplePodlib ?w) (newSourceSpec (applyDefaults examplePodlib ?w)) = Inr ss"
    by (rule newStatefulSet_plain) (simp add: emptyWorkspaceSpec_def)
  moreover have "we_Patch oldCliEnv tr x p = Inr v \<Longrightarrow> ws_Stacks (w_Spec v) = [exampleWorkspaceStack]"
    "we_GetPod oldCliEnv tr n ns = Inr pod \<Longrightarrow> \<not> podInitialized (we_ParseBool oldCliEnv) pod" for tr x p v n ns pod
    by (auto simp: oldCliEnv_def exampleWEnv_def examplePod_def podInitialized_def)
  moreover have "\<exists>items. marshalItems textCodecs (wst_Config stack) = Inr items"
    if "xs \<in> {[], [exampleWorkspaceStack]}" "stack \<in> set xs" for xs stack
    using that structured_marshalled by auto
  ultimately obtain pre post where "wo_Trace (WorkspaceReconcile oldCliEnv (Inr ?w)) = pre @ post"
      "agentCalls pre = prepareCalls textCodecs (applyDefaults examplePodlib ?w) [exampleWorkspaceStack]"
    using oldCli.edited_stacks_prepared [of ?w "[exampleWorkspaceStack]", unfolded env applyDefaults_kept spec]
    by (auto simp: hasJsonConfigInWorkspace_def)
  then have "WSetAllConfig structuredItems True \<in> set (agentCalls pre)" using structured_prepared by simp
  with \<open>wo_Trace _ = _\<close> show "WSetAllConfig structuredItems True \<in> set (wo_Trace (WorkspaceReconcile oldCliEnv (Inr ?w)))"
    by (simp add: agentCalls_def)
qed

text \<open>C33: Failures of the preparation stall the workspace. When the installation, the selection of a stack,
  its configuration or its environments fail, the handler emits an event, saves a status whose Ready
  condition is false and whose Stalled condition is true, and leaves without marking the pod or asking
  to be called again; that save is the last thing it does, and it returns an error exactly when the
  save fails.\<close>

lemma initialization_failure_stalls:
  assumes "workspace_server E" and "a \<in> set (wo_Trace (WorkspaceReconcile E (Inr obj)))" and "failedCall a"
  shows "\<exists>pre e f as p. wo_Trace (WorkspaceReconcile E (Inr obj))
        = pre @ [a, WEvent e f as, WPatchStatus p (wo_Err (WorkspaceReconcile E (Inr obj)) = None)]
     \<and> patchCond WorkspaceReady p = Some ConditionFalse \<and> patchCond WorkspaceStalled p = Some ConditionTrue
     \<and> (\<forall>n ack. WMarkInitialized n ack \<notin> set (wo_Trace (WorkspaceReconcile E (Inr obj))))
     \<and> \<not> wo_Requeue (WorkspaceReconcile E (Inr obj)) \<and> wo_After (WorkspaceReconcile E (Inr obj)) = 0"
  using workspace_server.failure_ends [OF assms] by (simp add: stalledPatch_def unready_def)

lemma example_failure:
  "WInstall False \<in> set (wo_Trace (WorkspaceReconcile (exampleWEnv (Some (PlainError ''no network''))) (Inr preparedWorkspace)))"
proof -
  let ?E = "exampleWEnv (Some (PlainError ''no network''))"
  let ?s = "initialWState ?E preparedWorkspace"
  have init: "wv_obj ?s = applyDefaults examplePodlib preparedWorkspace" by (simp add: initialWState_def Let_def)
  have "\<exists>ss. newStatefulSet (we_W ?E) (wv_obj ?s) (newSourceSpec (wv_obj ?s)) = Inr ss"
    by (rule newStatefulSet_plain) (simp add: init prepared_simps)
  then obtain pod t where t: "reachAgent ?E ?s = Inr (pod, t)" "\<not> podInitialized (we_ParseBool ?E) pod"
    using exampleReachable.reach_goes_on by blast
  have src: "ws_ProjectInfo (w_Spec (wv_obj t)) = None"
    using exampleReachable.reachAgent_Inr(2) [OF exampleReachable.readyOk_initial t(1)] by (simp add: init prepared_simps)
  obtain u where u: "versionPhase ?E (removeStalled (we_L ?E) t) = Inr u" "jsonGate ?E u = Inr u" "w_Spec (wv_obj u) = w_Spec (wv_obj t)"
    using exampleReachable.version_goes_on by blast
  obtain v where v: "saveOrLeave ?E (setReady ConditionFalse ''Installing'' ''Installing packages and plugins required by the program'' u) = Inr v"
    using exampleReachable.save_goes_on by blast
  obtain out where out: "installPhase ?E u = Inl out" "WInstall False \<in> set (wo_Trace out)"
    using src u(3) v
    by (auto simp: installPhase_def stall_def leaveSaving_def wleave_def saveWorkspace_def Let_def syncReady_def setStalled_def
          split: sum.split prod.split)
  have "WorkspaceReconcile ?E (Inr preparedWorkspace) = out"
    using t u out by (simp add: WorkspaceReconcile_def init prepared_simps livePhases_def initializePhase_def checkAndInstall_def)
  with out show ?thesis by simp
qed

lemma initialization_failure_stalls_witness:
  "\<exists>p ack. WPatchStatus p ack \<in> set (wo_Trace (WorkspaceReconcile (exampleWEnv (Some (PlainError ''no network''))) (Inr preparedWorkspace)))
     \<and> patchCond WorkspaceStalled p = Some ConditionTrue"
  using initialization_failure_stalls [OF exampleReachable.workspace_server_axioms example_failure] by fastforce

text \<open>A reconcile that is over has said so. Unless the handler returns an error or asks to be called
  again, the last thing it did was to save, with success, a status whose Ready condition is
  true or false.\<close>

lemma quiet_reconcile_saved:
  assumes "workspace_server E"
    and "wo_Err (WorkspaceReconcile E (Inr obj)) = None" and "\<not> wo_Requeue (WorkspaceReconcile E (Inr obj))"
    and "wo_After (WorkspaceReconcile E (Inr obj)) \<le> 0"
  shows "\<exists>pre p. wo_Trace (WorkspaceReconcile E (Inr obj)) = pre @ [WPatchStatus p True]
     \<and> (patchCond WorkspaceReady p = Some ConditionTrue \<or> patchCond WorkspaceReady p = Some ConditionFalse)"
  using workspace_server.quiet_saved [OF assms(1), of obj] assms(2-4) by (auto simp: comesBack_def)

lemma deletingWorkspace_quiet:
  "wo_Err (WorkspaceReconcile (exampleWEnv None) (Inr (preparedWorkspace\<lparr>w_Meta := emptyMeta\<lparr>om_DeletionTimestamp := Some 1\<rparr>\<rparr>))) = None
   \<and> wo_After (WorkspaceReconcile (exampleWEnv None) (Inr (preparedWorkspace\<lparr>w_Meta := emptyMeta\<lparr>om_DeletionTimestamp := Some 1\<rparr>\<rparr>))) = 0
   \<and> \<not> wo_Requeue (WorkspaceReconcile (exampleWEnv None) (Inr (preparedWorkspace\<lparr>w_Meta := emptyMeta\<lparr>om_DeletionTimestamp := Some 1\<rparr>\<rparr>)))"
  using exampleReachable.save_goes_on(2) [of None]
  by (auto simp: WorkspaceReconcile_def initialWState_def Let_def leaveSaving_def wleave_def
        split: prod.split dest: spec) (metis fst_conv)+

lemma quiet_reconcile_saved_witness:
  "\<exists>p. WPatchStatus p True \<in> set (wo_Trace (WorkspaceReconcile (exampleWEnv None)
     (Inr (preparedWorkspace\<lparr>w_Meta := emptyMeta\<lparr>om_DeletionTimestamp := Some 1\<rparr>\<rparr>))))"
  using quiet_reconcile_saved [OF exampleReachable.workspace_server_axioms, of None "preparedWorkspace\<lparr>w_Meta := emptyMeta\<lparr>om_DeletionTimestamp := Some 1\<rparr>\<rparr>"]
    deletingWorkspace_quiet by fastforce

text \<open>C34: A cooperating world makes a workspace ready in one reconcile. Where the API server accepts
  what it is given, the stateful set is rolled out, its pod can be reached, and the agent has a CLI of
  the required version and does what it is asked, the reconcile of a live workspace ends without an
  error, having saved that it is ready. Its configuration can be marshalled, also that of stacks it
  is given while the handler runs.
\<close>

lemma workspace_becomes_ready:
  assumes "agent_willing E revision" and "om_DeletionTimestamp (w_Meta obj) = None"
    and "\<exists>ss. newStatefulSet (we_W E) (applyDefaults (we_W E) obj) (newSourceSpec (applyDefaults (we_W E) obj)) = Inr ss"
    and "stacksAmong E S" and "ws_Stacks (w_Spec obj) \<in> S"
    and "\<And>stacks stack. stacks \<in> S \<Longrightarrow> stack \<in> set stacks \<Longrightarrow> \<exists>items. marshalItems (we_J E) (wst_Config stack) = Inr items"
  shows "wo_Err (WorkspaceReconcile E (Inr obj)) = None
    \<and> (\<exists>pre p. wo_Trace (WorkspaceReconcile E (Inr obj)) = pre @ [WPatchStatus p True]
          \<and> patchCond WorkspaceReady p = Some ConditionTrue)"
  using agent_willing.becomes_ready [OF assms(1), of obj S] assms(2-6) by simp

lemma workspace_becomes_ready_witness:
  "wo_Err (WorkspaceReconcile (exampleWEnv None) (Inr preparedWorkspace)) = None"
proof -
  have "\<exists>ss. newStatefulSet (we_W (exampleWEnv None)) (applyDefaults (we_W (exampleWEnv None)) preparedWorkspace)
      (newSourceSpec (applyDefaults (we_W (exampleWEnv None)) preparedWorkspace)) = Inr ss"
    by (rule newStatefulSet_plain) (simp add: prepared_simps)
  from workspace_becomes_ready [OF exampleWilling.agent_willing_axioms prepared_simps(1) this example_stacks,
      of "{[exampleWorkspaceStack]}"] prepared_items
  show ?thesis by (force simp: prepared_simps)
qed

section \<open>The pod\<close>

text \<open>C35: Workspaces are restricted unless they ask otherwise. With the profile unset or Restricted and no
  pod template, every container of the pod, those that fetch the source included, runs without
  privilege escalation, drops all capabilities and adds only the one for low ports, and the
  pod runs as a user other than root.\<close>

lemma restricted_by_default:
  assumes "ws_SecurityProfile (w_Spec w) \<in> {SecurityProfileUnset, SecurityProfileRestricted}"
    and "ws_PodTemplate (w_Spec w) = None"
    and "newStatefulSet W (applyDefaults W w) source = Inr ss"
  shows "(\<forall>c \<in> set (ps_InitContainers (pts_Spec (sts_Template ss)) @ ps_Containers (pts_Spec (sts_Template ss))).
       \<exists>sc. ctr_SecurityContext c = Some sc \<and> sx_AllowPrivilegeEscalation sc = Some False
          \<and> sx_Capabilities sc = Some \<lparr>cap_Add = [''NET_BIND_SERVICE''], cap_Drop = [''ALL'']\<rparr>)
    \<and> (\<exists>psc. pts_SecurityContext (sts_Template ss) = Some psc \<and> psc_RunAsNonRoot psc = Some True
          \<and> psc_RunAsUser psc \<noteq> Some 0)"
proof -
  have profile: "ws_SecurityProfile (w_Spec (applyDefaults W w)) = SecurityProfileRestricted"
    using assms(1) by (auto simp: applyDefaults_def Let_def)
  have template: "sts_Template ss = withCommonEnv (restrictTemplate (baseTemplate W (applyDefaults W w) source))"
    using assms(2,3) profile by (simp add: newStatefulSet_def Let_def) auto
  have "pts_SecurityContext (baseTemplate W (applyDefaults W w) source) \<noteq> None"
    by (simp add: baseTemplate_def split: prod.split)
  then show ?thesis
    by (auto simp: template withCommonEnv_def restrictTemplate_def restrictContainer_def addCommonEnv_def Let_def)
qed

lemma restricted_by_default_witness:
  "\<exists>ss. newStatefulSet examplePodlib (applyDefaults examplePodlib preparedWorkspace) (newSourceSpec preparedWorkspace) = Inr ss
    \<and> (\<exists>psc. pts_SecurityContext (sts_Template ss) = Some psc \<and> psc_RunAsNonRoot psc = Some True)"
proof -
  obtain ss where ss: "newStatefulSet examplePodlib (applyDefaults examplePodlib preparedWorkspace) (newSourceSpec preparedWorkspace) = Inr ss"
    using newStatefulSet_plain [of "applyDefaults examplePodlib preparedWorkspace"] by (auto simp: prepared_simps)
  have "ws_SecurityProfile (w_Spec preparedWorkspace) \<in> {SecurityProfileUnset, SecurityProfileRestricted}"
    by (simp add: preparedWorkspace_def emptyWorkspaceSpec_def)
  from restricted_by_default [OF this prepared_simps(3) ss] ss show ?thesis by blast
qed

text \<open>A pod template without a specification makes the controller panic. The field is optional, but
  the order of the init containers is computed through the pointer without a test: no stateful set
  is made of such a workspace.\<close>

lemma pod_template_panics:
  assumes "ws_PodTemplate (w_Spec w) = Some template" and "ept_Spec template = None"
    and "\<And>t. \<exists>d. wl_MarshalTemplate W t = Inr d" and "\<exists>d. wl_MarshalPatch W template = Inr d"
  shows "newStatefulSet W w source = Inl (Panic ''invalid memory address or nil pointer dereference'')"
proof -
  have "mergePodTemplateSpec W t (Some template) = Inl (Panic ''invalid memory address or nil pointer dereference'')" for t
    using assms(2,4) assms(3) [of t] by (auto simp: mergePodTemplateSpec_def)
  then show ?thesis by (simp add: newStatefulSet_def Let_def assms(1) wrapUnlessPanic_def)
qed

definition labelsOnly :: EmbeddedPodTemplateSpec where
  "labelsOnly = \<lparr>ept_Metadata = \<lparr>eom_Labels = [(''team'', ''a'')], eom_Annotations = []\<rparr>, ept_Spec = None\<rparr>"

definition labelledWorkspace :: Workspace where
  "labelledWorkspace = preparedWorkspace\<lparr>w_Spec := (w_Spec preparedWorkspace)\<lparr>ws_PodTemplate := Some labelsOnly\<rparr>\<rparr>"

lemma pod_template_panics_witness:
  "newStatefulSet examplePodlib labelledWorkspace (newSourceSpec labelledWorkspace)
    = Inl (Panic ''invalid memory address or nil pointer dereference'')"
  by (rule pod_template_panics [where template = labelsOnly]) (simp_all add: examplePodlib_def labelsOnly_def labelledWorkspace_def)

section \<open>The connection\<close>

text \<open>A turn of the loop that ends it.\<close>

definition settles :: "grpcConn \<Rightarrow> nat \<Rightarrow> bool" where
  "settles conn i \<longleftrightarrow> gc_State conn i \<in> {connectivity.Ready, Shutdown, connectivity.TransientFailure} \<or> gc_DeadlinePassed conn i \<noteq> None"

lemma connectLoop_settles:
  assumes "settles conn (i + n)" and "\<forall>k<n. \<not> settles conn (i + k)" and "ConnClose \<notin> set acts"
  shows "\<exists>e acts'. connectLoop conn i acts = Some (e, acts') \<and> (e = None \<longleftrightarrow> gc_State conn (i + n) = connectivity.Ready)
     \<and> (ConnClose \<in> set acts' \<longleftrightarrow> e \<noteq> None)"
  using assms
proof (induction n arbitrary: i acts)
  case 0
  then show ?case
    by (subst connectLoop.simps) (auto simp: settles_def Let_def split: option.split)
next
  case (Suc n)
  let ?acts = "if gc_State conn i = Idle then acts @ [ConnConnect] else acts"
  have "\<not> settles conn i" using Suc.prems(2) by (metis add_0_right zero_less_Suc)
  then have step: "connectLoop conn i acts = connectLoop conn (Suc i) ?acts"
    by (subst connectLoop.simps) (auto simp: settles_def Let_def)
  have "\<forall>k<n. \<not> settles conn (Suc i + k)"
  proof (intro allI impI)
    fix k assume "k < n"
    then show "\<not> settles conn (Suc i + k)" using Suc.prems(2) [rule_format, of "Suc k"] by simp
  qed
  then show ?case using Suc.IH [of "Suc i" ?acts] Suc.prems(1,3) by (simp add: step)
qed

text \<open>The connection loop returns at the first turn that settles it, with the connection exactly
  when that turn found it ready; on every other return the connection was closed, and a connection
  that is handed out was not.\<close>

lemma connection_settles:
  assumes "settles conn n" and "\<forall>k<n. \<not> settles conn k"
  shows "\<exists>e acts. ConnectTo (Inr conn) = Some (e, acts) \<and> (e = None \<longleftrightarrow> gc_State conn n = connectivity.Ready)
     \<and> (ConnClose \<in> set acts \<longleftrightarrow> e \<noteq> None)"
  using connectLoop_settles [of conn 0 n "[]"] assms by (simp add: ConnectTo_def)

lemma connection_settles_witness:
  "\<exists>acts. ConnectTo (Inr \<lparr>gc_State = (\<lambda>i. if i = 0 then Idle else if i = 1 then Connecting else connectivity.Ready),
     gc_DeadlinePassed = (\<lambda>_. None)\<rparr>) = Some (None, acts)"
  using connection_settles [of "\<lparr>gc_State = (\<lambda>i. if i = 0 then Idle else if i = 1 then Connecting else connectivity.Ready),
     gc_DeadlinePassed = (\<lambda>_. None)\<rparr>" 2]
  by (auto simp: settles_def less_2_cases_iff)

end
