(* ===== verification/WorkspaceSystem.thy ===== *)
theory WorkspaceSystem
  imports WorkspaceProperties UpdateProperties
begin

text \<open>
  The workspace controller, the pod of its stateful set and the update controller together: what the
  agent in the present pod was asked to do before an operation runs there. Reconciles of the workspace
  interleave action by action with replacements of the pod and with operations of updates.
\<close>

section \<open>What a reconcile does, and for which generation\<close>

text \<open>
  The answers to status patches show generations among given ones, if what was sent is of one: any, or,
  where nobody changes the specification while the handler runs, the one that was sent, and then the
  stacks are those that were sent too.
\<close>

locale generations = workspace_server E for E :: "('j, 'i, 'm, 'v) wenv" +
  fixes G :: "int set"
  assumes patch_among: "we_Patch E tr w p = Inr v \<Longrightarrow> om_Generation (w_Meta w) \<in> G \<Longrightarrow> om_Generation (w_Meta v) \<in> G"

locale steady_server = workspace_server E for E :: "('j, 'i, 'm, 'v) wenv" +
  assumes patch_generation: "we_Patch E tr w p = Inr v \<Longrightarrow> om_Generation (w_Meta v) = om_Generation (w_Meta w)"
    and patch_stacks: "we_Patch E tr w p = Inr v \<Longrightarrow> ws_Stacks (w_Spec v) = ws_Stacks (w_Spec w)"
begin

lemma stacks_kept: "stacksAmong E S"
  unfolding stacksAmong_def using patch_stacks by metis

end

sublocale workspace_server < anything: generations E UNIV
  by unfold_locales simp

sublocale steady_server < one: generations E "{g}" for g
  by unfold_locales (simp add: patch_generation)

interpretation exampleSteady: steady_server "exampleWEnv install" for install
  by unfold_locales (auto simp: exampleWEnv_def)

text \<open>An action that is no application of a stateful set, and whose status names a generation.\<close>

fun settled :: "int set \<Rightarrow> 'j WAction \<Rightarrow> bool" where
  "settled G (WPatchStatus p ack) = (wa_ObservedGeneration p \<in> G)"
| "settled G (WApplyStatefulSet sts ack) = (\<not> ack)"
| "settled G a = True"

definition generationOf :: "'j WState \<Rightarrow> int" where
  "generationOf s = om_Generation (w_Meta (wv_obj s))"

definition keepsTo :: "int set \<Rightarrow> 'j WState \<Rightarrow> 'j WOutcome + 'j WState \<Rightarrow> bool" where
  "keepsTo G s m \<longleftrightarrow> generationOf s \<in> G \<longrightarrow>
     (case m of
        Inl oc \<Rightarrow> (\<exists>tr. wo_Trace oc = wv_trace s @ tr \<and> list_all (settled G) tr)
      | Inr t \<Rightarrow> (\<exists>tr. wv_trace t = wv_trace s @ tr \<and> list_all (settled G) tr) \<and> generationOf t \<in> G)"

lemma generation_view [simp]:
  "generationOf (wact a s) = generationOf s" "generationOf (wconds f s) = generationOf s"
  "generationOf (wstatus h s) = generationOf s" "generationOf (storeReady c s) = generationOf s"
  "generationOf (setReady st r m s) = generationOf s" "generationOf (setStalled L r m s) = generationOf s"
  "generationOf (clearAddress s) = generationOf s" "generationOf (removeStalled L s) = generationOf s"
  by (simp_all add: generationOf_def clearAddress_def setStalled_def removeStalled_def)

lemma trace_view [simp]:
  "wv_trace (setStalled L r m s) = wv_trace s" "wv_trace (removeStalled L s) = wv_trace s"
  by (simp_all add: setStalled_def removeStalled_def)

lemma keepsTo_bind:
  assumes "keepsTo G s m" and "\<And>t. m = Inr t \<Longrightarrow> keepsTo G t (f t)"
  shows "keepsTo G s (bindE m f)"
proof (cases m)
  case (Inl oc)
  with assms(1) show ?thesis by (simp add: keepsTo_def)
next
  case (Inr t)
  with assms(1) obtain tr where tr: "generationOf s \<in> G \<Longrightarrow> wv_trace t = wv_trace s @ tr \<and> list_all (settled G) tr \<and> generationOf t \<in> G"
    unfolding keepsTo_def by (cases "generationOf s \<in> G") auto
  with assms(2) [OF Inr] show ?thesis
    unfolding keepsTo_def Inr by (cases "f t") auto
qed

lemma keepsTo_bind_value:
  "\<lbrakk>\<And>oc. m = Inl oc \<Longrightarrow> keepsTo G s (Inl oc); \<And>x. m = Inr x \<Longrightarrow> keepsTo G s (f x)\<rbrakk> \<Longrightarrow> keepsTo G s (bindE m f)"
  by (cases m) simp_all

lemma keepsTo_from:
  assumes "keepsTo G t m" and "wv_trace t = wv_trace s @ tr" and "list_all (settled G) tr" and "generationOf t = generationOf s"
  shows "keepsTo G s m"
  using assms by (auto simp: keepsTo_def split: sum.splits)

lemma keepsTo_same: "wv_trace t = wv_trace s \<Longrightarrow> generationOf t = generationOf s \<Longrightarrow> keepsTo G t m = keepsTo G s m"
  by (simp add: keepsTo_def cong: sum.case_cong)

lemma keepsTo_stay [simp]: "keepsTo G s (Inr s)" "keepsTo G s (Inl (wleave after e s))"
  by (simp_all add: keepsTo_def wleave_def)

lemma keepsTo_act: "settled G a \<Longrightarrow> keepsTo G (wact a s) m \<Longrightarrow> keepsTo G s m"
  by (erule keepsTo_from [where tr = "[a]"]) simp_all

context generations
begin

lemma save_keepsTo:
  assumes "saveWorkspace E s = (r, t)"
  shows "\<exists>p. wv_trace t = wv_trace s @ [WPatchStatus p (r = None)] \<and> wa_ObservedGeneration p = generationOf s"
    and "generationOf s \<in> G \<Longrightarrow> generationOf t \<in> G"
proof -
  let ?u = "syncReady (we_L E) s"
  have u: "wv_trace ?u = wv_trace s" "generationOf ?u = generationOf s"
    by (simp_all add: syncReady_def Let_def)
  from assms u show "\<exists>p. wv_trace t = wv_trace s @ [WPatchStatus p (r = None)] \<and> wa_ObservedGeneration p = generationOf s"
    unfolding saveWorkspace_def by (auto simp: Let_def workspaceStatusApply_def generationOf_def split: sum.splits)
  from assms u(2) show "generationOf t \<in> G" if "generationOf s \<in> G"
    using that patch_among unfolding saveWorkspace_def by (auto simp: Let_def generationOf_def split: sum.splits)
qed

lemma keepsTo_leave: "keepsTo G s (Inl (leaveSaving E after s))"
proof -
  obtain r t where t: "saveWorkspace E s = (r, t)" by fastforce
  from save_keepsTo [OF t] t show ?thesis
    by (auto simp: leaveSaving_def keepsTo_def wleave_def)
qed

lemma keepsTo_save: "keepsTo G s (saveOrLeave E s)"
proof -
  obtain r t where t: "saveWorkspace E s = (r, t)" by fastforce
  from save_keepsTo [OF t] t show ?thesis
    by (cases r) (auto simp: saveOrLeave_def keepsTo_def wleave_def)
qed

text \<open>The phases after the application of the stateful set.\<close>

lemma keepsTo_stall: "keepsTo G s (Inl (stall E r m m' s))"
  unfolding stall_def
  by (rule iffD1 [OF keepsTo_same keepsTo_leave]) simp_all

lemma keepsTo_rollout: "keepsTo G s (rolloutPhase E ss s)"
  unfolding rolloutPhase_def
  by (auto intro: iffD1 [OF keepsTo_same keepsTo_leave] simp: clearAddress_def)

lemma keepsTo_pod: "podPhase E ss s = Inl oc \<Longrightarrow> keepsTo G s (Inl oc)"
  by (auto simp: podPhase_def Let_def keepsTo_def wleave_def split: sum.splits if_splits)

lemma keepsTo_status: "keepsTo G s (Inr (wstatus f s))"
  by (simp add: keepsTo_def)

lemma keepsTo_connect: "keepsTo G s (connectWorkspace E s)"
proof -
  have "keepsTo G s (Inl (leaveSaving E after (setReady c r m (wact (WEvent e f as) s))))" for after c r m e f as
    by (rule keepsTo_act [of G "WEvent e f as"], simp, rule iffD1 [OF keepsTo_same keepsTo_leave]) simp_all
  then show ?thesis by (simp add: connectWorkspace_def keepsTo_status split: sum.split)
qed

lemma keepsTo_version: "keepsTo G s (versionPhase E s)"
proof -
  let ?t = "\<lambda>err. wact (WEvent ConnectionFailureEvent (rpcErrorText err) []) (wact (WPulumiVersion False) s)"
  have "keepsTo G (?t err) (Inl (versionFailed E err (wact (WPulumiVersion False) s)))" for err
  proof -
    obtain r m where v: "versionFailed E err (wact (WPulumiVersion False) s)
        = (case saveWorkspace E (setReady ConditionFalse r m (?t err)) of
             (Some e, s) \<Rightarrow> wleave 0 (Some e) s | (None, s) \<Rightarrow> wleave 0 (Some (Errorf (rpcErrorText err))) s)"
      by (rule versionFailed_form)
    obtain x u where u: "saveWorkspace E (setReady ConditionFalse r m (?t err)) = (x, u)" by fastforce
    from save_keepsTo [OF u] u show ?thesis by (cases x) (auto simp: v keepsTo_def wleave_def)
  qed
  then have "keepsTo G s (Inl (versionFailed E err (wact (WPulumiVersion False) s)))" for err
    by (rule keepsTo_from [where tr = "[WPulumiVersion False, WEvent ConnectionFailureEvent (rpcErrorText err) []]"]) simp_all
  moreover have "keepsTo G s (Inr (wstatus f (wact (WPulumiVersion True) s)))" for f
    by (simp add: keepsTo_def)
  ultimately show ?thesis by (simp add: versionPhase_def split: sum.split)
qed

lemma keepsTo_json: "keepsTo G s (jsonGate E s)"
proof -
  have "keepsTo G s (Inl (stall E r m m' (wact (WEvent e f as) s)))" for r m m' e f as
    by (rule keepsTo_act [OF _ keepsTo_stall]) simp
  then show ?thesis by (simp add: jsonGate_def Let_def keepsTo_stall split: sum.split)
qed

lemma keepsTo_install: "keepsTo G s (installPhase E s)"
proof -
  have "keepsTo G t (Inl (stall E r m m' (wact (WEvent e f as) (wact (WInstall False) t))))" for t r m m' e f as
    by (rule keepsTo_from [OF keepsTo_stall, where tr = "[WInstall False, WEvent e f as]"]) simp_all
  then show ?thesis
    unfolding installPhase_def
    by (auto intro!: keepsTo_bind [OF iffD1 [OF keepsTo_same keepsTo_save]] keepsTo_act [OF _ keepsTo_stay(1)] split: option.split)
qed

lemma keepsTo_initStack: "keepsTo G s (initStack E stack s)"
proof -
  let ?h = "\<lambda>(msg, s). stall E ''InitializationFailed'' msg msg
      (wact (WEvent StackInitializationFailureEvent ''Failed to initialize stack %q: %v'' [wst_Name stack, msg]) s)"
  have failed: "keepsTo G t (Inl (stall E r m m' (wact (WEvent e f as) t)))" for t r m m' e f as
    by (rule keepsTo_act [OF _ keepsTo_stall]) simp
  have called: "settled G a \<Longrightarrow> keepsTo G t (Inl (stall E r m m' (wact (WEvent e f as) (wact a t))))" for a t r m m' e f as
    by (rule keepsTo_act [OF _ failed])
  have went: "settled G a \<Longrightarrow> keepsTo G t (Inr (wact a t))" for a t
    by (rule keepsTo_act [OF _ keepsTo_stay(1)])
  have "keepsTo G t (mapErr ?h (selectStep E stack t))" "keepsTo G t (mapErr ?h (configStep E stack t))"
    "keepsTo G t (mapErr ?h (environmentStep E stack t))" for t
    unfolding selectStep_def configStep_def environmentStep_def Let_def
    by (auto intro: called failed went split: option.split sum.split)
  then show ?thesis unfolding initStack_def stackSteps_def mapErr_bindE by (intro keepsTo_bind)
qed

lemma keepsTo_foldE:
  assumes "\<And>a t. keepsTo G t (f a t)"
  shows "keepsTo G s (foldE f as s)"
  by (induction as arbitrary: s) (simp_all add: keepsTo_bind assms)

lemma keepsTo_mark: "keepsTo G s (markPhase E pod s)"
proof -
  have "keepsTo G s (Inl (wleave 0 e (wact (WMarkInitialized n False) s)))" for e n
    by (rule keepsTo_act [OF _ keepsTo_stay(2)]) simp
  moreover have "keepsTo G s (Inr (wact (WEvent e f as) (wact (WMarkInitialized n True) s)))" for e f as n
    by (rule keepsTo_from [OF keepsTo_stay(1), where tr = "[WMarkInitialized n True, WEvent e f as]"]) simp_all
  ultimately show ?thesis by (simp add: markPhase_def split: option.split)
qed

lemma keepsTo_initialize: "keepsTo G s (initializePhase E pod s)"
proof -
  have "keepsTo G s (checkAndInstall E s)"
    unfolding checkAndInstall_def
    by (rule iffD1 [OF keepsTo_same keepsTo_bind [OF keepsTo_version keepsTo_bind [OF keepsTo_json keepsTo_install]]]) simp_all
  moreover have "keepsTo G t (stacksPhase E t)" for t
    unfolding stacksPhase_def
    by (rule keepsTo_bind [OF iffD1 [OF keepsTo_same keepsTo_save] keepsTo_foldE [OF keepsTo_initStack]]) simp_all
  ultimately show ?thesis by (simp add: initializePhase_def keepsTo_bind keepsTo_mark)
qed

end

section \<open>The course of a reconcile\<close>

text \<open>What comes before the stateful set was applied.\<close>

fun early :: "'j WAction \<Rightarrow> bool" where
  "early (WPatchStatus p ack) = (patchCond WorkspaceReady p = Some ConditionFalse)"
| "early (WApplyStatefulSet sts ack) = (\<not> ack)"
| "early (WMarkInitialized n ack) = False"
| "early a = (\<not> isAgentCall a)"

definition templateOf :: "'m podlib \<Rightarrow> Workspace \<Rightarrow> PodTemplateSpec \<Rightarrow> bool" where
  "templateOf W w template \<longleftrightarrow> (\<exists>ss. newStatefulSet W w (newSourceSpec w) = Inr ss \<and> sts_Template ss = template)"

text \<open>How the handler leaves, after the phases of a live workspace.\<close>

fun finish :: "('j, 'i, 'm, 'v) wenv \<Rightarrow> 'j WOutcome + 'j WState \<Rightarrow> 'j WOutcome" where
  "finish E (Inl out) = out"
| "finish E (Inr s) = leaveSaving E 0 (setReady ConditionTrue ''Succeeded'' [] s)"

lemma live_finish:
  "om_DeletionTimestamp (w_Meta (applyDefaults (we_W E) obj)) = None \<Longrightarrow>
     WorkspaceReconcile E (Inr obj) = finish E (livePhases E (initialWState E obj))"
  by (simp add: WorkspaceReconcile_def initialWState_def Let_def split: sum.splits)

context generations
begin

lemma finish_keeps:
  assumes "keepsTo G t m" and "generationOf t \<in> G"
  shows "\<exists>post. wo_Trace (finish E m) = wv_trace t @ post \<and> list_all (settled G) post"
proof (cases m)
  case (Inl out)
  with assms show ?thesis by (simp add: keepsTo_def)
next
  case (Inr v)
  then have "keepsTo G t (bindE m (\<lambda>v. Inl (finish E (Inr v))))"
    using assms(1) iffD1 [OF keepsTo_same keepsTo_leave] by (intro keepsTo_bind) simp_all
  with Inr assms(2) show ?thesis by (simp add: keepsTo_def)
qed

lemma deleting_early:
  fixes obj
  assumes "om_DeletionTimestamp (w_Meta (applyDefaults (we_W E) obj)) = Some t"
  shows "list_all early (wo_Trace (WorkspaceReconcile E (Inr obj)))"
proof -
  let ?s = "setReady ConditionFalse ''Deleting'' ''Workspace is being deleted'' (initialWState E obj)"
    and ?tr = "wo_Trace (WorkspaceReconcile E (Inr obj))"
  have "?tr = wo_Trace (leaveSaving E 0 ?s)" "wv_trace ?s = []"
    using assms by (simp_all add: WorkspaceReconcile_def initialWState_def Let_def)
  moreover obtain r t where t: "saveWorkspace E ?s = (r, t)" by fastforce
  ultimately obtain p where "?tr = [WPatchStatus p (r = None)]"
    using save_keepsTo(1) [OF t] by (auto simp: leaveSaving_def wleave_def)
  moreover have "orderly (we_J E) [] (WorkspaceReconcile E (Inr obj)) ?tr" using Workspace_deleting [of obj] assms by simp
  ultimately show ?thesis using orderly_member [of "we_J E" "[]" _ ?tr "WPatchStatus p (r = None)"] by simp
qed

lemma live_applies:
  assumes start: "wv_trace s = []"
  obtains out where "livePhases E s = Inl out" "list_all early (wo_Trace out)"
    | pre sts v where "keepsTo G v (livePhases E s)" "wv_trace v = pre @ [WApplyStatefulSet sts True]" "list_all early pre"
        "templateOf (we_W E) (wv_obj s) (sts_Template sts)" "wv_obj v = wv_obj s"
proof (cases "servicePhase E s")
  case (Inl out)
  then have "livePhases E s = Inl out" "list_all early (wo_Trace out)"
    by (auto simp: livePhases_def reachAgent_def Let_def servicePhase_def wleave_def start split: sum.splits option.splits)
  then show thesis by (rule that(1))
next
  case service: (Inr u)
  then have u: "list_all early (wv_trace u)" "wv_obj u = wv_obj s"
    by (auto simp: servicePhase_def Let_def start split: sum.splits option.splits)
  show thesis
  proof (cases "statefulSetPhase E (newSourceSpec (wv_obj s)) u")
    case (Inl out)
    then have "list_all early (wo_Trace out)"
      using u(1) by (auto simp: statefulSetPhase_def Let_def migrate_def wleave_def split: sum.splits option.splits if_splits)
    then show thesis using service Inl by (intro that(1) [of out]) (simp_all add: livePhases_def reachAgent_def)
  next
    case (Inr av)
    then obtain applied v where av: "av = (applied, v)" by (cases av)
    obtain sts where sts: "wv_trace v = wv_trace u @ [WApplyStatefulSet sts True]" "templateOf (we_W E) (wv_obj s) (sts_Template sts)"
      and v: "wv_obj v = wv_obj s"
      using Inr u(2) unfolding av
      by (auto simp: statefulSetPhase_def Let_def templateOf_def bindE_Inr_iff split: sum.splits)
    have "livePhases E s = bindE (rolloutPhase E applied v) (\<lambda>s. bindE (podPhase E applied s) (\<lambda>pod.
        bindE (connectWorkspace E s) (initializePhase E pod)))"
      using service Inr by (auto simp: livePhases_def reachAgent_def av bindE_def split: sum.split)
    then have "keepsTo G v (livePhases E s)"
      by simp (rule keepsTo_bind [OF keepsTo_rollout], rule keepsTo_bind_value, erule keepsTo_pod,
          rule keepsTo_bind [OF keepsTo_connect keepsTo_initialize])
    with sts u(1) v show thesis by (intro that(2))
  qed
qed

lemma reconcile_applies:
  fixes obj
  defines "w \<equiv> applyDefaults (we_W E) obj" and "tr \<equiv> wo_Trace (WorkspaceReconcile E (Inr obj))"
  assumes gen: "om_Generation (w_Meta w) \<in> G"
  obtains "list_all early tr"
    | pre sts post where "tr = pre @ WApplyStatefulSet sts True # post" "list_all early pre"
        "templateOf (we_W E) w (sts_Template sts)" "list_all (settled G) post"
proof (cases "om_DeletionTimestamp (w_Meta w)")
  case (Some t)
  then show thesis using that(1) deleting_early by (simp add: w_def tr_def)
next
  case None
  let ?s = "initialWState E obj"
  have s: "wv_obj ?s = w" "wv_trace ?s = []" by (simp_all add: initialWState_def Let_def w_def)
  have tr: "tr = wo_Trace (finish E (livePhases E ?s))"
    using None live_finish [of E obj] by (simp add: tr_def w_def)
  from s(2) show thesis
  proof (cases rule: live_applies)
    case (1 out)
    then show thesis using that(1) by (simp add: tr)
  next
    case (2 pre sts v)
    then obtain post where "tr = wv_trace v @ post" "list_all (settled G) post"
      using finish_keeps [OF 2(1)] gen by (auto simp: tr generationOf_def s)
    with 2 show thesis using that(2) [of pre sts post] by (simp add: s)
  qed
qed

end

context workspace_server
begin

lemma reconcile_template:
  assumes "WApplyStatefulSet sts True \<in> set (wo_Trace (WorkspaceReconcile E (Inr obj)))"
    and "WApplyStatefulSet sts' True \<in> set (wo_Trace (WorkspaceReconcile E (Inr obj)))"
  shows "sts' = sts \<and> templateOf (we_W E) (applyDefaults (we_W E) obj) (sts_Template sts)"
  by (rule anything.reconcile_applies [of obj]) (use assms in \<open>auto simp: list_all_iff\<close>)

end

context steady_server
begin

lemma ready_generation:
  assumes "WPatchStatus p ack \<in> set (wo_Trace (WorkspaceReconcile E (Inr obj)))" and "patchCond WorkspaceReady p = Some ConditionTrue"
  shows "wa_ObservedGeneration p = om_Generation (w_Meta obj)"
  by (rule one.reconcile_applies [where obj = obj and g = "om_Generation (w_Meta obj)"]) (use assms in \<open>auto simp: list_all_iff\<close>)

end

text \<open>
  Where a reconcile stands: it has not found the pod; it has, and made calls to its agent; it has asked
  for the pod to be marked. What it may do there depends on whether the pod was found marked.
\<close>

datatype 'j stage = Looking | Found "'j WAction list" | Asked

fun moveStage :: "('j, 'i) codecs \<Rightarrow> 'm podlib \<Rightarrow> Workspace \<Rightarrow> bool \<Rightarrow> 'j stage \<Rightarrow> 'j WAction \<Rightarrow> 'j stage option" where
  "moveStage J W w marked st (WApplyStatefulSet sts ack) =
     (if \<not> ack then Some st
      else if st = Looking \<and> templateOf W w (sts_Template sts) then Some (Found []) else None)"
| "moveStage J W w marked st (WMarkInitialized n ack) =
     (if st = Found (initCalls J w) then Some Asked else None)"
| "moveStage J W w marked st (WPatchStatus p ack) =
     (if patchCond WorkspaceReady p \<noteq> Some ConditionTrue then Some st
      else if wa_ObservedGeneration p = om_Generation (w_Meta w) \<and> (st = Asked \<or> st = Found [] \<and> marked)
      then Some st else None)"
| "moveStage J W w marked st a =
     (if \<not> isAgentCall a then Some st else case st of Found cs \<Rightarrow> Some (Found (cs @ [a])) | _ \<Rightarrow> None)"

fun follows :: "('j, 'i) codecs \<Rightarrow> 'm podlib \<Rightarrow> Workspace \<Rightarrow> bool \<Rightarrow> 'j stage \<Rightarrow> 'j WAction list \<Rightarrow> bool" where
  "follows J W w marked st [] \<longleftrightarrow> True"
| "follows J W w marked st (a # rest) \<longleftrightarrow>
     (case moveStage J W w marked st a of None \<Rightarrow> False | Some st' \<Rightarrow> follows J W w marked st' rest)"

lemma early_stays: "early a \<Longrightarrow> moveStage J W w marked Looking a = Some Looking"
  by (cases a) auto

lemma follows_early: "list_all early pre \<Longrightarrow> follows J W w marked Looking (pre @ rest) = follows J W w marked Looking rest"
  by (induction pre) (auto simp: early_stays)

text \<open>Between the two, calls to the agent, and statuses that are not ready.\<close>

definition plainly :: "'j WAction \<Rightarrow> bool" where
  "plainly a \<longleftrightarrow> (\<forall>n ack. a \<noteq> WMarkInitialized n ack) \<and> (\<forall>p ack. a = WPatchStatus p ack \<longrightarrow> patchCond WorkspaceReady p = Some ConditionFalse)"

lemma calm_plainly: "calm J stacks a \<Longrightarrow> plainly a"
  by (cases a) (auto simp: plainly_def)

lemma orderly_plainly: "orderly J stacks oc tr \<Longrightarrow> list_all plainly tr"
  by (auto simp: list_all_iff dest!: orderly_member intro: calm_plainly)
     (auto simp: plainly_def)

lemma found_moves:
  "plainly a \<Longrightarrow> settled G a \<Longrightarrow> moveStage J W w marked (Found cs) a = Some (Found (cs @ agentCalls [a]))"
  by (cases a) (auto simp: plainly_def)

lemma follows_found:
  "list_all plainly q \<Longrightarrow> list_all (settled G) q
    \<Longrightarrow> follows J W w marked (Found cs) (q @ rest) = follows J W w marked (Found (cs @ agentCalls q)) rest"
proof (induction q arbitrary: cs)
  case (Cons a q)
  then show ?case using found_moves [of a G J W w marked cs] by simp
qed simp

lemma early_calls: "list_all early pre \<Longrightarrow> agentCalls pre = []"
proof (induction pre)
  case (Cons a pre)
  then show ?case by (cases a) auto
qed simp

text \<open>A trace that applies the stateful set, from there on.\<close>

lemma follows_applied:
  assumes "list_all early pre" and "templateOf W w (sts_Template sts)"
  shows "follows J W w marked Looking (pre @ WApplyStatefulSet sts True # post) = follows J W w marked (Found []) post"
  using assms by (simp add: follows_early)

lemma follows_plain:
  assumes "tr = pre @ WApplyStatefulSet sts True # post" and "list_all early pre" and "templateOf W w (sts_Template sts)"
    and "list_all (settled {om_Generation (w_Meta w)}) post" and "list_all plainly tr"
  shows "follows J W w marked Looking tr"
  using assms follows_found [of post _ J W w marked "[]" "[]"] by (simp add: follows_applied)

lemma follows_split:
  assumes tr: "tr = pre @ WApplyStatefulSet sts True # post" and pre: "list_all early pre"
    and template: "templateOf W w (sts_Template sts)" and post: "list_all (settled {om_Generation (w_Meta w)}) post"
    and parts: "tr = x @ y" "list_all plainly x" "WApplyStatefulSet sts True \<notin> set y"
  shows "follows J W w marked Looking tr = follows J W w marked (Found (agentCalls x)) y
    \<and> list_all (settled {om_Generation (w_Meta w)}) y"
proof -
  from parts(1,3) tr obtain q where q: "x = pre @ WApplyStatefulSet sts True # q" "post = q @ y"
    by (auto simp: append_eq_append_conv2 Cons_eq_append_conv)
  have "list_all plainly q" "agentCalls q = agentCalls x"
    using parts(2) early_calls [OF pre] by (simp_all add: q(1))
  with post show ?thesis unfolding tr follows_applied [OF pre template] q(2)
    by (simp add: follows_found [of q "{om_Generation (w_Meta w)}"])
qed

context steady_server
begin

lemma reconcile_follows:
  fixes obj
  defines "w \<equiv> applyDefaults (we_W E) obj" and "tr \<equiv> wo_Trace (WorkspaceReconcile E (Inr obj))"
  assumes found: "\<And>tr n ns pod. we_GetPod E tr n ns = Inr pod \<Longrightarrow> podInitialized (we_ParseBool E) pod \<Longrightarrow> marked"
  shows "follows (we_J E) (we_W E) w marked Looking tr"
proof (rule one.reconcile_applies [where obj = obj and g = "om_Generation (w_Meta w)", folded w_def tr_def])
  show "om_Generation (w_Meta w) \<in> {om_Generation (w_Meta w)}" by simp
next
  assume "list_all early tr"
  then show ?thesis using follows_early [of tr "we_J E" "we_W E" w marked "[]"] by simp
next
  fix pre sts post
  assume tr: "tr = pre @ WApplyStatefulSet sts True # post" and pre: "list_all early pre"
    and template: "templateOf (we_W E) w (sts_Template sts)" and post: "list_all (settled {om_Generation (w_Meta w)}) post"
  have plain: ?thesis if "list_all plainly tr" using that follows_plain [OF tr pre template post] by simp
  note split = follows_split [where J = "we_J E" and marked = marked, OF tr pre template post]
  show ?thesis
  proof (cases "om_DeletionTimestamp (w_Meta w)")
    case (Some t)
    then have "orderly (we_J E) [] (WorkspaceReconcile E (Inr obj)) tr" using Workspace_deleting [of obj] by (simp add: w_def tr_def)
    then show ?thesis by (rule plain [OF orderly_plainly])
  next
    case None
    then have live: "om_DeletionTimestamp (w_Meta (applyDefaults (we_W E) obj)) = None" by (simp add: w_def)
    then show ?thesis
    proof (cases rule: Workspace_cases)
      case early
      show ?thesis by (rule plain [OF orderly_plainly [OF early [folded tr_def]]])
    next
      case (initialized pod x p ack)
      then have "list_all plainly x" by (auto simp: list_all_iff intro: calm_plainly)
      moreover have marked using initialized(2,3) found by (auto simp: reached_def)
      ultimately show ?thesis using split [OF initialized(1) [folded tr_def]] initialized(5,7) by simp
    next
      case failing
      show ?thesis by (rule plain [OF orderly_plainly [OF failing(1) [folded tr_def]]])
    next
      case (unmarked x n pod stacks)
      then have "list_all plainly x" by (auto simp: list_all_iff intro: calm_plainly)
      moreover have "stacks = ws_Stacks (w_Spec w)" using unmarked(7) [of "{ws_Stacks (w_Spec w)}"] stacks_kept by (simp add: w_def)
      ultimately show ?thesis using split [OF unmarked(1) [folded tr_def]] unmarked(2) by (simp add: w_def initCalls_def)
    next
      case (marked pod x n e f as p ack stacks)
      then have "list_all plainly x" by (auto simp: list_all_iff intro: calm_plainly)
      moreover have "stacks = ws_Stacks (w_Spec w)" using marked(10) [of "{ws_Stacks (w_Spec w)}"] stacks_kept by (simp add: w_def)
      ultimately show ?thesis using split [OF marked(1) [folded tr_def]] marked(2,5) by (simp add: w_def initCalls_def)
    qed
  qed
qed

end

section \<open>An update that acts has found its workspace ready\<close>

fun toAgent :: "UAction \<Rightarrow> bool" where
  "toAgent (USelectStack n ack) = True"
| "toAgent (UCall req ack) = True"
| "toAgent a = False"

context update_server
begin

lemma leave_silent:
  assumes "sessOk s" and "a \<in> set (uo_Trace (leaveUpdating E after s))" and "toAgent a"
  shows "a \<in> set (uv_trace s)"
proof -
  obtain r t where t: "updateStatus E s = (r, t)" by fastforce
  with updateStatus_effect(3) [OF assms(1) t] assms(2,3) show ?thesis
    by (auto simp: leaveUpdating_def uleave_def)
qed

lemma acts_when_ready:
  assumes "a \<in> set (uo_Trace (UpdateReconcile E (Inr obj)))" and "toAgent a"
  shows "\<exists>tr ns nm w. ue_GetWorkspace E tr ns nm = Inr w \<and> autoWorkspaceReady L (Some w)"
proof -
  let ?s = "initialState L obj"
  have ok: "sessOk ?s" "uv_trace ?s = []" by (rule sessOk_initial, simp add: initialState_def)
  have "a \<notin> set (uo_Trace (completedPhase E ?s))"
    using assms(2) ok(2) by (auto simp: completedPhase_def uleave_def emitOn_def Let_def split: option.splits)
  moreover have "a \<notin> set (uo_Trace (leaveUpdating E 0 (markFailed r ?s)))" for r
    using leave_silent [OF marking_ok(2) [OF ok(1)] _ assms(2)] ok(2) by fastforce
  ultimately have start: "a \<in> set (uo_Trace (startPhase E ?s))"
    using assms(1) by (simp add: UpdateReconcile_unfold Let_def split: if_splits)
  obtain r t where t: "updateStatus E (markRunning ?s) = (r, t)" by fastforce
  have okt: "sessOk t" "\<not> (\<exists>a\<in>set (uv_trace t). toAgent a)"
    using updateStatus_effect [OF marking_ok(3) [OF ok(1)] t] ok(2) by auto
  have "a \<notin> set (uo_Trace (leaveUpdating E 0 (markWaiting m t)))" for m
    using leave_silent [OF marking_ok(1) [OF okt(1)] _ assms(2)] okt(2) assms(2) by fastforce
  then show ?thesis
    using start okt(2) assms(2) by (auto simp: startPhase_def t uleave_def split: option.splits sum.splits if_splits)
qed

end

section \<open>Revisions\<close>

text \<open>
  The revision of a stateful set is made of its pod template; the hash of the source is annotated there
  and tells generations apart, unless the user's own template overrides the annotation.
\<close>

locale revisions =
  fixes W :: "'m podlib" and R :: "PodTemplateSpec \<Rightarrow> string"
  assumes hash_generation: "wl_Hash W s = wl_Hash W s' \<Longrightarrow> so_Generation s = so_Generation s'"
    and revision_annotations: "R t = R t' \<Longrightarrow> map_of (pts_Annotations t) PodAnnotationRevisionHash = map_of (pts_Annotations t') PodAnnotationRevisionHash"
    and merge_keeps: "mergePodTemplateSpec W base (Some p) = Inr t \<Longrightarrow>
      map_of (pts_Annotations t) PodAnnotationRevisionHash = map_of (pts_Annotations base) PodAnnotationRevisionHash"
begin

lemma template_hash:
  assumes "templateOf W w t"
  shows "map_of (pts_Annotations t) PodAnnotationRevisionHash = Some (wl_Hash W (newSourceSpec w))"
proof -
  have base: "map_of (pts_Annotations (baseTemplate W w s)) PodAnnotationRevisionHash = Some (wl_Hash W s)"
    "pts_Annotations (restrictTemplate b) = pts_Annotations b" "pts_Annotations (withCommonEnv b) = pts_Annotations b" for s b
    by (simp_all add: baseTemplate_def restrictTemplate_def withCommonEnv_def split: prod.split)
  from assms show ?thesis
    by (auto simp: templateOf_def newStatefulSet_def Let_def bindE_Inr_iff base merge_keeps split: option.splits if_splits)
qed

lemma told_apart:
  assumes "templateOf W w t" and "templateOf W w' t'" and "R t = R t'"
  shows "om_Generation (w_Meta w) = om_Generation (w_Meta w')"
  using template_hash [OF assms(1)] template_hash [OF assms(2)] revision_annotations [OF assms(3)]
    hash_generation [of "newSourceSpec w" "newSourceSpec w'"] by (simp add: newSourceSpec_def Let_def)

end

section \<open>The system\<close>

text \<open>
  What the agent of the present pod was asked, by reconciles of the workspace and by updates; an
  operation with the generation its update found ready, and the pod that status was about.
\<close>

datatype 'j served = Prepare "'j WAction" | Choose string | Operation int nat request

text \<open>
  The present pod: its number, the revision it was made from, whether it is marked as initialized.
  The reconcile of the workspace that is running, if one is, and the pod it found. Two histories: the
  generations said to be ready, with the pod each was said for; and whether the present pod was marked
  by a reconcile that had found another.
\<close>

record ('j, 'i, 'm, 'v) podSystem =
  py_served :: "'j served list"
  py_pod :: nat
  py_revision :: string
  py_marked :: bool
  py_handler :: "(('j, 'i, 'm, 'v) wenv \<times> Workspace \<times> 'j WAction list) option"
  py_found :: nat
  py_said :: "(int \<times> nat) set"
  py_mistaken :: bool

text \<open>
  What the handler is told once it has applied the stateful set: a pod of the present pod's revision,
  initialized only if it is; and, if the set is rolled out, that its revision is the template's.
\<close>

definition findsPod :: "(PodTemplateSpec \<Rightarrow> string) \<Rightarrow> ('j, 'i, 'm, 'v) wenv \<Rightarrow> StatefulSet \<Rightarrow> ('j, 'i, 'm, 'v) podSystem \<Rightarrow> bool" where
  "findsPod R E sts s \<longleftrightarrow>
     (\<forall>tr n ns pod. we_GetPod E tr n ns = Inr pod \<longrightarrow>
        (podInitialized (we_ParseBool E) pod \<longrightarrow> py_marked s) \<and> revisionOf pod = py_revision s)
     \<and> (\<forall>tr ss. we_ApplyStatefulSet E tr sts = Inr ss \<and> isStatefulSetReady ss \<longrightarrow>
        sss_CurrentRevision (sts_Status ss) = R (sts_Template sts))"

fun unanswered :: "'j WAction \<Rightarrow> bool" where
  "unanswered (WPulumiVersion ack) = (\<not> ack)"
| "unanswered a = failedCall a"

text \<open>
  What an action of the handler does. A call is served by the present pod, unless it failed or was made
  over the connection to another; the mark and the status are applied by name.
\<close>

inductive podEffect :: "(PodTemplateSpec \<Rightarrow> string) \<Rightarrow> ('j, 'i, 'm, 'v) wenv \<Rightarrow> 'j WAction
    \<Rightarrow> ('j, 'i, 'm, 'v) podSystem \<Rightarrow> ('j, 'i, 'm, 'v) podSystem \<Rightarrow> bool" for R E where
  finds: "findsPod R E sts s \<Longrightarrow> podEffect R E (WApplyStatefulSet sts True) s (s\<lparr>py_found := py_pod s\<rparr>)"
| serves: "isAgentCall a \<Longrightarrow> podEffect R E a s (s\<lparr>py_served := py_served s @ [Prepare a]\<rparr>)"
| fails: "isAgentCall a \<Longrightarrow> unanswered a \<or> py_found s \<noteq> py_pod s \<Longrightarrow> podEffect R E a s s"
| marks: "podEffect R E (WMarkInitialized n ack) s
    (s\<lparr>py_marked := True, py_mistaken := py_mistaken s \<or> py_found s \<noteq> py_pod s\<rparr>)"
| unmarked: "podEffect R E (WMarkInitialized n False) s s"
| says: "patchCond WorkspaceReady p = Some ConditionTrue \<Longrightarrow>
    podEffect R E (WPatchStatus p ack) s (s\<lparr>py_said := insert (wa_ObservedGeneration p, py_found s) (py_said s)\<rparr>)"
| unsaid: "\<not> ack \<or> patchCond WorkspaceReady p \<noteq> Some ConditionTrue \<Longrightarrow> podEffect R E (WPatchStatus p ack) s s"
| nothing: "\<lbrakk>\<not> isAgentCall a; \<And>sts. a \<noteq> WApplyStatefulSet sts True; \<And>n ack. a \<noteq> WMarkInitialized n ack;
    \<And>p ack. a \<noteq> WPatchStatus p ack\<rbrakk> \<Longrightarrow> podEffect R E a s s"

text \<open>The status of the workspace that an update's reconcile reads was saved before, now or long ago.\<close>

definition toldReady :: "('j, 'i, 'm, 'v) podSystem \<Rightarrow> uenv \<Rightarrow> int \<Rightarrow> nat \<Rightarrow> bool" where
  "toldReady s F g k \<longleftrightarrow> (\<forall>tr ns nm w. ue_GetWorkspace F tr ns nm = Inr w \<and> autoWorkspaceReady (ue_L F) (Some w) \<longrightarrow>
     om_Generation (w_Meta w) = g \<and> (g, k) \<in> py_said s)"

inductive podStep :: "('j, 'i) codecs \<Rightarrow> 'm podlib \<Rightarrow> (PodTemplateSpec \<Rightarrow> string)
    \<Rightarrow> ('j, 'i, 'm, 'v) podSystem \<Rightarrow> ('j, 'i, 'm, 'v) podSystem \<Rightarrow> bool" for J W R where
  begins: "\<lbrakk>py_handler s = None; steady_server E; we_J E = J; we_W E = W\<rbrakk>
    \<Longrightarrow> podStep J W R s (s\<lparr>py_handler := Some (E, applyDefaults W obj, wo_Trace (WorkspaceReconcile E (Inr obj)))\<rparr>)"
| acts: "\<lbrakk>py_handler s = Some (E, w, a # rest); podEffect R E a s t\<rbrakk> \<Longrightarrow> podStep J W R s (t\<lparr>py_handler := Some (E, w, rest)\<rparr>)"
| stops: "podStep J W R s (s\<lparr>py_handler := None\<rparr>)"
| replaced: "podStep J W R s (s\<lparr>py_served := [], py_pod := py_pod s + 1, py_revision := r, py_marked := False, py_mistaken := False\<rparr>)"
| chooses: "\<lbrakk>update_server F; toldReady s F g k; USelectStack n ack \<in> set (uo_Trace (UpdateReconcile F (Inr u)))\<rbrakk>
    \<Longrightarrow> podStep J W R s (s\<lparr>py_served := py_served s @ [Choose n]\<rparr>)"
| operates: "\<lbrakk>update_server F; toldReady s F g k; UCall req ack \<in> set (uo_Trace (UpdateReconcile F (Inr u)))\<rbrakk>
    \<Longrightarrow> podStep J W R s (s\<lparr>py_served := py_served s @ [Operation g k req]\<rparr>)"

definition newPod :: "string \<Rightarrow> ('j, 'i, 'm, 'v) podSystem" where
  "newPod r = \<lparr>py_served = [], py_pod = 0, py_revision = r, py_marked = False, py_handler = None, py_found = 0,
     py_said = {}, py_mistaken = False\<rparr>"

section \<open>What is prepared\<close>

fun preparation :: "'j served list \<Rightarrow> 'j WAction list" where
  "preparation [] = []"
| "preparation (Prepare a # cs) = a # preparation cs"
| "preparation (c # cs) = preparation cs"

lemma preparation_append [simp]: "preparation (xs @ ys) = preparation xs @ preparation ys"
  by (induction xs rule: preparation.induct) simp_all

text \<open>A complete preparation for a workspace of the generation, whose stateful set has the pod's revision.\<close>

definition complete :: "('j, 'i) codecs \<Rightarrow> Workspace \<Rightarrow> 'j served list \<Rightarrow> bool" where
  "complete J w cs \<longleftrightarrow> (\<exists>before after. preparation cs = before @ initCalls J w @ after)"

definition preparedFor :: "('j, 'i) codecs \<Rightarrow> 'm podlib \<Rightarrow> (PodTemplateSpec \<Rightarrow> string) \<Rightarrow> 'j served list \<Rightarrow> string \<Rightarrow> int \<Rightarrow> bool" where
  "preparedFor J W R cs r g \<longleftrightarrow> (\<exists>w t. complete J w cs \<and> templateOf W w t \<and> r = R t \<and> om_Generation (w_Meta w) = g)"

lemma complete_append: "complete J w cs \<Longrightarrow> complete J w (cs @ ds)"
  unfolding complete_def by (metis append.assoc preparation_append)

lemma preparedFor_append: "preparedFor J W R cs r g \<Longrightarrow> preparedFor J W R (cs @ ds) r g"
  unfolding preparedFor_def using complete_append by blast

text \<open>The actions that decide: asking for the mark, and a status that is ready.\<close>

fun concluding :: "'j WAction \<Rightarrow> bool" where
  "concluding (WMarkInitialized n ack) = True"
| "concluding (WPatchStatus p ack) = (patchCond WorkspaceReady p = Some ConditionTrue)"
| "concluding a = False"

lemma not_concluding: "plainly a \<Longrightarrow> \<not> concluding a"
  by (cases a) (auto simp: plainly_def)

lemma initCalls_answered: "list_all (\<lambda>a. \<not> unanswered a) (initCalls J w)"
  by (auto simp: initCalls_def prepareCalls_def stackCalls_def list_all_iff split: if_splits sum.splits)

text \<open>What the rest of a reconcile may do in a system whose pod is as it finds it.\<close>

definition goesOn :: "('j, 'i) codecs \<Rightarrow> 'm podlib \<Rightarrow> (PodTemplateSpec \<Rightarrow> string) \<Rightarrow> ('j, 'i, 'm, 'v) wenv \<Rightarrow> Workspace
    \<Rightarrow> 'j WAction list \<Rightarrow> bool" where
  "goesOn J W R E w rest \<longleftrightarrow> follows J W w True Looking rest
     \<and> (\<forall>sts s. WApplyStatefulSet sts True \<in> set rest \<and> findsPod R E sts s \<longrightarrow>
          follows J W w (py_marked s) Looking rest
          \<and> ((\<exists>a\<in>set rest. concluding a) \<longrightarrow> (\<exists>t. templateOf W w t \<and> py_revision s = R t)))"

context steady_server
begin

lemma concluding_reaches:
  fixes obj
  defines "tr \<equiv> wo_Trace (WorkspaceReconcile E (Inr obj))"
  assumes "a \<in> set tr" and "concluding a"
  shows "\<exists>pod. reached E tr pod"
proof -
  have quiet: "a \<notin> set x" if "list_all plainly x" for x
    using that assms(3) not_concluding by (auto simp: list_all_iff)
  show ?thesis
  proof (cases "om_DeletionTimestamp (w_Meta (applyDefaults (we_W E) obj))")
    case (Some t)
    then have "orderly (we_J E) [] (WorkspaceReconcile E (Inr obj)) tr" using Workspace_deleting [of obj] by (simp add: tr_def)
    then show ?thesis using quiet [OF orderly_plainly] assms(2) by blast
  next
    case None
    then show ?thesis
    proof (cases rule: Workspace_cases)
      case early
      then show ?thesis using quiet [OF orderly_plainly] assms(2) unfolding tr_def by blast
    next
      case (failing stacks)
      show ?thesis using quiet [OF orderly_plainly] failing(1) assms(2) unfolding tr_def by blast
    next
      case (initialized pod)
      then show ?thesis by (auto simp: tr_def intro: exI reached_append)
    next
      case (unmarked pre n pod)
      show ?thesis unfolding tr_def unmarked(1) using unmarked(6) by (auto intro: exI reached_append)
    next
      case (marked pod pre)
      show ?thesis unfolding tr_def marked(1) using marked(4) by (auto intro: exI reached_append)
    qed
  qed
qed

lemma reconcile_goesOn:
  "goesOn (we_J E) (we_W E) R E (applyDefaults (we_W E) obj) (wo_Trace (WorkspaceReconcile E (Inr obj)))"
proof -
  let ?w = "applyDefaults (we_W E) obj" and ?tr = "wo_Trace (WorkspaceReconcile E (Inr obj))"
  have "\<exists>t. templateOf (we_W E) ?w t \<and> py_revision s = R t"
    if sts: "WApplyStatefulSet sts True \<in> set ?tr" and s: "findsPod R E sts s" and a: "a \<in> set ?tr" "concluding a"
    for s :: "('j, 'i, 'm, 'v) podSystem" and a sts
  proof -
    obtain pod where "reached E ?tr pod" using concluding_reaches [OF a] by blast
    then obtain pre1 sts' ss pre2 n ns where r: "WApplyStatefulSet sts' True \<in> set ?tr" "we_ApplyStatefulSet E pre1 sts' = Inr ss"
        "isStatefulSetReady ss" "we_GetPod E pre2 n ns = Inr pod" "revisionOf pod = sss_CurrentRevision (sts_Status ss)"
      unfolding reached_def by blast
    with reconcile_template [OF sts r(1)] s have "py_revision s = R (sts_Template sts)" by (auto simp: findsPod_def)
    then show ?thesis using reconcile_template [OF sts sts] by blast
  qed
  moreover have "follows (we_J E) (we_W E) ?w (py_marked s) Looking ?tr"
    if "findsPod R E sts s" for s :: "('j, 'i, 'm, 'v) podSystem" and sts
    using that by (intro reconcile_follows) (auto simp: findsPod_def)
  ultimately show ?thesis unfolding goesOn_def by (auto intro: reconcile_follows)
qed

end

section \<open>The invariant\<close>

definition allAnswered :: "'j WAction list \<Rightarrow> bool" where
  "allAnswered cs \<longleftrightarrow> list_all (\<lambda>a. \<not> unanswered a) cs"

text \<open>What is known of the present pod at each stage of a reconcile that found it.\<close>

fun stageOk :: "('j, 'i) codecs \<Rightarrow> 'm podlib \<Rightarrow> (PodTemplateSpec \<Rightarrow> string) \<Rightarrow> ('j, 'i, 'm, 'v) podSystem
    \<Rightarrow> ('j, 'i, 'm, 'v) wenv \<Rightarrow> Workspace \<Rightarrow> 'j WAction list \<Rightarrow> 'j stage \<Rightarrow> bool" where
  "stageOk J W R s E w rest Looking \<longleftrightarrow> goesOn J W R E w rest"
| "stageOk J W R s E w rest (Found cs) \<longleftrightarrow>
     (\<exists>marked. follows J W w marked (Found cs) rest
        \<and> (py_found s = py_pod s \<longrightarrow>
             ((\<exists>a\<in>set rest. concluding a) \<longrightarrow> (\<exists>t. templateOf W w t \<and> py_revision s = R t))
             \<and> (marked \<longrightarrow> py_marked s)
             \<and> (allAnswered cs \<longrightarrow> (\<exists>before. preparation (py_served s) = before @ cs))))"
| "stageOk J W R s E w rest Asked \<longleftrightarrow>
     (\<exists>marked. follows J W w marked Asked rest)
     \<and> (py_found s = py_pod s \<longrightarrow> preparedFor J W R (py_served s) (py_revision s) (om_Generation (w_Meta w)))"

definition podOk :: "('j, 'i) codecs \<Rightarrow> 'm podlib \<Rightarrow> (PodTemplateSpec \<Rightarrow> string) \<Rightarrow> ('j, 'i, 'm, 'v) podSystem \<Rightarrow> bool" where
  "podOk J W R s \<longleftrightarrow> py_found s \<le> py_pod s \<and> (\<forall>(g, k)\<in>py_said s. k \<le> py_pod s)
     \<and> (\<not> py_mistaken s \<longrightarrow>
          (py_marked s \<longrightarrow> (\<exists>g. preparedFor J W R (py_served s) (py_revision s) g))
          \<and> (\<forall>g. (g, py_pod s) \<in> py_said s \<longrightarrow> preparedFor J W R (py_served s) (py_revision s) g)
          \<and> (\<forall>pre g req post. py_served s = pre @ Operation g (py_pod s) req # post
                \<longrightarrow> preparedFor J W R pre (py_revision s) g))"

definition podInv :: "('j, 'i) codecs \<Rightarrow> 'm podlib \<Rightarrow> (PodTemplateSpec \<Rightarrow> string) \<Rightarrow> ('j, 'i, 'm, 'v) podSystem \<Rightarrow> bool" where
  "podInv J W R s \<longleftrightarrow> podOk J W R s
     \<and> (case py_handler s of None \<Rightarrow> True | Some (E, w, rest) \<Rightarrow> \<exists>st. stageOk J W R s E w rest st)"

lemma stageOk_handler [simp]:
  "stageOk J W R (s\<lparr>py_handler := h\<rparr>) E w rest = stageOk J W R s E w rest"
proof
  fix st
  show "stageOk J W R (s\<lparr>py_handler := h\<rparr>) E w rest st = stageOk J W R s E w rest st" by (cases st) simp_all
qed

lemma podOk_handler [simp]: "podOk J W R (s\<lparr>py_handler := h\<rparr>) = podOk J W R s"
  by (simp add: podOk_def)

lemma podInv_change:
  assumes "podInv J W R s" and "podOk J W R s'" and "py_handler s' = py_handler s"
    and "\<And>E w rest st. stageOk J W R s E w rest st \<Longrightarrow> stageOk J W R s' E w rest st"
  shows "podInv J W R s'"
proof (cases "py_handler s")
  case None
  with assms(2,3) show ?thesis by (simp add: podInv_def)
next
  case (Some h)
  then obtain E w rest where h: "py_handler s = Some (E, w, rest)" by (cases h) auto
  with assms(1) obtain st where "stageOk J W R s E w rest st" by (auto simp: podInv_def)
  then have "\<exists>st. stageOk J W R s' E w rest st" using assms(4) by blast
  with assms(2,3) h show ?thesis by (simp add: podInv_def)
qed

text \<open>Serving one more.\<close>

lemma podOk_serves:
  assumes "podOk J W R s"
    and "\<And>g req. c = Operation g (py_pod s) req \<Longrightarrow> \<not> py_mistaken s \<Longrightarrow> (g, py_pod s) \<in> py_said s"
  shows "podOk J W R (s\<lparr>py_served := py_served s @ [c]\<rparr>)"
proof -
  have "preparedFor J W R pre (py_revision s) g"
    if "py_served s @ [c] = pre @ Operation g (py_pod s) req # post" "\<not> py_mistaken s" for pre g req post
  proof (cases post rule: rev_cases)
    case Nil
    then show ?thesis using that assms by (auto simp: podOk_def)
  next
    case (snoc post' d)
    then have "py_served s = pre @ Operation g (py_pod s) req # post'" using that(1) by simp
    then show ?thesis using assms(1) that(2) by (auto simp: podOk_def)
  qed
  then show ?thesis using assms(1) by (auto simp: podOk_def intro: preparedFor_append)
qed

lemma stageOk_serves:
  assumes "stageOk J W R s E w rest st" and "preparation [c] = []"
  shows "stageOk J W R (s\<lparr>py_served := py_served s @ [c]\<rparr>) E w rest st"
  using assms by (cases st) (auto intro: preparedFor_append)

text \<open>An action of the handler keeps what is known, and goes to the next stage.\<close>

lemma follows_step:
  "follows J W w marked st (a # rest) \<Longrightarrow> \<exists>st'. moveStage J W w marked st a = Some st' \<and> follows J W w marked st' rest"
  by (auto split: option.splits)

lemma goesOn_step:
  assumes "goesOn J W R E w (a # rest)" and "moveStage J W w True Looking a = Some Looking"
    and "\<And>m. moveStage J W w m Looking a = moveStage J W w True Looking a"
  shows "goesOn J W R E w rest"
  using assms unfolding goesOn_def by (simp, blast)

lemma looking_calls: "moveStage J W w m Looking a = Some st \<Longrightarrow> \<not> isAgentCall a \<and> \<not> concluding a"
  by (cases a) (auto split: if_splits)

lemma looking_move:
  assumes "goesOn J W R E w (a # rest)" and "\<And>sts. a \<noteq> WApplyStatefulSet sts True"
  shows "goesOn J W R E w rest" and "\<not> isAgentCall a" and "\<not> concluding a"
proof -
  obtain st where st: "moveStage J W w True Looking a = Some st"
    using assms(1) follows_step unfolding goesOn_def by blast
  then have m: "moveStage J W w m Looking a = Some Looking" for m
    using assms(2) by (cases a) (auto split: if_splits)
  from looking_calls [OF st] show "\<not> isAgentCall a" and "\<not> concluding a" by simp_all
  show "goesOn J W R E w rest" by (rule goesOn_step [OF assms(1)]) (simp_all add: m)
qed

lemma call_moves:
  assumes "isAgentCall a" and "moveStage J W w m st a = Some st'"
  obtains cs where "st = Found cs" and "st' = Found (cs @ [a])"
  using assms by (cases a; cases st) (auto split: if_splits)

lemma rest_moves:
  assumes "\<not> isAgentCall a" "\<And>sts. a \<noteq> WApplyStatefulSet sts True" "\<And>n ack. a \<noteq> WMarkInitialized n ack"
    and "moveStage J W w m st a = Some st'"
  shows "st' = st"
  using assms by (cases a) (auto split: if_splits)

lemma stageOk_stays:
  assumes "stageOk J W R s E w (a # rest) st"
    and "\<not> isAgentCall a" "\<And>sts. a \<noteq> WApplyStatefulSet sts True" "\<And>n ack. a \<noteq> WMarkInitialized n ack"
  shows "stageOk J W R s E w rest st"
proof (cases st)
  case Looking
  then have "goesOn J W R E w (a # rest)" using assms(1) by simp
  from looking_move(1) [OF this assms(3)] Looking show ?thesis by simp
next
  case (Found cs)
  then obtain marked where "follows J W w marked (Found cs) (a # rest)" and
    k: "py_found s = py_pod s \<longrightarrow> ((\<exists>b\<in>set (a # rest). concluding b) \<longrightarrow> (\<exists>t. templateOf W w t \<and> py_revision s = R t))
        \<and> (marked \<longrightarrow> py_marked s) \<and> (allAnswered cs \<longrightarrow> (\<exists>before. preparation (py_served s) = before @ cs))"
    using assms(1) by auto
  then have "follows J W w marked (Found cs) rest" using follows_step rest_moves [OF assms(2-4)] by blast
  with k Found show ?thesis by auto
next
  case Asked
  then obtain marked where "follows J W w marked Asked (a # rest)" using assms(1) by auto
  then have "follows J W w marked Asked rest" using follows_step rest_moves [OF assms(2-4)] by blast
  with Asked assms(1) show ?thesis by auto
qed

lemma stageOk_calls:
  assumes "stageOk J W R s E w (a # rest) st" and "isAgentCall a"
    and "t = s\<lparr>py_served := py_served s @ [Prepare a]\<rparr> \<or> t = s \<and> (unanswered a \<or> py_found s \<noteq> py_pod s)"
  shows "\<exists>st'. stageOk J W R t E w rest st'"
proof (cases st)
  case Looking
  then have g: "goesOn J W R E w (a # rest)" using assms(1) by simp
  have "a \<noteq> WApplyStatefulSet sts True" for sts using assms(2) by auto
  from looking_move(2) [OF g this] assms(2) show ?thesis by simp
next
  case (Found cs)
  then obtain marked where f: "follows J W w marked (Found cs) (a # rest)" and
    k: "py_found s = py_pod s \<longrightarrow> ((\<exists>b\<in>set (a # rest). concluding b) \<longrightarrow> (\<exists>t. templateOf W w t \<and> py_revision s = R t))
        \<and> (marked \<longrightarrow> py_marked s) \<and> (allAnswered cs \<longrightarrow> (\<exists>before. preparation (py_served s) = before @ cs))"
    using assms(1) by auto
  have "follows J W w marked (Found (cs @ [a])) rest" using follows_step [OF f] call_moves [OF assms(2)] by blast
  moreover have "py_found t = py_pod t \<and> allAnswered (cs @ [a]) \<longrightarrow> (\<exists>before. preparation (py_served t) = before @ cs @ [a])"
    using k assms(3) by (auto simp: allAnswered_def)
  moreover have "py_found t = py_found s" "py_pod t = py_pod s" "py_revision t = py_revision s" "py_marked t = py_marked s"
    using assms(3) by auto
  ultimately have "stageOk J W R t E w rest (Found (cs @ [a]))" using k by auto
  then show ?thesis by blast
next
  case Asked
  then show ?thesis using assms(1) follows_step call_moves [OF assms(2)] by fastforce
qed

text \<open>The pod is asked to be marked after the calls that prepare it.\<close>

lemma stageOk_marks:
  assumes "stageOk J W R s E w (WMarkInitialized n ack # rest) st"
  shows "\<exists>marked. follows J W w marked Asked rest"
    and "py_found s = py_pod s \<Longrightarrow> preparedFor J W R (py_served s) (py_revision s) (om_Generation (w_Meta w))"
proof -
  have "\<exists>cs marked. st = Found cs \<and> cs = initCalls J w \<and> follows J W w marked Asked rest"
  proof (cases st)
    case Looking
    then have "goesOn J W R E w (WMarkInitialized n ack # rest)" using assms by simp
    from looking_move(3) [OF this] show ?thesis by simp
  qed (use assms in \<open>auto split: if_splits\<close>)
  then obtain marked where st: "st = Found (initCalls J w)" and f: "follows J W w marked Asked rest" by blast
  from f show "\<exists>marked. follows J W w marked Asked rest" by blast
  assume "py_found s = py_pod s"
  then have "\<exists>before. preparation (py_served s) = before @ initCalls J w @ []" "\<exists>t. templateOf W w t \<and> py_revision s = R t"
    using assms initCalls_answered [of J w] unfolding st by (auto simp: allAnswered_def)
  then show "preparedFor J W R (py_served s) (py_revision s) (om_Generation (w_Meta w))"
    unfolding preparedFor_def complete_def by blast
qed

context revisions
begin

text \<open>A status that is ready is about the generation the pod is prepared for.\<close>

lemma stageOk_says:
  assumes ok: "stageOk J W R s E w (WPatchStatus p ack # rest) st" and ready: "patchCond WorkspaceReady p = Some ConditionTrue"
    and pod: "podOk J W R s" "py_found s = py_pod s" "\<not> py_mistaken s"
  shows "preparedFor J W R (py_served s) (py_revision s) (wa_ObservedGeneration p)"
proof (cases st)
  case Looking
  then have "goesOn J W R E w (WPatchStatus p ack # rest)" using ok by simp
  from looking_move(3) [OF this] ready show ?thesis by simp
next
  case (Found cs)
  then have g: "wa_ObservedGeneration p = om_Generation (w_Meta w)" and "py_marked s"
    and "\<exists>t. templateOf W w t \<and> py_revision s = R t"
    using ok ready pod(2) by (auto split: if_splits)
  then obtain t g' where t: "templateOf W w t" "py_revision s = R t" and "preparedFor J W R (py_served s) (py_revision s) g'"
    using pod(1,3) by (auto simp: podOk_def)
  then obtain w' t' where w': "complete J w' (py_served s)" "templateOf W w' t'" "py_revision s = R t'" "om_Generation (w_Meta w') = g'"
    by (auto simp: preparedFor_def)
  from told_apart [OF w'(2) t(1)] w'(3) t(2) have "om_Generation (w_Meta w') = om_Generation (w_Meta w)" by simp
  with w' g show ?thesis unfolding preparedFor_def by metis
next
  case Asked
  with ok ready pod(2) show ?thesis by (auto split: if_splits)
qed

lemma effect_keeps:
  assumes "podEffect R E a s s'" and "stageOk J W R s E w (a # rest) st" and "podOk J W R s"
  shows "podOk J W R s' \<and> (\<exists>st'. stageOk J W R s' E w rest st')"
  using assms
proof (induction rule: podEffect.induct)
  case (finds sts s)
  have "goesOn J W R E w (WApplyStatefulSet sts True # rest)"
    using finds.prems(1) by (cases st) (auto split: if_splits)
  then have "follows J W w (py_marked s) (Found []) rest"
    and "(\<exists>a\<in>set rest. concluding a) \<longrightarrow> (\<exists>t. templateOf W w t \<and> py_revision s = R t)"
    using finds.hyps unfolding goesOn_def by (simp_all split: if_splits) blast+
  then have "stageOk J W R (s\<lparr>py_found := py_pod s\<rparr>) E w rest (Found [])" by auto
  moreover have "podOk J W R (s\<lparr>py_found := py_pod s\<rparr>)" using finds.prems(2) by (simp add: podOk_def)
  ultimately show ?case by blast
next
  case (serves a s)
  then show ?case using stageOk_calls [of J W R s E w a rest st] podOk_serves [of J W R s "Prepare a"] by auto
next
  case (fails a s)
  then show ?case using stageOk_calls [of J W R s E w a rest st s] by auto
next
  case (marks n ack s)
  note m = stageOk_marks [OF marks.prems(1)]
  then have "stageOk J W R (s\<lparr>py_marked := True, py_mistaken := py_mistaken s \<or> py_found s \<noteq> py_pod s\<rparr>) E w rest Asked" by simp
  moreover have "podOk J W R (s\<lparr>py_marked := True, py_mistaken := py_mistaken s \<or> py_found s \<noteq> py_pod s\<rparr>)"
    using marks.prems(2) m(2) by (auto simp: podOk_def)
  ultimately show ?case by blast
next
  case (unmarked n s)
  from stageOk_marks [OF unmarked.prems(1)] have "stageOk J W R s E w rest Asked" by simp
  with unmarked.prems(2) show ?case by blast
next
  case (says p ack s)
  have "stageOk J W R s E w rest st" by (rule stageOk_stays [OF says.prems(1)]) simp_all
  then have "stageOk J W R (s\<lparr>py_said := insert (wa_ObservedGeneration p, py_found s) (py_said s)\<rparr>) E w rest st"
    by (cases st) simp_all
  moreover have "podOk J W R (s\<lparr>py_said := insert (wa_ObservedGeneration p, py_found s) (py_said s)\<rparr>)"
    using says.prems(2) stageOk_says [OF says.prems(1) says.hyps says.prems(2)] by (auto simp: podOk_def)
  ultimately show ?case by blast
next
  case (unsaid ack p s)
  have "stageOk J W R s E w rest st" by (rule stageOk_stays [OF unsaid.prems(1)]) simp_all
  with unsaid.prems(2) show ?case by blast
next
  case (nothing a s)
  have "stageOk J W R s E w rest st" by (rule stageOk_stays [OF nothing.prems(1)]) (use nothing.hyps in auto)
  with nothing.prems(2) show ?case by blast
qed

text \<open>The system keeps the invariant.\<close>

lemma step_keeps: "podStep J W R s s' \<Longrightarrow> podInv J W R s \<Longrightarrow> podInv J W R s'"
proof (induction rule: podStep.induct)
  case (begins s E obj)
  have "stageOk J W R s E (applyDefaults W obj) (wo_Trace (WorkspaceReconcile E (Inr obj))) Looking"
    using steady_server.reconcile_goesOn [OF begins.hyps(2), of R obj] begins.hyps(3,4) by simp
  then have "\<exists>st. stageOk J W R s E (applyDefaults W obj) (wo_Trace (WorkspaceReconcile E (Inr obj))) st" by blast
  with begins.prems show ?case by (simp add: podInv_def)
next
  case (acts s E w a rest t)
  then obtain st where "stageOk J W R s E w (a # rest) st" "podOk J W R s" by (auto simp: podInv_def)
  from effect_keeps [OF acts.hyps(2) this] show ?case by (auto simp: podInv_def)
next
  case (stops s)
  then show ?case by (simp add: podInv_def)
next
  case (replaced s r)
  let ?t = "s\<lparr>py_served := [], py_pod := py_pod s + 1, py_revision := r, py_marked := False, py_mistaken := False\<rparr>"
  have "podOk J W R ?t" using replaced by (fastforce simp: podInv_def podOk_def)
  moreover have "stageOk J W R ?t E w rest st" if "stageOk J W R s E w rest st" for E w rest st
    using that replaced by (cases st) (auto simp: podInv_def podOk_def)
  ultimately show ?case using podInv_change [OF replaced, of ?t] by simp
next
  case (chooses F s g k n ack u)
  then show ?case
    using podOk_serves [of J W R s "Choose n"] by (intro podInv_change [OF chooses.prems] stageOk_serves) (simp_all add: podInv_def)
next
  case (operates F s g k req ack u)
  have "(g, k) \<in> py_said s"
    using update_server.acts_when_ready [OF operates.hyps(1,3)] operates.hyps(2) by (auto simp: toldReady_def)
  then have "podOk J W R (s\<lparr>py_served := py_served s @ [Operation g k req]\<rparr>)"
    using operates.prems by (intro podOk_serves) (auto simp: podInv_def)
  then show ?case by (rule podInv_change [OF operates.prems]) (simp_all add: stageOk_serves)
qed

lemma steps_keep: "(podStep J W R)\<^sup>*\<^sup>* s s' \<Longrightarrow> podInv J W R s \<Longrightarrow> podInv J W R s'"
  by (induction rule: rtranclp_induct) (auto intro: step_keeps)

lemma new_inv: "podInv J W R (newPod r)"
  by (simp add: podInv_def podOk_def newPod_def)

end

end
