(* ===== verification/PreparedPods.thy ===== *)
theory PreparedPods
  imports WorkspaceSystem
begin

text \<open>
  The properties of the system of theory WorkspaceSystem, with their witnesses: operations run in prepared
  pods; a mark that comes too late, and a specification that changes during a reconcile, break that.
\<close>

section \<open>Operations on prepared pods\<close>

text \<open>C2: In every course of events in which no pod is marked by a reconcile that had found another, and no
  specification changes during a reconcile of it (either happens in a real cluster and breaks the
  property: see below), an Update that acts on a status saved by a reconcile that had found the
  very pod that is there runs its operation in a prepared pod, whatever reconciles of the
  workspace, replacements of the pod and reconciles of updates came before, and however old that
  status is. Prepared: the agent in the pod had been
  sent, in one piece and all acknowledged, the calls that prepare a workspace, of the very generation the
  status was about, and whose stateful set has the revision of the pod; the hash of the source
  tells generations apart.
\<close>

lemma update_on_prepared_pod:
  assumes "revisions W R" and "(podStep J W R)\<^sup>*\<^sup>* (newPod r) s" and "\<not> py_mistaken s"
    and "py_served s = pre @ Operation g (py_pod s) req # post"
  shows "\<exists>w before after ss. preparation pre = before @ initCalls J w @ after \<and> om_Generation (w_Meta w) = g
    \<and> newStatefulSet W w (newSourceSpec w) = Inr ss \<and> py_revision s = R (sts_Template ss)"
proof -
  have "podInv J W R s" by (rule revisions.steps_keep [OF assms(1,2) revisions.new_inv [OF assms(1)]])
  then have "preparedFor J W R pre (py_revision s) g" using assms(3,4) by (auto simp: podInv_def podOk_def)
  then show ?thesis by (auto simp: preparedFor_def complete_def templateOf_def)
qed

text \<open>A run of a reconcile in which every call is served and every write arrives.\<close>

fun perform :: "'j WAction \<Rightarrow> ('j, 'i, 'm, 'v) podSystem \<Rightarrow> ('j, 'i, 'm, 'v) podSystem" where
  "perform (WApplyStatefulSet sts ack) s = (if ack then s\<lparr>py_found := py_pod s\<rparr> else s)"
| "perform (WMarkInitialized n ack) s = s\<lparr>py_marked := True, py_mistaken := py_mistaken s \<or> py_found s \<noteq> py_pod s\<rparr>"
| "perform (WPatchStatus p ack) s =
     (if patchCond WorkspaceReady p = Some ConditionTrue
      then s\<lparr>py_said := insert (wa_ObservedGeneration p, py_found s) (py_said s)\<rparr> else s)"
| "perform a s = (if isAgentCall a then s\<lparr>py_served := py_served s @ [Prepare a]\<rparr> else s)"

lemma perform_effect:
  assumes "\<And>sts. a = WApplyStatefulSet sts True \<Longrightarrow> findsPod R E sts s"
  shows "podEffect R E a s (perform a s)"
  using assms by (cases a) (auto intro: podEffect.intros)

lemma perform_view [simp]:
  "perform a (s\<lparr>py_handler := h\<rparr>) = (perform a s)\<lparr>py_handler := h\<rparr>"
  "py_pod (perform a s) = py_pod s" "py_revision (perform a s) = py_revision s" "py_handler (perform a s) = py_handler s"
  by (cases a; simp)+

lemma performs_view [simp]:
  "py_pod (fold perform tr s) = py_pod s" "py_revision (fold perform tr s) = py_revision s"
  "py_handler (fold perform tr s) = py_handler s"
  "fold perform tr (s\<lparr>py_handler := h\<rparr>) = (fold perform tr s)\<lparr>py_handler := h\<rparr>"
  by (induction tr arbitrary: s) simp_all

lemma performs_run:
  assumes "py_handler s = Some (E, w, tr @ rest)"
    and "\<And>sts t. WApplyStatefulSet sts True \<in> set tr \<Longrightarrow> py_revision t = py_revision s \<Longrightarrow> py_marked s \<longrightarrow> py_marked t \<Longrightarrow> findsPod R E sts t"
  shows "(podStep J W R)\<^sup>*\<^sup>* s ((fold perform tr s)\<lparr>py_handler := Some (E, w, rest)\<rparr>)"
  using assms
proof (induction tr arbitrary: s)
  case Nil
  then have "s\<lparr>py_handler := Some (E, w, rest)\<rparr> = s" by simp
  then show ?case by simp
next
  case (Cons a tr)
  let ?t = "(perform a s)\<lparr>py_handler := Some (E, w, tr @ rest)\<rparr>"
  have "podStep J W R s ?t"
    by (rule acts [where a = a]) (use Cons.prems in \<open>auto intro!: perform_effect\<close>)
  moreover have "py_marked s \<longrightarrow> py_marked ?t" by (cases a) auto
  then have "(podStep J W R)\<^sup>*\<^sup>* ?t ((fold perform tr ?t)\<lparr>py_handler := Some (E, w, rest)\<rparr>)"
    using Cons.prems(2) by (intro Cons.IH) auto
  ultimately show ?case by (simp add: converse_rtranclp_into_rtranclp)
qed

lemma preparation_performs: "preparation (py_served (fold perform tr s)) = preparation (py_served s) @ agentCalls tr"
proof (induction tr arbitrary: s)
  case (Cons a tr)
  then show ?case by (cases a) auto
qed simp

lemma performs_found:
  "py_found s = py_pod s \<Longrightarrow> py_found (fold perform tr s) = py_pod s \<and> py_mistaken (fold perform tr s) = py_mistaken s"
proof (induction tr arbitrary: s)
  case (Cons a tr)
  then have "py_found (perform a s) = py_pod (perform a s)" "py_mistaken (perform a s) = py_mistaken s" by (cases a; simp)+
  with Cons.IH [of "perform a s"] show ?case by simp
qed simp

lemma performs_say:
  assumes "py_found s = py_pod s" and "WPatchStatus p ack \<in> set tr" and "patchCond WorkspaceReady p = Some ConditionTrue"
  shows "(wa_ObservedGeneration p, py_pod s) \<in> py_said (fold perform tr s)"
proof -
  have keeps: "x \<in> py_said s \<Longrightarrow> x \<in> py_said (fold perform tr s)" for x :: "int \<times> nat" and tr and s :: "('a, 'b, 'c, 'd) podSystem"
  proof (induction tr arbitrary: s)
    case (Cons a tr)
    then have "x \<in> py_said (perform a s)" by (cases a) auto
    with Cons.IH show ?case by simp
  qed simp
  obtain xs ys where tr: "tr = xs @ WPatchStatus p ack # ys" using assms(2) by (meson split_list)
  show ?thesis unfolding tr using performs_found [OF assms(1), of xs] assms(3) by (auto intro!: keeps)
qed

section \<open>An example\<close>

text \<open>A cluster whose revisions show the annotated hash, and a hash that shows the generation.\<close>

definition hashedLib :: "PodTemplateSpec podlib" where
  "hashedLib = examplePodlib\<lparr>wl_Hash := \<lambda>s. if 0 \<le> so_Generation s then replicate (nat (so_Generation s)) CHR ''p''
     else replicate (nat (- so_Generation s)) CHR ''n''\<rparr>"

definition shownRevision :: "PodTemplateSpec \<Rightarrow> string" where
  "shownRevision t = (case map_of (pts_Annotations t) PodAnnotationRevisionHash of Some h \<Rightarrow> ''rev'' @ h | None \<Rightarrow> [])"

definition hashedEnv :: "(JSON, JSON, PodTemplateSpec, nat) wenv" where
  "hashedEnv = (exampleWEnv None)\<lparr>we_W := hashedLib\<rparr>"

interpretation shown: revisions hashedLib shownRevision
proof
  have eq: "replicate m a = replicate n b \<longleftrightarrow> m = n \<and> (m = 0 \<or> a = b)" for m n :: nat and a b :: char
    by (auto simp: list_eq_iff_nth_eq) (metis gr0I)
  show "wl_Hash hashedLib s = wl_Hash hashedLib s' \<Longrightarrow> so_Generation s = so_Generation s'" for s s'
    by (auto simp: hashedLib_def eq split: if_splits)
  show "shownRevision t = shownRevision t' \<Longrightarrow>
      map_of (pts_Annotations t) PodAnnotationRevisionHash = map_of (pts_Annotations t') PodAnnotationRevisionHash" for t t'
    by (auto simp: shownRevision_def split: option.splits)
  show "mergePodTemplateSpec hashedLib base (Some p) = Inr t \<Longrightarrow>
      map_of (pts_Annotations t) PodAnnotationRevisionHash = map_of (pts_Annotations base) PodAnnotationRevisionHash" for base p t
    by (auto simp: mergePodTemplateSpec_def hashedLib_def examplePodlib_def bindE_Inr_iff split: option.splits)
qed

lemma hashedEnv_simps [simp]:
  "we_L hashedEnv = docLib" "we_W hashedEnv = hashedLib" "we_J hashedEnv = textCodecs"
  by (simp_all add: hashedEnv_def)

interpretation hashedSteady: steady_server hashedEnv
proof (simp add: steady_server_def workspace_server_def docSlice.condition_slice_axioms, intro conjI)
  show "workspace_server_axioms hashedEnv" "steady_server_axioms hashedEnv"
    by (unfold_locales; auto simp: hashedEnv_def exampleWEnv_def)+
qed

interpretation hashedReachable: pod_reachable hashedEnv "''rev''"
  by (intro pod_reachable.intro hashedSteady.workspace_server_axioms, unfold_locales)
     (auto simp: hashedEnv_def exampleWEnv_def docLib_def refOwner_def isStatefulSetReady_def rolledOut_def emptyMeta_def
          examplePod_def revisionOf_def podInitialized_def)

interpretation hashedWilling: agent_willing hashedEnv "''rev''"
  by unfold_locales (auto simp: hashedEnv_def exampleWEnv_def minJsonVersion_def)

text \<open>What the example's pod looks like, and the template of its workspace.\<close>

lemma hashed_revision:
  assumes "templateOf hashedLib (applyDefaults hashedLib preparedWorkspace) t"
  shows "shownRevision t = ''rev''"
  using shown.template_hash [OF assms]
  by (simp add: shownRevision_def hashedLib_def newSourceSpec_def Let_def preparedWorkspace_def exampleWorkspace_def emptyMeta_def)

lemma hashed_finds:
  assumes "WApplyStatefulSet sts True \<in> set (wo_Trace (WorkspaceReconcile hashedEnv (Inr preparedWorkspace)))" and "py_revision s = ''rev''"
  shows "findsPod shownRevision hashedEnv sts s"
proof -
  have "templateOf hashedLib (applyDefaults hashedLib preparedWorkspace) (sts_Template sts)"
    using hashedSteady.reconcile_template [OF assms(1,1)] by simp
  then have "shownRevision (sts_Template sts) = ''rev''" by (rule hashed_revision)
  then show ?thesis
    using assms(2)
    by (auto simp: findsPod_def hashedEnv_def exampleWEnv_def examplePod_def revisionOf_def podInitialized_def rolledOut_def)
qed

abbreviation hashedTrace :: "JSON WAction list" where
  "hashedTrace \<equiv> wo_Trace (WorkspaceReconcile hashedEnv (Inr preparedWorkspace))"

abbreviation startedSystem :: "(JSON, JSON, PodTemplateSpec, nat) podSystem" where
  "startedSystem \<equiv> (newPod ''rev'')\<lparr>py_handler := Some (hashedEnv, applyDefaults hashedLib preparedWorkspace, hashedTrace)\<rparr>"

lemma hashed_started: "podStep textCodecs hashedLib shownRevision (newPod ''rev'') startedSystem"
  using begins [of "newPod ''rev'' :: (JSON, JSON, PodTemplateSpec, nat) podSystem" hashedEnv textCodecs hashedLib shownRevision preparedWorkspace]
  by (simp add: newPod_def hashedSteady.steady_server_axioms)

lemma hashed_ready: "\<exists>pre p. hashedTrace = pre @ [WPatchStatus p True] \<and> patchCond WorkspaceReady p = Some ConditionTrue"
proof -
  have "\<exists>ss. newStatefulSet hashedLib (applyDefaults hashedLib preparedWorkspace)
      (newSourceSpec (applyDefaults hashedLib preparedWorkspace)) = Inr ss"
    by (rule newStatefulSet_plain) (simp add: prepared_simps)
  then show ?thesis
    using hashedWilling.becomes_ready [of preparedWorkspace "{[exampleWorkspaceStack]}"] hashedSteady.stacks_kept prepared_items
    by (force simp: prepared_simps)
qed

lemma hashed_marks: "\<exists>n. WMarkInitialized n True \<in> set hashedTrace"
proof -
  have "\<not> podInitialized (we_ParseBool hashedEnv) pod" if "reached hashedEnv tr pod" for tr pod
    using that by (auto simp: reached_def hashedEnv_def exampleWEnv_def examplePod_def podInitialized_def)
  then show ?thesis using hashed_ready hashedSteady.ready_write by (metis in_set_conv_decomp)
qed

lemma example_calls: "\<exists>req. UCall req True \<in> set (uo_Trace (UpdateReconcile (exampleUEnv exampleRecv) (Inr exampleRun)))"
  using example_begins [of exampleRecv] by (auto simp: example_ready)

text \<open>After the example's reconcile the pod is prepared and the workspace said to be ready.\<close>

lemma hashed_prepared:
  obtains s :: "(JSON, JSON, PodTemplateSpec, nat) podSystem"
  where "(podStep textCodecs hashedLib shownRevision)\<^sup>*\<^sup>* (newPod ''rev'') s" and "(0, 0) \<in> py_said s"
    and "\<not> py_mistaken s" and "py_pod s = 0"
proof -
  let ?f = "fold perform hashedTrace startedSystem"
  let ?s = "?f\<lparr>py_handler := Some (hashedEnv, applyDefaults hashedLib preparedWorkspace, [])\<rparr>"
  have "(podStep textCodecs hashedLib shownRevision)\<^sup>*\<^sup>* startedSystem ?s"
    by (rule performs_run) (simp_all add: hashed_finds newPod_def)
  with hashed_started have run: "(podStep textCodecs hashedLib shownRevision)\<^sup>*\<^sup>* (newPod ''rev'') ?s"
    by (rule converse_rtranclp_into_rtranclp)
  obtain pre p where p: "hashedTrace = pre @ [WPatchStatus p True]" "patchCond WorkspaceReady p = Some ConditionTrue"
    using hashed_ready by blast
  have "wa_ObservedGeneration p = 0"
    using hashedSteady.ready_generation [OF _ p(2), of True preparedWorkspace] p(1)
    by (simp add: preparedWorkspace_def exampleWorkspace_def emptyMeta_def)
  then have "(0, 0) \<in> py_said ?s"
    using performs_say [of startedSystem p True hashedTrace] p by (simp add: newPod_def)
  moreover have "\<not> py_mistaken ?s" "py_pod ?s = 0"
    using performs_found [of startedSystem hashedTrace] by (simp_all add: newPod_def)
  ultimately show thesis using run that by blast
qed

lemma update_on_prepared_pod_witness:
  "\<exists>(s :: (JSON, JSON, PodTemplateSpec, nat) podSystem) pre req.
     (podStep textCodecs hashedLib shownRevision)\<^sup>*\<^sup>* (newPod ''rev'') s \<and> py_served s = pre @ [Operation 0 0 req]
     \<and> WPulumiVersion True \<in> set (preparation pre)"
proof -
  let ?P = "podStep textCodecs hashedLib shownRevision"
  obtain s :: "(JSON, JSON, PodTemplateSpec, nat) podSystem"
    where run: "?P\<^sup>*\<^sup>* (newPod ''rev'') s" and s: "(0, 0) \<in> py_said s" "\<not> py_mistaken s" "py_pod s = 0"
    by (rule hashed_prepared)
  obtain req where req: "UCall req True \<in> set (uo_Trace (UpdateReconcile (exampleUEnv exampleRecv) (Inr exampleRun)))"
    using example_calls by blast
  let ?t = "s\<lparr>py_served := py_served s @ [Operation 0 0 req]\<rparr>"
  have "toldReady s (exampleUEnv exampleRecv) 0 0"
    using s(1) by (simp add: toldReady_def exampleWorkspace_def emptyMeta_def)
  from operates [OF exampleServer.update_server_axioms this req] have "?P s ?t" .
  with run have t: "?P\<^sup>*\<^sup>* (newPod ''rev'') ?t" by (rule rtranclp.rtrancl_into_rtrancl)
  obtain w before after where "preparation (py_served s) = before @ initCalls textCodecs w @ after"
    using update_on_prepared_pod [OF shown.revisions_axioms t, of "py_served s" 0 req "[]"] s by auto
  then have "WPulumiVersion True \<in> set (preparation (py_served s))" by (simp add: initCalls_def prepareCalls_def)
  with t show ?thesis by (intro exI [of _ ?t] exI [of _ "py_served s"] exI [of _ req]) simp
qed

section \<open>A mark that comes too late\<close>

text \<open>
  The pod is marked by its name, which its successor has too. In this world the marked pod is found so.
\<close>

definition markedEnv :: "(JSON, JSON, PodTemplateSpec, nat) wenv" where
  "markedEnv = hashedEnv\<lparr>we_GetPod := (\<lambda>tr n ns. Inr ((examplePod n)\<lparr>pod_Annotations := [(PodAnnotationInitialized, ''true'')]\<rparr>))\<rparr>"

interpretation markedSteady: steady_server markedEnv
proof (simp add: steady_server_def workspace_server_def, intro conjI)
  show "condition_slice (we_L markedEnv)" by (simp add: markedEnv_def docSlice.condition_slice_axioms)
  show "workspace_server_axioms markedEnv" "steady_server_axioms markedEnv"
    by (unfold_locales; auto simp: markedEnv_def hashedEnv_def exampleWEnv_def)+
qed

fun readyAtOnce :: "'j WAction list \<Rightarrow> bool" where
  "readyAtOnce [WApplyService svc a, WApplyStatefulSet sts True, WPatchStatus p c] =
     (patchCond WorkspaceReady p = Some ConditionTrue \<and> wa_ObservedGeneration p = 0)"
| "readyAtOnce _ = False"

lemma marked_run: "readyAtOnce (wo_Trace (WorkspaceReconcile markedEnv (Inr preparedWorkspace)))"
  by code_simp

lemma marked_finds:
  assumes "WApplyStatefulSet sts True \<in> set (wo_Trace (WorkspaceReconcile markedEnv (Inr preparedWorkspace)))"
    and "py_revision s = ''rev''" and "py_marked s"
  shows "findsPod shownRevision markedEnv sts s"
proof -
  have "templateOf hashedLib (applyDefaults hashedLib preparedWorkspace) (sts_Template sts)"
    using markedSteady.reconcile_template [OF assms(1,1)] by (simp add: markedEnv_def)
  then have "shownRevision (sts_Template sts) = ''rev''" by (rule hashed_revision)
  then show ?thesis
    using assms(2,3) by (auto simp: findsPod_def markedEnv_def hashedEnv_def exampleWEnv_def examplePod_def revisionOf_def rolledOut_def)
qed

text \<open>C6: A pod can be marked that was never prepared, and the workspace stays ready with it. When the pod is
  replaced after the calls that prepare it and before the mark, the mark goes to its successor, and
  the next reconcile calls the workspace ready for that pod: an operation runs there though its agent
  was sent nothing, neither the installation nor any configuration.
\<close>

lemma late_mark_unprepared:
  "\<exists>(s :: (JSON, JSON, PodTemplateSpec, nat) podSystem) req.
     (podStep textCodecs hashedLib shownRevision)\<^sup>*\<^sup>* (newPod ''rev'') s
     \<and> py_served s = [Operation 0 (py_pod s) req] \<and> (0, py_pod s) \<in> py_said s"
proof -
  let ?P = "podStep textCodecs hashedLib shownRevision" and ?w = "applyDefaults hashedLib preparedWorkspace"
  obtain pre n post where tr: "hashedTrace = pre @ WMarkInitialized n True # post"
    using hashed_marks by (meson split_list)
  let ?a = "(fold perform pre startedSystem)\<lparr>py_handler := Some (hashedEnv, ?w, WMarkInitialized n True # post)\<rparr>"
  have "?P\<^sup>*\<^sup>* startedSystem ?a" by (rule performs_run) (use tr in \<open>simp_all add: hashed_finds newPod_def\<close>)
  with hashed_started have a: "?P\<^sup>*\<^sup>* (newPod ''rev'') ?a" by (rule converse_rtranclp_into_rtranclp)
  have found: "py_found ?a = 0" using performs_found [of startedSystem pre] by (simp add: newPod_def)
  define b where "b = ?a\<lparr>py_served := [], py_pod := 1, py_revision := ''rev'', py_marked := False, py_mistaken := False\<rparr>"
  have b: "?P ?a b" unfolding b_def using replaced [of textCodecs hashedLib shownRevision ?a "''rev''"] by (simp add: newPod_def)
  define c where "c = b\<lparr>py_marked := True, py_mistaken := True, py_handler := Some (hashedEnv, ?w, post)\<rparr>"
  have "podEffect shownRevision hashedEnv (WMarkInitialized n True) b (b\<lparr>py_marked := True, py_mistaken := True\<rparr>)"
    using marks [of shownRevision hashedEnv n True b] found by (simp add: b_def)
  then have c: "?P b c" unfolding c_def by (intro acts) (simp_all add: b_def)
  let ?tr = "wo_Trace (WorkspaceReconcile markedEnv (Inr preparedWorkspace))"
  define d where "d = c\<lparr>py_handler := None\<rparr>"
  define e where "e = d\<lparr>py_handler := Some (markedEnv, ?w, ?tr)\<rparr>"
  have d: "?P c d" unfolding d_def by (rule stops)
  have e: "?P d e" unfolding e_def
    using begins [of d markedEnv textCodecs hashedLib shownRevision preparedWorkspace]
    by (simp add: d_def markedSteady.steady_server_axioms) (simp add: markedEnv_def)
  let ?f = "(fold perform ?tr e)\<lparr>py_handler := Some (markedEnv, ?w, [])\<rparr>"
  have f: "?P\<^sup>*\<^sup>* e ?f"
    by (rule performs_run) (simp_all add: e_def d_def c_def b_def marked_finds)
  obtain svc x sts p y where shape: "?tr = [WApplyService svc x, WApplyStatefulSet sts True, WPatchStatus p y]"
    and p: "patchCond WorkspaceReady p = Some ConditionTrue" "wa_ObservedGeneration p = 0"
    using marked_run by (auto elim: readyAtOnce.elims)
  have said: "(0, 1) \<in> py_said ?f" "py_served ?f = []" "py_pod ?f = 1"
    unfolding shape by (simp_all add: p e_def d_def c_def b_def)
  obtain req where req: "UCall req True \<in> set (uo_Trace (UpdateReconcile (exampleUEnv exampleRecv) (Inr exampleRun)))"
    using example_calls by blast
  have "toldReady ?f (exampleUEnv exampleRecv) 0 1"
    using said(1) by (simp add: toldReady_def exampleWorkspace_def emptyMeta_def)
  from operates [OF exampleServer.update_server_axioms this req] have g: "?P ?f (?f\<lparr>py_served := [Operation 0 1 req]\<rparr>)"
    using said(2) by simp
  have "?P\<^sup>*\<^sup>* (newPod ''rev'') (?f\<lparr>py_served := [Operation 0 1 req]\<rparr>)"
    using a b c d e f g by (meson rtranclp.rtrancl_into_rtrancl rtranclp_trans)
  with said(1,3) show ?thesis by (intro exI [of _ "?f\<lparr>py_served := [Operation 0 1 req]\<rparr>"] exI [of _ req]) simp
qed

section \<open>A specification that changes during the reconcile\<close>

text \<open>
  A status patch answers with the object as it then is, which the handler goes on with: the last status
  is about the generation of the last answer.
\<close>

context agent_willing
begin

lemma answered_generation:
  assumes answers: "\<And>tr w p v. we_Patch E tr w p = Inr v \<Longrightarrow> om_Generation (w_Meta v) = g"
    and init: "initializePhase E pod t = Inr u" "\<not> podInitialized (we_ParseBool E) pod"
  shows "generationOf u = g"
proof -
  have G: "generations E {g}" by unfold_locales (simp add: answers)
  obtain c x v where "saveOrLeave E c = Inr x" "foldE (initStack E) (ws_Stacks (w_Spec (wv_obj x))) x = Inr v"
    and u: "markPhase E pod v = Inr u"
    using init by (auto simp: initializePhase_def stacksPhase_def bindE_Inr_iff)
  moreover then have "generationOf x = g"
    by (auto simp: saveOrLeave_def saveWorkspace_def Let_def generationOf_def answers split: sum.splits)
  moreover have "keepsTo {g} x (foldE (initStack E) (ws_Stacks (w_Spec (wv_obj x))) x)"
    by (rule generations.keepsTo_foldE [OF G]) (rule generations.keepsTo_initStack [OF G])
  ultimately have "generationOf v = g" by (simp add: keepsTo_def)
  with u show ?thesis by (auto simp: markPhase_def split: option.splits)
qed

end

text \<open>C7: A workspace can be called ready for a specification that its pod was not made from. When the
  specification changes while a reconcile prepares the pod, the answers to its status patches bring the
  new generation, and the status it ends with says ready for that one, so that the update controller
  takes the workspace for ready; but the stateful set was applied, before, for the old one. The change
  may be to anything, the git reference for one; stacks that it brings are prepared if they can be.
\<close>

lemma ready_for_unapplied_generation:
  assumes "agent_willing E revision" and "om_DeletionTimestamp (w_Meta obj) = None"
    and "\<exists>ss. newStatefulSet (we_W E) (applyDefaults (we_W E) obj) (newSourceSpec (applyDefaults (we_W E) obj)) = Inr ss"
    and among: "stacksAmong E S" "ws_Stacks (w_Spec obj) \<in> S"
    and config: "\<And>stacks stack. stacks \<in> S \<Longrightarrow> stack \<in> set stacks \<Longrightarrow> \<exists>items. marshalItems (we_J E) (wst_Config stack) = Inr items"
    and answers: "\<And>tr w p v. we_Patch E tr w p = Inr v \<Longrightarrow> om_Generation (w_Meta v) = g"
  shows "\<exists>pre p. wo_Trace (WorkspaceReconcile E (Inr obj)) = pre @ [WPatchStatus p True]
    \<and> wa_ObservedGeneration p = g
    \<and> (\<forall>v. om_Generation (w_Meta v) = g \<and> om_DeletionTimestamp (w_Meta v) = None \<and> wst_ObservedGeneration (w_Status v) = g
          \<and> wst_Conditions (w_Status v) = map appliedCondition (wa_Conditions p) \<longrightarrow> autoWorkspaceReady (we_L E) (Some v))
    \<and> (\<exists>sts. WApplyStatefulSet sts True \<in> set pre)
    \<and> (\<forall>sts. WApplyStatefulSet sts True \<in> set pre \<longrightarrow> templateOf (we_W E) (applyDefaults (we_W E) obj) (sts_Template sts))"
proof -
  have server: "workspace_server E" using assms(1) by (simp add: agent_willing_def agent_reachable_def pod_reachable_def)
  obtain pod t u where u: "initializePhase E pod t = Inr u" "\<not> podInitialized (we_ParseBool E) pod" "readyOk u"
    and run: "WorkspaceReconcile E (Inr obj) = leaveSaving E 0 (setReady ConditionTrue ''Succeeded'' [] u)"
    by (rule agent_willing.goes_to_the_end [OF assms(1), of obj S]) (use assms(2-5) in simp_all, erule (1) config)
  let ?u = "setReady ConditionTrue ''Succeeded'' [] u"
  have gen: "generationOf ?u = g" using agent_willing.answered_generation [OF assms(1) answers u(1,2)] by simp
  obtain x where x: "saveWorkspace E ?u = (None, x)"
    using pod_reachable.save_goes_on(2) [of E revision] assms(1) by (auto simp: agent_willing_def agent_reachable_def)
  obtain p where p: "wv_trace x = wv_trace u @ [WPatchStatus p True]" "wa_ObservedGeneration p = g"
    using generations.save_keepsTo(1) [of E UNIV, OF _ x] gen by (auto simp: generations_def generations_axioms_def server)
  have tr: "wo_Trace (WorkspaceReconcile E (Inr obj)) = wv_trace u @ [WPatchStatus p True]"
    using x p(1) by (simp add: run leaveSaving_def wleave_def)
  then have cond: "patchCond WorkspaceReady p = Some ConditionTrue"
    using workspace_server.leave_ready [OF server u(3), of "''Succeeded''" "[]"] by (auto simp: run)
  have "\<exists>sts. WApplyStatefulSet sts True \<in> set (wv_trace u)"
    using workspace_server.ready_write [OF server, of p True obj, OF _ cond] by (auto simp: tr reached_def)
  moreover from cond have "IsStatusConditionTrue (we_L E) (map appliedCondition (wa_Conditions p)) WorkspaceReady"
    using workspace_server.axioms(1) [OF server]
    by (auto simp: patchCond_def condition_api.true_iff [OF condition_slice.axioms(1)] condition_slice.find_first)
  moreover have "templateOf (we_W E) (applyDefaults (we_W E) obj) (sts_Template sts)"
    if "WApplyStatefulSet sts True \<in> set (wv_trace u)" for sts
    using workspace_server.reconcile_template [OF server, of sts obj sts] that by (simp add: tr)
  ultimately show ?thesis
    using tr p(2) by (intro exI [of _ "wv_trace u"] exI [of _ p]) (auto simp: autoWorkspaceReady_def)
qed

text \<open>A cluster where the specification had its second generation when the status was first patched.\<close>

definition editedEnv :: "(JSON, JSON, PodTemplateSpec, nat) wenv" where
  "editedEnv = hashedEnv\<lparr>we_Patch := (\<lambda>tr w p. Inr (w\<lparr>w_Meta := (w_Meta w)\<lparr>om_Generation := 2\<rparr>,
     w_Status := (w_Status w)\<lparr>wst_Conditions := map appliedCondition (wa_Conditions p)\<rparr>\<rparr>))\<rparr>"

interpretation edited: workspace_server editedEnv
proof (simp add: workspace_server_def, intro conjI)
  show "condition_slice (we_L editedEnv)" by (simp add: editedEnv_def docSlice.condition_slice_axioms)
  show "workspace_server_axioms editedEnv" by unfold_locales (auto simp: editedEnv_def)
qed

interpretation editedReachable: pod_reachable editedEnv "''rev''"
  by unfold_locales
     (auto simp: editedEnv_def hashedEnv_def exampleWEnv_def docLib_def refOwner_def isStatefulSetReady_def rolledOut_def emptyMeta_def
          examplePod_def revisionOf_def podInitialized_def)

interpretation editedWilling: agent_willing editedEnv "''rev''"
  by unfold_locales (auto simp: editedEnv_def hashedEnv_def exampleWEnv_def minJsonVersion_def)

lemma edited_stacks: "stacksAmong editedEnv S"
  by (auto simp: stacksAmong_def editedEnv_def)

lemma ready_for_unapplied_generation_witness:
  "om_Generation (w_Meta preparedWorkspace) = 0
   \<and> (\<exists>pre p. wo_Trace (WorkspaceReconcile editedEnv (Inr preparedWorkspace)) = pre @ [WPatchStatus p True]
        \<and> wa_ObservedGeneration p = 2)"
proof -
  have "\<exists>ss. newStatefulSet hashedLib (applyDefaults hashedLib preparedWorkspace)
      (newSourceSpec (applyDefaults hashedLib preparedWorkspace)) = Inr ss"
    by (rule newStatefulSet_plain) (simp add: prepared_simps)
  then have "\<exists>pre p. wo_Trace (WorkspaceReconcile editedEnv (Inr preparedWorkspace)) = pre @ [WPatchStatus p True]
        \<and> wa_ObservedGeneration p = 2"
    using ready_for_unapplied_generation [OF editedWilling.agent_willing_axioms _ _ edited_stacks, of preparedWorkspace "{[exampleWorkspaceStack]}" 2]
      prepared_items
    by (fastforce simp: editedEnv_def prepared_simps)
  then show ?thesis by (simp add: preparedWorkspace_def exampleWorkspace_def emptyMeta_def)
qed

end
