(* ===== verification/AgentAccess.thy ===== *)
theory AgentAccess
  imports AgentServer WorkspacePod
begin

text \<open>
  Who may call a workspace's agent. On the agent's side the check of the serve command's flags
  (agent/cmd/serve.go), the authentication and authorization of a call (agent/pkg/server/auth.go)
  and the interceptors that guard the service (grpc.go); on the operator's side the credentials it
  attaches to its calls, with their caches (agent/pkg/client/credentials.go), and the connection
  manager (operator/internal/controller/auto/connect.go). Kubernetes, the gRPC middleware and the
  oauth2 package are arguments.
\<close>

section \<open>The agent's check of a call\<close>

definition Unauthenticated :: statusCode where "Unauthenticated = OtherCode 16"
definition PermissionDenied :: statusCode where "PermissionDenied = OtherCode 7"

datatype decision = DecisionDeny | DecisionAllow | DecisionNoOpinion

record 'u attributesRecord =
  at_User :: 'u
  at_Namespace :: string
  at_Name :: string
  at_ResourceRequest :: bool
  at_APIGroup :: string
  at_APIVersion :: string
  at_Resource :: string
  at_Subresource :: string
  at_Verb :: string

text \<open>
  What the check uses: the bearer token of a call's metadata, the token review, which gives the
  user or none, and the access review.
\<close>

record 'u kubelib =
  kl_AuthFromMD :: "string gomap \<Rightarrow> string \<Rightarrow> rpcError + string"
  kl_AuthenticateToken :: "string list \<Rightarrow> string \<Rightarrow> goerr + 'u option"
  kl_Authorize :: "'u attributesRecord \<Rightarrow> decision \<times> string \<times> goerr option"
  kl_IsForbidden :: "goerr \<Rightarrow> bool"

record kubeAuth =
  ka_namespace :: string
  ka_name :: string
  ka_audiences :: "string list"

definition accessAttributes :: "kubeAuth \<Rightarrow> 'u \<Rightarrow> 'u attributesRecord" where
  "accessAttributes a user = \<lparr>at_User = user, at_Namespace = ka_namespace a, at_Name = ka_name a,
     at_ResourceRequest = True, at_APIGroup = ''auto.pulumi.com'', at_APIVersion = ''v1alpha1'',
     at_Resource = ''workspaces'', at_Subresource = ''rpc'', at_Verb = ''use''\<rparr>"

definition Authenticate :: "agentlib \<Rightarrow> 'u kubelib \<Rightarrow> kubeAuth \<Rightarrow> string gomap \<Rightarrow> rpcError + 'u" where
  "Authenticate A K a md =
     (case kl_AuthFromMD K md ''Bearer'' of
        Inl err \<Rightarrow> Inl err
      | Inr token \<Rightarrow>
          (case kl_AuthenticateToken K (ka_audiences a) token of
             Inl err \<Rightarrow>
               (if kl_IsForbidden K err then Inl (statusErr A Unauthenticated ''TokenReview API is unavailable'')
                else Inl (statusErr A Unauthenticated (errorText err)))
           | Inr None \<Rightarrow> Inl (statusErr A Unauthenticated ''unauthenticated'')
           | Inr (Some user) \<Rightarrow>
               (case kl_Authorize K (accessAttributes a user) of
                  (_, _, Some err) \<Rightarrow>
                    (if kl_IsForbidden K err then Inl (statusErr A Unauthenticated ''SubjectAccessReview API is unavailable'')
                     else Inl (PlainError (errorText err)))
                | (authorized, reason, None) \<Rightarrow>
                    (if authorized \<noteq> DecisionAllow
                     then Inl (statusErr A PermissionDenied (if reason = [] then ''forbidden'' else reason))
                     else Inr user))))"

text \<open>The flags of the serve command that choose the check, and their validation.\<close>

record serveFlags =
  sf_authMode :: string
  sf_audiences :: "string list"
  sf_workspaceNamespace :: string
  sf_workspaceName :: string

definition AuthModeNone :: string where "AuthModeNone = ''none''"
definition AuthModeKubernetes :: string where "AuthModeKubernetes = ''kube''"

definition servePreRun :: "serveFlags \<Rightarrow> goerr option" where
  "servePreRun f =
     (if sf_authMode f \<noteq> AuthModeNone \<and> sf_authMode f \<noteq> AuthModeKubernetes
      then Some (Errorf (''unsupported auth mode: '' @ sf_authMode f))
      else if sf_authMode f = AuthModeKubernetes
      then (if length (sf_audiences f) < 1
            then Some (Errorf ''--kube-audience is required when auth mode is kubernetes'')
            else if sf_workspaceNamespace f = []
            then Some (Errorf ''--kube-workspace-namespace is required when auth mode is kubernetes'')
            else if sf_workspaceName f = []
            then Some (Errorf ''--kube-workspace-name is required when auth mode is kubernetes'')
            else None)
      else None)"

definition serveAuth :: "agentlib \<Rightarrow> 'u kubelib \<Rightarrow> serveFlags \<Rightarrow> (string gomap \<Rightarrow> rpcError + 'u) option" where
  "serveAuth A K f =
     (if sf_authMode f = AuthModeKubernetes
      then Some (Authenticate A K \<lparr>ka_namespace = sf_workspaceNamespace f, ka_name = sf_workspaceName f, ka_audiences = sf_audiences f\<rparr>)
      else None)"

text \<open>
  \<^verbatim>\<open>NewGRPC\<close>: the interceptors of unary and streaming calls run the check, and the handler
  only after it passed; without a check every call is handled.
\<close>

definition guardCall :: "(string gomap \<Rightarrow> rpcError + 'u) option \<Rightarrow> string gomap \<Rightarrow> (AState \<Rightarrow> 'r \<times> AState) \<Rightarrow> AState
    \<Rightarrow> (rpcError + 'r) \<times> AState" where
  "guardCall authF md handler s =
     (case authF of
        None \<Rightarrow> (case handler s of (r, s) \<Rightarrow> (Inr r, s))
      | Some auth \<Rightarrow> (case auth md of
                       Inl e \<Rightarrow> (Inl e, s)
                     | Inr user \<Rightarrow> (case handler s of (r, s) \<Rightarrow> (Inr r, s))))"

section \<open>The operator's credentials\<close>

record Token =
  tk_TokenType :: string
  tk_AccessToken :: string
  tk_Expiry :: time

text \<open>A caching token source with the source below it, which is of one audience.\<close>

record tokenSource =
  to_audience :: string
  to_tok :: "Token option"
  to_t :: time

text \<open>
  A service account: its token sources are objects that a cache entry and any number of credentials
  point at, by their number.
\<close>

record ServiceAccount =
  sa_objects :: "tokenSource list"
  sa_sources :: "(nat \<times> time) gomap"
  sa_requests :: "string list list"

record clientlib =
  cx_ServiceAccountName :: string
  cx_CreateToken :: "string list list \<Rightarrow> string \<Rightarrow> string list \<Rightarrow> goerr + (string \<times> time)"
  cx_Valid :: "time \<Rightarrow> Token \<Rightarrow> bool"
  cx_Type :: "Token \<Rightarrow> string"

definition newServiceAccount :: ServiceAccount where
  "newServiceAccount = \<lparr>sa_objects = [], sa_sources = [], sa_requests = []\<rparr>"

definition TokenSource :: "string \<Rightarrow> time \<Rightarrow> ServiceAccount \<Rightarrow> nat \<times> ServiceAccount" where
  "TokenSource audience now m =
     (case map_of (sa_sources m) audience of
        Some (i, lastUsed) \<Rightarrow> (i, m\<lparr>sa_sources := mapPut audience (i, now) (sa_sources m)\<rparr>)
      | None \<Rightarrow> (let i = length (sa_objects m)
                in (i, m\<lparr>sa_objects := sa_objects m @ [\<lparr>to_audience = audience, to_tok = None, to_t = 0\<rparr>],
                         sa_sources := mapPut audience (i, now) (sa_sources m)\<rparr>)))"

definition Prune :: "time \<Rightarrow> ServiceAccount \<Rightarrow> nat \<times> ServiceAccount" where
  "Prune unusedSince m = (
     let old = (\<lambda>(audience, i, lastUsed). lastUsed < unusedSince)
     in (length (filter old (sa_sources m)), m\<lparr>sa_sources := filter (\<lambda>e. \<not> old e) (sa_sources m)\<rparr>))"

definition baseToken :: "clientlib \<Rightarrow> string \<Rightarrow> ServiceAccount \<Rightarrow> (goerr + Token) \<times> ServiceAccount" where
  "baseToken C audience m =
     (mapOk (\<lambda>(access, expiry). \<lparr>tk_TokenType = ''Bearer'', tk_AccessToken = access, tk_Expiry = expiry\<rparr>)
        (cx_CreateToken C (sa_requests m) (cx_ServiceAccountName C) [audience]),
      m\<lparr>sa_requests := sa_requests m @ [[audience]]\<rparr>)"

definition leeway :: duration where "leeway = 5 * 60 * Second"

definition freshToken :: "Token \<Rightarrow> time \<Rightarrow> bool" where
  "freshToken tok now \<longleftrightarrow> tk_Expiry tok - leeway > now"

definition cachedToken :: "nat \<Rightarrow> ServiceAccount \<Rightarrow> Token option" where
  "cachedToken i m = to_tok (sa_objects m ! i)"

definition putToken :: "nat \<Rightarrow> Token option \<Rightarrow> time \<Rightarrow> ServiceAccount \<Rightarrow> ServiceAccount" where
  "putToken i tok t m = m\<lparr>sa_objects := (sa_objects m)[i := (sa_objects m ! i)\<lparr>to_tok := tok, to_t := t\<rparr>]\<rparr>"

text \<open>
  \<^verbatim>\<open>cachingTokenSource.Token\<close> in its two parts: the look at the cached token under the read
  lock, at the time \<^verbatim>\<open>now\<close>, and what is done under the write lock; \<^verbatim>\<open>later\<close> is the time
  after the request.
\<close>

definition fastPath :: "nat \<Rightarrow> time \<Rightarrow> ServiceAccount \<Rightarrow> Token option" where
  "fastPath i now m =
     (case cachedToken i m of Some tok \<Rightarrow> (if freshToken tok now then Some tok else None) | None \<Rightarrow> None)"

definition slowPath :: "clientlib \<Rightarrow> nat \<Rightarrow> time \<Rightarrow> time \<Rightarrow> ServiceAccount \<Rightarrow> (goerr + Token) \<times> ServiceAccount" where
  "slowPath C i now later m =
     (case fastPath i now m of
        Some tok \<Rightarrow> (Inr tok, m)
      | None \<Rightarrow>
          (case baseToken C (to_audience (sa_objects m ! i)) m of
             (Inl err, m) \<Rightarrow> (case cachedToken i m of None \<Rightarrow> (Inl err, m) | Some tok \<Rightarrow> (Inr tok, m))
           | (Inr tok, m) \<Rightarrow> (Inr tok, putToken i (Some tok) later m)))"

definition cachingToken :: "clientlib \<Rightarrow> nat \<Rightarrow> time \<Rightarrow> time \<Rightarrow> ServiceAccount \<Rightarrow> (goerr + Token) \<times> ServiceAccount" where
  "cachingToken C i now later m =
     (case fastPath i now m of Some tok \<Rightarrow> (Inr tok, m) | None \<Rightarrow> slowPath C i now later m)"

definition ResetTokenOlderThan :: "nat \<Rightarrow> time \<Rightarrow> ServiceAccount \<Rightarrow> ServiceAccount" where
  "ResetTokenOlderThan i t m = (if to_t (sa_objects m ! i) < t then putToken i None 0 m else m)"

record tokenCredentials =
  tc_source :: nat
  tc_t :: "Token option"

definition NewTokenCredentials :: "nat \<Rightarrow> tokenCredentials" where
  "NewTokenCredentials source = \<lparr>tc_source = source, tc_t = None\<rparr>"

definition requestHeader :: "clientlib \<Rightarrow> Token \<Rightarrow> string gomap" where
  "requestHeader C t = [(''authorization'', cx_Type C t @ '' '' @ tk_AccessToken t)]"

definition GetRequestMetadata :: "clientlib \<Rightarrow> time \<Rightarrow> time \<Rightarrow> tokenCredentials \<Rightarrow> ServiceAccount
    \<Rightarrow> (goerr + string gomap) \<times> tokenCredentials \<times> ServiceAccount" where
  "GetRequestMetadata C now later c m =
     (if (case tc_t c of Some t \<Rightarrow> cx_Valid C now t | None \<Rightarrow> False)
      then (Inr (requestHeader C (the (tc_t c))), c, m)
      else (case cachingToken C (tc_source c) now later m of
              (Inl err, m) \<Rightarrow> (Inl err, c\<lparr>tc_t := None\<rparr>, m)
            | (Inr t, m) \<Rightarrow> (Inr (requestHeader C t), c\<lparr>tc_t := Some t\<rparr>, m)))"

section \<open>The connection manager\<close>

definition connectCredentials :: "Workspace \<Rightarrow> time \<Rightarrow> ServiceAccount \<Rightarrow> tokenCredentials \<times> ServiceAccount" where
  "connectCredentials w now m =
     (case TokenSource (audienceForWorkspace w) now m of (i, m) \<Rightarrow> (NewTokenCredentials i, m))"

definition pruneTokensOlderThan :: duration where "pruneTokensOlderThan = 2 * 60 * 60 * Second"

text \<open>A tick of the manager's clean-up.\<close>

definition pruneTick :: "time \<Rightarrow> ServiceAccount \<Rightarrow> ServiceAccount" where
  "pruneTick now m = snd (Prune (now - pruneTokensOlderThan) m)"

end
