(* ===== verification/AccessProperties.thy ===== *)
theory AccessProperties
  imports AgentAccess AgentProperties
begin

text \<open>
  The properties of the access to agents with their witnesses: a token the operator sends to the
  agent of a workspace opens no other, the agent handles only calls that were let through, and
  callers of a token source share its token.
\<close>

section \<open>Tokens\<close>

text \<open>
  The Kubernetes token interface: a token is for the audiences it was requested with, and its review
  for other audiences does not authenticate it. The middleware finds a bearer token.
\<close>

locale token_issuer =
  fixes C :: clientlib and K :: "'u kubelib" and audiencesOf :: "string \<Rightarrow> string list"
  assumes issued: "cx_CreateToken C rs sa [aud] = Inr (access, expiry) \<Longrightarrow> audiencesOf access = [aud]"
    and reviewed: "kl_AuthenticateToken K auds access = Inr (Some user) \<Longrightarrow> \<exists>a\<in>set auds. a \<in> set (audiencesOf access)"
    and bearer: "tk_TokenType t = ''Bearer'' \<Longrightarrow>
      kl_AuthFromMD K [(''authorization'', cx_Type C t @ '' '' @ tk_AccessToken t)] ''Bearer'' = Inr (tk_AccessToken t)"
begin

text \<open>A token for an audience.\<close>

definition tokenFor :: "string \<Rightarrow> Token \<Rightarrow> bool" where
  "tokenFor a t \<longleftrightarrow> tk_TokenType t = ''Bearer'' \<and> audiencesOf (tk_AccessToken t) = [a]"

definition goodSource :: "tokenSource \<Rightarrow> bool" where
  "goodSource ts \<longleftrightarrow> (\<forall>t. to_tok ts = Some t \<longrightarrow> tokenFor (to_audience ts) t)"

text \<open>Entries and credentials point at sources of their audience, and all tokens are of the source's.\<close>

definition goodAccount :: "ServiceAccount \<Rightarrow> bool" where
  "goodAccount m \<longleftrightarrow> (\<forall>i<length (sa_objects m). goodSource (sa_objects m ! i))
     \<and> (\<forall>a i u. (a, i, u) \<in> set (sa_sources m) \<longrightarrow> i < length (sa_objects m) \<and> to_audience (sa_objects m ! i) = a)"

definition goodCreds :: "ServiceAccount \<Rightarrow> Workspace \<times> tokenCredentials \<Rightarrow> bool" where
  "goodCreds m wc \<longleftrightarrow> tc_source (snd wc) < length (sa_objects m)
     \<and> to_audience (sa_objects m ! tc_source (snd wc)) = audienceForWorkspace (fst wc)
     \<and> (\<forall>t. tc_t (snd wc) = Some t \<longrightarrow> tokenFor (audienceForWorkspace (fst wc)) t)"

text \<open>Nothing that points at a source loses it.\<close>

definition extends :: "ServiceAccount \<Rightarrow> ServiceAccount \<Rightarrow> bool" where
  "extends m m' \<longleftrightarrow> (\<forall>i<length (sa_objects m). i < length (sa_objects m')
     \<and> to_audience (sa_objects m' ! i) = to_audience (sa_objects m ! i))"

lemma goodCreds_extends: "goodCreds m wc \<Longrightarrow> extends m m' \<Longrightarrow> goodCreds m' wc"
  by (simp add: goodCreds_def extends_def)

lemma TokenSource_good:
  assumes "goodAccount m" and "TokenSource a now m = (i, m')"
  shows "goodAccount m' \<and> extends m m' \<and> i < length (sa_objects m') \<and> to_audience (sa_objects m' ! i) = a"
proof (cases "map_of (sa_sources m) a")
  case None
  with assms show ?thesis
    by (auto simp: TokenSource_def goodAccount_def goodSource_def extends_def mapPut_def nth_append Let_def less_Suc_eq) blast+
next
  case (Some e)
  then have "(a, e) \<in> set (sa_sources m)" by (rule map_of_SomeD)
  with assms Some show ?thesis
    by (cases e) (auto simp: TokenSource_def goodAccount_def extends_def mapPut_def; blast)
qed

lemma Prune_good:
  assumes "goodAccount m" and "Prune t m = (n, m')"
  shows "goodAccount m' \<and> extends m m'"
  using assms by (auto simp: Prune_def goodAccount_def extends_def Let_def) blast+

lemma putToken_good:
  assumes "goodAccount m" and "i < length (sa_objects m)"
    and "\<And>t. tok = Some t \<Longrightarrow> tokenFor (to_audience (sa_objects m ! i)) t"
  shows "goodAccount (putToken i tok at m) \<and> extends m (putToken i tok at m)"
  using assms by (auto simp: goodAccount_def putToken_def extends_def goodSource_def nth_list_update)

lemma cachingToken_good:
  assumes "goodAccount m" and "i < length (sa_objects m)" and "cachingToken C i now later m = (r, m')"
  shows "goodAccount m' \<and> extends m m' \<and> (\<forall>t. r = Inr t \<longrightarrow> tokenFor (to_audience (sa_objects m ! i)) t)"
proof -
  have cached: "tokenFor (to_audience (sa_objects m ! i)) t" if "cachedToken i m = Some t" for t
    using that assms(1,2) by (auto simp: cachedToken_def goodAccount_def goodSource_def)
  define m1 where "m1 = snd (baseToken C (to_audience (sa_objects m ! i)) m)"
  have m1: "goodAccount m1" "extends m m1" "sa_objects m1 = sa_objects m"
    using assms(1) by (auto simp: m1_def baseToken_def goodAccount_def extends_def)
  have new: "tokenFor (to_audience (sa_objects m ! i)) t" if "fst (baseToken C (to_audience (sa_objects m ! i)) m) = Inr t" for t
    using that by (auto simp: baseToken_def mapOk_def tokenFor_def bindE_Inr_iff dest: issued)
  have put: "goodAccount (putToken i (Some t) later m1) \<and> extends m (putToken i (Some t) later m1)"
    if "tokenFor (to_audience (sa_objects m ! i)) t" for t
    using putToken_good [OF m1(1), of i "Some t" later] that m1 assms(2) by (auto simp: extends_def)
  have fast: "cachedToken i m = Some t" if "fastPath i now m = Some t" for t
    using that by (auto simp: fastPath_def split: option.splits if_splits)
  show ?thesis
  proof (cases "fastPath i now m")
    case (Some t)
    with assms(1,3) cached fast show ?thesis by (auto simp: cachingToken_def extends_def)
  next
    case None
    then have "(r, m') = (case (fst (baseToken C (to_audience (sa_objects m ! i)) m), m1) of
             (Inl err, m1) \<Rightarrow> (case cachedToken i m1 of None \<Rightarrow> (Inl err, m1) | Some tok \<Rightarrow> (Inr tok, m1))
           | (Inr tok, m1) \<Rightarrow> (Inr tok, putToken i (Some tok) later m1))"
      using assms(3) by (simp add: cachingToken_def slowPath_def m1_def)
    moreover have "cachedToken i m1 = cachedToken i m" by (simp add: cachedToken_def m1)
    ultimately show ?thesis
      using new put cached m1 by (auto split: sum.splits option.splits)
  qed
qed

end

text \<open>
  What the operator's connections do to its token sources, in any order: connect to a workspace, ask
  for the header of a call, reset a source and prune the cache.
\<close>

inductive clientReach :: "clientlib \<Rightarrow> ServiceAccount \<Rightarrow> (Workspace \<times> tokenCredentials) list \<Rightarrow> bool" for C where
  client_new: "clientReach C newServiceAccount []"
| client_connect: "\<lbrakk>clientReach C m cs; connectCredentials w now m = (c, m')\<rbrakk> \<Longrightarrow> clientReach C m' (cs @ [(w, c)])"
| client_call: "\<lbrakk>clientReach C m cs; j < length cs; GetRequestMetadata C now later (snd (cs ! j)) m = (r, c, m')\<rbrakk>
    \<Longrightarrow> clientReach C m' (cs[j := (fst (cs ! j), c)])"
| client_reset: "\<lbrakk>clientReach C m cs; i < length (sa_objects m)\<rbrakk> \<Longrightarrow> clientReach C (ResetTokenOlderThan i t m) cs"
| client_prune: "clientReach C m cs \<Longrightarrow> clientReach C (pruneTick now m) cs"

context token_issuer
begin

lemma GetRequestMetadata_good:
  assumes "goodAccount m" and "goodCreds m (w, c)" and "GetRequestMetadata C now later c m = (r, c', m')"
  shows "goodAccount m' \<and> extends m m' \<and> goodCreds m' (w, c')
    \<and> (\<forall>md. r = Inr md \<longrightarrow> (\<exists>t. md = requestHeader C t \<and> tokenFor (audienceForWorkspace w) t))"
proof (cases "case tc_t c of Some t \<Rightarrow> cx_Valid C now t | None \<Rightarrow> False")
  case True
  with assms show ?thesis
    by (auto simp: GetRequestMetadata_def goodCreds_def extends_def split: option.splits)
next
  case False
  obtain x m1 where x: "cachingToken C (tc_source c) now later m = (x, m1)" by fastforce
  from cachingToken_good [OF assms(1) _ x] assms(2) have good: "goodAccount m1" "extends m m1"
    "\<And>t. x = Inr t \<Longrightarrow> tokenFor (audienceForWorkspace w) t" by (auto simp: goodCreds_def)
  with False x assms(2,3) show ?thesis
    by (auto simp: GetRequestMetadata_def goodCreds_def extends_def split: sum.splits)
qed

lemma clientReach_good:
  assumes "clientReach C m cs"
  shows "goodAccount m \<and> (\<forall>wc\<in>set cs. goodCreds m wc)"
  using assms
proof (induction rule: clientReach.induct)
  case client_new show ?case by (simp add: newServiceAccount_def goodAccount_def)
next
  case (client_connect m cs w now c m')
  obtain i where i: "TokenSource (audienceForWorkspace w) now m = (i, m')" and c: "c = NewTokenCredentials i"
    using client_connect.hyps(2) by (auto simp: connectCredentials_def split: prod.splits)
  from TokenSource_good [OF _ i] client_connect.IH
  have "goodAccount m'" "extends m m'" "goodCreds m' (w, c)"
    by (auto simp: c NewTokenCredentials_def goodCreds_def)
  with client_connect.IH goodCreds_extends show ?case by auto
next
  case (client_call m cs j now later r c m')
  from client_call have "goodCreds m (fst (cs ! j), snd (cs ! j))" by simp
  from GetRequestMetadata_good [OF _ this client_call.hyps(3)] client_call.IH goodCreds_extends show ?case
    by (auto dest!: set_update_subset_insert [THEN subsetD])
next
  case (client_reset m cs i t)
  from putToken_good [OF _ client_reset.hyps(2), of None 0] client_reset.IH goodCreds_extends show ?case
    by (auto simp: ResetTokenOlderThan_def)
next
  case (client_prune m cs now)
  obtain n m' where "Prune (now - pruneTokensOlderThan) m = (n, m')" by fastforce
  with Prune_good [OF _ this] client_prune.IH goodCreds_extends show ?case
    by (auto simp: pruneTick_def)
qed

lemma header_for:
  assumes "clientReach C m cs" and "(w, c) \<in> set cs" and "GetRequestMetadata C now later c m = (Inr md, rest)"
  shows "\<exists>t. md = requestHeader C t \<and> tokenFor (audienceForWorkspace w) t"
proof -
  obtain c' m' where "rest = (c', m')" by fastforce
  with GetRequestMetadata_good [of m w c now later "Inr md" c' m'] clientReach_good [OF assms(1)] assms(2,3)
  show ?thesis by auto
qed

lemma Authenticate_audience:
  assumes "Authenticate A K a (requestHeader C t) = Inr user" and "tokenFor aud t"
  shows "aud \<in> set (ka_audiences a)"
proof -
  have "kl_AuthFromMD K (requestHeader C t) ''Bearer'' = Inr (tk_AccessToken t)"
    using assms(2) bearer [of t] by (simp add: requestHeader_def tokenFor_def)
  with assms(1) have "\<exists>u. kl_AuthenticateToken K (ka_audiences a) (tk_AccessToken t) = Inr (Some u)"
    by (auto simp: Authenticate_def split: sum.splits option.splits if_splits)
  with reviewed assms(2) show ?thesis by (fastforce simp: tokenFor_def)
qed

end

text \<open>A namespace has no dot, so the audience tells the workspace.\<close>

definition dotless :: "string \<Rightarrow> bool" where
  "dotless s \<longleftrightarrow> CHR ''.'' \<notin> set s"

lemma split_at_first: "a @ c # b = a' @ c # b' \<Longrightarrow> c \<notin> set a \<Longrightarrow> c \<notin> set a' \<Longrightarrow> a = a' \<and> b = b'"
  by (induction a arbitrary: a') (auto simp: Cons_eq_append_conv append_eq_Cons_conv)

lemma split_at_last:
  assumes "x @ c # y = x' @ c # y'" and "c \<notin> set y" and "c \<notin> set y'"
  shows "x = x' \<and> y = y'"
proof -
  have "rev y @ c # rev x = rev y' @ c # rev x'" using arg_cong [OF assms(1), of rev] by simp
  then have "rev y = rev y' \<and> rev x = rev x'"
    using assms(2,3) split_at_first [of "rev y" c "rev x" "rev y'" "rev x'"] by simp
  then show ?thesis by simp
qed

lemma audience_identifies:
  assumes "audienceForWorkspace w = audienceForWorkspace w'"
    and "dotless (om_Namespace (w_Meta w))" and "dotless (om_Namespace (w_Meta w'))"
  shows "om_Name (w_Meta w) = om_Name (w_Meta w') \<and> om_Namespace (w_Meta w) = om_Namespace (w_Meta w')"
  using assms split_at_last [of "om_Name (w_Meta w)" "CHR ''.''" "om_Namespace (w_Meta w)"]
  by (simp add: audienceForWorkspace_def dotless_def)

text \<open>The flags the operator's pod gives to the agent of a workspace.\<close>

definition workspaceFlags :: "Workspace \<Rightarrow> serveFlags" where
  "workspaceFlags w = \<lparr>sf_authMode = AuthModeKubernetes, sf_audiences = [audienceForWorkspace w],
     sf_workspaceNamespace = om_Namespace (w_Meta w), sf_workspaceName = om_Name (w_Meta w)\<rparr>"

lemma pulumiCommand_flags:
  "\<exists>before after. pulumiCommand w = before @ [''--auth-mode'', sf_authMode (workspaceFlags w)]
     @ concat (map (\<lambda>a. [''--kube-audience'', a]) (sf_audiences (workspaceFlags w)))
     @ [''--kube-workspace-namespace'', sf_workspaceNamespace (workspaceFlags w),
        ''--kube-workspace-name'', sf_workspaceName (workspaceFlags w)] @ after"
  unfolding pulumiCommand_def workspaceFlags_def AuthModeKubernetes_def
  by (rule exI [of _ "[''/share/tini'', ''/share/agent'', ''--'', ''serve'', ''--workspace'', ''/share/workspace'', ''--skip-install'',
      ''--env-file'', ''/share/.env'']"]) simp

text \<open>C13: A token that the operator attaches to its calls to the agent of a workspace opens that agent at most.
  Whatever connections the operator made and whatever its token caches went through, the agent of
  any workspace that lets the header of such a call pass is the agent of the workspace the header
  was made for, by name and namespace, so an agent that keeps the token cannot use it with another.
\<close>

lemma operator_token_confined:
  assumes "token_issuer C K audiencesOf" and "clientReach C m cs" and "(w, c) \<in> set cs"
    and "GetRequestMetadata C now later c m = (Inr md, rest)"
    and "serveAuth A K (workspaceFlags w') = Some authF" and "authF md = Inr user"
    and "dotless (om_Namespace (w_Meta w))" and "dotless (om_Namespace (w_Meta w'))"
  shows "om_Name (w_Meta w') = om_Name (w_Meta w) \<and> om_Namespace (w_Meta w') = om_Namespace (w_Meta w)"
proof -
  from token_issuer.header_for [OF assms(1-4)] obtain t
    where md: "md = requestHeader C t" and t: "token_issuer.tokenFor audiencesOf (audienceForWorkspace w) t" by blast
  have "authF = Authenticate A K \<lparr>ka_namespace = om_Namespace (w_Meta w'), ka_name = om_Name (w_Meta w'),
      ka_audiences = [audienceForWorkspace w']\<rparr>"
    using assms(5) by (simp add: serveAuth_def workspaceFlags_def)
  with token_issuer.Authenticate_audience [OF assms(1) _ t] assms(6)
  have "audienceForWorkspace w = audienceForWorkspace w'" by (fastforce simp: md)
  from audience_identifies [OF this assms(7,8)] show ?thesis by simp
qed

text \<open>A token service for the witnesses: a token is the text of its audience.\<close>

definition exampleClient :: clientlib where
  "exampleClient = \<lparr>cx_ServiceAccountName = ''operator'', cx_CreateToken = (\<lambda>_ _ auds. Inr (hd auds, 10 * leeway)),
     cx_Valid = (\<lambda>now t. now < tk_Expiry t), cx_Type = tk_TokenType\<rparr>"

definition exampleKube :: "string kubelib" where
  "exampleKube = \<lparr>kl_AuthFromMD = (\<lambda>md scheme. case map_of md ''authorization'' of
         Some v \<Rightarrow> if hasPrefix v (scheme @ '' '') then Inr (drop (length scheme + 1) v) else Inl (PlainError ''bad scheme'')
       | None \<Rightarrow> Inl (PlainError ''no header'')),
     kl_AuthenticateToken = (\<lambda>auds token. Inr (if token \<in> set auds then Some ''operator'' else None)),
     kl_Authorize = (\<lambda>a. (DecisionAllow, [], None)), kl_IsForbidden = (\<lambda>_. False)\<rparr>"

interpretation exampleIssuer: token_issuer exampleClient exampleKube "\<lambda>access. [access]"
  by unfold_locales (auto simp: exampleClient_def exampleKube_def hasPrefix_def split: if_splits)

lemma example_call:
  fixes A :: agentlib and w :: Workspace
  shows "\<exists>m c md rest. clientReach exampleClient m [(w, c)] \<and> GetRequestMetadata exampleClient 0 0 c m = (Inr md, rest)
    \<and> the (serveAuth A exampleKube (workspaceFlags w)) md = Inr ''operator''"
proof -
  obtain c m where c: "connectCredentials w 0 newServiceAccount = (c, m)" by fastforce
  from client_connect [OF client_new this] have "clientReach exampleClient m [(w, c)]" by simp
  moreover obtain md rest where "GetRequestMetadata exampleClient 0 0 c m = (Inr md, rest)"
    and "md = [(''authorization'', ''Bearer '' @ audienceForWorkspace w)]"
    using c by (auto simp: connectCredentials_def TokenSource_def newServiceAccount_def Let_def NewTokenCredentials_def
        GetRequestMetadata_def cachingToken_def slowPath_def fastPath_def cachedToken_def baseToken_def exampleClient_def
        mapOk_def requestHeader_def)
  moreover have "the (serveAuth A exampleKube (workspaceFlags w)) [(''authorization'', ''Bearer '' @ audienceForWorkspace w)] = Inr ''operator''"
    by (simp add: serveAuth_def workspaceFlags_def Authenticate_def exampleKube_def hasPrefix_def)
  ultimately show ?thesis by blast
qed

definition otherWorkspace :: Workspace where
  "otherWorkspace = exampleWorkspace\<lparr>w_Meta := emptyMeta\<lparr>om_Name := ''other'', om_Namespace := ''default''\<rparr>\<rparr>"

lemma operator_token_confined_witness:
  "\<exists>m c md rest. clientReach exampleClient m [(exampleWorkspace, c)]
     \<and> GetRequestMetadata exampleClient 0 0 c m = (Inr md, rest)
     \<and> the (serveAuth exampleAgent exampleKube (workspaceFlags exampleWorkspace)) md = Inr ''operator''
     \<and> (\<forall>user. the (serveAuth exampleAgent exampleKube (workspaceFlags otherWorkspace)) md \<noteq> Inr user)"
proof -
  obtain m c md rest where call: "clientReach exampleClient m [(exampleWorkspace, c)]"
    "GetRequestMetadata exampleClient 0 0 c m = (Inr md, rest)"
    "the (serveAuth exampleAgent exampleKube (workspaceFlags exampleWorkspace)) md = Inr ''operator''" using example_call by blast
  have flags: "serveAuth exampleAgent exampleKube (workspaceFlags w) = Some (the (serveAuth exampleAgent exampleKube (workspaceFlags w)))" for w
    by (simp add: serveAuth_def workspaceFlags_def)
  have names: "dotless (om_Namespace (w_Meta exampleWorkspace))" "dotless (om_Namespace (w_Meta otherWorkspace))"
    "om_Name (w_Meta otherWorkspace) \<noteq> om_Name (w_Meta exampleWorkspace)"
    by (simp_all add: dotless_def otherWorkspace_def exampleWorkspace_def emptyMeta_def)
  have "the (serveAuth exampleAgent exampleKube (workspaceFlags otherWorkspace)) md \<noteq> Inr user" for user
    using operator_token_confined [OF exampleIssuer.token_issuer_axioms call(1) _ call(2) flags _ names(1,2)] names(3) by force
  with call show ?thesis by blast
qed

section \<open>Guarded sessions\<close>

text \<open>Calls with their metadata, each handled if it is let through.\<close>

definition serveAs :: "(string gomap \<Rightarrow> rpcError + 'u) option \<Rightarrow> ('j, 'i, 'o) aenv \<Rightarrow> string gomap \<times> 'j agentCall \<Rightarrow> AState \<Rightarrow> AState" where
  "serveAs authF E call s = snd (guardCall authF (fst call) (\<lambda>s. ((), serveCall E (snd call) s)) s)"

definition authorized :: "'u kubelib \<Rightarrow> serveFlags \<Rightarrow> string gomap \<Rightarrow> bool" where
  "authorized K f md \<longleftrightarrow> (\<exists>token user reason a. kl_AuthFromMD K md ''Bearer'' = Inr token
     \<and> kl_AuthenticateToken K (sf_audiences f) token = Inr (Some user) \<and> kl_Authorize K a = (DecisionAllow, reason, None)
     \<and> at_User a = user \<and> at_Namespace a = sf_workspaceNamespace f \<and> at_Name a = sf_workspaceName f
     \<and> at_APIGroup a = ''auto.pulumi.com'' \<and> at_APIVersion a = ''v1alpha1'' \<and> at_Resource a = ''workspaces''
     \<and> at_Subresource a = ''rpc'' \<and> at_Verb a = ''use'' \<and> at_ResourceRequest a)"

lemma Authenticate_authorized:
  "(\<exists>user. Authenticate A K \<lparr>ka_namespace = sf_workspaceNamespace f, ka_name = sf_workspaceName f, ka_audiences = sf_audiences f\<rparr> md
      = Inr user) \<longleftrightarrow> authorized K f md"
proof -
  have a: "at_User a = user \<and> at_Namespace a = sf_workspaceNamespace f \<and> at_Name a = sf_workspaceName f
     \<and> at_APIGroup a = ''auto.pulumi.com'' \<and> at_APIVersion a = ''v1alpha1'' \<and> at_Resource a = ''workspaces''
     \<and> at_Subresource a = ''rpc'' \<and> at_Verb a = ''use'' \<and> at_ResourceRequest a
     \<longleftrightarrow> a = accessAttributes \<lparr>ka_namespace = sf_workspaceNamespace f, ka_name = sf_workspaceName f, ka_audiences = sf_audiences f\<rparr> user"
    for a :: "'u attributesRecord" and user
    by (cases a) (auto simp: accessAttributes_def)
  show ?thesis
    unfolding authorized_def a
    by (auto simp: Authenticate_def split: sum.splits option.splits prod.splits if_splits)
qed

text \<open>C30: In the mode for Kubernetes, which the serve command only starts with an audience and the name of
  a workspace, the agent's state after any calls is the one after those alone that came with a bearer
  token which the token review accepted for the audience, of a user whom the access review allows to
  use the rpc subresource of that workspace: no other call selects a stack, sets configuration or runs
  an operation.
\<close>

lemma agent_serves_authorized:
  assumes "sf_authMode f = AuthModeKubernetes"
  shows "fold (serveAs (serveAuth A K f) E) calls s = fold (serveCall E) (map snd (filter (\<lambda>c. authorized K f (fst c)) calls)) s"
proof (induction calls arbitrary: s)
  case (Cons call calls)
  have "serveAs (serveAuth A K f) E call s = (if authorized K f (fst call) then serveCall E (snd call) s else s)"
    using Authenticate_authorized [of A K f "fst call"] assms
    by (auto simp: serveAs_def guardCall_def serveAuth_def split: sum.split)
  with Cons.IH show ?case by simp
qed simp

lemma agent_serves_authorized_witness:
  "fold (serveAs (serveAuth exampleAgent exampleKube (workspaceFlags exampleWorkspace)) (exampleAEnv (Inl (PlainError ''e''))))
     [([], RpcInstall), ([(''authorization'', ''Bearer '' @ audienceForWorkspace exampleWorkspace)], RpcInfo)] exampleStart
   = serveCall (exampleAEnv (Inl (PlainError ''e''))) RpcInfo exampleStart"
proof -
  have mode: "sf_authMode (workspaceFlags exampleWorkspace) = AuthModeKubernetes" by (simp add: workspaceFlags_def)
  have "\<not> authorized exampleKube (workspaceFlags exampleWorkspace) []"
    by (simp add: authorized_def exampleKube_def)
  moreover have "authorized exampleKube (workspaceFlags exampleWorkspace) [(''authorization'', ''Bearer '' @ audienceForWorkspace exampleWorkspace)]"
    using Authenticate_authorized [of exampleAgent exampleKube "workspaceFlags exampleWorkspace"]
    by (force simp: Authenticate_def exampleKube_def hasPrefix_def workspaceFlags_def)
  ultimately show ?thesis by (simp only: agent_serves_authorized [OF mode]) simp
qed

section \<open>Sharing a token\<close>

text \<open>
  Calls that share a token source: each looks at the cached token, and if that will not do takes the
  write lock later, with the time it had read. A step is one of the two parts, of any of the calls.
\<close>

datatype tokenCall = TokenReady | TokenWaiting time | TokenDone "goerr + Token"

inductive tokenStep :: "clientlib \<Rightarrow> nat \<Rightarrow> time \<Rightarrow> ServiceAccount \<times> tokenCall list \<Rightarrow> ServiceAccount \<times> tokenCall list \<Rightarrow> bool"
  for C i horizon where
  token_hit: "\<lbrakk>j < length cs; cs ! j = TokenReady; now \<le> horizon; fastPath i now m = Some tok\<rbrakk>
    \<Longrightarrow> tokenStep C i horizon (m, cs) (m, cs[j := TokenDone (Inr tok)])"
| token_miss: "\<lbrakk>j < length cs; cs ! j = TokenReady; now \<le> horizon; fastPath i now m = None\<rbrakk>
    \<Longrightarrow> tokenStep C i horizon (m, cs) (m, cs[j := TokenWaiting now])"
| token_locked: "\<lbrakk>j < length cs; cs ! j = TokenWaiting now; slowPath C i now later m = (r, m')\<rbrakk>
    \<Longrightarrow> tokenStep C i horizon (m, cs) (m', cs[j := TokenDone r])"

text \<open>Nothing was requested and no call is over, or one token was, which every call that is over got.\<close>

definition tokenShared :: "nat \<Rightarrow> time \<Rightarrow> ServiceAccount \<times> tokenCall list \<Rightarrow> bool" where
  "tokenShared i horizon mc \<longleftrightarrow> (case mc of (m, cs) \<Rightarrow>
     i < length (sa_objects m) \<and> (\<forall>now. TokenWaiting now \<in> set cs \<longrightarrow> now \<le> horizon)
     \<and> (cachedToken i m = None \<and> sa_requests m = [] \<and> (\<forall>r. TokenDone r \<notin> set cs)
        \<or> (\<exists>tok. cachedToken i m = Some tok \<and> freshToken tok horizon \<and> length (sa_requests m) = 1
             \<and> (\<forall>r. TokenDone r \<in> set cs \<longrightarrow> r = Inr tok))))"

lemma freshToken_earlier: "freshToken tok horizon \<Longrightarrow> now \<le> horizon \<Longrightarrow> freshToken tok now"
  by (simp add: freshToken_def)

lemma set_update_cases: "x \<in> set (cs[j := y]) \<Longrightarrow> x = y \<or> x \<in> set cs"
  using set_update_subset_insert by fastforce

lemma tokenShared_step:
  assumes lives: "\<And>rs auds. \<exists>access expiry. cx_CreateToken C rs (cx_ServiceAccountName C) auds = Inr (access, expiry)
      \<and> horizon < expiry - leeway"
    and "tokenStep C i horizon mc mc'" and "tokenShared i horizon mc"
  shows "tokenShared i horizon mc'"
  using assms(2,3)
proof (induction rule: tokenStep.induct)
  case (token_hit j cs now m tok)
  then show ?case
    by (auto simp: tokenShared_def fastPath_def dest!: set_update_cases split: if_splits)
next
  case (token_miss j cs now m)
  then show ?case
    by (auto simp: tokenShared_def fastPath_def dest!: set_update_cases dest: freshToken_earlier split: option.splits if_splits)
next
  case (token_locked j cs now later m r m')
  have now: "now \<le> horizon" using token_locked by (auto simp: tokenShared_def in_set_conv_nth)
  show ?case
  proof (cases "cachedToken i m")
    case None
    obtain access expiry where t: "cx_CreateToken C (sa_requests m) (cx_ServiceAccountName C) [to_audience (sa_objects m ! i)]
        = Inr (access, expiry)" "horizon < expiry - leeway" using lives by blast
    with None token_locked show ?thesis
      by (auto simp: tokenShared_def slowPath_def fastPath_def baseToken_def putToken_def cachedToken_def freshToken_def
          dest!: set_update_cases)
  next
    case (Some tok)
    with token_locked.prems have "fastPath i now m = Some tok"
      using now freshToken_earlier by (auto simp: tokenShared_def fastPath_def)
    with token_locked Some show ?thesis
      by (auto simp: tokenShared_def slowPath_def dest!: set_update_cases)
  qed
qed

text \<open>C37: Calls to an agent share one token. However their accesses to a new token source interleave, as long
  as tokens are issued and outlive the calls by the leeway, one token is requested at most, and all the
  calls that are over go on with it.
\<close>

lemma token_requested_once:
  assumes "\<And>rs auds. \<exists>access expiry. cx_CreateToken C rs (cx_ServiceAccountName C) auds = Inr (access, expiry)
      \<and> horizon < expiry - leeway"
    and "TokenSource audience t newServiceAccount = (i, m)"
    and "(tokenStep C i horizon)\<^sup>*\<^sup>* (m, replicate n TokenReady) (m', cs)"
  shows "length (sa_requests m') \<le> 1 \<and> (\<exists>tok. \<forall>r. TokenDone r \<in> set cs \<longrightarrow> r = Inr tok)"
proof -
  have start: "tokenShared i horizon (m, replicate n TokenReady)"
    using assms(2) by (auto simp: tokenShared_def TokenSource_def newServiceAccount_def cachedToken_def Let_def)
  have "tokenShared i horizon (m', cs)"
    using assms(3) by (rule rtranclp_induct) (use start tokenShared_step [OF assms(1)] in auto)
  then show ?thesis by (auto simp: tokenShared_def)
qed

lemma token_requested_once_witness:
  "\<exists>i m m' cs. (tokenStep exampleClient i 0)\<^sup>*\<^sup>* (m, [TokenReady, TokenReady]) (m', cs)
     \<and> TokenDone (Inr \<lparr>tk_TokenType = ''Bearer'', tk_AccessToken = ''a'', tk_Expiry = 10 * leeway\<rparr>) \<in> set cs
     \<and> length (sa_requests m') \<le> 1"
proof -
  obtain i m where im: "TokenSource ''a'' 0 newServiceAccount = (i, m)" by fastforce
  then have m: "i = 0" "sa_objects m = [\<lparr>to_audience = ''a'', to_tok = None, to_t = 0\<rparr>]" "sa_requests m = []"
    by (auto simp: TokenSource_def newServiceAccount_def Let_def)
  let ?t = "\<lparr>tk_TokenType = ''Bearer'', tk_AccessToken = ''a'', tk_Expiry = 10 * leeway\<rparr>"
  obtain m' where slow: "slowPath exampleClient i 0 0 m = (Inr ?t, m')"
    using m by (auto simp: slowPath_def fastPath_def cachedToken_def baseToken_def exampleClient_def mapOk_def)
  have "tokenStep exampleClient i 0 (m, replicate 2 TokenReady) (m, (replicate 2 TokenReady)[0 := TokenWaiting 0])"
    using m by (intro token_miss) (auto simp: fastPath_def cachedToken_def)
  moreover have "tokenStep exampleClient i 0 (m, (replicate 2 TokenReady)[0 := TokenWaiting 0])
      (m', (replicate 2 TokenReady)[0 := TokenWaiting 0, 0 := TokenDone (Inr ?t)])"
    using slow by (intro token_locked) auto
  ultimately have run: "(tokenStep exampleClient i 0)\<^sup>*\<^sup>* (m, replicate 2 TokenReady) (m', [TokenDone (Inr ?t), TokenReady])"
    by (simp add: numeral_2_eq_2)
  have lives: "\<exists>access expiry. cx_CreateToken exampleClient rs (cx_ServiceAccountName exampleClient) auds = Inr (access, expiry)
      \<and> 0 < expiry - leeway" for rs auds
    by (auto simp: exampleClient_def leeway_def Second_def)
  from token_requested_once [OF lives im run] run show ?thesis
    by (intro exI [of _ i] exI [of _ m] exI [of _ m'] exI [of _ "[TokenDone (Inr ?t), TokenReady]"])
       (simp add: numeral_2_eq_2)
qed

end
