(* ===== verification/AgentServe.thy ===== *)
theory AgentServe
  imports AccessProperties
begin

text \<open>
  The agent's serve command (agent/cmd/serve.go): its flags, what it does before it listens, and its
  shutdown on signals together with \<^verbatim>\<open>GRPC.Serve\<close> (agent/pkg/server/grpc.go). The operating system,
  the flag library, the environment file's reader and the Automation API are arguments.
\<close>

section \<open>The flags\<close>

record serveArgs =
  sv_workDir :: string
  sv_skipInstall :: bool
  sv_stack :: string
  sv_secretsProvider :: string
  sv_envFile :: string
  sv_host :: string
  sv_port :: int
  sv_flags :: serveFlags
  sv_pulumiLogLevel :: nat

text \<open>The values of the flags that are not given; two come from the environment.\<close>

definition serveDefaults :: "(string \<Rightarrow> string) \<Rightarrow> serveArgs" where
  "serveDefaults getenv = \<lparr>sv_workDir = [], sv_skipInstall = False, sv_stack = [], sv_secretsProvider = [],
     sv_envFile = [], sv_host = ''0.0.0.0'', sv_port = 50051,
     sv_flags = \<lparr>sf_authMode = AuthModeNone, sf_audiences = [],
       sf_workspaceNamespace = getenv ''WORKSPACE_NAMESPACE'', sf_workspaceName = getenv ''WORKSPACE_NAME''\<rparr>,
     sv_pulumiLogLevel = 0\<rparr>"

text \<open>The targets of the flags, which \<^verbatim>\<open>StringVar\<close>, \<^verbatim>\<open>BoolVar\<close> and \<^verbatim>\<open>StringArrayVar\<close> are given.\<close>

definition onFlags :: "(serveFlags \<Rightarrow> serveFlags) \<Rightarrow> serveArgs \<Rightarrow> serveArgs" where
  "onFlags f a = a\<lparr>sv_flags := f (sv_flags a)\<rparr>"

definition stringFlag :: "string \<Rightarrow> (string \<Rightarrow> serveArgs \<Rightarrow> serveArgs) option" where
  "stringFlag name =
     (if name = ''--workspace'' \<or> name = ''-w'' then Some (\<lambda>v a. a\<lparr>sv_workDir := v\<rparr>)
      else if name = ''--stack'' \<or> name = ''-s'' then Some (\<lambda>v a. a\<lparr>sv_stack := v\<rparr>)
      else if name = ''--secrets-provider'' then Some (\<lambda>v a. a\<lparr>sv_secretsProvider := v\<rparr>)
      else if name = ''--env-file'' then Some (\<lambda>v a. a\<lparr>sv_envFile := v\<rparr>)
      else if name = ''--host'' then Some (\<lambda>v a. a\<lparr>sv_host := v\<rparr>)
      else if name = ''--auth-mode'' then Some (\<lambda>v. onFlags (\<lambda>f. f\<lparr>sf_authMode := v\<rparr>))
      else if name = ''--kube-audience'' then Some (\<lambda>v. onFlags (\<lambda>f. f\<lparr>sf_audiences := sf_audiences f @ [v]\<rparr>))
      else if name = ''--kube-workspace-namespace'' then Some (\<lambda>v. onFlags (\<lambda>f. f\<lparr>sf_workspaceNamespace := v\<rparr>))
      else if name = ''--kube-workspace-name'' then Some (\<lambda>v. onFlags (\<lambda>f. f\<lparr>sf_workspaceName := v\<rparr>))
      else None)"

text \<open>
  The flag library: a flag that takes a value takes the next argument, whatever it is, and the
  switch takes none; the text of a number is read as that number.
\<close>

locale flag_library =
  fixes parse :: "serveArgs \<Rightarrow> string list \<Rightarrow> goerr + serveArgs"
  assumes no_flags: "parse a [] = Inr a"
    and string_flag: "stringFlag name = Some f \<Longrightarrow> parse a (name # v # rest) = parse (f v a) rest"
    and switch: "parse a (''--skip-install'' # rest) = parse (a\<lparr>sv_skipInstall := True\<rparr>) rest"
    and log_level: "0 \<le> n \<Longrightarrow> n < 2 ^ 63 \<Longrightarrow>
      parse a (''--pulumi-log-level'' # showInt n # rest) = parse (a\<lparr>sv_pulumiLogLevel := nat n\<rparr>) rest"

section \<open>Starting\<close>

text \<open>
  What the command uses. A memory quantity is read as its value in bytes, and none is a panic;
  reading the environment file gives its variables.
\<close>

record servelib =
  sl_LookupEnv :: "string \<Rightarrow> string option"
  sl_ParseQuantity :: "string \<Rightarrow> int option"
  sl_GetKubeConfig :: "goerr option"
  sl_NewKubeAuth :: "goerr option"
  sl_EvalSymlinks :: "string \<Rightarrow> goerr + string"
  sl_ReadEnvFile :: "string \<Rightarrow> goerr + string gomap"
  sl_IsNotExist :: "goerr \<Rightarrow> bool"
  sl_NewLocalWorkspace :: "string \<Rightarrow> string gomap option \<Rightarrow> goerr option"
  sl_ProjectSettings :: "goerr + Project"
  sl_Install :: "goerr option"
  sl_Listen :: "string \<Rightarrow> goerr option"
  sl_Serve :: "goerr option"

datatype serveAction =
    SetMemoryLimit int
  | OpenWorkspace string "string gomap option"
  | InstallDependencies
  | StartServer string string nat
  | ListenOn string
  | ServeRequests bool

type_synonym serveOutcome = "goerr option \<times> serveAction list"

definition memoryLimit :: "servelib \<Rightarrow> goerr + serveAction list" where
  "memoryLimit X =
     (case sl_LookupEnv X ''AGENT_MEMLIMIT'' of
        None \<Rightarrow> Inr []
      | Some limit \<Rightarrow>
          (case sl_ParseQuantity X limit of
             None \<Rightarrow> Inl (Panic ''cannot parse quantity'')
           | Some val \<Rightarrow> Inr (if val \<noteq> 0 then [SetMemoryLimit val] else [])))"

text \<open>Whether there is a check of the calls, or why it cannot be made.\<close>

definition authFunc :: "servelib \<Rightarrow> serveFlags \<Rightarrow> goerr + bool" where
  "authFunc X f =
     (if sf_authMode f = AuthModeKubernetes
      then (case sl_GetKubeConfig X of
              Some err \<Rightarrow> Inl (Wrapf ''unable to load the kubeconfig'' err)
            | None \<Rightarrow>
                (case sl_NewKubeAuth X of
                   Some err \<Rightarrow> Inl (Wrapf ''unable to initialize the Kubernetes authorizer'' err)
                 | None \<Rightarrow> Inr True))
      else Inr False)"

text \<open>A missing environment file is passed over.\<close>

definition envVars :: "servelib \<Rightarrow> string \<Rightarrow> goerr + string gomap option" where
  "envVars X file =
     (if file = [] then Inr None
      else case sl_ReadEnvFile X file of
             Inr vars \<Rightarrow> Inr (Some vars)
           | Inl err \<Rightarrow> (if sl_IsNotExist X err then Inr None
                         else Inl (Wrapf ''unable to read the environment file'' err)))"

definition serveCommand ::
  "servelib \<Rightarrow> ('j, 'i, 'o) aenv \<Rightarrow> serveArgs \<Rightarrow> serveOutcome" where
  "serveCommand X E a =
     (case memoryLimit X of
        Inl err \<Rightarrow> (Some err, [])
      | Inr tr \<Rightarrow>
     (case authFunc X (sv_flags a) of
        Inl err \<Rightarrow> (Some err, tr)
      | Inr guarded \<Rightarrow>
     (case sl_EvalSymlinks X (sv_workDir a) of
        Inl err \<Rightarrow> (Some (Wrapf ''unable to resolve the workspace directory'' err), tr)
      | Inr workDir \<Rightarrow>
     (case envVars X (sv_envFile a) of
        Inl err \<Rightarrow> (Some err, tr)
      | Inr vars \<Rightarrow>
     (let tr = tr @ [OpenWorkspace workDir vars]
      in case sl_NewLocalWorkspace X workDir vars of
           Some err \<Rightarrow> (Some (Wrapf ''unable to open the workspace'' err), tr)
         | None \<Rightarrow>
     (case sl_ProjectSettings X of
        Inl err \<Rightarrow> (Some (Wrapf ''unable to get the project settings'' err), tr)
      | Inr proj \<Rightarrow>
     (let install = (\<not> sv_skipInstall a \<and> \<not> HasPrebuiltBinary (Some proj));
          tr = (if install then tr @ [InstallDependencies] else tr)
      in case (if install then sl_Install X else None) of
           Some err \<Rightarrow> (Some (Wrapf ''unable to install project dependencies'' err), tr)
         | None \<Rightarrow>
     (let tr = tr @ [StartServer (sv_stack a) (sv_secretsProvider a) (sv_pulumiLogLevel a)]
      in case fst (NewServer E (sv_stack a) (sv_secretsProvider a) (sv_pulumiLogLevel a)) of
           Inl err \<Rightarrow> (Some (Errorf (''unable to make an automation server: '' @ rpcErrorText err)), tr)
         | Inr server \<Rightarrow>
     (let address = sv_host a @ '':'' @ showInt (sv_port a);
          tr = tr @ [ListenOn address]
      in case sl_Listen X address of
           Some err \<Rightarrow> (Some (Wrapf (''unable to listen on '' @ address) err), tr)
         | None \<Rightarrow> (map_option (Wrapf ''unexpected serve error'') (sl_Serve X),
                     tr @ [ServeRequests guarded]))))))))))"

text \<open>The whole command: the validation, then the run.\<close>

definition runServe ::
  "servelib \<Rightarrow> ('j, 'i, 'o) aenv \<Rightarrow> serveArgs \<Rightarrow> serveOutcome" where
  "runServe X E a =
     (case servePreRun (sv_flags a) of
        Some err \<Rightarrow> (Some err, [])
      | None \<Rightarrow> serveCommand X E a)"

lemma guarded_check: "authFunc X f = Inr guarded \<Longrightarrow> guarded \<longleftrightarrow> serveAuth A K f \<noteq> None"
  by (auto simp: authFunc_def serveAuth_def split: if_splits option.splits)

text \<open>What a run that got as far as each step has done.\<close>

lemma serve_actions:
  assumes "act \<in> set (snd (runServe X E a))"
  shows "(\<exists>n. act = SetMemoryLimit n)
    \<or> (\<exists>dir vars. act = OpenWorkspace dir vars \<and> sl_EvalSymlinks X (sv_workDir a) = Inr dir \<and> envVars X (sv_envFile a) = Inr vars)
    \<or> (act = InstallDependencies \<and> \<not> sv_skipInstall a)
    \<or> act = StartServer (sv_stack a) (sv_secretsProvider a) (sv_pulumiLogLevel a)
    \<or> act = ListenOn (sv_host a @ '':'' @ showInt (sv_port a))
    \<or> (\<exists>guarded. act = ServeRequests guarded \<and> authFunc X (sv_flags a) = Inr guarded)"
  using assms
  by (auto simp: runServe_def serveCommand_def memoryLimit_def Let_def split: option.splits sum.splits if_splits)

section \<open>Shutdown\<close>

text \<open>
  The process from the time it listens: the channel that signals are put into, which holds two and
  drops the rest; the goroutine that waits on it; the server with the requests in hand. The last
  two fields count the signals that came and whether the server was told to stop.
\<close>

datatype signalWait = AwaitFirst | AwaitSecond

record shutdown =
  sd_channel :: nat
  sd_wait :: signalWait
  sd_cancelled :: bool
  sd_stopping :: bool
  sd_requests :: nat
  sd_exit :: "int option"
  sd_signals :: nat

definition serving :: shutdown where
  "serving = \<lparr>sd_channel = 0, sd_wait = AwaitFirst, sd_cancelled = False, sd_stopping = False,
     sd_requests = 0, sd_exit = None, sd_signals = 0\<rparr>"

inductive shutdownStep :: "shutdown \<Rightarrow> shutdown \<Rightarrow> bool" where
  signal: "sd_exit s = None \<Longrightarrow> shutdownStep s (s\<lparr>sd_channel := min 2 (sd_channel s + 1), sd_signals := sd_signals s + 1\<rparr>)"
| first_signal: "sd_exit s = None \<Longrightarrow> sd_wait s = AwaitFirst \<Longrightarrow> 0 < sd_channel s \<Longrightarrow>
    shutdownStep s (s\<lparr>sd_channel := sd_channel s - 1, sd_wait := AwaitSecond, sd_cancelled := True\<rparr>)"
| second_signal: "sd_exit s = None \<Longrightarrow> sd_wait s = AwaitSecond \<Longrightarrow> 0 < sd_channel s \<Longrightarrow>
    shutdownStep s (s\<lparr>sd_channel := sd_channel s - 1, sd_exit := Some 1\<rparr>)"
| stop: "sd_exit s = None \<Longrightarrow> sd_cancelled s \<Longrightarrow> shutdownStep s (s\<lparr>sd_stopping := True\<rparr>)"
| request: "sd_exit s = None \<Longrightarrow> \<not> sd_stopping s \<Longrightarrow> shutdownStep s (s\<lparr>sd_requests := sd_requests s + 1\<rparr>)"
| answered: "sd_exit s = None \<Longrightarrow> 0 < sd_requests s \<Longrightarrow> shutdownStep s (s\<lparr>sd_requests := sd_requests s - 1\<rparr>)"
| stopped: "sd_exit s = None \<Longrightarrow> sd_stopping s \<Longrightarrow> sd_requests s = 0 \<Longrightarrow> shutdownStep s (s\<lparr>sd_exit := Some 0\<rparr>)"

definition shutdownInv :: "shutdown \<Rightarrow> bool" where
  "shutdownInv s \<longleftrightarrow> sd_channel s + (if sd_wait s = AwaitSecond then 1 else 0) + (if sd_exit s = Some 1 then 1 else 0) \<le> sd_signals s
     \<and> (sd_cancelled s \<longleftrightarrow> sd_wait s = AwaitSecond) \<and> (sd_stopping s \<longrightarrow> sd_cancelled s)
     \<and> (sd_exit s = Some 1 \<longrightarrow> sd_cancelled s) \<and> (sd_exit s = Some 0 \<longrightarrow> sd_stopping s \<and> sd_requests s = 0)
     \<and> sd_exit s \<in> {None, Some 0, Some 1}"

lemma shutdown_invariant: "shutdownStep\<^sup>*\<^sup>* serving s \<Longrightarrow> shutdownInv s"
proof (induction rule: rtranclp_induct)
  case base
  show ?case by (simp add: shutdownInv_def serving_def)
next
  case (step s t)
  from step.hyps(2) step.IH show ?case
    by (induction rule: shutdownStep.induct) (auto simp: shutdownInv_def)
qed

section \<open>The agent of a workspace\<close>

context flag_library
begin

lemma string_flags:
  "parse a (''--workspace'' # v # rest) = parse (a\<lparr>sv_workDir := v\<rparr>) rest"
  "parse a (''--env-file'' # v # rest) = parse (a\<lparr>sv_envFile := v\<rparr>) rest"
  "parse a (''--auth-mode'' # v # rest) = parse (onFlags (\<lambda>f. f\<lparr>sf_authMode := v\<rparr>) a) rest"
  "parse a (''--kube-audience'' # v # rest) = parse (onFlags (\<lambda>f. f\<lparr>sf_audiences := sf_audiences f @ [v]\<rparr>) a) rest"
  "parse a (''--kube-workspace-namespace'' # v # rest) = parse (onFlags (\<lambda>f. f\<lparr>sf_workspaceNamespace := v\<rparr>) a) rest"
  "parse a (''--kube-workspace-name'' # v # rest) = parse (onFlags (\<lambda>f. f\<lparr>sf_workspaceName := v\<rparr>) a) rest"
  by (rule string_flag, simp add: stringFlag_def)+

text \<open>The flags of the pod's command, read by the flag library.\<close>

lemma pod_flags:
  assumes "0 \<le> ws_PulumiLogVerbosity (w_Spec w)" and "ws_PulumiLogVerbosity (w_Spec w) < 2 ^ 63"
  shows "parse (serveDefaults getenv) (drop 4 (pulumiCommand w)) = Inr ((serveDefaults getenv)
    \<lparr>sv_workDir := ''/share/workspace'', sv_skipInstall := True, sv_envFile := ''/share/.env'',
     sv_flags := workspaceFlags w, sv_pulumiLogLevel := nat (ws_PulumiLogVerbosity (w_Spec w))\<rparr>)"
proof -
  have last: "parse a (if n \<noteq> 0 then [''--pulumi-log-level'', showInt n] else [])
      = Inr (if n \<noteq> 0 then a\<lparr>sv_pulumiLogLevel := nat n\<rparr> else a)" if "0 \<le> n" "n < 2 ^ 63" for a n
    using that log_level [of n a "[]"] by (simp add: no_flags)
  show ?thesis
    unfolding pulumiCommand_def
    by (simp add: string_flags switch last [OF assms, simplified])
       (simp add: serveDefaults_def onFlags_def workspaceFlags_def AuthModeKubernetes_def)
qed

end

text \<open>C12: The agent in the pod of a workspace takes calls only behind the check for that workspace. The
  command line that the workspace controller writes into the pod, read by the flag library, passes
  the validation of the serve command with the workspace's own audience, namespace and name,
  whatever the environment says; the run serves requests only with a check, installs nothing, and
  opens the program's directory.
\<close>

lemma workspace_agent_guarded:
  assumes "flag_library parse" and "om_Namespace (w_Meta w) \<noteq> []" and "om_Name (w_Meta w) \<noteq> []"
    and "0 \<le> ws_PulumiLogVerbosity (w_Spec w)" and "ws_PulumiLogVerbosity (w_Spec w) < 2 ^ 63"
  shows "take 4 (pulumiCommand w) = [''/share/tini'', ''/share/agent'', ''--'', ''serve'']
    \<and> (\<exists>a. parse (serveDefaults getenv) (drop 4 (pulumiCommand w)) = Inr a
         \<and> sv_flags a = workspaceFlags w \<and> servePreRun (sv_flags a) = None
         \<and> (\<forall>act\<in>set (snd (runServe X E a)). act \<noteq> InstallDependencies \<and> act \<noteq> ServeRequests False
              \<and> (\<forall>dir vars. act = OpenWorkspace dir vars \<longrightarrow> sl_EvalSymlinks X ''/share/workspace'' = Inr dir)))"
proof (intro conjI exI ballI allI impI)
  let ?a = "(serveDefaults getenv)
    \<lparr>sv_workDir := ''/share/workspace'', sv_skipInstall := True, sv_envFile := ''/share/.env'',
     sv_flags := workspaceFlags w, sv_pulumiLogLevel := nat (ws_PulumiLogVerbosity (w_Spec w))\<rparr>"
  show "take 4 (pulumiCommand w) = [''/share/tini'', ''/share/agent'', ''--'', ''serve'']" by (simp add: pulumiCommand_def)
  show "parse (serveDefaults getenv) (drop 4 (pulumiCommand w)) = Inr ?a" by (rule flag_library.pod_flags [OF assms(1,4,5)])
  show "sv_flags ?a = workspaceFlags w" by simp
  show "servePreRun (sv_flags ?a) = None" using assms(2,3) by (simp add: servePreRun_def workspaceFlags_def)
  fix act assume act: "act \<in> set (snd (runServe X E ?a))"
  have guarded: "authFunc X (workspaceFlags w) = Inr g \<Longrightarrow> g" for g
    by (auto simp: authFunc_def workspaceFlags_def split: option.splits)
  from serve_actions [OF act] guarded show "act \<noteq> InstallDependencies" "act \<noteq> ServeRequests False" by auto
  fix dir vars assume "act = OpenWorkspace dir vars"
  with serve_actions [OF act] show "sl_EvalSymlinks X ''/share/workspace'' = Inr dir" by simp
qed

section \<open>An example\<close>

text \<open>A flag library that knows the flags of the command.\<close>

definition readNat :: "string \<Rightarrow> nat" where
  "readNat s = fold (\<lambda>c n. 10 * n + (of_char c - 48)) s 0"

lemma readNat_snoc: "readNat (s @ [c]) = 10 * readNat s + (of_char c - 48)"
  by (simp add: readNat_def)

lemma readNat_showBase: "readNat (showBase 10 n) = n"
proof (induction n rule: less_induct)
  case (less n)
  have digit: "of_char (digitChar (n mod 10)) = 48 + n mod 10" by (simp add: digitChar_def)
  show ?case
  proof (cases "n < 10")
    case True
    then show ?thesis using digit by (simp add: showBase.simps readNat_def)
  next
    case False
    then show ?thesis using less [of "n div 10"] digit by (simp add: showBase.simps [of 10 n] readNat_snoc)
  qed
qed

fun exampleParse :: "serveArgs \<Rightarrow> string list \<Rightarrow> goerr + serveArgs" where
  "exampleParse a [] = Inr a"
| "exampleParse a [x] = (if x = ''--skip-install'' then Inr (a\<lparr>sv_skipInstall := True\<rparr>) else Inl (Errorf ''flag''))"
| "exampleParse a (x # v # rest) =
     (if x = ''--skip-install'' then exampleParse (a\<lparr>sv_skipInstall := True\<rparr>) (v # rest)
      else if x = ''--pulumi-log-level'' then exampleParse (a\<lparr>sv_pulumiLogLevel := readNat v\<rparr>) rest
      else case stringFlag x of
             Some f \<Rightarrow> exampleParse (f v a) rest
           | None \<Rightarrow> Inl (Errorf ''flag''))"

interpretation exampleFlags: flag_library exampleParse
proof
  show "exampleParse a [] = Inr a" for a by simp
  show "exampleParse a (name # v # rest) = exampleParse (f v a) rest" if "stringFlag name = Some f" for name f a v rest
  proof -
    have "name \<noteq> ''--skip-install''" "name \<noteq> ''--pulumi-log-level''" using that by (auto simp: stringFlag_def split: if_splits)
    with that show ?thesis by simp
  qed
  show "exampleParse a (''--skip-install'' # rest) = exampleParse (a\<lparr>sv_skipInstall := True\<rparr>) rest" for a rest
    by (cases rest) simp_all
  show "exampleParse a (''--pulumi-log-level'' # showInt n # rest) = exampleParse (a\<lparr>sv_pulumiLogLevel := nat n\<rparr>) rest"
    if "0 \<le> n" "n < 2 ^ 63" for a n rest
    using that by (simp add: showInt_def readNat_showBase)
qed

lemma workspace_agent_guarded_witness:
  "\<exists>a. exampleParse (serveDefaults (\<lambda>_. [])) (drop 4 (pulumiCommand exampleWorkspace)) = Inr a
    \<and> sv_flags a = workspaceFlags exampleWorkspace"
proof -
  have w: "om_Namespace (w_Meta exampleWorkspace) \<noteq> []" "om_Name (w_Meta exampleWorkspace) \<noteq> []"
    "0 \<le> ws_PulumiLogVerbosity (w_Spec exampleWorkspace)" "ws_PulumiLogVerbosity (w_Spec exampleWorkspace) < 2 ^ 63"
    by (simp_all add: exampleWorkspace_def emptyWorkspaceSpec_def)
  from workspace_agent_guarded [OF exampleFlags.flag_library_axioms w, of "\<lambda>_. []"] show ?thesis by blast
qed

end
