(* ===== verification/ProgramController.thy ===== *)
theory ProgramController
  imports FluxSource
begin

text \<open>
  Programs (operator/internal/controller/pulumi/program_controller.go, with
  operator/api/pulumi/v1/program_types.go): the reconciler, which records the digest of a program's
  archive in its status, and the handler that serves the archive. The metrics of programs and stacks
  (metrics_program.go, metrics_stack.go). The YAML, tar and gzip encoders, the digest, the API
  server and the URL package are arguments.
\<close>

section \<open>Types\<close>

record Configuration =
  cfg_Type :: string
  cfg_Default :: "JSON option"

record CustomTimeouts =
  ct_Create :: string
  ct_Delete :: string
  ct_Update :: string

record Getter =
  gt_Id :: string
  gt_State :: "JSON gomap"

record Options =
  op_AdditionalSecretOutputs :: "string list"
  op_Aliases :: "string list"
  op_CustomTimeouts :: "CustomTimeouts option"
  op_DeleteBeforeReplace :: bool
  op_DependsOn :: "JSON list"
  op_IgnoreChanges :: "string list"
  op_Import :: string
  op_Parent :: "JSON option"
  op_Protect :: bool
  op_Provider :: "JSON option"
  op_Providers :: "JSON gomap"
  op_Version :: string

record Resource =
  rs_Type :: string
  rs_Properties :: "JSON gomap"
  rs_Options :: "Options option"
  rs_Get :: "Getter option"

record ProgramSpec =
  ps_Configuration :: "Configuration gomap"
  ps_Resources :: "Resource gomap"
  ps_Variables :: "JSON gomap"
  ps_Outputs :: "JSON gomap"
  ps_Packages :: "string gomap"

record ProgramStatus =
  pst_ObservedGeneration :: int
  pst_Artifact :: "Artifact option"

record Program =
  pg_Meta :: ObjectMeta
  pg_Program :: ProgramSpec
  pg_Status :: ProgramStatus

record ProjectFile =
  pf_Name :: string
  pf_Runtime :: string
  pf_ProgramSpec :: ProgramSpec

section \<open>Archives\<close>

record tarHeader =
  th_Name :: string
  th_Size :: int
  th_Mode :: int

text \<open>
  What is written of an entry is a count or an error; once the writers are closed the archive is a
  text determined by the header and the data.
\<close>

record programlib =
  px_Address :: string
  px_JoinPath :: "string \<Rightarrow> string list \<Rightarrow> string"
  px_MarshalYAML :: "ProjectFile \<Rightarrow> goerr + string"
  px_WriteHeader :: "tarHeader \<Rightarrow> goerr option"
  px_Write :: "string \<Rightarrow> goerr + nat"
  px_Archive :: "tarHeader \<Rightarrow> string \<Rightarrow> string"
  px_Digest :: "string \<Rightarrow> goerr + string"
  px_Now :: time

definition pulumiProjectFileName :: string where "pulumiProjectFileName = ''Pulumi.yaml''"

definition createProgramArtifact :: "programlib \<Rightarrow> string \<Rightarrow> goerr + string" where
  "createProgramArtifact P data = (
     let hdr = \<lparr>th_Name = pulumiProjectFileName, th_Size = int (length data), th_Mode = 509\<rparr>
     in case px_WriteHeader P hdr of
          Some err \<Rightarrow> Inl (Wrapf ''unable to write tar header for Project file'' err)
        | None \<Rightarrow>
            (case px_Write P data of
               Inl err \<Rightarrow> Inl (Wrapf ''unable to write Project file to tarball'' err)
             | Inr num \<Rightarrow> (if num \<noteq> length data then Inl (Errorf ''tarred data size mismatch'')
                          else Inr (px_Archive P hdr data))))"

definition programToProject :: "Program \<Rightarrow> ProjectFile" where
  "programToProject program = \<lparr>pf_Name = om_Name (pg_Meta program), pf_Runtime = ''yaml'',
     pf_ProgramSpec = pg_Program program\<rparr>"

section \<open>Names\<close>

text \<open>\<^verbatim>\<open>strconv.ParseInt(s, 10, 64)\<close> without its error: no number is zero, one out of range is the bound.\<close>

definition digitOf :: "char \<Rightarrow> nat option" where
  "digitOf c = (if of_char c \<ge> (48::nat) \<and> of_char c \<le> (57::nat) then Some (of_char c - 48) else None)"

fun digitsFrom :: "nat \<Rightarrow> string \<Rightarrow> nat option" where
  "digitsFrom n [] = Some n"
| "digitsFrom n (c # cs) = (case digitOf c of None \<Rightarrow> None | Some d \<Rightarrow> digitsFrom (10 * n + d) cs)"

definition clampInt64 :: "int \<Rightarrow> int" where
  "clampInt64 n = max minDuration (min maxDuration n)"

definition parseDigits :: "string \<Rightarrow> int" where
  "parseDigits s = (if s = [] then 0 else case digitsFrom 0 s of None \<Rightarrow> 0 | Some n \<Rightarrow> int n)"

definition parseInt64 :: "string \<Rightarrow> int" where
  "parseInt64 s = (case s of
     [] \<Rightarrow> 0
   | c # cs \<Rightarrow> (if c = CHR ''-'' then clampInt64 (- parseDigits cs)
               else if c = CHR ''+'' then clampInt64 (parseDigits cs)
               else clampInt64 (parseDigits s)))"

definition urlPathToProgramIdentifier :: "string \<Rightarrow> goerr + (string \<times> string \<times> int)" where
  "urlPathToProgramIdentifier urlPath =
     (case splitOn (CHR ''/'') urlPath of
        [namespace, name, gen] \<Rightarrow> Inr (namespace, name, parseInt64 gen)
      | _ \<Rightarrow> Inl (Errorf ''invalid program identifier, unable to locate Program''))"

definition CreateProgramURL :: "programlib \<Rightarrow> string \<Rightarrow> string \<Rightarrow> int \<Rightarrow> string" where
  "CreateProgramURL P namespace name generation = (
     let address = px_Address P;
         address = (if \<not> hasPrefix address ''http://'' \<and> \<not> hasPrefix address ''https://'' then ''http://'' @ address else address)
     in px_JoinPath P address [''programs'', namespace, name, showInt generation])"

definition CreateProgramPath :: "string \<Rightarrow> string \<Rightarrow> int \<Rightarrow> string" where
  "CreateProgramPath namespace name generation =
     ''programs/'' @ namespace @ ''/'' @ name @ ''/'' @ showInt generation @ ''.tar.gz''"

section \<open>Serving\<close>

type_synonym programReader = "string \<Rightarrow> string \<Rightarrow> goerr + Program"

definition getProjectFile :: "programReader \<Rightarrow> string \<Rightarrow> string \<Rightarrow> int \<Rightarrow> goerr + ProjectFile" where
  "getProjectFile get namespace name generation =
     bindE (get namespace name)
       (\<lambda>program. if om_Generation (pg_Meta program) \<noteq> generation
          then Inl (Errorf (''program '' @ namespace @ ''/'' @ name @ '' with generation '' @ showInt (om_Generation (pg_Meta program))
                 @ '' does not match requested generation '' @ showInt generation))
          else Inr (programToProject program))"

text \<open>
  A response: an archive, an error with its status code, or an archive that was begun and then given
  up with an error, which \<^verbatim>\<open>http.Error\<close> asks to be reported as an internal one. A path
  that is shorter than the prefix makes the slice panic.
\<close>

datatype response = ServedArchive "string gomap" string | ErrorResponse int string | BrokenArchive string | ServePanic

definition httpError :: "string \<Rightarrow> int \<Rightarrow> response" where
  "httpError msg code = ErrorResponse code msg"

definition HandleProgramServing :: "programlib \<Rightarrow> programReader \<Rightarrow> string \<Rightarrow> response" where
  "HandleProgramServing P get path =
     (if length path < length ''/programs/'' then ServePanic
      else let programIdentifier = drop (length ''/programs/'') path
      in if programIdentifier = [] then httpError ''Program identifier is required.'' 400
      else case urlPathToProgramIdentifier programIdentifier of
        Inl err \<Rightarrow> httpError (errorText err) 400
      | Inr (namespace, name, generation) \<Rightarrow>
          (case getProjectFile get namespace name generation of
             Inl err \<Rightarrow> httpError (errorText err) 404
           | Inr proj \<Rightarrow>
               (case px_MarshalYAML P proj of
                  Inl err \<Rightarrow> httpError (errorText err) 500
                | Inr data \<Rightarrow>
                    (let headers = [(''Content-Type'', ''application/gzip''),
                                    (''Content-Disposition'', ''attachment; filename=project.tar.gz'')]
                     in case createProgramArtifact P data of
                          Inl err \<Rightarrow> BrokenArchive (errorText err)
                        | Inr body \<Rightarrow> ServedArchive headers body))))"

section \<open>The reconciler\<close>

record programStatusApply =
  pa_Name :: string
  pa_Namespace :: string
  pa_ObservedGeneration :: int
  pa_Artifact :: Artifact

text \<open>The error the handler returns, and the status patches it made, with their success.\<close>

definition ProgramReconcile :: "programlib \<Rightarrow> (programStatusApply \<Rightarrow> goerr option) \<Rightarrow> goerr + Program
    \<Rightarrow> goerr option \<times> (programStatusApply \<times> bool) list" where
  "ProgramReconcile P patch got =
     (case got of
        Inl err \<Rightarrow> (if IsNotFound err then None else Some err, [])
      | Inr program \<Rightarrow>
          (case px_MarshalYAML P (programToProject program) of
             Inl err \<Rightarrow> (Some (Wrapf ''unable to marshal project file to calculate digest hash'' err), [])
           | Inr data \<Rightarrow>
               (case createProgramArtifact P data of
                  Inl err \<Rightarrow> (Some (Wrapf ''unable to create tarball of project file'' err), [])
                | Inr tarData \<Rightarrow>
                    (case px_Digest P tarData of
                       Inl err \<Rightarrow> (Some (Wrapf ''unable to calculate digest hash for Program artifact'' err), [])
                     | Inr tarDigest \<Rightarrow>
                         (let m = pg_Meta program; g = om_Generation m;
                              artifact = \<lparr>art_Path = CreateProgramPath (om_Namespace m) (om_Name m) g,
                                art_URL = CreateProgramURL P (om_Namespace m) (om_Name m) g, art_Revision = showInt g,
                                art_Digest = tarDigest, art_LastUpdateTime = px_Now P,
                                art_Size = Some (int (length tarData)), art_Metadata = []\<rparr>;
                              p = \<lparr>pa_Name = om_Name m, pa_Namespace = om_Namespace m, pa_ObservedGeneration = g, pa_Artifact = artifact\<rparr>
                          in case patch p of
                               Some err \<Rightarrow> (Some err, [(p, False)])
                             | None \<Rightarrow> (None, [(p, True)]))))))"

section \<open>Metrics\<close>

text \<open>The gauges, by namespace and by namespace and name; a gauge that was never set is zero.\<close>

record gauges =
  numPrograms :: int
  numStacks :: "string \<Rightarrow> int"
  numStacksFailing :: "string \<times> string \<Rightarrow> int"
  numStacksReconciling :: "string \<times> string \<Rightarrow> int"

definition newProgramCallback :: "gauges \<Rightarrow> gauges" where
  "newProgramCallback m = m\<lparr>numPrograms := numPrograms m + 1\<rparr>"

definition deleteProgramCallback :: "gauges \<Rightarrow> gauges" where
  "deleteProgramCallback m = (
     let m = m\<lparr>numPrograms := numPrograms m - 1\<rparr>
     in if numPrograms m < 0 then m\<lparr>numPrograms := 0\<rparr> else m)"

text \<open>What an informer delivers: a stack, the tombstone of one, or something else.\<close>

datatype informerObject = StackObject Stack | Tombstone informerObject | SomeObject

abbreviation stackKey :: "Stack \<Rightarrow> string \<times> string" where
  "stackKey stack \<equiv> (om_Namespace (s_Meta stack), om_Name (s_Meta stack))"

fun newStackCallback :: "informerObject \<Rightarrow> gauges \<Rightarrow> gauges" where
  "newStackCallback (StackObject stack) m =
     m\<lparr>numStacks := (numStacks m)(om_Namespace (s_Meta stack) := numStacks m (om_Namespace (s_Meta stack)) + 1)\<rparr>"
| "newStackCallback _ m = m"

definition setFailing :: "string \<times> string \<Rightarrow> int \<Rightarrow> gauges \<Rightarrow> gauges" where
  "setFailing k v m = m\<lparr>numStacksFailing := (numStacksFailing m)(k := v)\<rparr>"

definition setReconciling :: "string \<times> string \<Rightarrow> int \<Rightarrow> gauges \<Rightarrow> gauges" where
  "setReconciling k v m = m\<lparr>numStacksReconciling := (numStacksReconciling m)(k := v)\<rparr>"

definition updateStackFailureMetrics :: "lib \<Rightarrow> Stack \<Rightarrow> gauges \<Rightarrow> gauges" where
  "updateStackFailureMetrics L stack m =
     (if IsStatusConditionTrue L (st_Conditions (s_Status stack)) StalledCondition then setFailing (stackKey stack) 1 m
      else case st_LastUpdate (s_Status stack) of
             None \<Rightarrow> setFailing (stackKey stack) 0 m
           | Some lu \<Rightarrow>
               (if lu_State lu = FailedStackStateMessage then setFailing (stackKey stack) 1 m
                else if lu_State lu = SucceededStackStateMessage then setFailing (stackKey stack) 0 m
                else m))"

definition updateStackReconcilingMetrics :: "lib \<Rightarrow> Stack \<Rightarrow> gauges \<Rightarrow> gauges" where
  "updateStackReconcilingMetrics L stack m =
     setReconciling (stackKey stack)
       (if IsStatusConditionTrue L (st_Conditions (s_Status stack)) ReconcilingCondition then 1 else 0) m"

fun updateStackCallback :: "lib \<Rightarrow> informerObject \<Rightarrow> gauges \<Rightarrow> gauges" where
  "updateStackCallback L (StackObject stack) m = updateStackReconcilingMetrics L stack (updateStackFailureMetrics L stack m)"
| "updateStackCallback L _ m = m"

fun deletedObject :: "informerObject \<Rightarrow> informerObject" where
  "deletedObject (Tombstone obj) = obj"
| "deletedObject obj = obj"

definition deleteStackCallback :: "informerObject \<Rightarrow> gauges \<Rightarrow> gauges" where
  "deleteStackCallback obj m =
     (case deletedObject obj of
        StackObject stack \<Rightarrow>
          (let ns = om_Namespace (s_Meta stack);
               m = m\<lparr>numStacks := (numStacks m)(ns := numStacks m ns - 1)\<rparr>;
               m = (if numStacks m ns < 0 then m\<lparr>numStacks := (numStacks m)(ns := 0)\<rparr> else m)
           in setReconciling (stackKey stack) 0 (setFailing (stackKey stack) 0 m))
      | _ \<Rightarrow> m)"

section \<open>Numbers and paths read back\<close>

lemma digitOf_digitChar: "d < 10 \<Longrightarrow> digitOf (digitChar d) = Some d"
  by (simp add: digitOf_def digitChar_def of_char_of)

lemma digitsFrom_snoc:
  "digitsFrom n (cs @ [c]) = (case digitsFrom n cs of None \<Rightarrow> None | Some m \<Rightarrow> map_option (\<lambda>d. 10 * m + d) (digitOf c))"
  by (induction cs arbitrary: n) (simp_all split: option.split)

lemma digitsFrom_showBase: "digitsFrom 0 (showBase 10 n) = Some n"
proof (induction n rule: less_induct)
  case (less n)
  show ?case
  proof (cases "n < 10")
    case True
    then show ?thesis by (subst showBase.simps) (simp add: digitOf_digitChar)
  next
    case False
    then have "digitsFrom 0 (showBase 10 (n div 10)) = Some (n div 10)" by (intro less.IH) simp
    with False show ?thesis
      by (subst showBase.simps) (simp add: digitsFrom_snoc digitOf_digitChar)
  qed
qed

lemma showBase_digits: "c \<in> set (showBase 10 n) \<Longrightarrow> \<exists>d<10. c = digitChar d"
proof (induction n rule: less_induct)
  case (less n)
  show ?case
  proof (cases "n < 10")
    case True
    with less.prems show ?thesis by (subst (asm) showBase.simps) auto
  next
    case False
    with less.prems have "c \<in> set (showBase 10 (n div 10)) \<or> c = digitChar (n mod 10)"
      by (subst (asm) showBase.simps) auto
    then show ?thesis
    proof
      assume "c \<in> set (showBase 10 (n div 10))"
      with False show ?thesis by (intro less.IH [of "n div 10"]) simp_all
    next
      assume "c = digitChar (n mod 10)"
      then show ?thesis by (intro exI [of _ "n mod 10"]) simp
    qed
  qed
qed

lemma digitChar_plain: "d < 10 \<Longrightarrow> digitChar d \<noteq> CHR ''-'' \<and> digitChar d \<noteq> CHR ''+'' \<and> digitChar d \<noteq> CHR ''/''"
  using digitOf_digitChar [of d] by (auto simp: digitOf_def)

lemma showBase_not_Nil: "showBase b n \<noteq> []"
  by (subst showBase.simps) simp

lemma parseInt64_showInt:
  assumes "0 \<le> g" and "g \<le> maxDuration"
  shows "parseInt64 (showInt g) = g"
proof -
  obtain c cs where s: "showBase 10 (nat g) = c # cs" using showBase_not_Nil [of 10 "nat g"] by (cases "showBase 10 (nat g)") auto
  then obtain d where "d < 10" "c = digitChar d" using showBase_digits [of c "nat g"] by auto
  with digitChar_plain have "c \<noteq> CHR ''-''" "c \<noteq> CHR ''+''" by auto
  with s digitsFrom_showBase [of "nat g"] assms show ?thesis
    by (simp add: parseInt64_def showInt_def parseDigits_def clampInt64_def maxDuration_def minDuration_def)
qed

lemma splitSlash_Cons: "splitOn (CHR ''/'') s = w # ws \<Longrightarrow> CHR ''/'' \<notin> set p \<Longrightarrow> splitOn (CHR ''/'') (p @ s) = (p @ w) # ws"
  by (induction p) auto

lemma splitSlash_plain: "CHR ''/'' \<notin> set s \<Longrightarrow> splitOn (CHR ''/'') s = [s]"
  using splitSlash_Cons [of "[]" "[]" "[]" s] by simp

lemma splitSlash_slash:
  "CHR ''/'' \<notin> set p \<Longrightarrow> splitOn (CHR ''/'') (p @ CHR ''/'' # s) = p # splitOn (CHR ''/'') s"
  using splitSlash_Cons [of "CHR ''/'' # s" "[]" "splitOn (CHR ''/'') s" p] by simp

lemma identifier_read_back:
  assumes "CHR ''/'' \<notin> set namespace" and "CHR ''/'' \<notin> set name" and "0 \<le> g" and "g \<le> maxDuration"
  shows "urlPathToProgramIdentifier (namespace @ ''/'' @ name @ ''/'' @ showInt g) = Inr (namespace, name, g)"
proof -
  have "CHR ''/'' \<notin> set (showInt g)"
    using showBase_digits [of "CHR ''/''" "nat g"] digitChar_plain assms(3) by (fastforce simp: showInt_def)
  with assms show ?thesis
    by (simp add: urlPathToProgramIdentifier_def splitSlash_slash splitSlash_plain parseInt64_showInt)
qed

section \<open>The artifact of a program\<close>

text \<open>The address with its scheme, at which the handler serves.\<close>

definition serverAddress :: "programlib \<Rightarrow> string" where
  "serverAddress P = (if \<not> hasPrefix (px_Address P) ''http://'' \<and> \<not> hasPrefix (px_Address P) ''https://''
     then ''http://'' @ px_Address P else px_Address P)"

definition programPath :: "Program \<Rightarrow> string" where
  "programPath program = ''/programs/'' @ om_Namespace (pg_Meta program) @ ''/'' @ om_Name (pg_Meta program) @ ''/''
     @ showInt (om_Generation (pg_Meta program))"

text \<open>
  The artifact recorded for a program is what its URL gives. After a reconcile that saved the status of a
  program, a request for the path of the recorded URL is answered with an archive that has the recorded
  digest and size, as long as the program is of the same generation, and with Not Found once it is of
  another.
\<close>

lemma program_artifact:
  assumes "ProgramReconcile P patch (Inr program) = (None, [(p, ok)])"
    and "px_JoinPath P (serverAddress P) [''programs'', om_Namespace (pg_Meta program), om_Name (pg_Meta program),
           showInt (om_Generation (pg_Meta program))] = serverAddress P @ programPath program"
    and "CHR ''/'' \<notin> set (om_Namespace (pg_Meta program))" and "CHR ''/'' \<notin> set (om_Name (pg_Meta program))"
    and "0 \<le> om_Generation (pg_Meta program)" and "om_Generation (pg_Meta program) \<le> maxDuration"
    and "get (om_Namespace (pg_Meta program)) (om_Name (pg_Meta program)) = Inr present"
    and "om_Name (pg_Meta present) = om_Name (pg_Meta program)"
    and "om_Generation (pg_Meta present) = om_Generation (pg_Meta program) \<Longrightarrow> pg_Program present = pg_Program program"
  shows "art_URL (pa_Artifact p) = serverAddress P @ programPath program
    \<and> (if om_Generation (pg_Meta present) = om_Generation (pg_Meta program)
       then \<exists>headers body. HandleProgramServing P get (programPath program) = ServedArchive headers body
              \<and> px_Digest P body = Inr (art_Digest (pa_Artifact p)) \<and> art_Size (pa_Artifact p) = Some (int (length body))
       else \<exists>msg. HandleProgramServing P get (programPath program) = ErrorResponse 404 msg)"
proof -
  obtain data tar dig where made: "px_MarshalYAML P (programToProject program) = Inr data" "createProgramArtifact P data = Inr tar"
      "px_Digest P tar = Inr dig"
    and p: "art_URL (pa_Artifact p) = CreateProgramURL P (om_Namespace (pg_Meta program)) (om_Name (pg_Meta program)) (om_Generation (pg_Meta program))"
      "art_Digest (pa_Artifact p) = dig" "art_Size (pa_Artifact p) = Some (int (length tar))"
    using assms(1) by (auto simp: ProgramReconcile_def Let_def split: sum.splits option.splits)
  have url: "art_URL (pa_Artifact p) = serverAddress P @ programPath program"
    unfolding p(1) CreateProgramURL_def Let_def serverAddress_def [symmetric] by (rule assms(2))
  have "HandleProgramServing P get (programPath program)
      = (case getProjectFile get (om_Namespace (pg_Meta program)) (om_Name (pg_Meta program)) (om_Generation (pg_Meta program)) of
           Inl err \<Rightarrow> httpError (errorText err) 404
         | Inr proj \<Rightarrow>
             (case px_MarshalYAML P proj of
                Inl err \<Rightarrow> httpError (errorText err) 500
              | Inr data \<Rightarrow>
                  (case createProgramArtifact P data of
                     Inl err \<Rightarrow> BrokenArchive (errorText err)
                   | Inr body \<Rightarrow> ServedArchive [(''Content-Type'', ''application/gzip''),
                       (''Content-Disposition'', ''attachment; filename=project.tar.gz'')] body)))"
    using identifier_read_back [OF assms(3-6)]
    by (simp add: HandleProgramServing_def programPath_def Let_def split: sum.split)
  moreover have "programToProject present = programToProject program"
    if "om_Generation (pg_Meta present) = om_Generation (pg_Meta program)"
    using assms(8,9) that by (simp add: programToProject_def)
  ultimately show ?thesis
    using url made p assms(7) by (auto simp: getProjectFile_def httpError_def)
qed

definition exampleProgram :: Program where
  "exampleProgram = \<lparr>pg_Meta = emptyMeta\<lparr>om_Name := ''p'', om_Namespace := ''ns'', om_Generation := 12\<rparr>,
     pg_Program = \<lparr>ps_Configuration = [], ps_Resources = [], ps_Variables = [], ps_Outputs = [], ps_Packages = []\<rparr>,
     pg_Status = \<lparr>pst_ObservedGeneration = 0, pst_Artifact = None\<rparr>\<rparr>"

definition exampleProgramlib :: programlib where
  "exampleProgramlib = \<lparr>px_Address = ''op:80'', px_JoinPath = (\<lambda>a xs. a @ concat (map (\<lambda>x. ''/'' @ x) xs)),
     px_MarshalYAML = (\<lambda>f. Inr (pf_Name f)), px_WriteHeader = (\<lambda>_. None), px_Write = (\<lambda>d. Inr (length d)),
     px_Archive = (\<lambda>h d. d), px_Digest = (\<lambda>t. Inr (''sha256:'' @ t)), px_Now = 0\<rparr>"

section \<open>The count of stacks\<close>

text \<open>What an informer reports of the stacks there are, deletions it missed as tombstones.\<close>

inductive tracked :: "lib \<Rightarrow> Stack list \<Rightarrow> gauges \<Rightarrow> bool" for L where
  tracked_none: "tracked L [] \<lparr>numPrograms = 0, numStacks = (\<lambda>_. 0), numStacksFailing = (\<lambda>_. 0), numStacksReconciling = (\<lambda>_. 0)\<rparr>"
| tracked_add: "tracked L live m \<Longrightarrow> tracked L (stack # live) (newStackCallback (StackObject stack) m)"
| tracked_update: "tracked L live m \<Longrightarrow> tracked L live (updateStackCallback L obj m)"
| tracked_delete: "\<lbrakk>tracked L (before @ stack # after) m; obj \<in> {StackObject stack', Tombstone (StackObject stack')};
    om_Namespace (s_Meta stack') = om_Namespace (s_Meta stack)\<rbrakk> \<Longrightarrow> tracked L (before @ after) (deleteStackCallback obj m)"

text \<open>The gauge of active stacks counts the stacks of the namespace.\<close>

lemma stacks_active_exact:
  assumes "tracked L live m"
  shows "numStacks m ns = int (length (filter (\<lambda>s. om_Namespace (s_Meta s) = ns) live))"
  using assms
proof (induction arbitrary: ns rule: tracked.induct)
  case (tracked_update live m obj)
  then show ?case
    by (cases obj) (auto simp: updateStackReconcilingMetrics_def updateStackFailureMetrics_def setFailing_def setReconciling_def
        split: option.split)
next
  case (tracked_delete before stack after m obj stack')
  then show ?case
    by (auto simp: deleteStackCallback_def setFailing_def setReconciling_def Let_def)
qed auto

end
