(* ===== verification/OperatorMain.thy ===== *)
theory OperatorMain
  imports ProgramController
begin

text \<open>
  The operator's command (operator/cmd/main.go): its flags with the environment that overrides them,
  the options of the manager, the address under which programs are advertised, the order in which
  everything is registered before the manager starts, and the file server with Go's request
  multiplexer. Flag parsing, the manager and the operating system are arguments.
\<close>

section \<open>Settings\<close>

record operatorFlags =
  of_metricsAddr :: string
  of_probeAddr :: string
  of_enableLeaderElection :: bool
  of_secureMetrics :: bool
  of_enableHTTP2 :: bool
  of_programFSAddr :: string
  of_programFSAdvAddr :: string
  of_leaseDuration :: duration
  of_renewDeadline :: duration
  of_retryPeriod :: duration
  of_kubeAPITimeout :: duration

text \<open>The environment and \<^verbatim>\<open>time.ParseDuration\<close>, \<^verbatim>\<open>strconv.Atoi\<close> (its number) and \<^verbatim>\<open>os.Hostname\<close>.\<close>

record mainlib =
  ml_LookupEnv :: "string \<Rightarrow> string option"
  ml_ParseDuration :: "string \<Rightarrow> duration option"
  ml_Atoi :: "string \<Rightarrow> int"
  ml_Hostname :: "goerr + string"

definition mainGetenv :: "mainlib \<Rightarrow> string \<Rightarrow> string" where
  "mainGetenv X n = (case ml_LookupEnv X n of Some v \<Rightarrow> v | None \<Rightarrow> [])"

definition envOrDefault :: "mainlib \<Rightarrow> string \<Rightarrow> string \<Rightarrow> string" where
  "envOrDefault X envName defaultValue = (let ret = mainGetenv X envName in if ret \<noteq> [] then ret else defaultValue)"

definition operatorDefaults :: "mainlib \<Rightarrow> operatorFlags" where
  "operatorDefaults X = \<lparr>of_metricsAddr = ''0'', of_probeAddr = '':8081'', of_enableLeaderElection = False,
     of_secureMetrics = True, of_enableHTTP2 = False,
     of_programFSAddr = envOrDefault X ''PROGRAM_FS_ADDR'' '':9090'',
     of_programFSAdvAddr = envOrDefault X ''PROGRAM_FS_ADV_ADDR'' [],
     of_leaseDuration = 60 * Second, of_renewDeadline = 45 * Second, of_retryPeriod = 10 * Second,
     of_kubeAPITimeout = 30 * Second\<rparr>"

definition envDuration :: "mainlib \<Rightarrow> string \<Rightarrow> duration \<Rightarrow> duration" where
  "envDuration X envName d =
     (case ml_LookupEnv X envName of
        None \<Rightarrow> d
      | Some s \<Rightarrow> (case ml_ParseDuration X s of Some d' \<Rightarrow> d' | None \<Rightarrow> d))"

text \<open>A number that does not parse is zero.\<close>

definition maxConcurrentReconciles :: "mainlib \<Rightarrow> int" where
  "maxConcurrentReconciles X =
     (case ml_LookupEnv X ''MAX_CONCURRENT_RECONCILES'' of None \<Rightarrow> 25 | Some s \<Rightarrow> ml_Atoi X s)"

text \<open>
  The options of the manager and of its client; of the TLS options the protocols they leave, and of
  the metrics filter whether there is one.
\<close>

record managerOptions =
  mo_Timeout :: duration
  mo_MetricsBindAddress :: string
  mo_SecureServing :: bool
  mo_MetricsAuthenticated :: bool
  mo_NextProtos :: "string list option"
  mo_MaxConcurrentReconciles :: int
  mo_HealthProbeBindAddress :: string
  mo_LeaderElection :: bool
  mo_LeaderElectionID :: string
  mo_LeaseDuration :: duration
  mo_RenewDeadline :: duration
  mo_RetryPeriod :: duration
  mo_LeaderElectionReleaseOnCancel :: bool

definition managerOptionsOf :: "mainlib \<Rightarrow> operatorFlags \<Rightarrow> managerOptions" where
  "managerOptionsOf X f = \<lparr>
     mo_Timeout = envDuration X ''KUBE_API_TIMEOUT'' (of_kubeAPITimeout f),
     mo_MetricsBindAddress = of_metricsAddr f, mo_SecureServing = of_secureMetrics f,
     mo_MetricsAuthenticated = of_secureMetrics f,
     mo_NextProtos = (if \<not> of_enableHTTP2 f then Some [''http/1.1''] else None),
     mo_MaxConcurrentReconciles = maxConcurrentReconciles X, mo_HealthProbeBindAddress = of_probeAddr f,
     mo_LeaderElection = of_enableLeaderElection f, mo_LeaderElectionID = ''operator.pulumi.com'',
     mo_LeaseDuration = envDuration X ''LEADER_ELECTION_LEASE_DURATION'' (of_leaseDuration f),
     mo_RenewDeadline = envDuration X ''LEADER_ELECTION_RENEW_DEADLINE'' (of_renewDeadline f),
     mo_RetryPeriod = envDuration X ''LEADER_ELECTION_RETRY_PERIOD'' (of_retryPeriod f),
     mo_LeaderElectionReleaseOnCancel = True\<rparr>"

section \<open>The advertised address\<close>

text \<open>\<^verbatim>\<open>net.SplitHostPort\<close> and \<^verbatim>\<open>net.JoinHostPort\<close>.\<close>

fun lastSplit :: "char \<Rightarrow> string \<Rightarrow> (string \<times> string) option" where
  "lastSplit c [] = None"
| "lastSplit c (d # s) =
     (case lastSplit c s of
        Some (before, after) \<Rightarrow> Some (d # before, after)
      | None \<Rightarrow> if d = c then Some ([], s) else None)"

definition addrError :: "string \<Rightarrow> string \<Rightarrow> goerr" where
  "addrError addr why = Errorf (''address '' @ addr @ '': '' @ why)"

definition SplitHostPort :: "string \<Rightarrow> goerr + (string \<times> string)" where
  "SplitHostPort hostport =
     (case lastSplit (CHR '':'') hostport of
        None \<Rightarrow> Inl (addrError hostport ''missing port in address'')
      | Some (before, port) \<Rightarrow>
          (if hd hostport = CHR ''[''
           then (let inside = takeWhile (\<lambda>c. c \<noteq> CHR '']'') (tl hostport);
                     close = length inside + 1
                 in if length hostport \<le> close then Inl (addrError hostport ''missing ']' in address'')
                    else if close + 1 = length hostport then Inl (addrError hostport ''missing port in address'')
                    else if close + 1 \<noteq> length before
                    then (if hostport ! (close + 1) = CHR '':'' then Inl (addrError hostport ''too many colons in address'')
                          else Inl (addrError hostport ''missing port in address''))
                    else if CHR ''['' \<in> set (tl hostport) then Inl (addrError hostport ''unexpected '[' in address'')
                    else if CHR '']'' \<in> set (drop (close + 1) hostport) then Inl (addrError hostport ''unexpected ']' in address'')
                    else Inr (inside, port))
           else if CHR '':'' \<in> set before then Inl (addrError hostport ''too many colons in address'')
           else if CHR ''['' \<in> set hostport then Inl (addrError hostport ''unexpected '[' in address'')
           else if CHR '']'' \<in> set hostport then Inl (addrError hostport ''unexpected ']' in address'')
           else Inr (before, port)))"

definition JoinHostPort :: "string \<Rightarrow> string \<Rightarrow> string" where
  "JoinHostPort host port =
     (if CHR '':'' \<in> set host then ''['' @ host @ '']:'' @ port else host @ '':'' @ port)"

text \<open>The left side is the code the process exits with.\<close>

definition determineAdvAddr :: "mainlib \<Rightarrow> string \<Rightarrow> int + string" where
  "determineAdvAddr X addr =
     (case SplitHostPort addr of
        Inl err \<Rightarrow> Inl 1
      | Inr (host, port) \<Rightarrow>
          (if host = [] then Inr (JoinHostPort ''localhost'' port)
           else if host = ''0.0.0.0''
           then (let host = mainGetenv X ''HOSTNAME''
                 in if host \<noteq> [] then Inr (JoinHostPort host port)
                    else case ml_Hostname X of
                           Inl err \<Rightarrow> Inl 1
                         | Inr hn \<Rightarrow> Inr (JoinHostPort hn port))
           else Inr (JoinHostPort host port)))"

section \<open>The command\<close>

datatype setupStep =
    NewManager managerOptions
  | NewConnectionManager string string
  | AddConnectionManager
  | SetupController string
  | AddHealthzCheck
  | AddReadyzCheck
  | AddFileServer string string
  | StartManager

text \<open>Steps in their order, until one fails; the process then exits with code 1.\<close>

fun runSteps :: "(setupStep \<Rightarrow> bool) \<Rightarrow> setupStep list \<Rightarrow> int \<times> setupStep list" where
  "runSteps succeeds [] = (0, [])"
| "runSteps succeeds (st # sts) =
     (if succeeds st then (case runSteps succeeds sts of (code, tr) \<Rightarrow> (code, st # tr)) else (1, [st]))"

definition setupSteps :: "mainlib \<Rightarrow> string \<Rightarrow> string \<Rightarrow> setupStep list" where
  "setupSteps X addr adv =
     [NewConnectionManager (envOrDefault X ''POD_NAMESPACE'' ''pulumi-kubernetes-operator'')
        (envOrDefault X ''POD_SA_NAME'' ''controller-manager''),
      AddConnectionManager, SetupController ''Workspace'', SetupController ''Update'', SetupController ''Stack'',
      SetupController ''Program'', AddHealthzCheck, AddReadyzCheck, AddFileServer addr adv, StartManager]"

definition operatorMain :: "mainlib \<Rightarrow> (setupStep \<Rightarrow> bool) \<Rightarrow> operatorFlags \<Rightarrow> int \<times> setupStep list" where
  "operatorMain X succeeds f = (
     let first = NewManager (managerOptionsOf X f)
     in if \<not> succeeds first then (1, [first])
        else case (if of_programFSAdvAddr f = [] then determineAdvAddr X (of_programFSAddr f) else Inr (of_programFSAdvAddr f)) of
               Inl code \<Rightarrow> (code, [first])
             | Inr adv \<Rightarrow> (case runSteps succeeds (setupSteps X (of_programFSAddr f) adv) of (code, tr) \<Rightarrow> (code, first # tr)))"

section \<open>The file server\<close>

text \<open>
  The request multiplexer, for a path without percent escapes and one subtree pattern: an unclean path
  is redirected to the clean one, the pattern without its slash to the pattern.
\<close>

definition muxClean :: "string \<Rightarrow> string" where
  "muxClean path =
     (if path = [] then ''/''
      else let p = (if hd path \<noteq> CHR ''/'' then CHR ''/'' # path else path);
               np = pathClean p
           in if last p = CHR ''/'' \<and> np \<noteq> ''/'' then np @ ''/'' else np)"

datatype served = Redirected string | Handled response | NotFoundPage

definition serveFile :: "programlib \<Rightarrow> programReader \<Rightarrow> string \<Rightarrow> served" where
  "serveFile P get path = (
     let clean = muxClean path
     in if clean = ''/programs'' then Redirected ''/programs/''
        else if clean \<noteq> path then Redirected clean
        else if hasPrefix path ''/programs/'' then Handled (HandleProgramServing P get path)
        else NotFoundPage)"

text \<open>
  \<^verbatim>\<open>pFileserver.Start\<close>: it returns the error of the listener, or once the context is done the result
  of the shutdown, whichever comes first.
\<close>

inductive fileServerReturns :: "goerr option \<Rightarrow> bool \<Rightarrow> goerr option \<Rightarrow> goerr option \<Rightarrow> bool" where
  listen_failed: "fileServerReturns (Some err) cancelled down (Some err)"
| shut_down: "fileServerReturns failed True down down"

section \<open>What the settings guarantee\<close>

text \<open>Everything is registered, in this order, before the manager starts.\<close>

lemma runSteps_last:
  "x \<notin> set sts \<Longrightarrow> x \<in> set (snd (runSteps succeeds (sts @ [x])))
    \<Longrightarrow> snd (runSteps succeeds (sts @ [x])) = sts @ [x] \<and> list_all succeeds sts"
  by (induction sts) (auto split: prod.splits if_splits)

lemma started_complete:
  assumes "StartManager \<in> set (snd (operatorMain X succeeds f))"
  shows "\<exists>adv. snd (operatorMain X succeeds f)
      = NewManager (managerOptionsOf X f) # butlast (setupSteps X (of_programFSAddr f) adv) @ [StartManager]
    \<and> list_all succeeds (NewManager (managerOptionsOf X f) # butlast (setupSteps X (of_programFSAddr f) adv))"
proof -
  let ?first = "NewManager (managerOptionsOf X f)"
  from assms obtain adv where first: "succeeds ?first"
    and tr: "snd (operatorMain X succeeds f) = ?first # snd (runSteps succeeds (setupSteps X (of_programFSAddr f) adv))"
    by (auto simp: operatorMain_def Let_def split: sum.splits if_splits prod.splits) (metis snd_conv)+
  let ?sts = "butlast (setupSteps X (of_programFSAddr f) adv)"
  have s: "setupSteps X (of_programFSAddr f) adv = ?sts @ [StartManager]" "StartManager \<notin> set ?sts"
    by (simp_all add: setupSteps_def)
  have "StartManager \<in> set (snd (runSteps succeeds (?sts @ [StartManager])))" using assms tr s(1) by auto
  with runSteps_last [OF s(2)] first tr s(1) show ?thesis by (intro exI [of _ adv]) auto
qed

text \<open>Splitting takes apart what joining put together.\<close>

lemma lastSplit_last: "c \<notin> set port \<Longrightarrow> lastSplit c (host @ c # port) = Some (host, port)"
proof (induction host)
  case Nil
  have "lastSplit c s = None" if "c \<notin> set s" for s
    using that by (induction s) (auto split: option.split)
  then show ?case using Nil by simp
qed simp

lemma split_join:
  assumes "CHR '']'' \<notin> set host" and "CHR ''['' \<notin> set host"
    and "CHR '':'' \<notin> set port" and "CHR ''['' \<notin> set port" and "CHR '']'' \<notin> set port"
  shows "SplitHostPort (JoinHostPort host port) = Inr (host, port)"
proof (cases "CHR '':'' \<in> set host")
  case True
  have "takeWhile (\<lambda>c. c \<noteq> CHR '']'') (host @ CHR '']'' # CHR '':'' # port) = host"
    using assms(1) by (simp add: takeWhile_tail) (metis takeWhile_eq_all_conv)
  moreover have "lastSplit (CHR '':'') (CHR ''['' # host @ CHR '']'' # CHR '':'' # port) = Some (CHR ''['' # host @ '']'', port)"
    using lastSplit_last [OF assms(3), of "CHR ''['' # host @ '']''"] by simp
  ultimately show ?thesis
    using assms True by (simp add: JoinHostPort_def SplitHostPort_def Let_def)
next
  case False
  have "lastSplit (CHR '':'') (host @ CHR '':'' # port) = Some (host, port)" by (rule lastSplit_last [OF assms(3)])
  moreover have "hd (host @ CHR '':'' # port) \<noteq> CHR ''[''" using assms(2) by (cases host) auto
  ultimately show ?thesis using assms False by (simp add: JoinHostPort_def SplitHostPort_def)
qed

text \<open>The advertised address has the port of the file server, and a host that is not empty.\<close>

lemma advertised:
  assumes "determineAdvAddr X addr = Inr adv" and "ml_Hostname X \<noteq> Inr []"
  shows "\<exists>host port h. SplitHostPort addr = Inr (host, port) \<and> adv = JoinHostPort h port \<and> h \<noteq> []
    \<and> (host \<noteq> [] \<and> host \<noteq> ''0.0.0.0'' \<longrightarrow> h = host)"
  using assms by (auto simp: determineAdvAddr_def Let_def split: sum.splits if_splits)

text \<open>A path the multiplexer leaves as it is.\<close>

definition plainSegment :: "string \<Rightarrow> bool" where
  "plainSegment s \<longleftrightarrow> s \<noteq> [] \<and> s \<noteq> ''.'' \<and> s \<noteq> ''..'' \<and> CHR ''/'' \<notin> set s"

lemma cleanParts_plain: "list_all plainSegment ps \<Longrightarrow> cleanParts rooted out ps = rev out @ ps"
  by (induction ps arbitrary: out) (auto simp: plainSegment_def)

lemma showInt_segment:
  assumes "0 \<le> g"
  shows "plainSegment (showInt g)"
proof -
  have "c \<noteq> CHR ''.'' \<and> c \<noteq> CHR ''/''" if "c \<in> set (showInt g)" for c
  proof -
    from that assms obtain d where "d < 10" "c = digitChar d" using showBase_digits [of c "nat g"] by (auto simp: showInt_def)
    then have "digitOf c = Some d" by (simp add: digitOf_digitChar)
    then show ?thesis by (auto simp: digitOf_def)
  qed
  then have "CHR ''.'' \<notin> set (showInt g)" "CHR ''/'' \<notin> set (showInt g)" by blast+
  moreover have "showInt g \<noteq> []" using assms showBase_not_Nil by (simp add: showInt_def)
  ultimately show ?thesis by (auto simp: plainSegment_def)
qed

lemma program_path_clean:
  assumes "plainSegment ns" and "plainSegment n" and "plainSegment g"
  shows "muxClean (''/programs/'' @ ns @ ''/'' @ n @ ''/'' @ g) = ''/programs/'' @ ns @ ''/'' @ n @ ''/'' @ g"
proof -
  let ?p = "CHR ''/'' # ''programs/'' @ ns @ ''/'' @ n @ ''/'' @ g"
  have plain: "CHR ''/'' \<notin> set s" if "plainSegment s" for s using that by (simp add: plainSegment_def)
  have "plainSegment ''programs''" by (simp add: plainSegment_def)
  then have parts: "list_all plainSegment [''programs'', ns, n, g]" using assms by simp
  have "splitOn (CHR ''/'') (''programs'' @ CHR ''/'' # ns @ CHR ''/'' # n @ CHR ''/'' # g) = [''programs'', ns, n, g]"
    using assms by (simp add: splitSlash_slash splitSlash_plain plain del: append.simps) 
  then have "pathClean ?p = ?p"
    using cleanParts_plain [OF parts, of True "[]"] by (simp add: pathClean_def)
  moreover have "last g \<noteq> CHR ''/''" "g \<noteq> []" using assms(3) last_in_set [of g] by (auto simp: plainSegment_def simp del: last_in_set)
  then have "last ?p \<noteq> CHR ''/''" by simp
  ultimately show ?thesis by (simp add: muxClean_def)
qed

end
