(* ===== verification/AgentInit.thy ===== *)
theory AgentInit
  imports WorkspacePod GitSource AgentServer
begin

text \<open>
  The agent's init command, which puts the program of a workspace in place (agent/cmd/init.go), and
  the exchange of GitHub App credentials for a token that it and the operator use
  (agent/pkg/gitauth/github_app.go). The environment, the file system, the network, the fetcher of
  Flux artifacts and go-git are arguments.
\<close>

section \<open>GitHub App tokens\<close>

record jwtClaims =
  jc_iat :: int
  jc_exp :: int
  jc_iss :: string

record httpRequest =
  hr_Method :: string
  hr_URL :: string
  hr_Header :: "string gomap"

record githublib =
  gx_Now :: time
  gx_PemDecode :: "string \<Rightarrow> string option"
  gx_ParsePKCS1PrivateKey :: "string \<Rightarrow> goerr + string"
  gx_MarshalHeader :: "string gomap \<Rightarrow> goerr + string"
  gx_MarshalClaims :: "jwtClaims \<Rightarrow> goerr + string"
  gx_Base64 :: "string \<Rightarrow> string"
  gx_Sha256 :: "string \<Rightarrow> string"
  gx_SignPKCS1v15 :: "string \<Rightarrow> string \<Rightarrow> goerr + string"
  gx_NewRequest :: "string \<Rightarrow> string \<Rightarrow> goerr + httpRequest"
  gx_Do :: "httpRequest \<Rightarrow> goerr + (int \<times> (goerr + string))"
  gx_UnmarshalToken :: "string \<Rightarrow> goerr + string"

definition unixTime :: "time \<Rightarrow> int" where
  "unixTime t = (t - unixEpoch) div Second"

definition createGitHubAppJWT :: "githublib \<Rightarrow> string \<Rightarrow> string \<Rightarrow> goerr + string" where
  "createGitHubAppJWT X appID privateKeyPEM =
     (case gx_PemDecode X privateKeyPEM of
        None \<Rightarrow> Inl (Errorf ''failed to decode PEM block from GitHub App private key'')
      | Some block \<Rightarrow>
          bindE (mapErr (Wrapf ''parsing GitHub App RSA private key'') (gx_ParsePKCS1PrivateKey X block)) (\<lambda>key.
          bindE (gx_MarshalHeader X [(''alg'', ''RS256''), (''typ'', ''JWT'')]) (\<lambda>headerJSON.
          bindE (gx_MarshalClaims X \<lparr>jc_iat = unixTime (gx_Now X - 60 * Second),
                   jc_exp = unixTime (gx_Now X + 10 * 60 * Second), jc_iss = appID\<rparr>) (\<lambda>payloadJSON.
          let signingInput = gx_Base64 X headerJSON @ ''.'' @ gx_Base64 X payloadJSON
          in bindE (mapErr (Wrapf ''signing GitHub App JWT'') (gx_SignPKCS1v15 X key (gx_Sha256 X signingInput))) (\<lambda>sig.
             Inr (signingInput @ ''.'' @ gx_Base64 X sig))))))"

definition installationToken :: "githublib \<Rightarrow> string \<Rightarrow> string \<Rightarrow> string \<Rightarrow> goerr + string" where
  "installationToken X appID installationID privateKeyPEM =
     bindE (mapErr (Wrapf ''creating GitHub App JWT'') (createGitHubAppJWT X appID privateKeyPEM)) (\<lambda>jwt.
     bindE (mapErr (Wrapf ''creating GitHub API request'')
              (gx_NewRequest X ''POST'' (''https://api.github.com/app/installations/'' @ installationID @ ''/access_tokens''))) (\<lambda>req.
     let req = req\<lparr>hr_Header := mapPut ''X-GitHub-Api-Version'' ''2022-11-28'' (mapPut ''Accept'' ''application/vnd.github+json''
                 (mapPut ''Authorization'' (''Bearer '' @ jwt) (hr_Header req)))\<rparr>
     in bindE (mapErr (Wrapf ''calling GitHub API'') (gx_Do X req)) (\<lambda>(code, content).
        bindE (mapErr (Wrapf ''reading GitHub API response'') content) (\<lambda>body.
        if code \<noteq> 201 then Inl (Errorf (''GitHub API returned status '' @ showInt code @ '': '' @ body))
        else bindE (mapErr (Wrapf ''decoding GitHub API response'') (gx_UnmarshalToken X body)) (\<lambda>token.
             if token = [] then Inl (Errorf ''GitHub API returned an empty token'') else Inr token)))))"

section \<open>The init command\<close>

record initFlags =
  if_targetDir :: string
  if_fluxURL :: string
  if_fluxDigest :: string
  if_gitURL :: string
  if_gitRevision :: string
  if_projectName :: string
  if_projectRuntime :: string

record gitRepo =
  rp_URL :: string
  rp_CommitHash :: string
  rp_Auth :: AutoGitAuth
  rp_Shallow :: bool

record fluxFetcher =
  ff_url :: string
  ff_digest :: string
  ff_retries :: int
  ff_hostname :: string
  ff_maxUntarSize :: "int option"

datatype initAction =
    MakeDir string bool
  | FetchArtifact fluxFetcher string bool
  | CloneRepo gitRepo string bool
  | SaveProject string string string bool

record initlib =
  ix_Getenv :: "string \<Rightarrow> string"
  ix_Atoi :: "string \<Rightarrow> goerr + int"
  ix_MkdirAll :: "string \<Rightarrow> goerr option"
  ix_Fetch :: "fluxFetcher \<Rightarrow> string \<Rightarrow> goerr option"
  ix_Clone :: "gitRepo \<Rightarrow> string \<Rightarrow> goerr option"
  ix_AlreadyExists :: "goerr \<Rightarrow> bool"
  ix_SaveProject :: "string \<Rightarrow> string \<Rightarrow> string \<Rightarrow> goerr option"
  ix_JoinPath :: "string \<Rightarrow> string \<Rightarrow> string"
  ix_GitHub :: githublib

type_synonym initOutcome = "goerr option \<times> initAction list"

definition fluxUntarOptions :: "initlib \<Rightarrow> goerr + int option" where
  "fluxUntarOptions X = (
     let v = ix_Getenv X ''FLUX_MAX_UNTAR_SIZE_BYTES''
     in if v = [] then Inr None
        else bindE (mapErr (Wrapf (''invalid FLUX_MAX_UNTAR_SIZE_BYTES '' @ goQuote v)) (ix_Atoi X v)) (\<lambda>n. Inr (Some n)))"

definition newFluxFetcher :: "initlib \<Rightarrow> string \<Rightarrow> string \<Rightarrow> goerr + fluxFetcher" where
  "newFluxFetcher X url digest =
     bindE (fluxUntarOptions X) (\<lambda>untar. Inr \<lparr>ff_url = url, ff_digest = digest, ff_retries = 3,
       ff_hostname = ix_Getenv X ''SOURCE_CONTROLLER_LOCALHOST'', ff_maxUntarSize = untar\<rparr>)"

definition writeProjectFile :: "initlib \<Rightarrow> string \<Rightarrow> string \<Rightarrow> string \<Rightarrow> initOutcome" where
  "writeProjectFile X targetDir name runtime =
     (case ix_MkdirAll X targetDir of
        Some err \<Rightarrow> (Some (Wrapf ''unable to make target directory'' err), [MakeDir targetDir False])
      | None \<Rightarrow> (let path = ix_JoinPath X targetDir ''Pulumi.yaml''
                 in case ix_SaveProject X name runtime path of
                      Some err \<Rightarrow> (Some (Wrapf ''writing project-info Pulumi.yaml'' err),
                                    [MakeDir targetDir True, SaveProject name runtime path False])
                    | None \<Rightarrow> (None, [MakeDir targetDir True, SaveProject name runtime path True])))"

definition initAuth :: "initlib \<Rightarrow> goerr + AutoGitAuth" where
  "initAuth X = (
     let auth = \<lparr>aga_SSHPrivateKey = ix_Getenv X ''GIT_SSH_PRIVATE_KEY'', aga_PersonalAccessToken = ix_Getenv X ''GIT_TOKEN'',
                 aga_Username = ix_Getenv X ''GIT_USERNAME'', aga_Password = ix_Getenv X ''GIT_PASSWORD''\<rparr>;
         appID = ix_Getenv X ''GIT_GITHUB_APP_ID''
     in if appID \<noteq> []
        then bindE (mapErr (Wrapf ''getting GitHub App installation token'')
               (installationToken (ix_GitHub X) appID (ix_Getenv X ''GIT_GITHUB_APP_INSTALLATION_ID'')
                  (ix_Getenv X ''GIT_GITHUB_APP_PRIVATE_KEY'')))
               (\<lambda>token. Inr (auth\<lparr>aga_PersonalAccessToken := token\<rparr>))
        else Inr auth)"

text \<open>A git fetcher is its URL and revision; without any fetcher it is dereferenced as nil.\<close>

definition runInit :: "initlib \<Rightarrow> string \<Rightarrow> fluxFetcher option \<Rightarrow> (string \<times> string) option \<Rightarrow> initOutcome" where
  "runInit X targetDir f g =
     (case f of
        Some fetcher \<Rightarrow>
          (case ix_MkdirAll X targetDir of
             Some err \<Rightarrow> (Some (Wrapf ''unable to make target directory'' err), [MakeDir targetDir False])
           | None \<Rightarrow>
               (case ix_Fetch X fetcher targetDir of
                  Some err \<Rightarrow> (Some (Wrapf ''unable to fetch flux artifact'' err),
                                [MakeDir targetDir True, FetchArtifact fetcher targetDir False])
                | None \<Rightarrow> (None, [MakeDir targetDir True, FetchArtifact fetcher targetDir True])))
      | None \<Rightarrow>
          (case initAuth X of
             Inl err \<Rightarrow> (Some err, [])
           | Inr auth \<Rightarrow>
               (case g of
                  None \<Rightarrow> (Some (Panic ''invalid memory address or nil pointer dereference''), [])
                | Some (url, revision) \<Rightarrow>
                    (let repo = \<lparr>rp_URL = url, rp_CommitHash = revision, rp_Auth = auth,
                                 rp_Shallow = (ix_Getenv X ''GIT_SHALLOW'' = ''true'')\<rparr>
                     in case ix_Clone X repo targetDir of
                          None \<Rightarrow> (None, [CloneRepo repo targetDir True])
                        | Some err \<Rightarrow>
                            (if ix_AlreadyExists X err then (None, [CloneRepo repo targetDir False])
                             else (Some (Wrapf ''unable to fetch git source'' err), [CloneRepo repo targetDir False]))))))"

definition initCommand :: "initlib \<Rightarrow> initFlags \<Rightarrow> initOutcome" where
  "initCommand X fl =
     (if if_projectName fl \<noteq> [] then writeProjectFile X (if_targetDir fl) (if_projectName fl) (if_projectRuntime fl)
      else (let g = (if if_gitURL fl \<noteq> [] then Some (if_gitURL fl, if_gitRevision fl) else None)
            in if if_fluxURL fl \<noteq> []
               then (case newFluxFetcher X (if_fluxURL fl) (if_fluxDigest fl) of
                       Inl err \<Rightarrow> (Some err, [])
                     | Inr f \<Rightarrow> runInit X (if_targetDir fl) (Some f) g)
               else runInit X (if_targetDir fl) None g))"

section \<open>From the stack to the clone\<close>

text \<open>
  The environment of a container: Kubernetes takes a literal value as it is unless it has a dollar
  sign, and a reference to a secret's key as its value; other variables are not set.
\<close>

definition containerEnv :: "secretReader \<Rightarrow> string \<Rightarrow> EnvVar list \<Rightarrow> (string \<Rightarrow> string) \<Rightarrow> bool" where
  "containerEnv getSecret namespace env getenv \<longleftrightarrow>
     (\<forall>e\<in>set env. case ev_ValueFrom e of
        None \<Rightarrow> CHR ''$'' \<in> set (ev_Value e) \<or> getenv (ev_Name e) = ev_Value e
      | Some (SecretKeyRef k) \<Rightarrow> selectorValue getSecret namespace (Some k) = Some (getenv (ev_Name e))
      | _ \<Rightarrow> True)
     \<and> (\<forall>n. n \<notin> ev_Name ` set env \<longrightarrow> getenv n = [])"

text \<open>The flags the script of the container that fetches a repository passes.\<close>

definition gitFlags :: "(string \<Rightarrow> string) \<Rightarrow> initFlags" where
  "gitFlags getenv = \<lparr>if_targetDir = ''/share/source'', if_fluxURL = [], if_fluxDigest = [],
     if_gitURL = getenv ''GIT_URL'', if_gitRevision = getenv ''GIT_REVISION'', if_projectName = [], if_projectRuntime = []\<rparr>"

lemma containerEnv_literal:
  assumes "containerEnv getSecret ns env getenv" and "envVal n v \<in> set env" and "CHR ''$'' \<notin> set v"
  shows "getenv n = v"
  using assms by (force simp: containerEnv_def envVal_def)

lemma containerEnv_secret:
  assumes "containerEnv getSecret ns env getenv" and "set (secretEnv n sel) \<subseteq> set env"
    and "sel = None \<longrightarrow> n \<notin> ev_Name ` set env"
  shows "selectorValue getSecret ns sel = Some (getenv n)"
proof (cases sel)
  case None
  with assms(1,3) show ?thesis by (simp add: containerEnv_def)
next
  case (Some k)
  with assms(2) have "envFrom n (SecretKeyRef k) \<in> set env" by (simp add: secretEnv_def)
  with assms(1) Some show ?thesis by (force simp: containerEnv_def envFrom_def)
qed

lemma secretEnv_names: "ev_Name ` set (secretEnv n sel) = (if sel = None then {} else {n})"
  by (cases sel) (simp_all add: secretEnv_def envFrom_def)

lemma gitEnv_names:
  assumes "src_GitHubApp g = None"
  shows "ev_Name ` set (gitEnv g) = {''GIT_URL'', ''GIT_REVISION'', ''GIT_DIR''}
    \<union> (if src_Shallow g then {''GIT_SHALLOW''} else {}) \<union> (if src_SSHPrivateKey g = None then {} else {''GIT_SSH_PRIVATE_KEY''})
    \<union> (if src_Username g = None then {} else {''GIT_USERNAME''}) \<union> (if src_Password g = None then {} else {''GIT_PASSWORD''})
    \<union> (if src_Token g = None then {} else {''GIT_TOKEN''})"
  using assms by (simp only: gitEnv_def set_append image_Un secretEnv_names) (simp add: envVal_def)

lemma gitEnv_secrets:
  "set (secretEnv ''GIT_SSH_PRIVATE_KEY'' (src_SSHPrivateKey g)) \<subseteq> set (gitEnv g)"
  "set (secretEnv ''GIT_USERNAME'' (src_Username g)) \<subseteq> set (gitEnv g)"
  "set (secretEnv ''GIT_PASSWORD'' (src_Password g)) \<subseteq> set (gitEnv g)"
  "set (secretEnv ''GIT_TOKEN'' (src_Token g)) \<subseteq> set (gitEnv g)"
  unfolding gitEnv_def set_append by blast+

lemma containerEnv_gitEnv:
  assumes "containerEnv getSecret ns (gitEnv g) getenv" and "src_GitHubApp g = None"
    and "CHR ''$'' \<notin> set (src_URL g)" and "CHR ''$'' \<notin> set (src_Ref g)"
  shows "getenv ''GIT_URL'' = src_URL g" and "getenv ''GIT_REVISION'' = src_Ref g"
    and "(getenv ''GIT_SHALLOW'' = ''true'') = src_Shallow g" and "getenv ''GIT_GITHUB_APP_ID'' = []"
    and "selectorValue getSecret ns (src_SSHPrivateKey g) = Some (getenv ''GIT_SSH_PRIVATE_KEY'')"
    and "selectorValue getSecret ns (src_Username g) = Some (getenv ''GIT_USERNAME'')"
    and "selectorValue getSecret ns (src_Password g) = Some (getenv ''GIT_PASSWORD'')"
    and "selectorValue getSecret ns (src_Token g) = Some (getenv ''GIT_TOKEN'')"
proof -
  note lit = containerEnv_literal [OF assms(1)] and secret = containerEnv_secret [OF assms(1)]
  have absent: "getenv n = []" if "n \<notin> ev_Name ` set (gitEnv g)" for n
    using assms(1) that by (simp add: containerEnv_def)
  show "getenv ''GIT_URL'' = src_URL g" "getenv ''GIT_REVISION'' = src_Ref g"
    using assms(3,4) by (auto intro!: lit simp: gitEnv_def)
  show "(getenv ''GIT_SHALLOW'' = ''true'') = src_Shallow g"
  proof (cases "src_Shallow g")
    case True
    then show ?thesis using lit [of "''GIT_SHALLOW''" "''true''"] by (simp add: gitEnv_def)
  next
    case False
    then show ?thesis using absent [of "''GIT_SHALLOW''"] by (simp add: gitEnv_names [OF assms(2)])
  qed
  show "getenv ''GIT_GITHUB_APP_ID'' = []" by (rule absent) (simp add: gitEnv_names [OF assms(2)])
  show "selectorValue getSecret ns (src_SSHPrivateKey g) = Some (getenv ''GIT_SSH_PRIVATE_KEY'')"
    by (rule secret [OF gitEnv_secrets(1)]) (simp add: gitEnv_names [OF assms(2)])
  show "selectorValue getSecret ns (src_Username g) = Some (getenv ''GIT_USERNAME'')"
    by (rule secret [OF gitEnv_secrets(2)]) (simp add: gitEnv_names [OF assms(2)])
  show "selectorValue getSecret ns (src_Password g) = Some (getenv ''GIT_PASSWORD'')"
    by (rule secret [OF gitEnv_secrets(3)]) (simp add: gitEnv_names [OF assms(2)])
  show "selectorValue getSecret ns (src_Token g) = Some (getenv ''GIT_TOKEN'')"
    by (rule secret [OF gitEnv_secrets(4)]) (simp add: gitEnv_names [OF assms(2)])
qed

lemma workspaceGitAuth_noApp:
  assumes "workspaceGitAuth gs = Inr w" and "sgs_GitAuth gs = Some cfg" and "gac_GitHubApp cfg = None"
  shows "ga_GitHubApp w = None"
  using assms
  by (auto simp: workspaceGitAuth_def Let_def bindE_Inr_iff emptyWsGitAuth_def split: option.splits if_splits)

lemma initCommand_clones:
  assumes "ix_Getenv X = getenv" and "containerEnv getSecret ns (gitEnv g) getenv" and "src_GitHubApp g = None"
    and "CHR ''$'' \<notin> set (src_URL g)" and "CHR ''$'' \<notin> set (src_Ref g)" and "src_URL g \<noteq> []"
    and "selectorValue getSecret ns (src_SSHPrivateKey g) = Some (aga_SSHPrivateKey a)"
      "selectorValue getSecret ns (src_Token g) = Some (aga_PersonalAccessToken a)"
      "selectorValue getSecret ns (src_Username g) = Some (aga_Username a)"
      "selectorValue getSecret ns (src_Password g) = Some (aga_Password a)"
  shows "\<exists>ok. snd (initCommand X (gitFlags getenv))
    = [CloneRepo \<lparr>rp_URL = src_URL g, rp_CommitHash = src_Ref g, rp_Auth = a, rp_Shallow = src_Shallow g\<rparr> ''/share/source'' ok]"
proof -
  note env = containerEnv_gitEnv [OF assms(2-5)]
  have "initAuth X = Inr a"
    using assms(1,7-10) env(4-8) by (simp add: initAuth_def Let_def)
  with assms(1,6) env(1-3) show ?thesis
    by (auto simp: initCommand_def gitFlags_def runInit_def Let_def split: option.split)
qed

text \<open>C31: From the stack to the clone. For a stack whose field gitAuth names exactly one of an SSH key, an access
  token, or a user name and password, and that has no gitAuthSecret: when the operator can resolve its
  own credentials, then the init container of the
  workspace it sets up, run with the environment Kubernetes makes of the container and the secrets
  of the stack's namespace, has the agent clone the stack's repository once, at the given commit,
  with the very credentials the operator resolved. The fourth method, a GitHub App, is left out, and
  the statement does not hold for it: the operator and the agent each obtain a token of their own.
\<close>

lemma git_credentials_reach_clone:
  assumes "sp_GitSource (sess_stack sess) = Some gs" and "sgs_GitAuthSecret gs = []"
    and "sgs_GitAuth gs = Some cfg" and "gac_GitHubApp cfg = None"
    and "length (filter id [gac_SSHAuth cfg \<noteq> None, gac_PersonalAccessToken cfg \<noteq> None, gac_BasicAuth cfg \<noteq> None]) = 1"
    and "resolveGitAuth G getSecret sess = Inr a" and "setupWorkspaceFromGitSource commit sess = Inr t"
    and "so_Git (newSourceSpec (sess_ws t)) = Some src"
    and "containerEnv getSecret (sess_namespace sess) (gitEnv src) (ix_Getenv X)"
    and "sgs_ProjectRepo gs \<noteq> []" and "CHR ''$'' \<notin> set (sgs_ProjectRepo gs)" and "CHR ''$'' \<notin> set commit"
  shows "\<exists>ok. snd (initCommand X (gitFlags (ix_Getenv X)))
    = [CloneRepo \<lparr>rp_URL = sgs_ProjectRepo gs, rp_CommitHash = commit, rp_Auth = a, rp_Shallow = sgs_Shallow gs\<rparr> ''/share/source'' ok]"
proof -
  obtain w where w: "workspaceGitAuth gs = Inr w" and ws: "ws_Git (w_Spec (sess_ws t)) = Some
      \<lparr>gs_URL = sgs_ProjectRepo gs, gs_Ref = commit, gs_Dir = sgs_RepoDir gs,
       gs_Auth = (if w \<noteq> emptyWsGitAuth then Some w else None), gs_Shallow = sgs_Shallow gs\<rparr>"
    using assms(1,7) by (auto simp: setupWorkspaceFromGitSource_def bindE_Inr_iff mapWsSpec_def)
  have agree: "agrees getSecret (sess_namespace sess) a w"
    using git_credentials_agree [OF assms(1-6), of commit] assms(7) ws
    by (auto simp: emptyWsGitAuth_def split: if_splits)
  have app: "ga_GitHubApp w = None" by (rule workspaceGitAuth_noApp [OF w assms(3,4)])
  have src: "src_URL src = sgs_ProjectRepo gs" "src_Ref src = commit" "src_Shallow src = sgs_Shallow gs"
    "src_GitHubApp src = None" "src_SSHPrivateKey src = ga_SSHPrivateKey w" "src_Token src = ga_Token w"
    "src_Username src = ga_Username w" "src_Password src = ga_Password w"
    using assms(8) ws app by (auto simp: newSourceSpec_def Let_def emptyWsGitAuth_def)
  from initCommand_clones [OF refl assms(9), where a = a] agree assms(10-12) show ?thesis
    by (simp add: src agrees_def)
qed

definition exampleInit :: initlib where
  "exampleInit = \<lparr>ix_Getenv = (\<lambda>n. if n = ''GIT_URL'' then ''https://host/repo'' else if n = ''GIT_REVISION'' then ''abc''
       else if n = ''GIT_TOKEN'' then ''tok'' else []),
     ix_Atoi = (\<lambda>_. Inr 0), ix_MkdirAll = (\<lambda>_. None), ix_Fetch = (\<lambda>_ _. None), ix_Clone = (\<lambda>_ _. None),
     ix_AlreadyExists = (\<lambda>_. False), ix_SaveProject = (\<lambda>_ _ _. None), ix_JoinPath = (\<lambda>a b. a @ ''/'' @ b),
     ix_GitHub = \<lparr>gx_Now = 0, gx_PemDecode = Some, gx_ParsePKCS1PrivateKey = Inr, gx_MarshalHeader = (\<lambda>_. Inr []),
       gx_MarshalClaims = (\<lambda>_. Inr []), gx_Base64 = id, gx_Sha256 = id, gx_SignPKCS1v15 = (\<lambda>_. Inr),
       gx_NewRequest = (\<lambda>m u. Inr \<lparr>hr_Method = m, hr_URL = u, hr_Header = []\<rparr>), gx_Do = (\<lambda>_. Inr (201, Inr ''ghs'')),
       gx_UnmarshalToken = Inr\<rparr>\<rparr>"

lemma git_credentials_reach_clone_witness:
  "\<exists>ok. snd (initCommand exampleInit (gitFlags (ix_Getenv exampleInit)))
    = [CloneRepo \<lparr>rp_URL = ''https://host/repo'', rp_CommitHash = ''abc'',
         rp_Auth = emptyGitAuth\<lparr>aga_PersonalAccessToken := ''tok''\<rparr>, rp_Shallow = False\<rparr> ''/share/source'' ok]"
proof -
  have creds: "resolveGitAuth docGit credsReader gitSession = Inr (emptyGitAuth\<lparr>aga_PersonalAccessToken := ''tok''\<rparr>)"
    by code_simp
  let ?w = "emptyWsGitAuth\<lparr>ga_Token := Some \<lparr>sk_Name = ''creds'', sk_Key = ''t'', sk_Optional = None\<rparr>\<rparr>"
  have w: "workspaceGitAuth gitSpec = Inr ?w"
    by (simp add: workspaceGitAuth_def gitSpec_def derefKey_def NewSecretResourceRef_def)
  have gs: "sp_GitSource (sess_stack gitSession) = Some gitSpec" "sess_namespace gitSession = ''default''"
    by (simp_all add: gitSession_def newStackReconcilerSession_def)
  obtain t where t: "setupWorkspaceFromGitSource ''abc'' gitSession = Inr t" using gs w by (simp add: setupWorkspaceFromGitSource_def)
  then obtain src where src: "so_Git (newSourceSpec (sess_ws t)) = Some src"
    and src_eq: "src = \<lparr>src_URL = ''https://host/repo'', src_Ref = ''abc'', src_Dir = [], src_Shallow = False, src_SSHPrivateKey = None,
      src_Username = None, src_Password = None, src_Token = Some \<lparr>sk_Name = ''creds'', sk_Key = ''t'', sk_Optional = None\<rparr>,
      src_GitHubApp = None\<rparr>"
    using gs w by (auto simp: setupWorkspaceFromGitSource_def mapWsSpec_def newSourceSpec_def Let_def emptyWsGitAuth_def gitSpec_def)
  have env: "containerEnv credsReader (sess_namespace gitSession) (gitEnv src) (ix_Getenv exampleInit)"
    by (simp add: src_eq containerEnv_def gitEnv_def secretEnv_def envVal_def envFrom_def exampleInit_def selectorValue_def
        credsReader_def gs)
  have cfg: "sgs_GitAuthSecret gitSpec = []" "sgs_GitAuth gitSpec = Some (the (sgs_GitAuth gitSpec))"
    "gac_GitHubApp (the (sgs_GitAuth gitSpec)) = None"
    "length (filter id [gac_SSHAuth (the (sgs_GitAuth gitSpec)) \<noteq> None, gac_PersonalAccessToken (the (sgs_GitAuth gitSpec)) \<noteq> None,
       gac_BasicAuth (the (sgs_GitAuth gitSpec)) \<noteq> None]) = 1"
    "sgs_ProjectRepo gitSpec \<noteq> []" "CHR ''$'' \<notin> set (sgs_ProjectRepo gitSpec)" "CHR ''$'' \<notin> set ''abc''"
    by (simp_all add: gitSpec_def)
  from git_credentials_reach_clone [OF gs(1) cfg(1-4) creds t src env cfg(5-7)] show ?thesis
    by (simp add: gitSpec_def)
qed

end
