(* ===== verification/ProgramDelivery.thy ===== *)
theory ProgramDelivery
  imports OperatorMain AgentInit ReconcileFacts
begin

text \<open>
  A Program on its way into a workspace: the artifact that the program controller records, the
  workspace that the stack controller sets up from it, the container that fetches it with the
  agent's init command, and the operator's file server that answers.
\<close>

section \<open>The container that fetches an artifact\<close>

text \<open>The flags the container's script passes.\<close>

definition fluxFlags :: "(string \<Rightarrow> string) \<Rightarrow> initFlags" where
  "fluxFlags getenv = \<lparr>if_targetDir = ''/share/source'', if_fluxURL = getenv ''FLUX_URL'', if_fluxDigest = getenv ''FLUX_DIGEST'',
     if_gitURL = [], if_gitRevision = [], if_projectName = [], if_projectRuntime = []\<rparr>"

lemma initCommand_fetches:
  assumes "containerEnv getSecret ns (fluxEnv W f) (ix_Getenv X)"
    and "CHR ''$'' \<notin> set (fs_Url f)" and "CHR ''$'' \<notin> set (fs_Digest f)" and "fs_Url f \<noteq> []"
    and "fluxUntarOptions X = Inr untar" and "ix_MkdirAll X ''/share/source'' = None"
  shows "\<exists>ok. snd (initCommand X (fluxFlags (ix_Getenv X)))
    = [MakeDir ''/share/source'' True,
       FetchArtifact \<lparr>ff_url = fs_Url f, ff_digest = fs_Digest f, ff_retries = 3,
         ff_hostname = ix_Getenv X ''SOURCE_CONTROLLER_LOCALHOST'', ff_maxUntarSize = untar\<rparr> ''/share/source'' ok]"
proof -
  have "ix_Getenv X ''FLUX_URL'' = fs_Url f" "ix_Getenv X ''FLUX_DIGEST'' = fs_Digest f"
    using assms(2,3) by (auto intro!: containerEnv_literal [OF assms(1)] simp: fluxEnv_def)
  with assms(4-6) show ?thesis
    by (auto simp: initCommand_def fluxFlags_def newFluxFetcher_def runInit_def split: option.split)
qed

section \<open>From the program to the fetch\<close>

text \<open>C32: A program reaches the workspace unaltered. When the program controller has recorded an artifact and the
  stack controller resolves a stack to it, the stack's commit is the program's generation, the init
  container of the workspace fetches from the recorded URL with the recorded digest, and the
  operator's file server answers a request for that URL's path with an archive of this digest as long as
  the program has this generation, and with Not Found afterwards.
\<close>

lemma program_reaches_workspace:
  assumes "ProgramReconcile P patch (Inr program) = (None, [(p, ok)])"
    and "px_JoinPath P (serverAddress P) [''programs'', om_Namespace (pg_Meta program), om_Name (pg_Meta program),
           showInt (om_Generation (pg_Meta program))] = serverAddress P @ programPath program"
    and "plainSegment (om_Namespace (pg_Meta program))" and "plainSegment (om_Name (pg_Meta program))"
    and "0 \<le> om_Generation (pg_Meta program)" and "om_Generation (pg_Meta program) \<le> maxDuration"
    and "get (om_Namespace (pg_Meta program)) (om_Name (pg_Meta program)) = Inr present"
    and "om_Name (pg_Meta present) = om_Name (pg_Meta program)"
    and "om_Generation (pg_Meta present) = om_Generation (pg_Meta program) \<Longrightarrow> pg_Program present = pg_Program program"
    and "GetObject (en_A E) (rs_trace s) PulumiGroupVersion ''Program'' (rs_namespace s) (pr_Name ref) = Inr obj"
    and "artifactOf (en_U E) obj = Some (pa_Artifact p)"
    and "programPhase E ref s = Inr (commit, t)" and "so_Flux (newSourceSpec (sess_ws (rs_sess t))) = Some f"
    and "containerEnv getSecret ns (fluxEnv W f) (ix_Getenv X)" and "fluxUntarOptions X = Inr untar"
    and "ix_MkdirAll X ''/share/source'' = None"
    and "CHR ''$'' \<notin> set (art_URL (pa_Artifact p))" and "CHR ''$'' \<notin> set (art_Digest (pa_Artifact p))"
  shows "commit = showInt (om_Generation (pg_Meta program))
    \<and> (\<exists>ok. snd (initCommand X (fluxFlags (ix_Getenv X)))
         = [MakeDir ''/share/source'' True,
            FetchArtifact \<lparr>ff_url = serverAddress P @ programPath program, ff_digest = art_Digest (pa_Artifact p), ff_retries = 3,
              ff_hostname = ix_Getenv X ''SOURCE_CONTROLLER_LOCALHOST'', ff_maxUntarSize = untar\<rparr> ''/share/source'' ok])
    \<and> (if om_Generation (pg_Meta present) = om_Generation (pg_Meta program)
       then \<exists>headers body. serveFile P get (programPath program) = Handled (ServedArchive headers body)
              \<and> px_Digest P body = Inr (art_Digest (pa_Artifact p))
       else \<exists>msg. serveFile P get (programPath program) = Handled (ErrorResponse 404 msg))"
proof -
  have plain: "CHR ''/'' \<notin> set (om_Namespace (pg_Meta program))" "CHR ''/'' \<notin> set (om_Name (pg_Meta program))"
    using assms(3,4) by (simp_all add: plainSegment_def)
  have artifact: "art_URL (pa_Artifact p) = serverAddress P @ programPath program
    \<and> (if om_Generation (pg_Meta present) = om_Generation (pg_Meta program)
       then \<exists>headers body. HandleProgramServing P get (programPath program) = ServedArchive headers body
              \<and> px_Digest P body = Inr (art_Digest (pa_Artifact p)) \<and> art_Size (pa_Artifact p) = Some (int (length body))
       else \<exists>msg. HandleProgramServing P get (programPath program) = ErrorResponse 404 msg)"
    by (rule program_artifact [where get = get, OF assms(1,2) plain assms(5-8)]) (rule assms(9))
  have rev: "art_Revision (pa_Artifact p) = showInt (om_Generation (pg_Meta program))"
    using assms(1) by (auto simp: ProgramReconcile_def Let_def split: sum.splits option.splits)
  have t: "commit = art_Revision (pa_Artifact p)"
    "f = \<lparr>fs_Url = art_URL (pa_Artifact p), fs_Digest = art_Digest (pa_Artifact p), fs_Dir = []\<rparr>"
    using assms(10-13) by (auto simp: programPhase_def artifactPhase_def SetupWorkspaceFromFluxSource_def bindE_Inr_iff
        newSourceSpec_def mapWsSpec_def Let_def)
  have clean: "muxClean (programPath program) = programPath program"
    unfolding programPath_def using program_path_clean [OF assms(3,4) showInt_segment [OF assms(5)]] by simp
  have served: "serveFile P get (programPath program) = Handled (HandleProgramServing P get (programPath program))"
    using clean by (auto simp: serveFile_def programPath_def hasPrefix_def)
  have url: "art_URL (pa_Artifact p) = serverAddress P @ programPath program" "art_URL (pa_Artifact p) \<noteq> []"
    using artifact by (simp_all add: programPath_def)
  show ?thesis
    using initCommand_fetches [OF assms(14) _ _ _ assms(15,16)] assms(17,18) artifact rev t url(2) served by auto
qed

section \<open>An example\<close>

definition exampleArtifact :: Artifact where
  "exampleArtifact = \<lparr>art_Path = ''programs/ns/p/12.tar.gz'', art_URL = ''http://op:80/programs/ns/p/12'', art_Revision = ''12'',
     art_Digest = ''sha256:p'', art_LastUpdateTime = 0, art_Size = Some 1, art_Metadata = []\<rparr>"

definition programEnv :: "(unit, unit) env" where
  "programEnv = (exampleEnv newStack)\<lparr>en_U := \<lparr>NestedMap = (\<lambda>u ks. Inr (Some ())), FromUnstructured = (\<lambda>m. Inr exampleArtifact)\<rparr>,
     en_A := (exampleCluster newStack)\<lparr>GetObject := (\<lambda>tr v k ns nm. Inr ())\<rparr>\<rparr>"

definition fluxInit :: initlib where
  "fluxInit = exampleInit\<lparr>ix_Getenv := (\<lambda>n. if n = ''FLUX_URL'' then ''http://op:80/programs/ns/p/12''
     else if n = ''FLUX_DIGEST'' then ''sha256:p'' else [])\<rparr>"

definition noEnvironment :: "unit podlib" where
  "noEnvironment = \<lparr>wl_Getenv = (\<lambda>_. []), wl_Version = [], wl_QuantityIsZero = (\<lambda>_. True), wl_Hash = (\<lambda>_. []), wl_MarshalTemplate = (\<lambda>_. Inr ()),
     wl_MarshalPatch = (\<lambda>_. Inr ()), wl_SetElementOrder = (\<lambda>_ m. m), wl_PatchMeta = None,
     wl_StrategicMerge = (\<lambda>_ m. Inr m), wl_UnmarshalTemplate = (\<lambda>_. Inl (Errorf []))\<rparr>"

lemma program_reaches_workspace_witness:
  "\<exists>headers body ok. serveFile exampleProgramlib (\<lambda>ns n. Inr exampleProgram) ''/programs/ns/p/12'' = Handled (ServedArchive headers body)
     \<and> px_Digest exampleProgramlib body = Inr ''sha256:p''
     \<and> snd (initCommand fluxInit (fluxFlags (ix_Getenv fluxInit))) = [MakeDir ''/share/source'' True,
         FetchArtifact \<lparr>ff_url = ''http://op:80/programs/ns/p/12'', ff_digest = ''sha256:p'', ff_retries = 3,
           ff_hostname = [], ff_maxUntarSize = None\<rparr> ''/share/source'' ok]"
proof -
  have twelve: "showInt 12 = ''12''" by code_simp
  have path: "programPath exampleProgram = ''/programs/ns/p/12''" and address: "serverAddress exampleProgramlib = ''http://op:80''"
    by (simp_all add: programPath_def exampleProgram_def twelve serverAddress_def exampleProgramlib_def hasPrefix_def)
  obtain p where p: "ProgramReconcile exampleProgramlib (\<lambda>_. None) (Inr exampleProgram) = (None, [(p, True)])"
    and art: "pa_Artifact p = exampleArtifact"
    by (simp add: ProgramReconcile_def exampleProgramlib_def createProgramArtifact_def programToProject_def exampleProgram_def Let_def
        exampleArtifact_def CreateProgramPath_def CreateProgramURL_def twelve hasPrefix_def)
  have join: "px_JoinPath exampleProgramlib (serverAddress exampleProgramlib) [''programs'', om_Namespace (pg_Meta exampleProgram),
      om_Name (pg_Meta exampleProgram), showInt (om_Generation (pg_Meta exampleProgram))]
      = serverAddress exampleProgramlib @ programPath exampleProgram"
    by (simp add: exampleProgramlib_def programPath_def exampleProgram_def twelve)
  have plain: "plainSegment (om_Namespace (pg_Meta exampleProgram))" "plainSegment (om_Name (pg_Meta exampleProgram))"
    "0 \<le> om_Generation (pg_Meta exampleProgram)" "om_Generation (pg_Meta exampleProgram) \<le> maxDuration"
    by (simp_all add: exampleProgram_def maxDuration_def plainSegment_def)
  let ?s = "exampleState newStack"
  obtain t where t: "programPhase programEnv \<lparr>pr_Name = ''p''\<rparr> ?s = Inr (''12'', t)"
      "so_Flux (newSourceSpec (sess_ws (rs_sess t))) = Some \<lparr>fs_Url = ''http://op:80/programs/ns/p/12'', fs_Digest = ''sha256:p'', fs_Dir = []\<rparr>"
    by (simp add: programPhase_def artifactPhase_def programEnv_def getArtifact_def SetupWorkspaceFromFluxSource_def
        exampleArtifact_def newSourceSpec_def mapWsSpec_def Let_def orFail_def)
  have env: "containerEnv credsReader [] (fluxEnv noEnvironment \<lparr>fs_Url = ''http://op:80/programs/ns/p/12'', fs_Digest = ''sha256:p'', fs_Dir = []\<rparr>)
      (ix_Getenv fluxInit)"
    by (simp add: containerEnv_def fluxEnv_def envVal_def fluxInit_def noEnvironment_def)
  have cluster: "GetObject (en_A programEnv) (rs_trace ?s) PulumiGroupVersion ''Program'' (rs_namespace ?s) (pr_Name \<lparr>pr_Name = ''p''\<rparr>) = Inr ()"
    "artifactOf (en_U programEnv) () = Some (pa_Artifact p)" "fluxUntarOptions fluxInit = Inr None" "ix_MkdirAll fluxInit ''/share/source'' = None"
    "CHR ''$'' \<notin> set (art_URL (pa_Artifact p))" "CHR ''$'' \<notin> set (art_Digest (pa_Artifact p))"
    by (simp_all add: programEnv_def getArtifact_def art fluxUntarOptions_def fluxInit_def exampleInit_def exampleArtifact_def)
  from program_reaches_workspace [OF p join plain, of "\<lambda>ns n. Inr exampleProgram" exampleProgram, OF refl refl refl cluster(1,2) t env cluster(3-6)]
  show ?thesis by (auto simp: path address art exampleArtifact_def fluxInit_def)
qed

end
