(* ===== verification/DestroyRounds.thy ===== *)
theory DestroyRounds
  imports ReconcileFacts
begin

text \<open>
  A deleted stack whose destroy has failed for the last time: what every later reconcile does, and
  what it leaves for the next one.
\<close>

section \<open>Saves that keep the recorded update\<close>

text \<open>An action that starts no update, leaves the stack's finalizer and saves the given last update.\<close>

fun keepsRecord :: "StackUpdateState \<Rightarrow> Action \<Rightarrow> bool" where
  "keepsRecord lu (ASaveStatus p) \<longleftrightarrow> sa_LastUpdate p = Some lu \<and> sa_CurrentUpdate p = None"
| "keepsRecord lu (ACreateUpdate u) \<longleftrightarrow> False"
| "keepsRecord lu (AUpdateStack st) \<longleftrightarrow> False"
| "keepsRecord lu a \<longleftrightarrow> True"

definition records :: "StackUpdateState \<Rightarrow> RState \<Rightarrow> bool" where
  "records lu s \<longleftrightarrow> st_LastUpdate (statusOf s) = Some lu \<and> st_CurrentUpdate (statusOf s) = None
     \<and> list_all (keepsRecord lu) (rs_trace s)"

lemma records_simps [simp]:
  "records lu (emitAll es s) = records lu s"
  "records lu (setStatus (MarkStalledCondition L r m) s) = records lu s"
  "records lu (setStatus (MarkReadyCondition L) s) = records lu s"
  "records lu (setStatus (MarkReconcilingCondition L r m) s) = records lu s"
proof -
  have "list_all (keepsRecord lu) (map AEvent es)" by (simp add: list_all_iff)
  then show "records lu (emitAll es s) = records lu s" by (simp add: records_def)
qed (simp_all add: records_def)

lemma records_status:
  "statusOf t = statusOf s \<Longrightarrow> rs_trace t = rs_trace s \<Longrightarrow> records lu t = records lu s"
  by (simp add: records_def)

lemma saveAndReturn_records:
  assumes "records lu s"
  shows "list_all (keepsRecord lu) (oc_Trace (saveAndReturn E after s))"
  using assms saveStatus_trace [of E s]
  by (cases "saveStatus E s") (auto simp: saveAndReturn_def records_def statusApply_def)

lemma fails_records: "records lu s \<Longrightarrow> list_all (keepsRecord lu) (oc_Trace (fails e s))"
  by (simp add: records_def)

lemma stallWith_records: "records lu s \<Longrightarrow> list_all (keepsRecord lu) (oc_Trace (stallWith E after r m s))"
  by (simp add: stallWith_def saveAndReturn_records)

lemma invalidSpec_records: "records lu s \<Longrightarrow> list_all (keepsRecord lu) (oc_Trace (invalidSpec E m s))"
  by (simp add: invalidSpec_def stallWith_records)

lemmas exit_records = fails_records stallWith_records invalidSpec_records

lemma git_records:
  "gitPhase E gs s = Inl o' \<Longrightarrow> records lu s \<Longrightarrow> list_all (keepsRecord lu) (oc_Trace o')"
  by (auto simp: gitPhase_def bindE_Inl_iff exit_records simp del: outcome_simps split: sum.splits)

lemma artifact_records:
  "artifactPhase E obj m d s = Inl o' \<Longrightarrow> records lu s \<Longrightarrow> list_all (keepsRecord lu) (oc_Trace o')"
  by (auto simp: artifactPhase_def bindE_Inl_iff exit_records simp del: outcome_simps split: option.splits)

lemma flux_records:
  "fluxPhase E fs s = Inl o' \<Longrightarrow> records lu s \<Longrightarrow> list_all (keepsRecord lu) (oc_Trace o')"
  by (auto simp: fluxPhase_def exit_records simp del: outcome_simps dest: artifact_records split: sum.splits option.splits if_splits)

lemma program_records:
  "programPhase E ref s = Inl o' \<Longrightarrow> records lu s \<Longrightarrow> list_all (keepsRecord lu) (oc_Trace o')"
  by (auto simp: programPhase_def exit_records simp del: outcome_simps dest: artifact_records split: sum.splits if_splits)

lemma source_records:
  "sourcePhase E s = Inl o' \<Longrightarrow> records lu s \<Longrightarrow> list_all (keepsRecord lu) (oc_Trace o')"
  by (auto simp: sourcePhase_def bindE_Inl_iff dest: git_records flux_records program_records split: option.splits if_splits)

lemma setup_records:
  "setupPhase E up s = Inl o' \<Longrightarrow> records lu s \<Longrightarrow> list_all (keepsRecord lu) (oc_Trace o')"
  by (auto simp: setupPhase_def exit_records simp del: outcome_simps split: sum.splits option.splits)

section \<open>One reconcile\<close>

text \<open>The handler up to the point where it asks whether an update is needed.\<close>

definition planPhase :: "('u, 'm) env \<Rightarrow> string \<Rightarrow> string \<Rightarrow> Outcome + (string \<times> RState)" where
  "planPhase E ns nm =
     bindE (fetchPhase E ns nm) (\<lambda>s.
     bindE (sessionPhase E s) (\<lambda>s.
     bindE (absorbPhase E s) (\<lambda>s.
     bindE (nothingToDestroyPhase E s) (\<lambda>s.
     bindE (sourcePhase E s) (\<lambda>(currentCommit, usingProjectInfo, s).
     bindE (setupPhase E usingProjectInfo s) (\<lambda>s. Inr (currentCommit, s)))))))"

lemma Reconcile_plan:
  "planPhase E ns nm = Inl o' \<Longrightarrow> Reconcile E ns nm = o'"
  "planPhase E ns nm = Inr (c, s) \<Longrightarrow> syncPhase E c s = Inl o' \<Longrightarrow> Reconcile E ns nm = o'"
  by (auto simp: planPhase_def Reconcile_def drivePhase_def bindE_def split: sum.splits prod.splits)

text \<open>
  The stack is to be destroyed, nothing is under way, and the destroy of the stack as it is has
  failed as often as it is tried.
\<close>

definition destroyFailed :: "Stack \<Rightarrow> StackUpdateState \<Rightarrow> bool" where
  "destroyFailed st lu \<longleftrightarrow> om_DeletionTimestamp (s_Meta st) \<noteq> None
     \<and> PulumiFinalizer \<in> set (om_Finalizers (s_Meta st))
     \<and> sp_DestroyOnFinalize (s_Spec st) \<and> \<not> sp_Preview (s_Spec st)
     \<and> st_CurrentUpdate (s_Status st) = None \<and> st_LastUpdate (s_Status st) = Some lu
     \<and> lu_Type lu = DestroyType \<and> lu_State lu = FailedStackStateMessage \<and> sameInputs st lu
     \<and> maxUpdateFailures \<le> lu_Failures lu"

lemma plan_start:
  assumes "GetStack (en_A E) [] ns nm = Inr st" and "destroyFailed st lu"
    and "fetchPhase E ns nm = Inr s" and "sessionPhase E s = Inr s1"
  shows "absorbPhase E s1 = Inr s1 \<and> nothingToDestroyPhase E s1 = Inr s1 \<and> records lu s1 \<and> rs_deleted s1
    \<and> s_Meta (rs_stack s1) = s_Meta st"
proof -
  have "rs_deleted s" "records lu s" "s_Meta (rs_stack s) = s_Meta st" "s_Spec (rs_stack s) = s_Spec st"
    using fetch_Inr [OF assms(3)] assms(1,2) by (auto simp: destroyFailed_def records_def)
  with session_Inr [OF assms(4)] assms(2) show ?thesis
    by (simp add: absorbPhase_def nothingToDestroy_Inr records_def destroyFailed_def)
qed

lemma plan_Inl:
  assumes "GetStack (en_A E) [] ns nm = Inr st" and "destroyFailed st lu" and "planPhase E ns nm = Inl o'"
  shows "list_all (keepsRecord lu) (oc_Trace o')"
proof (cases "fetchPhase E ns nm")
  case (Inl e)
  then have False using assms(1,2) by (auto simp: fetchPhase_def destroyFailed_def Let_def split: prod.splits)
  then show ?thesis ..
next
  case s: (Inr s)
  show ?thesis
  proof (cases "sessionPhase E s")
    case (Inl e)
    then show ?thesis
      using assms s fetch_Inr [OF s] session_Inl [OF Inl] by (auto simp: planPhase_def destroyFailed_def)
  next
    case (Inr s1)
    note a = plan_start [OF assms(1,2) s Inr]
    from assms(3) s Inr a have "sourcePhase E s1 = Inl o' \<or> (\<exists>c up t. sourcePhase E s1 = Inr (c, up, t) \<and> setupPhase E up t = Inl o')"
      by (auto simp: planPhase_def bindE_Inl_iff)
    then show ?thesis
      using a source_records [of E s1 o' lu] setup_records source_Inr records_status by metis
  qed
qed

lemma plan_Inr:
  assumes "GetStack (en_A E) [] ns nm = Inr st" and "destroyFailed st lu" and "planPhase E ns nm = Inr (c, u)"
  shows "records lu u \<and> rs_deleted u \<and> s_Meta (rs_stack u) = s_Meta st"
proof -
  from assms(3) obtain s s1 where s: "fetchPhase E ns nm = Inr s" "sessionPhase E s = Inr s1"
    by (auto simp: planPhase_def bindE_Inr_iff)
  note a = plan_start [OF assms(1,2) s]
  from assms(3) s a obtain up t where "sourcePhase E s1 = Inr (c, up, t)" "setupPhase E up t = Inr u"
    by (auto simp: planPhase_def bindE_Inr_iff)
  from drive_frame [OF this] a show ?thesis by (auto simp: sameStack_def records_def)
qed

lemma failed_waits:
  assumes "records lu s" and "rs_deleted s" and "lu_State lu = FailedStackStateMessage" and "maxUpdateFailures \<le> lu_Failures lu"
  shows "list_all (keepsRecord lu) (oc_Trace (whenSynced E s)) \<and> Second \<le> oc_RequeueAfter (whenSynced E s)"
proof -
  obtain st where st: "markStackResult (en_L E) (statusOf s) = Inr st" "st_LastUpdate st = Some lu" "st_CurrentUpdate st = None"
    using assms by (simp add: markStackResult_def records_def)
  let ?s = "setStatus (\<lambda>_. st) s"
  have "whenSynced E s = saveAndReturn E (untilAfter (Now (en_A E) (rs_trace ?s) 2) lu (cooldown (en_L E) (rs_stack ?s))) ?s"
    using st assms(2,3) by (simp add: whenSynced_def Let_def)
  moreover have "records lu ?s" using st assms(1) by (simp add: records_def)
  moreover have "Second \<le> oc_RequeueAfter (saveAndReturn E (untilAfter now lu d) t)" for now d t
    by (simp add: saveAndReturn_def untilAfter_def split: prod.split)
  ultimately show ?thesis using saveAndReturn_records [of lu ?s E] by simp
qed

lemma failed_destroy_reconciled:
  assumes "GetStack (en_A E) [] ns nm = Inr st" and "destroyFailed st lu"
    and "\<And>c s. planPhase E ns nm = Inr (c, s) \<Longrightarrow> c = lu_LastAttemptedCommit lu"
  shows "list_all (keepsRecord lu) (oc_Trace (Reconcile E ns nm))
    \<and> (planPhase E ns nm = Inl (Reconcile E ns nm) \<or> Second \<le> oc_RequeueAfter (Reconcile E ns nm))"
proof (cases "planPhase E ns nm")
  case (Inl o')
  then show ?thesis using plan_Inl [OF assms(1,2) Inl] Reconcile_plan(1) by metis
next
  case (Inr p)
  then obtain c u where p: "planPhase E ns nm = Inr (c, u)" by (cases p) simp
  note u = plan_Inr [OF assms(1,2) p]
  have "synced (en_L E) (Now (en_A E) (rs_trace u) 1) (rs_stack u) c"
    using assms(2) assms(3) [OF p] u sameInputs_meta [of "rs_stack u" st lu]
    by (auto simp: synced_iff records_def destroyFailed_def)
  then obtain msg es where "isSynced (en_L E) (Now (en_A E) (rs_trace u) 1) (rs_stack u) c = ((True, msg), es)"
    by (metis prod.collapse)
  then have "syncPhase E c u = Inl (whenSynced E (emitAll es u))" by (simp add: syncPhase_def)
  then have "Reconcile E ns nm = whenSynced E (emitAll es u)" using Reconcile_plan(2) [OF p] by blast
  then show ?thesis
    using failed_waits [of lu "emitAll es u" E] u assms(2) by (simp add: destroyFailed_def)
qed

section \<open>Any number of reconciles\<close>

text \<open>
  What a reconcile leaves of the stack when nobody else changes it: its last and current update are
  as they were or as one of the saves had them, its finalizers as they were or as a write had them.
\<close>

definition leftBy :: "trace \<Rightarrow> Stack \<Rightarrow> Stack \<Rightarrow> bool" where
  "leftBy tr st st' \<longleftrightarrow> s_Spec st' = s_Spec st
     \<and> om_DeletionTimestamp (s_Meta st') = om_DeletionTimestamp (s_Meta st)
     \<and> om_Generation (s_Meta st') = om_Generation (s_Meta st)
     \<and> syncRequestOf (s_Meta st') = syncRequestOf (s_Meta st)
     \<and> (om_Finalizers (s_Meta st') = om_Finalizers (s_Meta st)
        \<or> (\<exists>x. AUpdateStack x \<in> set tr \<and> om_Finalizers (s_Meta st') = om_Finalizers (s_Meta x)))
     \<and> ((st_LastUpdate (s_Status st'), st_CurrentUpdate (s_Status st'))
          = (st_LastUpdate (s_Status st), st_CurrentUpdate (s_Status st))
        \<or> (\<exists>p. ASaveStatus p \<in> set tr \<and> st_LastUpdate (s_Status st') = sa_LastUpdate p
              \<and> st_CurrentUpdate (s_Status st') = sa_CurrentUpdate p))"

text \<open>Reconciles of one stack, each in an environment of its own that gives the stack as the one before left it.\<close>

inductive rounds :: "string \<Rightarrow> string \<Rightarrow> string \<Rightarrow> Stack \<Rightarrow> ('u, 'm) env list \<Rightarrow> Stack \<Rightarrow> bool"
  for ns nm commit st where
  begins: "rounds ns nm commit st [] st"
| again: "rounds ns nm commit st Es st' \<Longrightarrow> GetStack (en_A E) [] ns nm = Inr st' \<Longrightarrow>
    (\<And>c s. planPhase E ns nm = Inr (c, s) \<Longrightarrow> c = commit) \<Longrightarrow>
    leftBy (oc_Trace (Reconcile E ns nm)) st' st'' \<Longrightarrow> rounds ns nm commit st (Es @ [E]) st''"

lemma leftBy_failed:
  assumes "leftBy tr st st'" and "destroyFailed st lu" and "list_all (keepsRecord lu) tr"
  shows "destroyFailed st' lu"
proof -
  have keeps: "a \<in> set tr \<Longrightarrow> keepsRecord lu a" for a using assms(3) by (simp add: list_all_iff)
  have "AUpdateStack x \<notin> set tr" for x using keeps [of "AUpdateStack x"] by auto
  moreover have "ASaveStatus p \<in> set tr \<Longrightarrow> sa_LastUpdate p = Some lu \<and> sa_CurrentUpdate p = None" for p
    using keeps [of "ASaveStatus p"] by simp
  ultimately show ?thesis using assms(1,2) by (auto simp: leftBy_def destroyFailed_def sameInputs_def)
qed

text \<open>C40: Once the destroy of a deleted stack has failed the maximum number of times, no number of
  reconciles of the stack tries it again, as long as nobody changes the stack and its source gives
  the commit that was tried: each of them leaves the stack in the same situation, with its
  finalizer, creates no update, and asks to be run again after a second or more, for ever. The one
  exception to the wait is a reconcile that cannot plan the workspace (the source or a reference
  in the specification cannot be resolved): it ends there, by the rules for such errors.\<close>

lemma failed_destroy_requeues_for_ever:
  assumes "rounds ns nm commit st Es st'" and "destroyFailed st lu" and "lu_LastAttemptedCommit lu = commit"
  shows "destroyFailed st' lu \<and> (\<forall>E \<in> set Es. list_all (keepsRecord lu) (oc_Trace (Reconcile E ns nm))
    \<and> (planPhase E ns nm = Inl (Reconcile E ns nm) \<or> Second \<le> oc_RequeueAfter (Reconcile E ns nm)))"
  using assms(1)
proof (induction rule: rounds.induct)
  case begins
  then show ?case using assms(2) by simp
next
  case (again Es st' E st'')
  have "destroyFailed st' lu" using again.IH by blast
  from failed_destroy_reconciled [OF again.hyps(2) this] again.hyps(3) assms(3)
  have r: "list_all (keepsRecord lu) (oc_Trace (Reconcile E ns nm))
    \<and> (planPhase E ns nm = Inl (Reconcile E ns nm) \<or> Second \<le> oc_RequeueAfter (Reconcile E ns nm))" by blast
  then have "destroyFailed st'' lu" using leftBy_failed [OF again.hyps(4)] again.IH by blast
  then show ?case using r again.IH by auto
qed

section \<open>A stack that cannot be destroyed\<close>

definition undestroyedStack :: Stack where
  "undestroyedStack = withLast (leavingStack\<lparr>s_Spec := emptyStackSpec\<lparr>sp_DestroyOnFinalize := True,
     sp_ProgramRef := Some \<lparr>pr_Name = ''app''\<rparr>\<rparr>\<rparr>) DestroyType FailedStackStateMessage 3"

text \<open>Its program has an artifact of the revision that was tried.\<close>

definition sourcedEnv :: "(unit, unit) env" where
  "sourcedEnv = (exampleEnv undestroyedStack)\<lparr>
     en_U := \<lparr>NestedMap = (\<lambda>u ks. Inr (Some ())), FromUnstructured = (\<lambda>m. Inr
        \<lparr>art_Path = [], art_URL = ''http://server/app.tar.gz'', art_Revision = ''c1'', art_Digest = ''sha256:1'',
         art_LastUpdateTime = 0, art_Size = None, art_Metadata = []\<rparr>)\<rparr>,
     en_A := (exampleCluster undestroyedStack)\<lparr>GetObject := (\<lambda>tr v k ns nm. Inr ())\<rparr>\<rparr>"

lemma failed_destroy_requeues_for_ever_witness:
  "Second \<le> oc_RequeueAfter (Reconcile sourcedEnv ''default'' ''app'')
   \<and> list_all keepsFinalizer (oc_Trace (Reconcile sourcedEnv ''default'' ''app''))"
proof -
  let ?lu = "the (st_LastUpdate (s_Status undestroyedStack))"
  have plan: "case planPhase sourcedEnv ''default'' ''app'' of Inl o' \<Rightarrow> False | Inr (c, s) \<Rightarrow> c = ''c1''" by code_simp
  have get: "GetStack (en_A sourcedEnv) [] ''default'' ''app'' = Inr undestroyedStack"
    by (simp add: sourcedEnv_def exampleCluster_def)
  have again: "rounds ''default'' ''app'' ''c1'' undestroyedStack Es undestroyedStack \<Longrightarrow>
      rounds ''default'' ''app'' ''c1'' undestroyedStack (Es @ [sourcedEnv]) undestroyedStack" for Es
    by (rule rounds.again [OF _ get]) (use plan in \<open>auto simp: leftBy_def\<close>)
  have "destroyFailed undestroyedStack ?lu" "lu_LastAttemptedCommit ?lu = ''c1''"
    by (simp_all add: destroyFailed_def undestroyedStack_def withLast_def leavingStack_def exampleStack_def
        emptyStackSpec_def emptyStackStatus_def sameInputs_def maxUpdateFailures_def)
  from failed_destroy_requeues_for_ever [OF again [OF again [OF rounds.begins]] this] plan
  have "list_all (keepsRecord ?lu) (oc_Trace (Reconcile sourcedEnv ''default'' ''app''))"
    "Second \<le> oc_RequeueAfter (Reconcile sourcedEnv ''default'' ''app'')" by auto
  moreover have "keepsRecord ?lu a \<Longrightarrow> keepsFinalizer a" for a by (cases a) simp_all
  ultimately show ?thesis by (auto simp: list_all_iff)
qed

end
