(* ===== verification/Spec2Isabelle.thy ===== *)
theory Spec2Isabelle
  imports WakeupRace OutcomePath PreparedPods AgentServe ProgramDelivery DestroyRounds
begin

text \<open>
  The Pulumi Kubernetes operator. A Stack names a program and a Pulumi stack. The operator's stack
  controller plans a Workspace for it, in which the program is checked out, and an Update for every
  Pulumi operation it wants. The workspace controller runs a Workspace as a pod with an agent in it
  and prepares the agent. The update controller asks the agent of the workspace to carry out the
  operation and records the outcome in the Update, which the stack controller copies into the
  status of the Stack. A Program is a Pulumi YAML program kept in the cluster; the program
  controller serves it as a Flux artifact. The paths below are relative to src/.

  \<^bold>\<open>How the parts interact.\<close> The controllers share nothing but the objects in the API server: each
  has one handler that is called with the name of an object, reads it, and writes objects and
  statuses. A handler is a function from the request and an environment to an outcome that carries
  the trace of what it did. The environment (\<^verbatim>\<open>env\<close>, \<^verbatim>\<open>uenv\<close>, \<^verbatim>\<open>wenv\<close>, \<^verbatim>\<open>aenv\<close>, \<^verbatim>\<open>programReader\<close>) answers
  the calls to the API server, to the agent or to the CLI, and its answer may depend on the trace
  so far; so the theorems hold for every behaviour of the outside that a named hypothesis does not
  exclude. Errors are values (\<^verbatim>\<open>goerr\<close>, \<^verbatim>\<open>rpcError\<close>), an early return of a handler is the left side of
  a sum, a Go map is an association list sorted by key.

  \<^bold>\<open>Shared theories.\<close> Prelude: errors, phases with early return, maps, 64-bit durations and the
  formatting verbs. K8s: metadata, conditions and the package functions that are not part of the
  repository, as a record \<^verbatim>\<open>lib\<close> with locales for their documented behaviour; K8sReference is an
  implementation of them on which every such locale is interpreted and every witness runs.
  AutoTypes, StackTypes: the API types (operator/api/auto/v1alpha1, operator/api/pulumi/v1 and
  shared), and the operations that arrange a Stack's conditions.

  \<^bold>\<open>Stack controller\<close> (operator/internal/controller/pulumi/stack_controller.go). StackPredicates: the
  readiness tests, the filters of the watches and the check of a prerequisite. StackSync: whether a
  stack is in sync, the cooldown after failures, the time of the next resync, and how the outcome
  of an update enters the status. StackSession: the plan of the workspace, its environment,
  configuration and volumes, and the Update objects; SessionFacts proves that only references to
  the stack's own namespace pass, and that the plan does not depend on the order in which a Go map
  is enumerated. GitSource: git.go. FluxSource: flux.go, the artifact types, the watches that are
  installed when a kind of source is first seen, and the validation of migration.go.
  StackReconcile: the handler in the phases of the code; ReconcileSteps: what every phase leaves
  alone; ReconcileFacts: the finalizer, the write-ahead of the status before an update is created,
  the ready protocol of every saved status, and where errors end. DestroyRounds: any number of
  reconciles of a deleted stack whose destroy has failed for the last time. StackSystem: the stack and the
  update controller in one transition system, whose steps are the single writes of their handlers,
  crashes, and what others do to the updates; a stack has one update at a time, a creation that was
  interrupted is never caught up on, and a stale read makes a second update.

  \<^bold>\<open>Update controller\<close> (operator/internal/controller/auto/update_controller.go). UpdateController: the
  handler, the status session with its pointers into the object, the four operations, the reader of
  the response stream, the secret of the outputs and the watch functions. UpdateFacts: the order of
  status writes and calls, and the life of an Update as a step relation over many reconciles that
  may be cut short anywhere. UpdateActions: locales for invariants of the session along a reconcile,
  with a rule for what every action satisfies.
  UpdateProperties: at most one operation per Update, the refinement of an abstract update, what a
  stream leaves behind, the secrecy of outputs, the phases every saved status is in.

  \<^bold>\<open>Workspace controller\<close> (workspace_controller.go, connect.go, utils.go, webhook). AgentConfig: the
  configuration items on their way from the specification to the CLI. WorkspacePod: the service and
  the stateful set with its containers and volumes, and the defaults of the webhook.
  WorkspaceController: the handler and the connection loop. WorkspaceFacts and WorkspaceProperties:
  readiness implies that the calls of a complete initialization were made, in their order, for the
  stacks that the answers to the handler's own status patches showed (it goes on with what is
  answered, so an edit in the meantime is prepared instead); what the
  statuses say; that a cooperating world leads to a ready workspace. WorkspaceSystem: the reconciles of a
  workspace, the pod and the reconciles of its updates in one transition system, whose steps are the
  single actions of the handlers (each served or lost), the end of a handler at any point, and the
  replacement of the pod; its invariant says what the agent in the pod was sent, in which order and for which
  generation. PreparedPods: operations run in prepared pods, and the two ways in which a workspace is
  called ready for a pod, or a specification, that was not prepared.

  \<^bold>\<open>Agent\<close> (agent). AgentServer: the automation service (pkg/server/server.go, diagnostics.go,
  pulumi_errors.go) with the stack it has selected as its state and the calls of the Automation API as
  its trace. AgentFacts, AgentProperties: the calls come in an order the CLI accepts, the message of
  a failure is bounded, and the composition with the stream reader of the update controller, from the
  CLI's answer to the status of the Update. OutcomePath goes on from there to the last status the update
  controller saves, and to what the stack controller records from it. AgentAccess: the check of a caller (auth.go, grpc.go, the
  flags of cmd/serve.go), the tokens of the operator (pkg/client) and the connection manager.
  AccessProperties: a token is good for one workspace, only calls that were let through are handled,
  concurrent callers request one token. AgentInit: the init command (cmd/init.go) and the GitHub App
  token (pkg/gitauth), with the path of git credentials from the secret through the pod to the clone.
  AgentServe: the serve command (cmd/serve.go) and its shutdown; the command line of the pod starts an
  agent that serves only behind the check for its workspace.

  \<^bold>\<open>Wake-ups.\<close> Watches: what the four \<^verbatim>\<open>SetupWithManager\<close> functions register, as functions from the
  event of an object to the requests it makes, with the filters in between; a stack that waits for its
  update is woken, and so is an update that waits for its workspace and is not being reconciled.
  WakeupRace: a reconcile of an update interleaved with the events of its workspace, in which a
  wake-up is lost until the workspace or the update changes again or the operator is restarted.

  \<^bold>\<open>Program controller and operator command\<close> (program_controller.go, metrics_program.go,
  metrics_stack.go, operator/cmd/main.go). ProgramController: the reconciler, the handler that serves
  archives, and the gauges. OperatorMain: the settings of the command, the order in which it registers
  its parts, the advertised address, and the file server. ProgramDelivery: a program on its way from
  the recorded artifact through the stack controller and the pod to the agent's fetch and the file
  server's answer.
\<close>

text \<open>
  \<^bold>\<open>Bounds, loops and termination.\<close> No definition uses fuel. The loops over lists and maps are
  recursive on them and total. The wait for a gRPC connection and the readers of a stream end when
  the environment says so: the connection loop is a partial function into an option, None standing
  for a loop that never ends, and the theorems about it say when it returns; a stream is the list
  of its messages followed by the way it ended. Durations are kept in int64 where the code
  multiplies or subtracts them, with Go's saturation and wrap-around; counters of the status are
  64-bit and the result of a change count is cut to 32 bits as the agent does. Times are integers of
  nanoseconds from Go's zero time.

  \<^bold>\<open>Concurrency.\<close> Reconciles of one object do not overlap, which controller-runtime guarantees;
  between two of them, and in the life of an Update also wherever the process stops, other writers may
  change the object. The answer to a status patch shows the object as it is stored by then; where a
  property needs that nobody has edited the specification meanwhile, it says so. In StackSystem a reconcile of the stack reads the stored status, which the cache
  does not promise (lemma stale_read_overlaps shows what becomes of it); updates that exist although
  their creation was reported as failed, or that could not be deleted, are kept apart there. Callers of the cached token source, the interceptors and the lazy
  installation of watches are step relations in which the holders of the lock take turns.

  \<^bold>\<open>Not modelled.\<close> Log lines. The registration of the metrics callbacks with the informers;
  agent/cmd/root.go and version.go, which set up the logger and print the version. Generated code (deep copies, apply configurations, protobuf),
  whose data are the modelled types. The stack type of v1alpha1, which no controller reads. Kubernetes,
  go-git, the Pulumi CLI, Flux's fetcher, gzip, tar, YAML, JSON and the cryptography are
  arguments of the definitions that use them, with hypotheses where a property relies on them.
\<close>

end
